(* ===== verification/Prelude.thy ===== *)
theory Prelude
  imports Main "HOL-Library.Word" "HOL-Library.Multiset"
begin

text \<open>
  Shared vocabulary of the development: machine-integer type names, the model of
  \<^verbatim>\<open>std::map\<close> as a strictly key-sorted association list, the standard-library
  algorithms the sources call (\<^verbatim>\<open>std::stable_sort\<close>, \<^verbatim>\<open>std::lower_bound\<close>,
  \<^verbatim>\<open>std::binary_search\<close>), and the generic lemmas about them that the component
  theories use.  The collections \<open>om_simps\<close> and \<open>byte_simps\<close> carry most of the
  component proofs.
\<close>

named_theorems om_simps \<open>lookup laws of the ordered-map operations\<close>
named_theorems om_intros \<open>well-formedness of the ordered-map operations\<close>
named_theorems byte_simps \<open>byte-level encodings of machine integers\<close>

section \<open>Machine integers\<close>

type_synonym byte = "8 word"
type_synonym u8 = "8 word"
type_synonym u16 = "16 word"
type_synonym u32 = "32 word"
type_synonym u64 = "64 word"

lemma max_word_minus: "a \<le> (- 1 :: 'a::len word) - b \<longleftrightarrow> unat a + unat b < 2 ^ LENGTH('a)"
proof -
  have "b \<le> (- 1 :: 'a word)" by simp
  then have "unat ((- 1 :: 'a word) - b) = unat (- 1 :: 'a word) - unat b"
    by (rule unat_sub)
  moreover have "unat (- 1 :: 'a word) = 2 ^ LENGTH('a) - 1"
    by (simp add: unsigned_minus_1_eq_mask mask_eq_exp_minus_1)
  moreover have "unat b < 2 ^ LENGTH('a)" and "unat a < 2 ^ LENGTH('a)"
    by simp_all
  ultimately show ?thesis unfolding word_le_nat_alt by linarith
qed

section \<open>Ordered maps\<close>

text \<open>
  A \<^verbatim>\<open>std::map<K, V>\<close> iterates in ascending key order, and several decisions of the
  engine depend on that order (first matching contract, eviction of the oldest record).
  It is modelled by an association list; \<open>om_wf\<close> says that the keys ascend strictly.
\<close>

type_synonym ('k, 'v) omap = "('k \<times> 'v) list"

abbreviation om_find :: "('k, 'v) omap \<Rightarrow> 'k \<Rightarrow> 'v option" where
  "om_find \<equiv> map_of"

definition om_wf :: "('k::linorder, 'v) omap \<Rightarrow> bool" where
  "om_wf m \<longleftrightarrow> sorted_wrt (<) (map fst m)"

text \<open>\<open>m[k] = v\<close>: overwrite, or insert at the sorted position.\<close>

fun om_put :: "'k::linorder \<Rightarrow> 'v \<Rightarrow> ('k, 'v) omap \<Rightarrow> ('k, 'v) omap" where
  "om_put k v [] = [(k, v)]"
| "om_put k v ((k', v') # m) =
     (if k < k' then (k, v) # (k', v') # m
      else if k = k' then (k, v) # m
      else (k', v') # om_put k v m)"

text \<open>\<open>m.emplace(k, v)\<close>: no effect when the key is present.\<close>

definition om_emplace :: "'k::linorder \<Rightarrow> 'v \<Rightarrow> ('k, 'v) omap \<Rightarrow> ('k, 'v) omap" where
  "om_emplace k v m = (case om_find m k of None \<Rightarrow> om_put k v m | Some _ \<Rightarrow> m)"

definition om_erase :: "'k \<Rightarrow> ('k, 'v) omap \<Rightarrow> ('k, 'v) omap" where
  "om_erase k m = filter (\<lambda>(k', v'). k' \<noteq> k) m"

text \<open>\<^verbatim>\<open>for (auto& entry : m)\<close> with an assignment to \<^verbatim>\<open>entry.second\<close>.\<close>

definition om_map :: "('k \<Rightarrow> 'v \<Rightarrow> 'w) \<Rightarrow> ('k, 'v) omap \<Rightarrow> ('k, 'w) omap" where
  "om_map f m = map (\<lambda>(k, v). (k, f k v)) m"

text \<open>Assignment through an iterator that points at key \<open>k\<close>.\<close>

definition om_modify :: "'k \<Rightarrow> ('v \<Rightarrow> 'v) \<Rightarrow> ('k, 'v) omap \<Rightarrow> ('k, 'v) omap" where
  "om_modify k f m = om_map (\<lambda>k' v. if k' = k then f v else v) m"

subsection \<open>Lookup laws\<close>

lemma om_find_put [om_simps, simp]: "om_find (om_put k v m) = (om_find m)(k \<mapsto> v)"
  by (induction m) (auto simp: fun_eq_iff)

lemma om_find_emplace [om_simps]:
  "om_find (om_emplace k v m) =
     (case om_find m k of None \<Rightarrow> (om_find m)(k \<mapsto> v) | Some _ \<Rightarrow> om_find m)"
  by (simp add: om_emplace_def split: option.splits)

lemma om_find_erase [om_simps, simp]: "om_find (om_erase k m) = (om_find m)(k := None)"
  by (induction m) (auto simp: om_erase_def fun_eq_iff)

lemma om_find_map [om_simps, simp]: "om_find (om_map f m) k = map_option (f k) (om_find m k)"
  by (induction m) (auto simp: om_map_def)

lemma om_find_modify [om_simps, simp]:
  "om_find (om_modify k f m) k' = (if k' = k then map_option f (om_find m k) else om_find m k')"
  by (auto simp: om_modify_def option.map_id0 [unfolded id_def])

lemma om_find_filter:
  assumes "om_wf m"
  shows "om_find (filter (\<lambda>(k, v). P k v) m) k =
    (case om_find m k of None \<Rightarrow> None | Some v \<Rightarrow> if P k v then Some v else None)"
  using assms
proof (induction m)
  case (Cons e m)
  then have "om_find m (fst e) = None"
    by (auto simp: om_wf_def map_of_eq_None_iff)
  with Cons show ?case
    by (cases e) (auto simp: om_wf_def split: option.splits)
qed simp

subsection \<open>Well-formedness\<close>

lemma om_wf_Nil [om_intros, simp]: "om_wf []"
  by (simp add: om_wf_def)

lemma fst_set_om_put: "fst ` set (om_put k v m) = insert k (fst ` set m)"
  by (induction k v m rule: om_put.induct) (simp_all add: insert_commute)

lemma om_wf_put [om_intros, simp]: "om_wf m \<Longrightarrow> om_wf (om_put k v m)"
proof (induction m)
  case (Cons e m)
  then show ?case
    using fst_set_om_put [of k v m] by (cases e) (auto simp: om_wf_def)
qed (simp add: om_wf_def)

lemma om_wf_emplace [om_intros, simp]: "om_wf m \<Longrightarrow> om_wf (om_emplace k v m)"
  by (simp add: om_emplace_def split: option.splits)

lemma om_wf_filter [om_intros, simp]: "om_wf m \<Longrightarrow> om_wf (filter P m)"
  by (induction m) (auto simp: om_wf_def)

lemma om_wf_erase [om_intros, simp]: "om_wf m \<Longrightarrow> om_wf (om_erase k m)"
  by (simp add: om_erase_def)

lemma fst_om_map [simp]: "map fst (om_map f m) = map fst m"
  by (simp add: om_map_def comp_def case_prod_beta)

lemma om_wf_map [om_intros, simp]: "om_wf (om_map f m) = om_wf m"
  by (simp add: om_wf_def)

lemma om_wf_modify [om_intros, simp]: "om_wf (om_modify k f m) = om_wf m"
  by (simp add: om_modify_def)

lemma om_wf_tl [om_intros, simp]: "om_wf m \<Longrightarrow> om_wf (tl m)"
  by (cases m) (auto simp: om_wf_def)

lemma om_wf_distinct: "om_wf m \<Longrightarrow> distinct (map fst m)"
  by (simp add: om_wf_def strict_sorted_iff)

lemma om_in_set_iff: "om_wf m \<Longrightarrow> (k, v) \<in> set m \<longleftrightarrow> om_find m k = Some v"
  by (simp add: om_wf_distinct)

lemma om_find_in_set: "om_find m k = Some v \<Longrightarrow> (k, v) \<in> set m"
  by (rule map_of_SomeD)

lemma om_ext: "om_wf m \<Longrightarrow> om_wf n \<Longrightarrow> om_find m = om_find n \<Longrightarrow> m = n"
proof (induction m arbitrary: n)
  case Nil
  then show ?case by (cases n) (auto simp: fun_eq_iff split: if_splits)
next
  case (Cons e m)
  obtain k v where e: "e = (k, v)" by (cases e)
  show ?case
  proof (cases n)
    case Nil
    with Cons.prems(3) e show ?thesis by (auto simp: fun_eq_iff split: if_splits)
  next
    case (Cons e' n')
    obtain k' v' where e': "e' = (k', v')" by (cases e')
    note wf = Cons.prems(1,2) [unfolded Cons e e' om_wf_def, simplified]
    have nm: "om_find m k = None" and nn: "om_find n' k' = None"
      using wf by (auto simp: map_of_eq_None_iff)
    have kk: "k = k'"
    proof (rule ccontr)
      assume neq: "k \<noteq> k'"
      have "om_find n' k = Some v" and "om_find m k' = Some v'"
        using fun_cong [OF Cons.prems(3), of k] fun_cong [OF Cons.prems(3), of k'] neq
        unfolding Cons e e' by simp_all
      then have "k' < k" and "k < k'"
        using wf by (auto dest!: map_of_SomeD)
      then show False by simp
    qed
    have vv: "v = v'"
      using Cons.prems(3) kk unfolding Cons e e' by (auto simp: fun_eq_iff dest: spec [of _ k'])
    have "om_find m = om_find n'"
      using Cons.prems(3) nm nn kk vv unfolding Cons e e' by (metis map_of.simps(2) fst_conv fun_upd_idem fun_upd_upd)
    then have "m = n'"
      using Cons.IH [of n'] wf by (simp add: om_wf_def)
    with kk vv show ?thesis by (simp add: Cons e e')
  qed
qed

subsection \<open>Sizes\<close>

lemma length_om_map [simp]: "length (om_map f m) = length m"
  by (simp add: om_map_def)

lemma length_om_modify [simp]: "length (om_modify k f m) = length m"
  by (simp add: om_modify_def)

lemma length_om_put_le: "length (om_put k v m) \<le> Suc (length m)"
  by (induction m) auto

lemma length_om_put:
  "om_wf m \<Longrightarrow> length (om_put k v m) = (if om_find m k = None then Suc (length m) else length m)"
proof (induction m)
  case (Cons e m)
  obtain k' v' where e: "e = (k', v')" by (cases e)
  have "om_find m k = None" if "k < k'"
    using that Cons.prems e by (auto simp: om_wf_def map_of_eq_None_iff)
  with Cons e show ?case by (auto simp: om_wf_def)
qed simp

lemma length_om_erase_le: "length (om_erase k m) \<le> length m"
  by (simp add: om_erase_def)

lemma length_om_erase: "om_find m k = Some v \<Longrightarrow> length (om_erase k m) < length m"
  unfolding om_erase_def using map_of_SomeD [of m k v]
  by (intro length_filter_less [where x = "(k, v)"]) auto

subsection \<open>The interface the engine relies on\<close>

text \<open>
  The engine uses its maps only through lookup, insertion, erasure and the promise that
  iteration is canonical: two maps with the same contents iterate identically.
\<close>

locale ordered_map =
  fixes find :: "'m \<Rightarrow> 'k \<Rightarrow> 'v option"
    and put :: "'k \<Rightarrow> 'v \<Rightarrow> 'm \<Rightarrow> 'm"
    and erase :: "'k \<Rightarrow> 'm \<Rightarrow> 'm"
    and wf :: "'m \<Rightarrow> bool"
  assumes find_put: "wf m \<Longrightarrow> find (put k v m) = (find m)(k \<mapsto> v)"
    and find_erase: "wf m \<Longrightarrow> find (erase k m) = (find m)(k := None)"
    and wf_put: "wf m \<Longrightarrow> wf (put k v m)"
    and wf_erase: "wf m \<Longrightarrow> wf (erase k m)"
    and canonical: "wf m \<Longrightarrow> wf n \<Longrightarrow> find m = find n \<Longrightarrow> m = n"
begin

lemma put_overwrite: "wf m \<Longrightarrow> put k v (put k w m) = put k v m"
  by (intro canonical) (simp_all add: find_put wf_put)

lemma put_commute: "wf m \<Longrightarrow> k \<noteq> l \<Longrightarrow> put k v (put l w m) = put l w (put k v m)"
  by (intro canonical) (simp_all add: find_put wf_put fun_upd_twist)

lemma erase_put: "wf m \<Longrightarrow> find m k = None \<Longrightarrow> erase k (put k v m) = m"
  by (intro canonical) (auto simp: find_put find_erase wf_put wf_erase fun_eq_iff)

lemma put_same: "wf m \<Longrightarrow> find m k = Some v \<Longrightarrow> put k v m = m"
  by (intro canonical) (auto simp: find_put wf_put fun_eq_iff)

lemma erase_absent: "wf m \<Longrightarrow> find m k = None \<Longrightarrow> erase k m = m"
  by (intro canonical) (auto simp: find_erase wf_erase fun_eq_iff)

end

interpretation om: ordered_map "om_find :: ('k::linorder, 'v) omap \<Rightarrow> _" om_put om_erase om_wf
  by unfold_locales (auto intro: om_ext)

section \<open>Standard-library algorithms\<close>

subsection \<open>Stable sort\<close>

fun insort_by :: "('a \<Rightarrow> 'a \<Rightarrow> bool) \<Rightarrow> 'a \<Rightarrow> 'a list \<Rightarrow> 'a list" where
  "insort_by lt x [] = [x]"
| "insort_by lt x (y # ys) = (if lt y x then y # insort_by lt x ys else x # y # ys)"

definition stable_sort :: "('a \<Rightarrow> 'a \<Rightarrow> bool) \<Rightarrow> 'a list \<Rightarrow> 'a list" where
  "stable_sort lt xs = foldr (insort_by lt) xs []"

lemma stable_sort_simps [simp]:
  "stable_sort lt [] = []"
  "stable_sort lt (x # xs) = insort_by lt x (stable_sort lt xs)"
  by (simp_all add: stable_sort_def)

lemma mset_insort_by [simp]: "mset (insort_by lt x xs) = add_mset x (mset xs)"
  by (induction xs) auto

lemma mset_stable_sort [simp]: "mset (stable_sort lt xs) = mset xs"
  by (induction xs) auto

lemma set_insort_by [simp]: "set (insort_by lt x xs) = insert x (set xs)"
  by (induction xs) auto

lemma set_stable_sort [simp]: "set (stable_sort lt xs) = set xs"
  by (induction xs) auto

lemma length_stable_sort [simp]: "length (stable_sort lt xs) = length xs"
  using mset_stable_sort [of lt xs] by (metis size_mset)

lemma stable_sort_eq_Nil [simp]: "stable_sort lt xs = [] \<longleftrightarrow> xs = []"
  by (metis length_0_conv length_stable_sort)

text \<open>\<open>strict_weak\<close> is the requirement \<^verbatim>\<open>std::stable_sort\<close> puts on its comparison.\<close>

definition strict_weak :: "('a \<Rightarrow> 'a \<Rightarrow> bool) \<Rightarrow> bool" where
  "strict_weak lt \<longleftrightarrow> (\<forall>x. \<not> lt x x) \<and> (\<forall>x y z. lt x y \<longrightarrow> lt y z \<longrightarrow> lt x z) \<and>
     (\<forall>x y z. \<not> lt x y \<longrightarrow> \<not> lt y z \<longrightarrow> \<not> lt x z)"

lemma sorted_insort_by:
  assumes "strict_weak lt" and "sorted_wrt (\<lambda>a b. \<not> lt b a) xs"
  shows "sorted_wrt (\<lambda>a b. \<not> lt b a) (insort_by lt x xs)"
  using assms(2)
proof (induction xs)
  case (Cons y ys)
  show ?case
  proof (cases "lt y x")
    case True
    then have "\<not> lt x y" using assms(1) unfolding strict_weak_def by blast
    with True Cons show ?thesis by simp
  next
    case False
    then have "\<not> lt z x" if "z \<in> set ys" for z
      using assms(1) Cons.prems that unfolding strict_weak_def sorted_wrt.simps by blast
    with False Cons.prems show ?thesis by simp
  qed
qed simp

lemma sorted_stable_sort: "strict_weak lt \<Longrightarrow> sorted_wrt (\<lambda>a b. \<not> lt b a) (stable_sort lt xs)"
  by (induction xs) (auto intro: sorted_insort_by)

lemma sorted_wrt_mset_unique:
  assumes "sorted_wrt r xs" and "sorted_wrt r ys" and "mset xs = mset ys"
    and "\<And>x y. x \<in> set xs \<Longrightarrow> y \<in> set xs \<Longrightarrow> r x y \<Longrightarrow> r y x \<Longrightarrow> x = y"
  shows "xs = ys"
  using assms
proof (induction xs arbitrary: ys)
  case (Cons x xs)
  obtain y ys' where ys: "ys = y # ys'"
    using Cons.prems(3) by (cases ys) auto
  have "x \<in> set ys" and "y \<in> set (x # xs)"
    using Cons.prems(3) ys by (metis list.set_intros(1) set_mset_mset)+
  then have "x = y"
    using Cons.prems(1,2,4) ys by auto
  moreover have "xs = ys'"
    using Cons.prems ys \<open>x = y\<close> by (intro Cons.IH) auto
  ultimately show ?case using ys by simp
qed simp

text \<open>
  With a comparison under which equivalent elements are equal, the result depends only on
  the multiset of inputs: this is what makes a decision independent of input order.
\<close>

lemma stable_sort_perm:
  assumes "strict_weak lt" and "mset xs = mset ys"
    and "\<And>x y. x \<in> set xs \<Longrightarrow> y \<in> set xs \<Longrightarrow> \<not> lt x y \<Longrightarrow> \<not> lt y x \<Longrightarrow> x = y"
  shows "stable_sort lt xs = stable_sort lt ys"
  by (rule sorted_wrt_mset_unique [where r = "\<lambda>a b. \<not> lt b a"])
    (use assms in \<open>auto intro: sorted_stable_sort\<close>)

lemma stable_sort_hd_least:
  assumes "strict_weak lt" and "stable_sort lt xs = y # ys" and "x \<in> set xs"
  shows "\<not> lt x y"
proof -
  have "x \<in> set (y # ys)" using assms(2,3) by (metis set_stable_sort)
  moreover have "sorted_wrt (\<lambda>a b. \<not> lt b a) (y # ys)"
    using sorted_stable_sort [OF assms(1)] assms(2) by metis
  moreover have "\<not> lt y y" using assms(1) by (simp add: strict_weak_def)
  ultimately show ?thesis by auto
qed

subsection \<open>Binary search\<close>

text \<open>
  \<^verbatim>\<open>std::lower_bound\<close> by halving, over positions \<open>first ..< first + len\<close>, with
  \<open>below\<close> the comparison of an element with the key.
\<close>

fun lower_bound :: "('a \<Rightarrow> bool) \<Rightarrow> 'a list \<Rightarrow> nat \<Rightarrow> nat \<Rightarrow> nat" where
  "lower_bound below xs first len =
     (if len = 0 then first
      else let half = len div 2; mid = first + half
           in if below (xs ! mid) then lower_bound below xs (Suc mid) (len - half - 1)
              else lower_bound below xs first half)"

declare lower_bound.simps [simp del]

definition binary_search :: "'a::linorder list \<Rightarrow> 'a \<Rightarrow> bool" where
  "binary_search xs x =
     (let i = lower_bound (\<lambda>e. e < x) xs 0 (length xs)
      in i < length xs \<and> \<not> x < xs ! i)"

lemma lower_bound_range: "lower_bound below xs first len \<in> {first..first + len}"
proof (induction below xs first len rule: lower_bound.induct)
  case (1 below xs first len)
  show ?case
    using 1 by (subst lower_bound.simps) (fastforce simp: Let_def)
qed

lemma lower_bound_partition:
  assumes "\<And>i j. i < j \<Longrightarrow> j < first + len \<Longrightarrow> below (xs ! j) \<Longrightarrow> below (xs ! i)"
    and "\<And>i. i < first \<Longrightarrow> below (xs ! i)"
    and "\<And>i. first + len \<le> i \<Longrightarrow> i < n \<Longrightarrow> \<not> below (xs ! i)"
  shows "(\<forall>i < lower_bound below xs first len. below (xs ! i)) \<and>
    (\<forall>i. lower_bound below xs first len \<le> i \<longrightarrow> i < n \<longrightarrow> \<not> below (xs ! i))"
  using assms
proof (induction below xs first len rule: lower_bound.induct)
  case (1 below xs first len)
  show ?case
  proof (cases "len = 0")
    case True
    then show ?thesis using "1.prems" by (simp add: lower_bound.simps)
  next
    case False
    define half mid where "half = len div 2" and "mid = first + half"
    have mid: "mid < first + len" using False by (simp add: half_def mid_def)
    show ?thesis
    proof (cases "below (xs ! mid)")
      case True
      have end_eq: "Suc mid + (len - half - 1) = first + len"
        using mid by (simp add: mid_def)
      have low: "below (xs ! i)" if "i < Suc mid" for i
        using "1.prems"(1) [of i mid] mid True that by (cases "i = mid") simp_all
      have step: "lower_bound below xs first len = lower_bound below xs (Suc mid) (len - half - 1)"
        using False True by (subst lower_bound.simps) (simp add: Let_def half_def mid_def)
      show ?thesis
        unfolding step
        by (rule "1.IH"(1) [OF False half_def mid_def True])
          (unfold end_eq, (fact "1.prems"(1) low "1.prems"(3))+)
    next
      case nb: False
      have high: "\<not> below (xs ! i)" if "first + half \<le> i" "i < n" for i
        using "1.prems"(1) [of mid i] "1.prems"(3) [of i] nb that
        by (cases "i = mid"; cases "i < first + len") (auto simp: mid_def)
      have part: "below (xs ! i)" if "i < j" "j < first + half" "below (xs ! j)" for i j
        using "1.prems"(1) [of i j] that mid by (simp add: mid_def)
      have step: "lower_bound below xs first len = lower_bound below xs first half"
        using False nb by (subst lower_bound.simps) (simp add: Let_def half_def mid_def)
      show ?thesis
        unfolding step
        by (rule "1.IH"(2) [OF False half_def mid_def nb]) (fact part "1.prems"(2) high)+
    qed
  qed
qed

lemma binary_search_iff: "sorted xs \<Longrightarrow> binary_search xs x \<longleftrightarrow> x \<in> set xs"
proof -
  assume s: "sorted xs"
  define i where "i = lower_bound (\<lambda>e. e < x) xs 0 (length xs)"
  have p: "(\<forall>j < i. xs ! j < x) \<and> (\<forall>j. i \<le> j \<longrightarrow> j < length xs \<longrightarrow> \<not> xs ! j < x)"
    unfolding i_def
    by (rule lower_bound_partition)
      (use s in \<open>auto simp: sorted_iff_nth_mono_less intro: order_le_less_trans\<close>)
  have "(i < length xs \<and> \<not> x < xs ! i) \<longleftrightarrow> x \<in> set xs"
  proof
    assume "i < length xs \<and> \<not> x < xs ! i"
    then have "xs ! i = x" using p by (meson linorder_less_linear order_refl)
    then show "x \<in> set xs" using \<open>i < length xs \<and> _\<close> by auto
  next
    assume "x \<in> set xs"
    then obtain j where j: "j < length xs" "xs ! j = x" by (auto simp: in_set_conv_nth)
    then have "i \<le> j" using p by (meson linorder_not_less order_less_irrefl)
    then have "xs ! i \<le> x" using s j by (metis sorted_nth_mono)
    then show "i < length xs \<and> \<not> x < xs ! i" using j \<open>i \<le> j\<close> by auto
  qed
  then show ?thesis by (simp add: binary_search_def i_def Let_def)
qed

end
