(* ===== verification/Units.thy ===== *)
theory Units
  imports Prelude
begin

text \<open>
  Typed time, checked unsigned arithmetic and capacity vectors
  (\<^verbatim>\<open>include/flow_offload/units.hpp\<close>, and the saturating helpers of
  \<^verbatim>\<open>src/engine_internal.hpp\<close> and \<^verbatim>\<open>src/engine.cpp\<close>).  Timestamps and durations are
  64-bit nanosecond counts.  The theorems state the arithmetic on natural numbers, so that
  no wrap-around is hidden.
\<close>

type_synonym timestamp = u64
type_synonym duration = u64

definition ts_is_set :: "timestamp \<Rightarrow> bool" where
  "ts_is_set t = (t \<noteq> 0)"

definition saturating_elapsed :: "timestamp \<Rightarrow> timestamp \<Rightarrow> duration" where
  "saturating_elapsed later earlier = (if later < earlier then 0 else later - earlier)"

section \<open>Checked and saturating scalars\<close>

definition checked_add :: "u64 \<Rightarrow> u64 \<Rightarrow> u64 option" where
  "checked_add a b = (if a > - 1 - b then None else Some (a + b))"

definition checked_mul :: "u64 \<Rightarrow> u64 \<Rightarrow> u64 option" where
  "checked_mul a b =
     (if a = 0 \<or> b = 0 then Some 0
      else if a > - 1 div b then None
      else Some (a * b))"

definition saturating_increment :: "u64 \<Rightarrow> u64" where
  "saturating_increment v = (if v = - 1 then v else v + 1)"

definition saturating_add :: "u64 \<Rightarrow> u64 \<Rightarrow> u64" where
  "saturating_add a b = (if a > - 1 - b then - 1 else a + b)"

section \<open>Utilisation\<close>

definition kUtilisationPpmSaturated :: u32 where
  "kUtilisationPpmSaturated = 2000000"

text \<open>The normalisation loop: both operands are halved until both fit 32 bits.\<close>

function normalise :: "u64 \<Rightarrow> u64 \<Rightarrow> u64 \<times> u64" where
  "normalise used capacity =
     (if used > 0xFFFFFFFF \<or> capacity > 0xFFFFFFFF
      then normalise (drop_bit 1 used) (drop_bit 1 capacity)
      else (used, capacity))"
  by pat_completeness auto

lemma unat_half: "unat (drop_bit 1 (w :: 'a::len word)) = unat w div 2"
  by (subst unat_drop_bit_eq) (simp add: drop_bit_eq_div)

termination normalise
proof (relation "measure (\<lambda>(u, c). unat u + unat c)", simp)
  fix used capacity :: u64
  assume "used > 0xFFFFFFFF \<or> capacity > 0xFFFFFFFF"
  then have "0xFFFFFFFF < unat used \<or> 0xFFFFFFFF < unat capacity"
    by (simp add: word_less_nat_alt)
  then show "((drop_bit 1 used, drop_bit 1 capacity), used, capacity)
      \<in> measure (\<lambda>(u, c). unat u + unat c)"
    unfolding in_measure case_prod_conv unat_half by linarith
qed

declare normalise.simps [simp del]

text \<open>
  \<open>None\<close> is the \<^verbatim>\<open>false\<close> return (zero capacity); otherwise the reported ratio and the
  saturation flag.
\<close>

definition utilisation_ppm :: "u64 \<Rightarrow> u64 \<Rightarrow> (u32 \<times> bool) option" where
  "utilisation_ppm used capacity =
     (if capacity = 0 then None
      else let (scaled_used, scaled_capacity) = normalise used capacity in
        if scaled_capacity = 0 then Some (kUtilisationPpmSaturated, True)
        else let product = scaled_used * 1000000;
                 ppm = product div scaled_capacity
             in if ppm > ucast kUtilisationPpmSaturated
                then Some (kUtilisationPpmSaturated, True)
                else Some (ucast ppm, False))"

section \<open>Capacity vectors\<close>

record capacity_vector =
  cv_packets_per_second :: u64
  cv_bytes_per_second :: u64
  cv_state_bytes :: u64
  cv_table_entries :: u64

definition cv_zero :: capacity_vector where
  "cv_zero = \<lparr>cv_packets_per_second = 0, cv_bytes_per_second = 0, cv_state_bytes = 0, cv_table_entries = 0\<rparr>"

definition cv_saturated :: capacity_vector where
  "cv_saturated =
     \<lparr>cv_packets_per_second = - 1, cv_bytes_per_second = - 1, cv_state_bytes = - 1, cv_table_entries = - 1\<rparr>"

definition cv_is_zero :: "capacity_vector \<Rightarrow> bool" where
  "cv_is_zero a =
     (cv_packets_per_second a = 0 \<and> cv_bytes_per_second a = 0 \<and> cv_state_bytes a = 0 \<and> cv_table_entries a = 0)"

definition dominates :: "capacity_vector \<Rightarrow> capacity_vector \<Rightarrow> bool" where
  "dominates a b =
     (cv_packets_per_second a \<ge> cv_packets_per_second b \<and> cv_bytes_per_second a \<ge> cv_bytes_per_second b \<and>
      cv_state_bytes a \<ge> cv_state_bytes b \<and> cv_table_entries a \<ge> cv_table_entries b)"

definition exceeds_any :: "capacity_vector \<Rightarrow> capacity_vector \<Rightarrow> bool" where
  "exceeds_any a b =
     (cv_packets_per_second a > cv_packets_per_second b \<or> cv_bytes_per_second a > cv_bytes_per_second b \<or>
      cv_state_bytes a > cv_state_bytes b \<or> cv_table_entries a > cv_table_entries b)"

definition checked_add_cv :: "capacity_vector \<Rightarrow> capacity_vector \<Rightarrow> capacity_vector option" where
  "checked_add_cv a b =
     (case checked_add (cv_packets_per_second a) (cv_packets_per_second b) of None \<Rightarrow> None | Some p \<Rightarrow>
      (case checked_add (cv_bytes_per_second a) (cv_bytes_per_second b) of None \<Rightarrow> None | Some q \<Rightarrow>
      (case checked_add (cv_state_bytes a) (cv_state_bytes b) of None \<Rightarrow> None | Some r \<Rightarrow>
      (case checked_add (cv_table_entries a) (cv_table_entries b) of None \<Rightarrow> None | Some t \<Rightarrow>
         Some \<lparr>cv_packets_per_second = p, cv_bytes_per_second = q, cv_state_bytes = r, cv_table_entries = t\<rparr>))))"

definition checked_sub_cv :: "capacity_vector \<Rightarrow> capacity_vector \<Rightarrow> capacity_vector option" where
  "checked_sub_cv a b =
     (if exceeds_any b a then None
      else Some \<lparr>cv_packets_per_second = cv_packets_per_second a - cv_packets_per_second b,
                 cv_bytes_per_second = cv_bytes_per_second a - cv_bytes_per_second b,
                 cv_state_bytes = cv_state_bytes a - cv_state_bytes b,
                 cv_table_entries = cv_table_entries a - cv_table_entries b\<rparr>)"

definition saturating_sub :: "capacity_vector \<Rightarrow> capacity_vector \<Rightarrow> capacity_vector" where
  "saturating_sub a b =
     \<lparr>cv_packets_per_second = (if cv_packets_per_second a > cv_packets_per_second b
         then cv_packets_per_second a - cv_packets_per_second b else 0),
      cv_bytes_per_second = (if cv_bytes_per_second a > cv_bytes_per_second b
         then cv_bytes_per_second a - cv_bytes_per_second b else 0),
      cv_state_bytes = (if cv_state_bytes a > cv_state_bytes b then cv_state_bytes a - cv_state_bytes b else 0),
      cv_table_entries = (if cv_table_entries a > cv_table_entries b
         then cv_table_entries a - cv_table_entries b else 0)\<rparr>"

text \<open>The loop over the four dimensions: worst ratio and any saturation.\<close>

fun aggregate_loop :: "(u64 \<times> u64) list \<Rightarrow> u32 \<Rightarrow> bool \<Rightarrow> (u32 \<times> bool) option" where
  "aggregate_loop [] worst any_saturated = Some (worst, any_saturated)"
| "aggregate_loop ((u, c) # rest) worst any_saturated =
     (case utilisation_ppm u c of
        None \<Rightarrow> None
      | Some (ppm, part_saturated) \<Rightarrow>
          aggregate_loop rest (if ppm > worst then ppm else worst) (part_saturated \<or> any_saturated))"

definition aggregate_utilisation_ppm ::
    "capacity_vector \<Rightarrow> capacity_vector \<Rightarrow> (u32 \<times> bool) option" where
  "aggregate_utilisation_ppm used capacity =
     aggregate_loop
       [(cv_packets_per_second used, cv_packets_per_second capacity),
        (cv_bytes_per_second used, cv_bytes_per_second capacity),
        (cv_state_bytes used, cv_state_bytes capacity),
        (cv_table_entries used, cv_table_entries capacity)] 0 False"

text \<open>\<^verbatim>\<open>CapacityVector::lexicographic\<close>, as the sign of the three-way comparison.\<close>

definition lexicographic :: "capacity_vector \<Rightarrow> capacity_vector \<Rightarrow> int" where
  "lexicographic a b =
     (let cmp = (\<lambda>x y :: u64. if x < y then - 1 else if x = y then 0 else 1) in
      if cv_packets_per_second a \<noteq> cv_packets_per_second b
        then cmp (cv_packets_per_second a) (cv_packets_per_second b)
      else if cv_bytes_per_second a \<noteq> cv_bytes_per_second b
        then cmp (cv_bytes_per_second a) (cv_bytes_per_second b)
      else if cv_state_bytes a \<noteq> cv_state_bytes b then cmp (cv_state_bytes a) (cv_state_bytes b)
      else cmp (cv_table_entries a) (cv_table_entries b))"

section \<open>Correctness of the arithmetic\<close>

lemma unat_plus_no_wrap:
  "unat (a :: 'a::len word) + unat b < 2 ^ LENGTH('a) \<Longrightarrow> unat (a + b) = unat a + unat b"
  by (simp add: unat_word_ariths)

lemma checked_add_iff: "checked_add a b = Some c \<longleftrightarrow> unat a + unat b < 2 ^ 64 \<and> c = a + b"
  using max_word_minus [of a b] by (auto simp: checked_add_def linorder_not_le)

lemma checked_add_None_iff: "checked_add a b = None \<longleftrightarrow> 2 ^ 64 \<le> unat a + unat b"
  using max_word_minus [of a b] by (auto simp: checked_add_def linorder_not_le)

lemma checked_add_unat: "checked_add a b = Some c \<Longrightarrow> unat c = unat a + unat b"
  by (auto simp: checked_add_iff unat_plus_no_wrap)

lemma checked_mul_iff:
  "checked_mul a b = Some c \<longleftrightarrow> unat a * unat b < 2 ^ 64 \<and> c = a * b"
proof (cases "a = 0 \<or> b = 0")
  case True
  then show ?thesis by (auto simp: checked_mul_def)
next
  case False
  then have b: "0 < unat b" by (simp add: unat_gt_0)
  have "unat ((- 1 :: u64) div b) = (2 ^ 64 - 1) div unat b"
    by (simp add: unat_div_distrib unsigned_minus_1_eq_mask mask_eq_exp_minus_1)
  then have "a > - 1 div b \<longleftrightarrow> (2 ^ 64 - 1) div unat b < unat a"
    by (simp add: word_less_nat_alt)
  also have "\<dots> \<longleftrightarrow> 2 ^ 64 - 1 < unat a * unat b"
    using b by (simp add: div_less_iff_less_mult)
  finally show ?thesis using False by (auto simp: checked_mul_def linorder_not_less)
qed

lemma saturating_increment_unat:
  "unat (saturating_increment v) = min (unat v + 1) (2 ^ 64 - 1)"
proof (cases "v = - 1")
  case True
  then show ?thesis
    by (simp add: saturating_increment_def unsigned_minus_1_eq_mask mask_eq_exp_minus_1)
next
  case False
  then have "v < - 1" by (simp add: word_order.not_eq_extremum)
  then have "unat v < 2 ^ 64 - 1"
    by (simp add: word_less_nat_alt unsigned_minus_1_eq_mask mask_eq_exp_minus_1)
  then show ?thesis using False
    by (simp add: saturating_increment_def unat_plus_no_wrap)
qed

lemma saturating_increment_ge: "v \<le> saturating_increment v"
proof -
  have "unat v < 2 ^ 64" using unsigned_less [of v, where ?'a = nat] by simp
  then show ?thesis by (simp add: word_le_nat_alt saturating_increment_unat)
qed

lemma saturating_increment_pos: "0 < saturating_increment v"
  by (simp add: word_less_nat_alt saturating_increment_unat)

lemma saturating_elapsed_unat: "unat (saturating_elapsed l e) = unat l - unat e"
  by (simp add: saturating_elapsed_def word_less_nat_alt unat_sub word_le_nat_alt not_less)

subsection \<open>Capacity vectors, dimension by dimension\<close>

text \<open>The four dimensions as natural numbers: the abstract view of a capacity vector.\<close>

definition cv_dims :: "capacity_vector \<Rightarrow> nat list" where
  "cv_dims a =
     [unat (cv_packets_per_second a), unat (cv_bytes_per_second a), unat (cv_state_bytes a),
      unat (cv_table_entries a)]"

lemma length_cv_dims [simp]: "length (cv_dims a) = 4"
  by (simp add: cv_dims_def)

lemma cv_dims_inject: "cv_dims a = cv_dims b \<longleftrightarrow> a = b"
  by (cases a; cases b) (auto simp: cv_dims_def word_unat_eq_iff)

lemma exceeds_any_iff: "exceeds_any a b \<longleftrightarrow> \<not> dominates b a"
  by (auto simp: exceeds_any_def dominates_def)

lemma dominates_iff: "dominates a b \<longleftrightarrow> list_all2 (\<le>) (cv_dims b) (cv_dims a)"
  by (simp add: dominates_def cv_dims_def word_le_nat_alt)

lemma dominates_refl [simp]: "dominates a a"
  by (simp add: dominates_def)

lemma dominates_trans: "dominates a b \<Longrightarrow> dominates b c \<Longrightarrow> dominates a c"
  by (auto simp: dominates_def)

lemma checked_add_cv_Some:
  "checked_add_cv a b = Some c \<Longrightarrow> cv_dims c = map2 (+) (cv_dims a) (cv_dims b)"
  by (auto simp: checked_add_cv_def cv_dims_def checked_add_unat split: option.splits)

lemma checked_add_cv_None:
  "checked_add_cv a b = None \<longleftrightarrow> \<not> list_all2 (\<lambda>x y. x + y < 2 ^ 64) (cv_dims a) (cv_dims b)"
proof -
  have "checked_add_cv a b = None \<longleftrightarrow>
      checked_add (cv_packets_per_second a) (cv_packets_per_second b) = None \<or>
      checked_add (cv_bytes_per_second a) (cv_bytes_per_second b) = None \<or>
      checked_add (cv_state_bytes a) (cv_state_bytes b) = None \<or>
      checked_add (cv_table_entries a) (cv_table_entries b) = None"
    by (simp add: checked_add_cv_def split: option.splits)
  then show ?thesis
    unfolding checked_add_None_iff by (simp add: cv_dims_def not_less disj_assoc)
qed

lemma saturating_sub_dims: "cv_dims (saturating_sub a b) = map2 (-) (cv_dims a) (cv_dims b)"
  by (simp add: saturating_sub_def cv_dims_def word_less_nat_alt unat_sub word_le_nat_alt not_less)

lemma checked_add_cv_zero: "checked_add_cv cv_zero a = Some a"
  by (simp add: checked_add_cv_def checked_add_def cv_zero_def)

lemma checked_add_cv_commute: "checked_add_cv a b = checked_add_cv b a"
proof -
  have c: "checked_add x y = checked_add y x" for x y
    using checked_add_None_iff [of x y] checked_add_None_iff [of y x] checked_add_iff [of x y]
      checked_add_iff [of y x] by (metis add.commute option.exhaust)
  show ?thesis
    by (simp add: checked_add_cv_def c [of "cv_packets_per_second a"] c [of "cv_bytes_per_second a"]
        c [of "cv_state_bytes a"] c [of "cv_table_entries a"] cong: option.case_cong)
qed

subsection \<open>Utilisation\<close>

text \<open>
  The loop stops at the first common shift that makes both operands fit 32 bits.
\<close>

lemma normalise_shift:
  "\<exists>k. unat (fst (normalise u c)) = unat u div 2 ^ k \<and> unat (snd (normalise u c)) = unat c div 2 ^ k \<and>
     unat u div 2 ^ k < 2 ^ 32 \<and> unat c div 2 ^ k < 2 ^ 32 \<and>
     (\<forall>j < k. 2 ^ 32 \<le> unat u div 2 ^ j \<or> 2 ^ 32 \<le> unat c div 2 ^ j)"
proof (induction u c rule: normalise.induct)
  case (1 u c)
  have fit: "(w :: u64) > 0xFFFFFFFF \<longleftrightarrow> 2 ^ 32 \<le> unat w" for w
    by (simp add: word_less_nat_alt) linarith
  show ?case
  proof (cases "u > 0xFFFFFFFF \<or> c > 0xFFFFFFFF")
    case True
    then obtain k where k: "unat (fst (normalise (drop_bit 1 u) (drop_bit 1 c))) = unat u div 2 div 2 ^ k"
        "unat (snd (normalise (drop_bit 1 u) (drop_bit 1 c))) = unat c div 2 div 2 ^ k"
        "unat u div 2 div 2 ^ k < 2 ^ 32" "unat c div 2 div 2 ^ k < 2 ^ 32"
        "\<forall>j < k. 2 ^ 32 \<le> unat u div 2 div 2 ^ j \<or> 2 ^ 32 \<le> unat c div 2 div 2 ^ j"
      using "1.IH" unfolding unat_half by blast
    have "2 ^ 32 \<le> unat u div 2 ^ j \<or> 2 ^ 32 \<le> unat c div 2 ^ j" if "j < Suc k" for j
      using that k(5) True unfolding fit by (cases j) (simp_all add: div_mult2_eq)
    moreover have "normalise u c = normalise (drop_bit 1 u) (drop_bit 1 c)"
      using True by (subst normalise.simps) simp
    ultimately show ?thesis
      using k(1-4) by (intro exI [of _ "Suc k"]) (simp add: div_mult2_eq)
  next
    case False
    then show ?thesis
      unfolding fit by (intro exI [of _ 0]) (simp add: normalise.simps [of u c] fit)
  qed
qed

definition ppm_nat :: "nat \<Rightarrow> nat \<Rightarrow> nat" where
  "ppm_nat a b = (if b = 0 then 2000000 else min 2000000 (a * 1000000 div b))"

lemma unat_product:
  assumes "unat (a :: u64) < 2 ^ 32"
  shows "unat (a * 1000000) = unat a * 1000000"
proof -
  have "unat a * 1000000 < 2 ^ 64" using assms by simp
  then show ?thesis by (simp add: unat_word_ariths)
qed

lemma utilisation_ppm_nat:
  assumes "utilisation_ppm u c = Some (p, s)"
  shows "c \<noteq> 0 \<and> unat p = ppm_nat (unat (fst (normalise u c))) (unat (snd (normalise u c))) \<and>
    (s \<longleftrightarrow> snd (normalise u c) = 0 \<or>
       2000000 < unat (fst (normalise u c)) * 1000000 div unat (snd (normalise u c)))"
proof -
  obtain a b where n: "normalise u c = (a, b)" by fastforce
  have a: "unat a < 2 ^ 32" using normalise_shift [of u c] by (auto simp: n)
  define ppm where "ppm = a * 1000000 div b"
  have ppm: "unat ppm = unat a * 1000000 div unat b"
    using unat_product [OF a] by (simp add: ppm_def unat_div_distrib)
  have big: "ucast kUtilisationPpmSaturated < ppm \<longleftrightarrow> 2000000 < unat ppm"
    by (simp add: kUtilisationPpmSaturated_def word_less_nat_alt)
  have cast: "unat (ucast ppm :: u32) = unat ppm" if "unat ppm \<le> 2000000"
    using that by (simp add: unsigned_ucast_eq take_bit_nat_eq_self)
  show ?thesis
    using assms big cast ppm
    by (auto simp: utilisation_ppm_def n Let_def ppm_nat_def ppm_def [symmetric] unat_eq_0
        kUtilisationPpmSaturated_def split: if_splits)
qed

lemma utilisation_ppm_None: "utilisation_ppm u c = None \<longleftrightarrow> c = 0"
  by (cases "normalise u c") (auto simp: utilisation_ppm_def Let_def)

lemma ppm_nat_cross:
  assumes "a * b' \<le> a' * b" and "0 < b"
  shows "ppm_nat a b \<le> ppm_nat a' b'"
proof (cases "b' = 0")
  case False
  define x where "x = a * 1000000 div b"
  have "x * b \<le> a * 1000000" by (simp add: x_def)
  then have "x * b * b' \<le> a * 1000000 * b'" by (rule mult_right_mono) simp
  also have "\<dots> = a * b' * 1000000" by (simp only: ac_simps)
  also have "\<dots> \<le> a' * b * 1000000" by (rule mult_right_mono [OF assms(1)]) simp
  finally have "(x * b') * b \<le> (a' * 1000000) * b" by (simp only: ac_simps)
  then have "x * b' \<le> a' * 1000000" using assms(2) by simp
  then have "x \<le> a' * 1000000 div b'" using False by (simp add: less_eq_div_iff_mult_less_eq)
  then show ?thesis using False assms(2) by (simp add: ppm_nat_def x_def min.coboundedI2)
qed (simp add: ppm_nat_def)

lemma normalise_le:
  assumes "u \<le> c"
  shows "unat (fst (normalise u c)) \<le> unat (snd (normalise u c)) \<and> (c \<noteq> 0 \<longrightarrow> snd (normalise u c) \<noteq> 0)"
proof -
  obtain k where k: "unat (fst (normalise u c)) = unat u div 2 ^ k" "unat (snd (normalise u c)) = unat c div 2 ^ k"
      "\<forall>j < k. 2 ^ 32 \<le> unat u div 2 ^ j \<or> 2 ^ 32 \<le> unat c div 2 ^ j"
    using normalise_shift [of u c] by blast
  have uc: "unat u \<le> unat c" using assms by (simp add: word_le_nat_alt)
  have "unat c div 2 ^ k \<noteq> 0" if "c \<noteq> 0"
  proof (cases k)
    case 0
    then show ?thesis using that by (simp add: unat_eq_0)
  next
    case (Suc j)
    have "2 ^ 32 \<le> unat c div 2 ^ j"
      using k(3) Suc div_le_mono [OF uc, of "2 ^ j"] by fastforce
    then have "2 ^ 32 div 2 \<le> unat c div 2 ^ j div 2" by (rule div_le_mono)
    then show ?thesis by (simp add: Suc power_Suc2 div_mult2_eq del: power_Suc)
  qed
  then show ?thesis
    using k(1,2) div_le_mono [OF uc, of "2 ^ k"] by (auto simp: unat_eq_0 [symmetric])
qed

lemma utilisation_within_capacity:
  assumes "u \<le> c" and "c \<noteq> 0"
  shows "\<exists>p. utilisation_ppm u c = Some (p, False) \<and> unat p \<le> 1000000"
proof -
  obtain p s where ps: "utilisation_ppm u c = Some (p, s)"
    using utilisation_ppm_None [of u c] assms(2) by (cases "utilisation_ppm u c") auto
  let ?a = "unat (fst (normalise u c))" and ?b = "unat (snd (normalise u c))"
  have ab: "?a \<le> ?b" "?b \<noteq> 0"
    using normalise_le [OF assms(1)] assms(2) by (auto simp: unat_eq_0)
  have "?a * 1000000 div ?b \<le> ?b * 1000000 div ?b"
    by (rule div_le_mono) (simp add: ab)
  then have r: "?a * 1000000 div ?b \<le> 1000000" using ab(2) by simp
  show ?thesis
    using utilisation_ppm_nat [OF ps] r ab(2) ps by (auto simp: ppm_nat_def unat_eq_0)
qed

lemma utilisation_mono:
  assumes "u \<le> u'" and p: "utilisation_ppm u c = Some (p, s)" and p': "utilisation_ppm u' c = Some (p', s')"
  shows "p \<le> p'"
proof -
  let ?M = "2 ^ 32 :: nat"
  obtain k where k: "unat (fst (normalise u c)) = unat u div 2 ^ k" "unat (snd (normalise u c)) = unat c div 2 ^ k"
      "unat u div 2 ^ k < ?M" "unat c div 2 ^ k < ?M"
      "\<forall>j < k. ?M \<le> unat u div 2 ^ j \<or> ?M \<le> unat c div 2 ^ j"
    using normalise_shift [of u c] by blast
  obtain k' where k': "unat (fst (normalise u' c)) = unat u' div 2 ^ k'" "unat (snd (normalise u' c)) = unat c div 2 ^ k'"
      "unat u' div 2 ^ k' < ?M" "unat c div 2 ^ k' < ?M"
      "\<forall>j < k'. ?M \<le> unat u' div 2 ^ j \<or> ?M \<le> unat c div 2 ^ j"
    using normalise_shift [of u' c] by blast
  have uu: "unat u \<le> unat u'" using assms(1) by (simp add: word_le_nat_alt)
  have kk: "k \<le> k'"
  proof (rule ccontr)
    assume "\<not> k \<le> k'"
    then have "?M \<le> unat u div 2 ^ k'" using k(5) [rule_format, of k'] k'(4) by linarith
    also have "\<dots> \<le> unat u' div 2 ^ k'" by (rule div_le_mono [OF uu])
    finally show False using k'(3) by simp
  qed
  have cross: "(unat u div 2 ^ k) * (unat c div 2 ^ k') \<le> (unat u' div 2 ^ k') * (unat c div 2 ^ k)"
  proof (cases "k = k'")
    case True
    then show ?thesis using div_le_mono [OF uu, of "2 ^ k'"] by (simp add: mult_right_mono)
  next
    case False
    then obtain d where d: "k' = Suc (k + d)" using kk by (metis le_iff_add less_iff_Suc_add order_le_less)
    have small: "unat c div 2 ^ (k + d) < ?M"
      using k(4) by (metis div_le_dividend div_mult2_eq order_le_less_trans power_add)
    then have "?M \<le> unat u' div 2 ^ (k + d)" using k'(5) [rule_format, of "k + d"] d by linarith
    then have "2 ^ 32 div 2 \<le> unat u' div 2 ^ (k + d) div 2" by (rule div_le_mono)
    then have big: "2 ^ 31 \<le> unat u' div 2 ^ k'" by (simp add: d power_Suc2 div_mult2_eq del: power_Suc)
    have "2 * (unat c div 2 ^ k') \<le> unat c div 2 ^ (k + d)"
      by (simp add: d power_Suc2 div_mult2_eq del: power_Suc)
    also have "\<dots> \<le> unat c div 2 ^ k" by (simp add: power_add div_mult2_eq)
    finally have half: "2 * (unat c div 2 ^ k') \<le> unat c div 2 ^ k" .
    have "(unat u div 2 ^ k) * (unat c div 2 ^ k') \<le> 2 ^ 32 * (unat c div 2 ^ k')"
      using k(3) by (intro mult_right_mono) simp_all
    also have "\<dots> = 2 ^ 31 * (2 * (unat c div 2 ^ k'))" by simp
    also have "\<dots> \<le> (unat u' div 2 ^ k') * (unat c div 2 ^ k)"
      by (rule mult_mono [OF big half]) simp_all
    finally show ?thesis .
  qed
  show ?thesis
  proof (cases "unat c div 2 ^ k = 0")
    case True
    then have "unat c div 2 ^ k' = 0"
      using kk by (metis div_0 div_mult2_eq le_add_diff_inverse power_add)
    then show ?thesis
      using utilisation_ppm_nat [OF p'] utilisation_ppm_nat [OF p] k k'
      by (simp add: word_le_nat_alt ppm_nat_def)
  next
    case False
    then have "ppm_nat (unat u div 2 ^ k) (unat c div 2 ^ k) \<le> ppm_nat (unat u' div 2 ^ k') (unat c div 2 ^ k')"
      by (intro ppm_nat_cross [OF cross]) simp
    then show ?thesis
      using utilisation_ppm_nat [OF p'] utilisation_ppm_nat [OF p] k k' by (simp add: word_le_nat_alt)
  qed
qed

subsection \<open>The aggregate score\<close>

lemma utilisation_SomeE:
  assumes "c \<noteq> 0" obtains p s where "utilisation_ppm u c = Some (p, s)"
  using utilisation_ppm_None [of u c] assms by (cases "utilisation_ppm u c") auto

lemma aggregate_loop_None:
  "aggregate_loop ps w s = None \<longleftrightarrow> (\<exists>(u, c) \<in> set ps. c = 0)"
proof (induction ps arbitrary: w s)
  case (Cons p ps)
  obtain u c where p: "p = (u, c)" by fastforce
  show ?case
    using Cons.IH utilisation_ppm_None [of u c] by (cases "utilisation_ppm u c") (auto simp: p)
qed simp

lemma aggregate_loop_le:
  assumes "list_all2 (\<lambda>(u, c) (u', c'). u \<le> u' \<and> c = c') ps qs"
    and "aggregate_loop ps w s = Some (p, t)" and "aggregate_loop qs w' s' = Some (p', t')" and "w \<le> w'"
  shows "p \<le> p'"
  using assms
proof (induction ps qs arbitrary: w w' s s' rule: list_all2_induct)
  case (Cons x ps y qs)
  obtain u c u' where xy: "x = (u, c)" "y = (u', c)" "u \<le> u'" using Cons.hyps(1) by (cases x; cases y) auto
  obtain a b a' b' where ab: "utilisation_ppm u c = Some (a, b)" "utilisation_ppm u' c = Some (a', b')"
    using Cons.prems(1,2) xy by (auto split: option.splits)
  have "a \<le> a'" using utilisation_mono [OF xy(3) ab] .
  then show ?case
    using Cons.prems ab unfolding xy
    by (intro Cons.IH [of "if a > w then a else w" "b \<or> s" "if a' > w' then a' else w'" "b' \<or> s'"]) auto
qed auto

lemma aggregate_loop_within:
  assumes "\<forall>(u, c) \<in> set ps. u \<le> c \<and> c \<noteq> 0" and "w \<le> 1000000"
  shows "\<exists>p. aggregate_loop ps w False = Some (p, False) \<and> p \<le> 1000000"
  using assms
proof (induction ps arbitrary: w)
  case (Cons x ps)
  obtain u c where x: "x = (u, c)" by fastforce
  obtain p where "utilisation_ppm u c = Some (p, False)" "p \<le> 1000000"
    using utilisation_within_capacity [of u c] Cons.prems x by (auto simp: word_le_nat_alt)
  then show ?case using Cons x by (cases "p > w") auto
qed simp

section \<open>Properties\<close>

text \<open>
  Capacity addition is exact: it is refused precisely when some dimension of the sum
  does not fit 64 bits, and otherwise every dimension of the result is the true sum, so
  committed demand can never wrap around to a small value.
\<close>

theorem checked_add_cv_exact:
  "(checked_add_cv a b = None \<longleftrightarrow> \<not> list_all2 (\<lambda>x y. x + y < 2 ^ 64) (cv_dims a) (cv_dims b)) \<and>
   (case checked_add_cv a b of None \<Rightarrow> True | Some c \<Rightarrow> cv_dims c = map2 (+) (cv_dims a) (cv_dims b))"
  by (auto simp: checked_add_cv_None dest: checked_add_cv_Some split: option.split)

text \<open>
  C26: The aggregate utilisation score is monotone: on a target of fixed capacity, offering
  at least as much load in every dimension never yields a smaller score, although the
  normalisation shift depends on the operands.
\<close>

theorem aggregate_utilisation_monotone:
  assumes "dominates used' used"
    and "aggregate_utilisation_ppm used capacity = Some (p, s)"
    and "aggregate_utilisation_ppm used' capacity = Some (p', s')"
  shows "p \<le> p'"
  by (rule aggregate_loop_le [OF _ assms(2,3) [unfolded aggregate_utilisation_ppm_def]])
    (use assms(1) in \<open>simp_all add: dominates_def\<close>)

definition cv_of :: "u64 \<Rightarrow> u64 \<Rightarrow> u64 \<Rightarrow> u64 \<Rightarrow> capacity_vector" where
  "cv_of p q r t = \<lparr>cv_packets_per_second = p, cv_bytes_per_second = q, cv_state_bytes = r, cv_table_entries = t\<rparr>"

theorem aggregate_utilisation_monotone_witness:
  "aggregate_utilisation_ppm (cv_of 1 2 3 0) (cv_of 4 4 4 0x100000000) = Some (750000, False) \<and>
   aggregate_utilisation_ppm (cv_of 1 2 3 0x200000000) (cv_of 4 4 4 0x100000000) = Some (2000000, False) \<and>
   (750000 :: u32) \<le> 2000000"
proof -
  have "dominates (cv_of 1 2 3 0x200000000) (cv_of 1 2 3 0)" by (simp add: dominates_def cv_of_def)
  moreover have "aggregate_utilisation_ppm (cv_of 1 2 3 0) (cv_of 4 4 4 0x100000000) = Some (750000, False)"
    "aggregate_utilisation_ppm (cv_of 1 2 3 0x200000000) (cv_of 4 4 4 0x100000000) = Some (2000000, False)"
    by code_simp+
  ultimately show ?thesis using aggregate_utilisation_monotone by blast
qed

text \<open>
  C27: A load that fits the capacity in every dimension, with no dimension of the capacity
  zero, has a score of at most 1000000 parts per million and is never flagged saturated; a
  capacity with a zero dimension has no score at all.
\<close>

theorem aggregate_utilisation_within_capacity:
  "(aggregate_utilisation_ppm used capacity = None \<longleftrightarrow> 0 \<in> set (cv_dims capacity)) \<and>
   (dominates capacity used \<and> 0 \<notin> set (cv_dims capacity) \<longrightarrow>
      (\<exists>p. aggregate_utilisation_ppm used capacity = Some (p, False) \<and> p \<le> 1000000))"
proof
  show "aggregate_utilisation_ppm used capacity = None \<longleftrightarrow> 0 \<in> set (cv_dims capacity)"
    unfolding aggregate_utilisation_ppm_def aggregate_loop_None
    by (auto simp: cv_dims_def unat_eq_0)
  show "dominates capacity used \<and> 0 \<notin> set (cv_dims capacity) \<longrightarrow>
      (\<exists>p. aggregate_utilisation_ppm used capacity = Some (p, False) \<and> p \<le> 1000000)"
    unfolding aggregate_utilisation_ppm_def
    by (rule impI, rule aggregate_loop_within) (auto simp: dominates_def cv_dims_def unat_eq_0)
qed

theorem aggregate_utilisation_within_capacity_witness:
  "\<exists>p. aggregate_utilisation_ppm (cv_of 1 2 3 4) (cv_of 4 4 4 4) = Some (p, False) \<and> p \<le> 1000000"
proof -
  have "dominates (cv_of 4 4 4 4) (cv_of 1 2 3 4) \<and> 0 \<notin> set (cv_dims (cv_of 4 4 4 4))"
    by (simp add: dominates_def cv_of_def cv_dims_def)
  with aggregate_utilisation_within_capacity [of "cv_of 1 2 3 4" "cv_of 4 4 4 4"]
  show ?thesis by blast
qed

end
