(* ===== verification/Reason.thy ===== *)
theory Reason
  imports Prelude
begin

text \<open>
  Stable numeric reason codes and their classification
  (\<^verbatim>\<open>include/flow_offload/reason.hpp\<close>, \<^verbatim>\<open>src/reason.cpp\<close>).

  \<^verbatim>\<open>ReasonCode\<close> is an enumeration with a fixed underlying type, so a value that no
  enumerator names is a legal object: the decoders cast a raw 32-bit field to
  \<^verbatim>\<open>ReasonCode\<close> first and validate it against the table afterwards.  The type is
  therefore the underlying word, and every enumerator is an abbreviation for its value.
\<close>

type_synonym reason = u32

abbreviation (input) ReasonOk :: reason where "ReasonOk \<equiv> 0"
abbreviation (input) RejectedMalformedInput :: reason where "RejectedMalformedInput \<equiv> 100"
abbreviation (input) RejectedOversizedInput :: reason where "RejectedOversizedInput \<equiv> 101"
abbreviation (input) RejectedTruncatedInput :: reason where "RejectedTruncatedInput \<equiv> 102"
abbreviation (input) RejectedCorruptInput :: reason where "RejectedCorruptInput \<equiv> 103"
abbreviation (input) RejectedDuplicateIdentity :: reason where "RejectedDuplicateIdentity \<equiv> 104"
abbreviation (input) RejectedConflictingDuplicate :: reason where "RejectedConflictingDuplicate \<equiv> 105"
abbreviation (input) RejectedUnknownFlow :: reason where "RejectedUnknownFlow \<equiv> 106"
abbreviation (input) RejectedUnknownTarget :: reason where "RejectedUnknownTarget \<equiv> 107"
abbreviation (input) RejectedUnknownFunction :: reason where "RejectedUnknownFunction \<equiv> 108"
abbreviation (input) RejectedUnknownCapability :: reason where "RejectedUnknownCapability \<equiv> 109"
abbreviation (input) RejectedEmptyRequest :: reason where "RejectedEmptyRequest \<equiv> 110"
abbreviation (input) RejectedTooManyEntries :: reason where "RejectedTooManyEntries \<equiv> 111"
abbreviation (input) RejectedUnsupportedVersion :: reason where "RejectedUnsupportedVersion \<equiv> 112"
abbreviation (input) RejectedNonCanonicalEncoding :: reason where "RejectedNonCanonicalEncoding \<equiv> 113"
abbreviation (input) RejectedStaleFlowGeneration :: reason where "RejectedStaleFlowGeneration \<equiv> 120"
abbreviation (input) RejectedStaleCapabilityGeneration :: reason where "RejectedStaleCapabilityGeneration \<equiv> 121"
abbreviation (input) RejectedStaleTopologyGeneration :: reason where "RejectedStaleTopologyGeneration \<equiv> 122"
abbreviation (input) RejectedStalePolicyGeneration :: reason where "RejectedStalePolicyGeneration \<equiv> 123"
abbreviation (input) RejectedStaleScheduleGeneration :: reason where "RejectedStaleScheduleGeneration \<equiv> 124"
abbreviation (input) RejectedStaleIncarnation :: reason where "RejectedStaleIncarnation \<equiv> 125"
abbreviation (input) RejectedStaleEvidence :: reason where "RejectedStaleEvidence \<equiv> 126"
abbreviation (input) RejectedFutureGeneration :: reason where "RejectedFutureGeneration \<equiv> 127"
abbreviation (input) RejectedMissingEvidence :: reason where "RejectedMissingEvidence \<equiv> 130"
abbreviation (input) RejectedReplayedEvidence :: reason where "RejectedReplayedEvidence \<equiv> 131"
abbreviation (input) RejectedOutOfOrderEvidence :: reason where "RejectedOutOfOrderEvidence \<equiv> 132"
abbreviation (input) RejectedConflictingEvidence :: reason where "RejectedConflictingEvidence \<equiv> 133"
abbreviation (input) RejectedUnknownEvidenceSource :: reason where "RejectedUnknownEvidenceSource \<equiv> 134"
abbreviation (input) RejectedUnsupportedTarget :: reason where "RejectedUnsupportedTarget \<equiv> 150"
abbreviation (input) RejectedUnsupportedFunction :: reason where "RejectedUnsupportedFunction \<equiv> 151"
abbreviation (input) RejectedUnsupportedCapability :: reason where "RejectedUnsupportedCapability \<equiv> 152"
abbreviation (input) RejectedTargetLifecycleUnknown :: reason where "RejectedTargetLifecycleUnknown \<equiv> 153"
abbreviation (input) RejectedTargetNotReady :: reason where "RejectedTargetNotReady \<equiv> 154"
abbreviation (input) RejectedTargetDraining :: reason where "RejectedTargetDraining \<equiv> 155"
abbreviation (input) RejectedTargetRemoved :: reason where "RejectedTargetRemoved \<equiv> 156"
abbreviation (input) RejectedTargetDegraded :: reason where "RejectedTargetDegraded \<equiv> 157"
abbreviation (input) RejectedTargetQuiesced :: reason where "RejectedTargetQuiesced \<equiv> 158"
abbreviation (input) RejectedPolicyForbidsDomain :: reason where "RejectedPolicyForbidsDomain \<equiv> 160"
abbreviation (input) RejectedPolicyForbidsHost :: reason where "RejectedPolicyForbidsHost \<equiv> 161"
abbreviation (input) RejectedPolicyForbidsDevice :: reason where "RejectedPolicyForbidsDevice \<equiv> 162"
abbreviation (input) RejectedPolicyCostClass :: reason where "RejectedPolicyCostClass \<equiv> 163"
abbreviation (input) RejectedPolicyFunctionNotAllowed :: reason where "RejectedPolicyFunctionNotAllowed \<equiv> 164"
abbreviation (input) RejectedPolicyHeadroom :: reason where "RejectedPolicyHeadroom \<equiv> 165"
abbreviation (input) RejectedNoEligibleTarget :: reason where "RejectedNoEligibleTarget \<equiv> 166"
abbreviation (input) RejectedIncompatibleTarget :: reason where "RejectedIncompatibleTarget \<equiv> 167"
abbreviation (input) RejectedAffinityUnsatisfiable :: reason where "RejectedAffinityUnsatisfiable \<equiv> 168"
abbreviation (input) RejectedCapacityInsufficient :: reason where "RejectedCapacityInsufficient \<equiv> 200"
abbreviation (input) RejectedCapacityUnknown :: reason where "RejectedCapacityUnknown \<equiv> 201"
abbreviation (input) RejectedCapacityOverSubscribed :: reason where "RejectedCapacityOverSubscribed \<equiv> 202"
abbreviation (input) RejectedCapacityOverflow :: reason where "RejectedCapacityOverflow \<equiv> 203"
abbreviation (input) RejectedFenceActive :: reason where "RejectedFenceActive \<equiv> 250"
abbreviation (input) RejectedFencedByRestart :: reason where "RejectedFencedByRestart \<equiv> 251"
abbreviation (input) RejectedFencedBySupersession :: reason where "RejectedFencedBySupersession \<equiv> 252"
abbreviation (input) RejectedStaleCoordinatorEpoch :: reason where "RejectedStaleCoordinatorEpoch \<equiv> 253"
abbreviation (input) RejectedStaleBootId :: reason where "RejectedStaleBootId \<equiv> 254"
abbreviation (input) RejectedAuthorizationMissing :: reason where "RejectedAuthorizationMissing \<equiv> 255"
abbreviation (input) RejectedAuthorizationSuperseded :: reason where "RejectedAuthorizationSuperseded \<equiv> 256"
abbreviation (input) RejectedConflictingAuthority :: reason where "RejectedConflictingAuthority \<equiv> 257"
abbreviation (input) RejectedExclusiveStateConflict :: reason where "RejectedExclusiveStateConflict \<equiv> 258"
abbreviation (input) RejectedRecommendationMismatch :: reason where "RejectedRecommendationMismatch \<equiv> 259"
abbreviation (input) RejectedStatefulMigrationUnsafe :: reason where "RejectedStatefulMigrationUnsafe \<equiv> 300"
abbreviation (input) RejectedMigrationContractMissing :: reason where "RejectedMigrationContractMissing \<equiv> 301"
abbreviation (input) RejectedMigrationContractMismatch :: reason where "RejectedMigrationContractMismatch \<equiv> 302"
abbreviation (input) RejectedMigrationAlreadyInFlight :: reason where "RejectedMigrationAlreadyInFlight \<equiv> 303"
abbreviation (input) RejectedMigrationNotPermitted :: reason where "RejectedMigrationNotPermitted \<equiv> 304"
abbreviation (input) RejectedMigrationSourceBusy :: reason where "RejectedMigrationSourceBusy \<equiv> 305"
abbreviation (input) RejectedMigrationAttemptUnknown :: reason where "RejectedMigrationAttemptUnknown \<equiv> 306"
abbreviation (input) RejectedMigrationAttemptTerminal :: reason where "RejectedMigrationAttemptTerminal \<equiv> 307"
abbreviation (input) RejectedMigrationAckOutOfOrder :: reason where "RejectedMigrationAckOutOfOrder \<equiv> 308"
abbreviation (input) RejectedMigrationAckDuplicate :: reason where "RejectedMigrationAckDuplicate \<equiv> 309"
abbreviation (input) RejectedMigrationEffectBeforeAck :: reason where "RejectedMigrationEffectBeforeAck \<equiv> 310"
abbreviation (input) RejectedMigrationVerificationMismatch :: reason where "RejectedMigrationVerificationMismatch \<equiv> 311"
abbreviation (input) RejectedMigrationSameTarget :: reason where "RejectedMigrationSameTarget \<equiv> 312"
abbreviation (input) RejectedMigrationLimitReached :: reason where "RejectedMigrationLimitReached \<equiv> 313"
abbreviation (input) RejectedMigrationFenced :: reason where "RejectedMigrationFenced \<equiv> 314"
abbreviation (input) AcceptedHostPlacement :: reason where "AcceptedHostPlacement \<equiv> 400"
abbreviation (input) AcceptedOffloadPlacement :: reason where "AcceptedOffloadPlacement \<equiv> 401"
abbreviation (input) AcceptedStickyRetention :: reason where "AcceptedStickyRetention \<equiv> 402"
abbreviation (input) AcceptedFallbackToHost :: reason where "AcceptedFallbackToHost \<equiv> 403"
abbreviation (input) AcceptedFallbackToOffload :: reason where "AcceptedFallbackToOffload \<equiv> 404"
abbreviation (input) AcceptedWithoutLoadEvidence :: reason where "AcceptedWithoutLoadEvidence \<equiv> 405"
abbreviation (input) AcceptedNoChangeRequired :: reason where "AcceptedNoChangeRequired \<equiv> 406"
abbreviation (input) AcceptedRecommendationIssued :: reason where "AcceptedRecommendationIssued \<equiv> 407"
abbreviation (input) AcceptedAuthorizationGranted :: reason where "AcceptedAuthorizationGranted \<equiv> 408"
abbreviation (input) AcceptedMigrationIntentIssued :: reason where "AcceptedMigrationIntentIssued \<equiv> 409"
abbreviation (input) AcceptedSourceAckRecorded :: reason where "AcceptedSourceAckRecorded \<equiv> 410"
abbreviation (input) AcceptedDestinationAckRecorded :: reason where "AcceptedDestinationAckRecorded \<equiv> 411"
abbreviation (input) AcceptedAppliedEffectRecorded :: reason where "AcceptedAppliedEffectRecorded \<equiv> 412"
abbreviation (input) AcceptedVerifiedEffectRecorded :: reason where "AcceptedVerifiedEffectRecorded \<equiv> 413"
abbreviation (input) AcceptedMigrationCompleted :: reason where "AcceptedMigrationCompleted \<equiv> 414"
abbreviation (input) AcceptedMigrationAborted :: reason where "AcceptedMigrationAborted \<equiv> 415"
abbreviation (input) AcceptedRebalanceBounded :: reason where "AcceptedRebalanceBounded \<equiv> 416"
abbreviation (input) AcceptedIdempotentReplay :: reason where "AcceptedIdempotentReplay \<equiv> 417"
abbreviation (input) AcceptedTargetRegistered :: reason where "AcceptedTargetRegistered \<equiv> 418"
abbreviation (input) AcceptedTargetUpdated :: reason where "AcceptedTargetUpdated \<equiv> 419"
abbreviation (input) AcceptedTargetRemoved :: reason where "AcceptedTargetRemoved \<equiv> 420"
abbreviation (input) AcceptedEvidenceRecorded :: reason where "AcceptedEvidenceRecorded \<equiv> 421"
abbreviation (input) AcceptedPolicyApplied :: reason where "AcceptedPolicyApplied \<equiv> 422"
abbreviation (input) AcceptedFlowRegistered :: reason where "AcceptedFlowRegistered \<equiv> 423"
abbreviation (input) AcceptedFlowUpdated :: reason where "AcceptedFlowUpdated \<equiv> 424"
abbreviation (input) AcceptedCancelled :: reason where "AcceptedCancelled \<equiv> 425"
abbreviation (input) AcceptedDrained :: reason where "AcceptedDrained \<equiv> 426"
abbreviation (input) AcceptedSchedulePublished :: reason where "AcceptedSchedulePublished \<equiv> 427"
abbreviation (input) AcceptedMigrationSuperseded :: reason where "AcceptedMigrationSuperseded \<equiv> 428"
abbreviation (input) RecoveryCleanReopen :: reason where "RecoveryCleanReopen \<equiv> 500"
abbreviation (input) RecoveryTornTailTruncated :: reason where "RecoveryTornTailTruncated \<equiv> 501"
abbreviation (input) RecoveryJournalReplayed :: reason where "RecoveryJournalReplayed \<equiv> 502"
abbreviation (input) RecoverySnapshotOnly :: reason where "RecoverySnapshotOnly \<equiv> 503"
abbreviation (input) RecoveryJournalOnly :: reason where "RecoveryJournalOnly \<equiv> 504"
abbreviation (input) RecoveryEmptyStore :: reason where "RecoveryEmptyStore \<equiv> 505"
abbreviation (input) RecoveryIncompatibleVersion :: reason where "RecoveryIncompatibleVersion \<equiv> 506"
abbreviation (input) RecoverySemanticsMismatch :: reason where "RecoverySemanticsMismatch \<equiv> 507"
abbreviation (input) RecoveryCorruptSnapshot :: reason where "RecoveryCorruptSnapshot \<equiv> 508"
abbreviation (input) RecoveryCorruptJournal :: reason where "RecoveryCorruptJournal \<equiv> 509"
abbreviation (input) RecoveryTruncatedSnapshot :: reason where "RecoveryTruncatedSnapshot \<equiv> 510"
abbreviation (input) RecoveryOversizedRecord :: reason where "RecoveryOversizedRecord \<equiv> 511"
abbreviation (input) RecoveryFencedPreRestartAuthority :: reason where "RecoveryFencedPreRestartAuthority \<equiv> 512"
abbreviation (input) RecoveryEpochAdvanced :: reason where "RecoveryEpochAdvanced \<equiv> 513"
abbreviation (input) RecoveryCompacted :: reason where "RecoveryCompacted \<equiv> 514"
abbreviation (input) RecoveryEvidenceDiscarded :: reason where "RecoveryEvidenceDiscarded \<equiv> 515"
abbreviation (input) PersistCommitted :: reason where "PersistCommitted \<equiv> 520"
abbreviation (input) PersistCommitFailed :: reason where "PersistCommitFailed \<equiv> 521"
abbreviation (input) PersistNotConfigured :: reason where "PersistNotConfigured \<equiv> 522"
abbreviation (input) PersistRotationRequired :: reason where "PersistRotationRequired \<equiv> 523"
abbreviation (input) ProtocolOk :: reason where "ProtocolOk \<equiv> 600"
abbreviation (input) ProtocolUnsupportedVersion :: reason where "ProtocolUnsupportedVersion \<equiv> 601"
abbreviation (input) ProtocolMalformedFrame :: reason where "ProtocolMalformedFrame \<equiv> 602"
abbreviation (input) ProtocolOversizedFrame :: reason where "ProtocolOversizedFrame \<equiv> 603"
abbreviation (input) ProtocolUnknownOperation :: reason where "ProtocolUnknownOperation \<equiv> 604"
abbreviation (input) ProtocolBackpressure :: reason where "ProtocolBackpressure \<equiv> 605"
abbreviation (input) ProtocolShuttingDown :: reason where "ProtocolShuttingDown \<equiv> 606"
abbreviation (input) ProtocolConnectionLimit :: reason where "ProtocolConnectionLimit \<equiv> 607"
abbreviation (input) ProtocolTruncatedFrame :: reason where "ProtocolTruncatedFrame \<equiv> 608"
abbreviation (input) ProtocolIoError :: reason where "ProtocolIoError \<equiv> 609"
abbreviation (input) ProtocolNotConnected :: reason where "ProtocolNotConnected \<equiv> 610"
abbreviation (input) RejectedCancelled :: reason where "RejectedCancelled \<equiv> 650"
abbreviation (input) RejectedShuttingDown :: reason where "RejectedShuttingDown \<equiv> 651"
abbreviation (input) AcceptedShutdownRequested :: reason where "AcceptedShutdownRequested \<equiv> 652"
abbreviation (input) RejectedResourceExhausted :: reason where "RejectedResourceExhausted \<equiv> 900"
abbreviation (input) RejectedQueueFull :: reason where "RejectedQueueFull \<equiv> 901"
abbreviation (input) RejectedWorkerLimit :: reason where "RejectedWorkerLimit \<equiv> 902"
abbreviation (input) RejectedHistoryLimit :: reason where "RejectedHistoryLimit \<equiv> 903"
abbreviation (input) RejectedInternalInvariant :: reason where "RejectedInternalInvariant \<equiv> 904"
abbreviation (input) RejectedNotSupported :: reason where "RejectedNotSupported \<equiv> 905"
abbreviation (input) RejectedStoreUnavailable :: reason where "RejectedStoreUnavailable \<equiv> 906"
abbreviation (input) RejectedLockUnavailable :: reason where "RejectedLockUnavailable \<equiv> 907"

text \<open>The table built from the X-macro, in declaration order.\<close>

definition kReasonTable :: "(reason \<times> string) list" where
  "kReasonTable =
    [(0, ''Ok''),
     (100, ''RejectedMalformedInput''),
     (101, ''RejectedOversizedInput''),
     (102, ''RejectedTruncatedInput''),
     (103, ''RejectedCorruptInput''),
     (104, ''RejectedDuplicateIdentity''),
     (105, ''RejectedConflictingDuplicate''),
     (106, ''RejectedUnknownFlow''),
     (107, ''RejectedUnknownTarget''),
     (108, ''RejectedUnknownFunction''),
     (109, ''RejectedUnknownCapability''),
     (110, ''RejectedEmptyRequest''),
     (111, ''RejectedTooManyEntries''),
     (112, ''RejectedUnsupportedVersion''),
     (113, ''RejectedNonCanonicalEncoding''),
     (120, ''RejectedStaleFlowGeneration''),
     (121, ''RejectedStaleCapabilityGeneration''),
     (122, ''RejectedStaleTopologyGeneration''),
     (123, ''RejectedStalePolicyGeneration''),
     (124, ''RejectedStaleScheduleGeneration''),
     (125, ''RejectedStaleIncarnation''),
     (126, ''RejectedStaleEvidence''),
     (127, ''RejectedFutureGeneration''),
     (130, ''RejectedMissingEvidence''),
     (131, ''RejectedReplayedEvidence''),
     (132, ''RejectedOutOfOrderEvidence''),
     (133, ''RejectedConflictingEvidence''),
     (134, ''RejectedUnknownEvidenceSource''),
     (150, ''RejectedUnsupportedTarget''),
     (151, ''RejectedUnsupportedFunction''),
     (152, ''RejectedUnsupportedCapability''),
     (153, ''RejectedTargetLifecycleUnknown''),
     (154, ''RejectedTargetNotReady''),
     (155, ''RejectedTargetDraining''),
     (156, ''RejectedTargetRemoved''),
     (157, ''RejectedTargetDegraded''),
     (158, ''RejectedTargetQuiesced''),
     (160, ''RejectedPolicyForbidsDomain''),
     (161, ''RejectedPolicyForbidsHost''),
     (162, ''RejectedPolicyForbidsDevice''),
     (163, ''RejectedPolicyCostClass''),
     (164, ''RejectedPolicyFunctionNotAllowed''),
     (165, ''RejectedPolicyHeadroom''),
     (166, ''RejectedNoEligibleTarget''),
     (167, ''RejectedIncompatibleTarget''),
     (168, ''RejectedAffinityUnsatisfiable''),
     (200, ''RejectedCapacityInsufficient''),
     (201, ''RejectedCapacityUnknown''),
     (202, ''RejectedCapacityOverSubscribed''),
     (203, ''RejectedCapacityOverflow''),
     (250, ''RejectedFenceActive''),
     (251, ''RejectedFencedByRestart''),
     (252, ''RejectedFencedBySupersession''),
     (253, ''RejectedStaleCoordinatorEpoch''),
     (254, ''RejectedStaleBootId''),
     (255, ''RejectedAuthorizationMissing''),
     (256, ''RejectedAuthorizationSuperseded''),
     (257, ''RejectedConflictingAuthority''),
     (258, ''RejectedExclusiveStateConflict''),
     (259, ''RejectedRecommendationMismatch''),
     (300, ''RejectedStatefulMigrationUnsafe''),
     (301, ''RejectedMigrationContractMissing''),
     (302, ''RejectedMigrationContractMismatch''),
     (303, ''RejectedMigrationAlreadyInFlight''),
     (304, ''RejectedMigrationNotPermitted''),
     (305, ''RejectedMigrationSourceBusy''),
     (306, ''RejectedMigrationAttemptUnknown''),
     (307, ''RejectedMigrationAttemptTerminal''),
     (308, ''RejectedMigrationAckOutOfOrder''),
     (309, ''RejectedMigrationAckDuplicate''),
     (310, ''RejectedMigrationEffectBeforeAck''),
     (311, ''RejectedMigrationVerificationMismatch''),
     (312, ''RejectedMigrationSameTarget''),
     (313, ''RejectedMigrationLimitReached''),
     (314, ''RejectedMigrationFenced''),
     (400, ''AcceptedHostPlacement''),
     (401, ''AcceptedOffloadPlacement''),
     (402, ''AcceptedStickyRetention''),
     (403, ''AcceptedFallbackToHost''),
     (404, ''AcceptedFallbackToOffload''),
     (405, ''AcceptedWithoutLoadEvidence''),
     (406, ''AcceptedNoChangeRequired''),
     (407, ''AcceptedRecommendationIssued''),
     (408, ''AcceptedAuthorizationGranted''),
     (409, ''AcceptedMigrationIntentIssued''),
     (410, ''AcceptedSourceAckRecorded''),
     (411, ''AcceptedDestinationAckRecorded''),
     (412, ''AcceptedAppliedEffectRecorded''),
     (413, ''AcceptedVerifiedEffectRecorded''),
     (414, ''AcceptedMigrationCompleted''),
     (415, ''AcceptedMigrationAborted''),
     (416, ''AcceptedRebalanceBounded''),
     (417, ''AcceptedIdempotentReplay''),
     (418, ''AcceptedTargetRegistered''),
     (419, ''AcceptedTargetUpdated''),
     (420, ''AcceptedTargetRemoved''),
     (421, ''AcceptedEvidenceRecorded''),
     (422, ''AcceptedPolicyApplied''),
     (423, ''AcceptedFlowRegistered''),
     (424, ''AcceptedFlowUpdated''),
     (425, ''AcceptedCancelled''),
     (426, ''AcceptedDrained''),
     (427, ''AcceptedSchedulePublished''),
     (428, ''AcceptedMigrationSuperseded''),
     (500, ''RecoveryCleanReopen''),
     (501, ''RecoveryTornTailTruncated''),
     (502, ''RecoveryJournalReplayed''),
     (503, ''RecoverySnapshotOnly''),
     (504, ''RecoveryJournalOnly''),
     (505, ''RecoveryEmptyStore''),
     (506, ''RecoveryIncompatibleVersion''),
     (507, ''RecoverySemanticsMismatch''),
     (508, ''RecoveryCorruptSnapshot''),
     (509, ''RecoveryCorruptJournal''),
     (510, ''RecoveryTruncatedSnapshot''),
     (511, ''RecoveryOversizedRecord''),
     (512, ''RecoveryFencedPreRestartAuthority''),
     (513, ''RecoveryEpochAdvanced''),
     (514, ''RecoveryCompacted''),
     (515, ''RecoveryEvidenceDiscarded''),
     (520, ''PersistCommitted''),
     (521, ''PersistCommitFailed''),
     (522, ''PersistNotConfigured''),
     (523, ''PersistRotationRequired''),
     (600, ''ProtocolOk''),
     (601, ''ProtocolUnsupportedVersion''),
     (602, ''ProtocolMalformedFrame''),
     (603, ''ProtocolOversizedFrame''),
     (604, ''ProtocolUnknownOperation''),
     (605, ''ProtocolBackpressure''),
     (606, ''ProtocolShuttingDown''),
     (607, ''ProtocolConnectionLimit''),
     (608, ''ProtocolTruncatedFrame''),
     (609, ''ProtocolIoError''),
     (610, ''ProtocolNotConnected''),
     (650, ''RejectedCancelled''),
     (651, ''RejectedShuttingDown''),
     (652, ''AcceptedShutdownRequested''),
     (900, ''RejectedResourceExhausted''),
     (901, ''RejectedQueueFull''),
     (902, ''RejectedWorkerLimit''),
     (903, ''RejectedHistoryLimit''),
     (904, ''RejectedInternalInvariant''),
     (905, ''RejectedNotSupported''),
     (906, ''RejectedStoreUnavailable''),
     (907, ''RejectedLockUnavailable'')]"

definition reason_value :: "reason \<Rightarrow> u32" where
  "reason_value code = code"

definition reason_code_count :: nat where
  "reason_code_count = length kReasonTable"

text \<open>\<^verbatim>\<open>to_string(ReasonCode)\<close>: linear scan, first entry with the value.\<close>

fun scan_code :: "(reason \<times> string) list \<Rightarrow> reason \<Rightarrow> string" where
  "scan_code [] code = ''UnknownReasonCode''"
| "scan_code ((c, n) # t) code = (if c = code then n else scan_code t code)"

definition reason_to_string :: "reason \<Rightarrow> string" where
  "reason_to_string code = scan_code kReasonTable code"

text \<open>\<^verbatim>\<open>reason_from_string\<close>: empty text and unknown text are refused.\<close>

fun scan_name :: "(reason \<times> string) list \<Rightarrow> string \<Rightarrow> reason option" where
  "scan_name [] text = None"
| "scan_name ((c, n) # t) text = (if n = text then Some c else scan_name t text)"

definition reason_from_string :: "string \<Rightarrow> reason option" where
  "reason_from_string text = (if text = [] then None else scan_name kReasonTable text)"

text \<open>The compile-time assertions of \<^verbatim>\<open>reason.cpp\<close>.\<close>

definition table_is_complete :: bool where
  "table_is_complete = list_all (\<lambda>(c, n). n \<noteq> []) kReasonTable"

fun no_clash :: "(reason \<times> string) list \<Rightarrow> bool" where
  "no_clash [] = True"
| "no_clash ((c, n) # t) = (list_all (\<lambda>(c', n'). \<not> (c = c' \<or> n = n')) t \<and> no_clash t)"

definition table_is_unique :: bool where
  "table_is_unique = no_clash kReasonTable"

text \<open>Classification.  Acceptance is an explicit whitelist.\<close>

definition is_acceptance :: "reason \<Rightarrow> bool" where
  "is_acceptance code =
     (let v = reason_value code in
      if v = 0 \<or> (v \<ge> 400 \<and> v < 500) then True
      else code \<in> {PersistCommitted, PersistNotConfigured, RecoveryCompacted,
             RecoveryCleanReopen, RecoveryJournalReplayed, RecoverySnapshotOnly,
             RecoveryJournalOnly, RecoveryEmptyStore, RecoveryTornTailTruncated,
             RecoveryEpochAdvanced, RecoveryFencedPreRestartAuthority,
             RecoveryEvidenceDiscarded, ProtocolOk, AcceptedShutdownRequested})"

definition is_refusal :: "reason \<Rightarrow> bool" where
  "is_refusal code = (\<not> is_acceptance code)"

definition is_recovery :: "reason \<Rightarrow> bool" where
  "is_recovery code = (let v = reason_value code in v \<ge> 500 \<and> v < 600)"

definition is_protocol :: "reason \<Rightarrow> bool" where
  "is_protocol code = (let v = reason_value code in v \<ge> 600 \<and> v < 650)"

definition is_cancellation :: "reason \<Rightarrow> bool" where
  "is_cancellation code = (let v = reason_value code in v \<ge> 650 \<and> v < 700)"

text \<open>
  \<^verbatim>\<open>Status\<close> wraps one code; \<^verbatim>\<open>accepted\<close> and \<^verbatim>\<open>refused\<close> build the same object, and the
  accept/refuse bit is computed from the code.
\<close>

type_synonym status = reason

definition status_accepted :: "reason \<Rightarrow> status" where
  "status_accepted code = code"

definition status_refused :: "reason \<Rightarrow> status" where
  "status_refused code = code"

definition status_ok :: "status \<Rightarrow> bool" where
  "status_ok st = is_acceptance st"

definition status_failed :: "status \<Rightarrow> bool" where
  "status_failed st = (\<not> status_ok st)"

definition status_to_string :: "status \<Rightarrow> string" where
  "status_to_string st =
     (if status_ok st then ''ok:'' @ reason_to_string st else ''failed:'' @ reason_to_string st)"

lemmas status_defs [simp] = status_accepted_def status_refused_def

section \<open>Facts about the table\<close>

lemma scan_code_eq:
  "scan_code t code = (case map_of t code of None \<Rightarrow> ''UnknownReasonCode'' | Some n \<Rightarrow> n)"
  by (induction t code rule: scan_code.induct) auto

lemma table_names_known: "list_all (\<lambda>(c, n). n \<noteq> ''UnknownReasonCode'' \<and> n \<noteq> []) kReasonTable"
  unfolding kReasonTable_def by simp

lemma reason_unknown_iff:
  "reason_to_string code = ''UnknownReasonCode'' \<longleftrightarrow> code \<notin> fst ` set kReasonTable"
proof (cases "map_of kReasonTable code")
  case None
  then have "code \<notin> fst ` set kReasonTable" by (simp only: map_of_eq_None_iff not_False_eq_True)
  with None show ?thesis by (simp add: reason_to_string_def scan_code_eq)
next
  case (Some n)
  then have "(code, n) \<in> set kReasonTable" by (rule map_of_SomeD)
  moreover from this have "n \<noteq> ''UnknownReasonCode''"
    using table_names_known unfolding list_all_iff by fastforce
  ultimately show ?thesis
    using Some by (auto simp: reason_to_string_def scan_code_eq rev_image_eqI)
qed

lemma scan_name_no_clash:
  "no_clash t \<Longrightarrow> (c, n) \<in> set t \<Longrightarrow> scan_name t n = Some c \<and> scan_code t c = n"
proof (induction t)
  case (Cons e t)
  then show ?case by (cases e) (fastforce simp: list_all_iff)
qed simp

definition reason_known :: "reason \<Rightarrow> bool" where
  "reason_known code = (reason_to_string code \<noteq> ''UnknownReasonCode'')"

lemma table_codes_small: "list_all (\<lambda>(c, n). c \<le> 0xFFFF) kReasonTable"
  unfolding kReasonTable_def by simp

lemma reason_known_small: "reason_known code \<Longrightarrow> code \<le> 0xFFFF"
  using table_codes_small unfolding reason_known_def reason_unknown_iff list_all_iff by auto

end
