(* ===== verification/Digest.thy ===== *)
theory Digest
  imports Prelude
begin

text \<open>
  SHA-256 (\<^verbatim>\<open>include/flow_offload/digest.hpp\<close>, \<^verbatim>\<open>src/digest.cpp\<close>): the incremental hasher
  with its 64-byte buffer as the code has it, a reference definition on whole messages, and
  the proof that the two agree however the message is cut into \<^verbatim>\<open>update\<close> calls.  The
  big-endian byte codecs shared by the hasher, the canonical encoding and the store are here.
\<close>

unbundle bit_operations_syntax

section \<open>Big-endian integers\<close>

definition be16 :: "u16 \<Rightarrow> byte list" where
  "be16 v = [ucast (drop_bit 8 v AND 0xFF), ucast (v AND 0xFF)]"

definition be32 :: "u32 \<Rightarrow> byte list" where
  "be32 v = [ucast (drop_bit 24 v AND 0xFF), ucast (drop_bit 16 v AND 0xFF),
             ucast (drop_bit 8 v AND 0xFF), ucast (v AND 0xFF)]"

definition be64 :: "u64 \<Rightarrow> byte list" where
  "be64 v = [ucast (drop_bit 56 v AND 0xFF), ucast (drop_bit 48 v AND 0xFF),
             ucast (drop_bit 40 v AND 0xFF), ucast (drop_bit 32 v AND 0xFF),
             ucast (drop_bit 24 v AND 0xFF), ucast (drop_bit 16 v AND 0xFF),
             ucast (drop_bit 8 v AND 0xFF), ucast (v AND 0xFF)]"

text \<open>The readers shift in one byte after the other; the list holds the bytes at the pointer.\<close>

definition un_be16 :: "byte list \<Rightarrow> u16" where
  "un_be16 p = push_bit 8 (ucast (p ! 0)) OR ucast (p ! 1)"

definition un_be32 :: "byte list \<Rightarrow> u32" where
  "un_be32 p = push_bit 24 (ucast (p ! 0)) OR push_bit 16 (ucast (p ! 1)) OR
               push_bit 8 (ucast (p ! 2)) OR ucast (p ! 3)"

fun un_be64_loop :: "u64 \<Rightarrow> byte list \<Rightarrow> u64" where
  "un_be64_loop value [] = value"
| "un_be64_loop value (b # bs) = un_be64_loop (push_bit 8 value OR ucast b) bs"

definition un_be64 :: "byte list \<Rightarrow> u64" where
  "un_be64 p = un_be64_loop 0 (take 8 p)"

section \<open>The hasher\<close>

type_synonym digest = "byte list"

definition digest_zero :: digest where
  "digest_zero = replicate 32 0"

definition digest_is_zero :: "digest \<Rightarrow> bool" where
  "digest_is_zero d = list_all (\<lambda>b. b = 0) d"

definition kHexDigits :: string where
  "kHexDigits = ''0123456789abcdef''"

definition digest_hex :: "digest \<Rightarrow> string" where
  "digest_hex d =
     concat (map (\<lambda>b. [kHexDigits ! unat (drop_bit 4 b AND 0x0F), kHexDigits ! unat (b AND 0x0F)]) d)"

definition kRoundConstants :: "u32 list" where
  "kRoundConstants = concat
    [[0x428a2f98, 0x71374491, 0xb5c0fbcf, 0xe9b5dba5, 0x3956c25b, 0x59f111f1, 0x923f82a4, 0xab1c5ed5],
     [0xd807aa98, 0x12835b01, 0x243185be, 0x550c7dc3, 0x72be5d74, 0x80deb1fe, 0x9bdc06a7, 0xc19bf174],
     [0xe49b69c1, 0xefbe4786, 0x0fc19dc6, 0x240ca1cc, 0x2de92c6f, 0x4a7484aa, 0x5cb0a9dc, 0x76f988da],
     [0x983e5152, 0xa831c66d, 0xb00327c8, 0xbf597fc7, 0xc6e00bf3, 0xd5a79147, 0x06ca6351, 0x14292967],
     [0x27b70a85, 0x2e1b2138, 0x4d2c6dfc, 0x53380d13, 0x650a7354, 0x766a0abb, 0x81c2c92e, 0x92722c85],
     [0xa2bfe8a1, 0xa81a664b, 0xc24b8b70, 0xc76c51a3, 0xd192e819, 0xd6990624, 0xf40e3585, 0x106aa070],
     [0x19a4c116, 0x1e376c08, 0x2748774c, 0x34b0bcb5, 0x391c0cb3, 0x4ed8aa4a, 0x5b9cca4f, 0x682e6ff3],
     [0x748f82ee, 0x78a5636f, 0x84c87814, 0x8cc70208, 0x90befffa, 0xa4506ceb, 0xbef9a3f7, 0xc67178f2]]"

definition rotr :: "u32 \<Rightarrow> nat \<Rightarrow> u32" where
  "rotr value amount = drop_bit amount value OR push_bit (32 - amount) value"

definition load_be32 :: "byte list \<Rightarrow> u32" where
  "load_be32 p = un_be32 p"

definition store_be32 :: "u32 \<Rightarrow> byte list" where
  "store_be32 value = be32 value"

record sha256 =
  sha_state :: "u32 list"
  sha_buffer :: "byte list"
  sha_buffered :: nat
  sha_total_bytes :: u64
  sha_finalized :: bool

definition sha256_init_state :: "u32 list" where
  "sha256_init_state =
     [0x6a09e667, 0xbb67ae85, 0x3c6ef372, 0xa54ff53a, 0x510e527f, 0x9b05688c, 0x1f83d9ab, 0x5be0cd19]"

definition sha256_init :: sha256 where
  "sha256_init = \<lparr>sha_state = sha256_init_state, sha_buffer = replicate 64 0, sha_buffered = 0,
     sha_total_bytes = 0, sha_finalized = False\<rparr>"

text \<open>The message schedule: the first sixteen words from the block, then 48 derived ones.\<close>

definition schedule_words :: "byte list \<Rightarrow> u32 list" where
  "schedule_words block = map (\<lambda>i. load_be32 (drop (i * 4) block)) [0..<16]"

fun schedule_extend :: "nat \<Rightarrow> u32 list \<Rightarrow> u32 list" where
  "schedule_extend 0 w = w"
| "schedule_extend (Suc n) w =
     (let i = length w;
          s0 = rotr (w ! (i - 15)) 7 XOR rotr (w ! (i - 15)) 18 XOR drop_bit 3 (w ! (i - 15));
          s1 = rotr (w ! (i - 2)) 17 XOR rotr (w ! (i - 2)) 19 XOR drop_bit 10 (w ! (i - 2))
      in schedule_extend n (w @ [w ! (i - 16) + s0 + w ! (i - 7) + s1]))"

fun sha_rounds ::
    "(u32 \<times> u32) list \<Rightarrow> u32 \<times> u32 \<times> u32 \<times> u32 \<times> u32 \<times> u32 \<times> u32 \<times> u32 \<Rightarrow> u32 list" where
  "sha_rounds [] (a, b, c, d, e, f, g, h) = [a, b, c, d, e, f, g, h]"
| "sha_rounds ((k, w) # rest) (a, b, c, d, e, f, g, h) =
     (let s1 = rotr e 6 XOR rotr e 11 XOR rotr e 25;
          ch = (e AND f) XOR (NOT e AND g);
          temp1 = h + s1 + ch + k + w;
          s0 = rotr a 2 XOR rotr a 13 XOR rotr a 22;
          maj = (a AND b) XOR (a AND c) XOR (b AND c);
          temp2 = s0 + maj
      in sha_rounds rest (temp1 + temp2, a, b, c, d + temp1, e, f, g))"

definition compress :: "u32 list \<Rightarrow> byte list \<Rightarrow> u32 list" where
  "compress st block =
     (let w = schedule_extend 48 (schedule_words block);
          out = sha_rounds (zip kRoundConstants w)
                  (st ! 0, st ! 1, st ! 2, st ! 3, st ! 4, st ! 5, st ! 6, st ! 7)
      in map2 (+) st out)"

text \<open>\<^verbatim>\<open>while (remaining >= 64)\<close>: compress whole blocks straight from the input.\<close>

function sha_blocks :: "u32 list \<Rightarrow> byte list \<Rightarrow> u32 list \<times> byte list" where
  "sha_blocks st p =
     (if length p \<ge> 64 then sha_blocks (compress st (take 64 p)) (drop 64 p) else (st, p))"
  by pat_completeness auto
termination sha_blocks
  by (relation "measure (\<lambda>(st, p). length p)") auto

declare sha_blocks.simps [simp del]

definition memcpy_at :: "byte list \<Rightarrow> nat \<Rightarrow> byte list \<Rightarrow> byte list" where
  "memcpy_at buf off src = take off buf @ src @ drop (off + length src) buf"

text \<open>The part of \<^verbatim>\<open>update\<close> that first fills a partly filled buffer.\<close>

definition sha_fill :: "sha256 \<Rightarrow> byte list \<Rightarrow> sha256 \<times> byte list" where
  "sha_fill h data =
     (if sha_buffered h > 0 then
        let need = 64 - sha_buffered h;
            taken = (if length data < need then length data else need);
            buf = memcpy_at (sha_buffer h) (sha_buffered h) (take taken data);
            n = sha_buffered h + taken
        in (if n = 64 then h\<lparr>sha_buffer := buf, sha_state := compress (sha_state h) buf, sha_buffered := 0\<rparr>
            else h\<lparr>sha_buffer := buf, sha_buffered := n\<rparr>,
            drop taken data)
      else (h, data))"

definition sha256_update :: "sha256 \<Rightarrow> byte list \<Rightarrow> sha256" where
  "sha256_update h data =
     (if sha_finalized h \<or> data = [] then h
      else let h1 = h\<lparr>sha_total_bytes := sha_total_bytes h + of_nat (length data)\<rparr>;
               (h2, p) = sha_fill h1 data;
               (st, rest) = sha_blocks (sha_state h2) p;
               h3 = h2\<lparr>sha_state := st\<rparr>
           in if rest \<noteq> []
              then h3\<lparr>sha_buffer := memcpy_at (sha_buffer h3) (sha_buffered h3) rest,
                      sha_buffered := sha_buffered h3 + length rest\<rparr>
              else h3)"

definition sha256_finish :: "sha256 \<Rightarrow> digest \<times> sha256" where
  "sha256_finish h =
     (if sha_finalized h then (digest_zero, h)
      else let bit_length = sha_total_bytes h * 8;
               pad_len = (if sha_buffered h < 56 then 56 - sha_buffered h else 120 - sha_buffered h);
               h1 = sha256_update h (take pad_len (0x80 # replicate 71 0));
               h2 = sha256_update h1 (be64 bit_length)
           in (concat (map store_be32 (sha_state h2)), h2\<lparr>sha_finalized := True\<rparr>))"

definition sha256_of :: "byte list \<Rightarrow> digest" where
  "sha256_of data = fst (sha256_finish (sha256_update sha256_init data))"

text \<open>\<^verbatim>\<open>Sha256::of(std::string_view)\<close>: the bytes of the text.\<close>

definition string_bytes :: "string \<Rightarrow> byte list" where
  "string_bytes s = map (\<lambda>c. of_nat (of_char c)) s"

definition sha256_of_text :: "string \<Rightarrow> digest" where
  "sha256_of_text text = sha256_of (string_bytes text)"

section \<open>Byte codecs\<close>

lemma length_be [byte_simps, simp]: "length (be16 v) = 2" "length (be32 w) = 4" "length (be64 x) = 8"
  by (simp_all add: be16_def be32_def be64_def)

lemma ucast_low_byte [simp]: "(ucast (w AND 0xFF :: 'a::len word) :: byte) = ucast w"
proof -
  have m: "(0xFF :: 'a word) = mask 8" by (simp add: mask_eq_exp_minus_1)
  show ?thesis
    unfolding m by (rule bit_word_eqI) (auto simp: bit_simps dest: bit_imp_le_length)
qed

text \<open>Shifting in the next byte of a word recovers the word one byte further down.\<close>

lemma shift_in_byte:
  "push_bit 8 (drop_bit (n + 8) v) OR ucast (ucast (drop_bit n v) :: byte) = drop_bit n (v :: 'a::len word)"
  by (rule bit_word_eqI) (auto simp: bit_simps)

lemma shift_in_top:
  "LENGTH('a) \<le> n + 8 \<Longrightarrow> ucast (ucast (drop_bit n v) :: byte) = drop_bit n (v :: 'a::len word)"
  by (rule bit_word_eqI) (auto simp: bit_simps dest: bit_imp_le_length)

lemma un_be16_be16 [byte_simps, simp]: "un_be16 (be16 v) = v"
  using shift_in_byte [of 0 v] shift_in_top [of 8 v] by (simp add: un_be16_def be16_def)

lemma un_be32_be32 [byte_simps, simp]: "un_be32 (be32 v) = v"
proof -
  have "push_bit 8 (push_bit 8 (push_bit 8 (drop_bit 24 v) OR ucast (ucast (drop_bit 16 v) :: byte))
      OR ucast (ucast (drop_bit 8 v) :: byte)) OR ucast (ucast v :: byte) = v"
    using shift_in_byte [of 0 v] shift_in_byte [of 8 v] shift_in_byte [of 16 v] by simp
  then show ?thesis
    using shift_in_top [of 24 v] by (simp add: un_be32_def be32_def push_bit_or ac_simps)
qed

lemma un_be64_be64 [byte_simps, simp]: "un_be64 (be64 v) = v"
  using shift_in_byte [of 0 v] shift_in_byte [of 8 v] shift_in_byte [of 16 v] shift_in_byte [of 24 v]
    shift_in_byte [of 32 v] shift_in_byte [of 40 v] shift_in_byte [of 48 v] shift_in_top [of 56 v]
  by (simp add: un_be64_def be64_def)


section \<open>The reference digest\<close>

text \<open>
  The padded message (FIPS 180-4): one \<open>0x80\<close> byte, zeros up to 56 modulo 64, and the length
  in bits as a 64-bit integer, hashed block by block.
\<close>

function blocks64 :: "byte list \<Rightarrow> byte list list" where
  "blocks64 m = (if length m < 64 then [] else take 64 m # blocks64 (drop 64 m))"
  by pat_completeness auto
termination blocks64
  by (relation "measure length") auto

declare blocks64.simps [simp del]

definition chain :: "byte list \<Rightarrow> u32 list" where
  "chain m = foldl compress sha256_init_state (blocks64 m)"

definition sha_padding :: "nat \<Rightarrow> byte list" where
  "sha_padding n =
     (let r = n mod 64; z = (if r < 56 then 55 - r else 119 - r)
      in 0x80 # replicate z 0 @ be64 (of_nat n * 8))"

definition sha256_ref :: "byte list \<Rightarrow> digest" where
  "sha256_ref m = concat (map be32 (chain (m @ sha_padding (length m))))"

lemma blocks64_append:
  "length m mod 64 = 0 \<Longrightarrow> blocks64 (m @ n) = blocks64 m @ blocks64 n"
proof (induction m rule: blocks64.induct)
  case (1 m)
  show ?case
  proof (cases "length m < 64")
    case True
    with "1.prems" have "m = []" by simp
    then show ?thesis by (simp add: blocks64.simps [of "[]"])
  next
    case False
    then have "blocks64 (drop 64 m @ n) = blocks64 (drop 64 m) @ blocks64 n"
      using 1 by (simp add: le_mod_geq)
    then show ?thesis
      using False by (simp add: blocks64.simps [of m] blocks64.simps [of "m @ n"])
  qed
qed

lemma blocks64_single [simp]: "length b = 64 \<Longrightarrow> blocks64 b = [b]"
  by (simp add: blocks64.simps [of b] blocks64.simps [of "[]"])

lemma sha_blocks_eq:
  "sha_blocks st p = (foldl compress st (blocks64 p), drop (length p - length p mod 64) p)"
proof (induction st p rule: sha_blocks.induct)
  case (1 st p)
  show ?case
  proof (cases "64 \<le> length p")
    case True
    have "drop (length p - 64 - (length p - 64) mod 64) (drop 64 p) = drop (length p - length p mod 64) p"
      using True by (simp add: le_mod_geq)
    then show ?thesis
      using 1 [OF True] True by (subst sha_blocks.simps) (simp add: blocks64.simps [of p])
  next
    case False
    then show ?thesis by (simp add: sha_blocks.simps [of st p] blocks64.simps [of p])
  qed
qed


text \<open>\<open>sha_repr h m\<close>: the hasher \<open>h\<close> has absorbed exactly the message \<open>m\<close>.\<close>

definition sha_repr :: "sha256 \<Rightarrow> byte list \<Rightarrow> bool" where
  "sha_repr h m \<longleftrightarrow> \<not> sha_finalized h \<and> length (sha_buffer h) = 64 \<and> sha_total_bytes h = of_nat (length m) \<and>
     (\<exists>full r. m = full @ r \<and> length full mod 64 = 0 \<and> length r < 64 \<and> sha_state h = chain full \<and>
        sha_buffered h = length r \<and> take (length r) (sha_buffer h) = r)"

lemma sha_repr_init: "sha_repr sha256_init []"
  by (simp add: sha_repr_def sha256_init_def chain_def blocks64.simps [of "[]"])

lemma chain_append: "length m mod 64 = 0 \<Longrightarrow> foldl compress (chain m) (blocks64 n) = chain (m @ n)"
  by (simp add: chain_def blocks64_append)

lemma length_memcpy_at: "off + length src \<le> length buf \<Longrightarrow> length (memcpy_at buf off src) = length buf"
  by (simp add: memcpy_at_def)

text \<open>Absorbing whole blocks and buffering the tail, from an empty buffer.\<close>

lemma sha_tail_repr:
  assumes "\<not> sha_finalized h" "length (sha_buffer h) = 64" "sha_buffered h = 0"
    and "sha_state h = chain full" "length full mod 64 = 0"
    and "sha_blocks (sha_state h) p = (st, rest)"
    and "sha_total_bytes h = of_nat (length full + length p)"
  shows "sha_repr (if rest \<noteq> []
      then h\<lparr>sha_state := st, sha_buffer := memcpy_at (sha_buffer h) (sha_buffered h) rest,
             sha_buffered := sha_buffered h + length rest\<rparr>
      else h\<lparr>sha_state := st\<rparr>) (full @ p)"
proof -
  define k where "k = length p - length p mod 64"
  have k: "k \<le> length p" "k mod 64 = 0" by (simp_all add: k_def minus_mod_eq_mult_div)
  have st: "st = foldl compress (chain full) (blocks64 p)" and rest: "rest = drop k p"
    using assms(4,6) by (auto simp: sha_blocks_eq k_def)
  have len: "length rest < 64" using k(1) by (simp add: rest k_def)
  have "blocks64 p = blocks64 (take k p)"
  proof -
    have "blocks64 (take k p @ drop k p) = blocks64 (take k p) @ blocks64 (drop k p)"
      using k by (intro blocks64_append) simp
    moreover have "blocks64 (drop k p) = []" using len rest by (subst blocks64.simps) simp
    ultimately show ?thesis by simp
  qed
  then have st': "st = chain (full @ take k p)" by (simp add: st chain_append assms(5))
  have full: "length (full @ take k p) mod 64 = 0"
    using k assms(5) by (metis add_self_mod_2 length_append length_take min.absorb2 mod_add_eq mod_mod_trivial add_0 mod_0)
  show ?thesis
    unfolding sha_repr_def
    by (rule conjI, use assms in simp, rule conjI, use assms len in \<open>simp add: length_memcpy_at\<close>,
        rule conjI, use assms in simp,
        intro exI [of _ "full @ take k p"] exI [of _ "rest"])
      (use assms len full st' rest in \<open>auto simp: memcpy_at_def\<close>)
qed

lemma sha_repr_update: "sha_repr h m \<Longrightarrow> sha_repr (sha256_update h d) (m @ d)"
proof -
  assume "sha_repr h m"
  then obtain full r where h: "\<not> sha_finalized h" "length (sha_buffer h) = 64"
      "sha_total_bytes h = of_nat (length m)" "m = full @ r" "length full mod 64 = 0" "length r < 64"
      "sha_state h = chain full" "sha_buffered h = length r" "take (length r) (sha_buffer h) = r"
    by (auto simp: sha_repr_def)
  define h1 where "h1 = h\<lparr>sha_total_bytes := sha_total_bytes h + of_nat (length d)\<rparr>"
  have total: "sha_total_bytes h1 = of_nat (length m + length d)" by (simp add: h1_def h)
  consider (none) "d = []" | (aligned) "d \<noteq> []" "r = []"
    | (short) "d \<noteq> []" "r \<noteq> []" "length r + length d < 64"
    | (fill) "d \<noteq> []" "r \<noteq> []" "64 \<le> length r + length d" by linarith
  then show ?thesis
  proof cases
    case none
    with \<open>sha_repr h m\<close> show ?thesis by (simp add: sha256_update_def)
  next
    case aligned
    obtain st rest where b: "sha_blocks (sha_state h1) d = (st, rest)" by fastforce
    have "sha256_update h d = (if rest \<noteq> []
      then h1\<lparr>sha_state := st, sha_buffer := memcpy_at (sha_buffer h1) (sha_buffered h1) rest,
             sha_buffered := sha_buffered h1 + length rest\<rparr>
      else h1\<lparr>sha_state := st\<rparr>)"
      using aligned h b by (simp add: sha256_update_def sha_fill_def h1_def Let_def)
    then show ?thesis
      using sha_tail_repr [OF _ _ _ _ h(5) b] h aligned total by (simp add: h1_def)
  next
    case short
    have "sha256_update h d =
        h1\<lparr>sha_buffer := memcpy_at (sha_buffer h) (length r) d, sha_buffered := length r + length d\<rparr>"
      using short h by (simp add: sha256_update_def sha_fill_def h1_def Let_def sha_blocks.simps [of _ "[]"])
    moreover have "\<exists>full' r'. m @ d = full' @ r' \<and> length full' mod 64 = 0 \<and> length r' < 64 \<and>
        chain full = chain full' \<and> length r + length d = length r' \<and>
        take (length r') (memcpy_at (sha_buffer h) (length r) d) = r'"
      by (rule exI [of _ full], rule exI [of _ "r @ d"]) (use short h in \<open>simp add: memcpy_at_def\<close>)
    ultimately show ?thesis
      using short h total by (simp add: sha_repr_def h1_def length_memcpy_at)
  next
    case fill
    define need where "need = 64 - length r"
    define blk where "blk = r @ take need d"
    define h2 where "h2 = h1\<lparr>sha_buffer := blk, sha_state := compress (chain full) blk, sha_buffered := 0\<rparr>"
    have blk: "length blk = 64" using fill h(6) by (simp add: blk_def need_def)
    have buf: "memcpy_at (sha_buffer h) (length r) (take need d) = blk"
      using fill h by (simp add: memcpy_at_def blk_def need_def)
    obtain st rest where b: "sha_blocks (sha_state h2) (drop need d) = (st, rest)" by fastforce
    have take_len: "(if length d < need then length d else need) = need"
      using fill by (simp add: need_def)
    have "sha256_update h d = (if rest \<noteq> []
      then h2\<lparr>sha_state := st, sha_buffer := memcpy_at (sha_buffer h2) (sha_buffered h2) rest,
             sha_buffered := sha_buffered h2 + length rest\<rparr>
      else h2\<lparr>sha_state := st\<rparr>)"
      using fill h b buf take_len
      by (simp add: sha256_update_def sha_fill_def h1_def h2_def Let_def need_def [symmetric])
        (simp add: need_def)
    moreover have "sha_repr (if rest \<noteq> []
      then h2\<lparr>sha_state := st, sha_buffer := memcpy_at (sha_buffer h2) (sha_buffered h2) rest,
             sha_buffered := sha_buffered h2 + length rest\<rparr>
      else h2\<lparr>sha_state := st\<rparr>) ((full @ blk) @ drop need d)"
    proof (rule sha_tail_repr [OF _ _ _ _ _ b])
      show "sha_state h2 = chain (full @ blk)"
        using chain_append [OF h(5), of blk] blk by (simp add: h2_def)
      show "length (full @ blk) mod 64 = 0" using h(5) blk by simp
      show "sha_total_bytes h2 = of_nat (length (full @ blk) + length (drop need d))"
        using fill total h(4,6) blk by (simp add: h2_def need_def)
    qed (use h blk in \<open>simp_all add: h2_def h1_def\<close>)
    ultimately show ?thesis by (simp add: h(4) blk_def)
  qed
qed

lemma sha_repr_pending: "sha_repr h m \<Longrightarrow> sha_buffered h = length m mod 64"
  by (auto simp: sha_repr_def mod_add_left_eq [symmetric] simp del: mod_add_left_eq)

lemma sha_repr_complete: "sha_repr h m \<Longrightarrow> length m mod 64 = 0 \<Longrightarrow> sha_state h = chain m"
  using sha_repr_pending [of h m] by (auto simp: sha_repr_def)

lemma sha_padding_cut:
  assumes "n mod 64 = r" and "pad_len = (if r < 56 then 56 - r else 120 - r)"
  shows "take pad_len (0x80 # replicate 71 0) @ be64 (of_nat n * 8) = sha_padding n"
proof -
  have "pad_len = Suc (if r < 56 then 55 - r else 119 - r)"
    using assms by (auto simp: Suc_diff_le)
  then show ?thesis using assms(1) by (auto simp: sha_padding_def Let_def)
qed

lemma sha_padding_aligns: "(n + length (sha_padding n)) mod 64 = 0"
proof -
  have "n mod 64 + length (sha_padding n) = (if n mod 64 < 56 then 64 else 128)"
    using mod_less_divisor [of 64 n] by (auto simp: sha_padding_def Let_def)
  then have "(n mod 64 + length (sha_padding n)) mod 64 = 0" by (auto split: if_splits)
  then show ?thesis by (simp add: mod_add_left_eq)
qed

lemma sha_repr_finish: "sha_repr h m \<Longrightarrow> fst (sha256_finish h) = sha256_ref m"
proof -
  assume h: "sha_repr h m"
  then have nf: "\<not> sha_finalized h" and tot: "sha_total_bytes h = of_nat (length m)"
    by (simp_all add: sha_repr_def)
  define pad_len where "pad_len = (if sha_buffered h < 56 then 56 - sha_buffered h else 120 - sha_buffered h)"
  define h2 where "h2 = sha256_update (sha256_update h (take pad_len (0x80 # replicate 71 0)))
      (be64 (sha_total_bytes h * 8))"
  have "take pad_len (0x80 # replicate 71 0) @ be64 (of_nat (length m) * 8) = sha_padding (length m)"
    using sha_padding_cut [OF refl, of pad_len "length m"] by (simp only: pad_len_def sha_repr_pending [OF h])
  then have "sha_repr h2 (m @ sha_padding (length m))"
    using sha_repr_update [OF sha_repr_update [OF h]] unfolding h2_def tot
    by (metis append.assoc)
  then have "sha_state h2 = chain (m @ sha_padding (length m))"
    using sha_repr_complete sha_padding_aligns by fastforce
  then show ?thesis
    using nf unfolding sha256_finish_def
    by (simp add: Let_def pad_len_def [symmetric] h2_def [symmetric] sha256_ref_def store_be32_def [abs_def])
qed

section \<open>The incremental interface\<close>

text \<open>
  Clients hash a record in pieces.  What they rely on is that only the concatenation of the
  pieces matters.
\<close>

locale incremental_hash =
  fixes init :: 'h
    and update :: "'h \<Rightarrow> 'b list \<Rightarrow> 'h"
    and finish :: "'h \<Rightarrow> 'd"
    and repr :: "'h \<Rightarrow> 'b list \<Rightarrow> bool"
    and hash :: "'b list \<Rightarrow> 'd"
  assumes repr_init: "repr init []"
    and repr_update: "repr h m \<Longrightarrow> repr (update h d) (m @ d)"
    and repr_finish: "repr h m \<Longrightarrow> finish h = hash m"
begin

lemma repr_foldl: "repr h m \<Longrightarrow> repr (foldl update h ds) (m @ concat ds)"
proof (induction ds arbitrary: h m)
  case (Cons d ds)
  then show ?case using repr_update [of h m d] by fastforce
qed simp

lemma pieces: "finish (foldl update init ds) = hash (concat ds)"
  using repr_finish [OF repr_foldl [OF repr_init]] by simp

end

interpretation sha: incremental_hash sha256_init sha256_update "\<lambda>h. fst (sha256_finish h)" sha_repr sha256_ref
  by unfold_locales (simp_all add: sha_repr_init sha_repr_update sha_repr_finish)

lemma sha256_of_ref: "sha256_of m = sha256_ref m"
  using sha.pieces [of "[m]"] by (simp add: sha256_of_def)

lemma length_compress: "length st = 8 \<Longrightarrow> length (compress st b) = 8"
proof -
  have r: "length (sha_rounds ws (a, b, c, d, e, f, g, h)) = 8" for ws a b c d e f g h
    by (induction ws "(a, b, c, d, e, f, g, h)" arbitrary: a b c d e f g h rule: sha_rounds.induct)
      (simp_all add: Let_def)
  show "length st = 8 \<Longrightarrow> length (compress st b) = 8" by (simp add: compress_def Let_def r)
qed

lemma length_chain: "length (chain m) = 8"
proof -
  have "length st = 8 \<Longrightarrow> length (foldl compress st bs) = 8" for st bs
    by (induction bs arbitrary: st) (simp_all add: length_compress)
  then show ?thesis by (simp add: chain_def sha256_init_state_def)
qed

lemma length_sha256_of [simp]: "length (sha256_of m) = 32"
proof -
  have "length (concat (map be32 ws)) = 4 * length ws" for ws by (induction ws) simp_all
  then show ?thesis by (simp add: sha256_of_ref sha256_ref_def length_chain)
qed

section \<open>Properties\<close>

text \<open>
  C25: The incremental hasher computes SHA-256: however a message is cut into pieces that are
  fed to the block buffer, finishing yields the reference digest (pad to a multiple of 64
  bytes with the bit length, then chain the compression function over the blocks).
\<close>

theorem sha256_incremental_correct:
  "fst (sha256_finish (foldl sha256_update sha256_init pieces)) = sha256_ref (concat pieces)"
  by (rule sha.pieces)

end
