(* ===== verification/Canonical.thy ===== *)
theory Canonical
  imports Reason Digest
begin

text \<open>
  The canonical byte codec (\<^verbatim>\<open>include/flow_offload/canonical.hpp\<close>, \<^verbatim>\<open>src/canonical.cpp\<close>):
  a bounded writer that latches an overflow, a bounds-checked reader that latches its first
  failure, and the insertion sort that canonicalises collections.  The locale \<open>codec\<close> is the
  contract between an encoder and its decoder; every record codec of the development is an
  instance of it.  Allocation failure (\<^verbatim>\<open>std::bad_alloc\<close>) is not modelled.
\<close>

section \<open>Writer\<close>

record cwriter =
  cw_buffer :: "byte list"
  cw_limit :: nat
  cw_overflow :: bool

definition kMaxCanonicalBytes :: nat where
  "kMaxCanonicalBytes = 64 * 1024 * 1024"

definition canonical_writer :: "nat \<Rightarrow> cwriter" where
  "canonical_writer max_bytes = \<lparr>cw_buffer = [], cw_limit = max_bytes, cw_overflow = False\<rparr>"

definition w_put :: "byte list \<Rightarrow> cwriter \<Rightarrow> cwriter" where
  "w_put data w =
     (if cw_overflow w then w
      else if length data > cw_limit w -
          (if length (cw_buffer w) < cw_limit w then length (cw_buffer w) else cw_limit w)
      then w\<lparr>cw_overflow := True\<rparr>
      else w\<lparr>cw_buffer := cw_buffer w @ data\<rparr>)"

definition w_u8 :: "u8 \<Rightarrow> cwriter \<Rightarrow> cwriter" where
  "w_u8 v = w_put [v]"

definition w_u16 :: "u16 \<Rightarrow> cwriter \<Rightarrow> cwriter" where
  "w_u16 v = w_put (be16 v)"

definition w_u32 :: "u32 \<Rightarrow> cwriter \<Rightarrow> cwriter" where
  "w_u32 v = w_put (be32 v)"

definition w_u64 :: "u64 \<Rightarrow> cwriter \<Rightarrow> cwriter" where
  "w_u64 v = w_put (be64 v)"

definition w_i64 :: "int \<Rightarrow> cwriter \<Rightarrow> cwriter" where
  "w_i64 v = w_u64 (word_of_int v)"

definition w_boolean :: "bool \<Rightarrow> cwriter \<Rightarrow> cwriter" where
  "w_boolean v = w_u8 (if v then 1 else 0)"

definition w_fixed :: "byte list \<Rightarrow> cwriter \<Rightarrow> cwriter" where
  "w_fixed data w = (if data \<noteq> [] then w_put data w else w)"

definition w_digest :: "digest \<Rightarrow> cwriter \<Rightarrow> cwriter" where
  "w_digest v = w_put v"

definition w_blob :: "byte list \<Rightarrow> cwriter \<Rightarrow> cwriter" where
  "w_blob data w =
     (if length data > 0xFFFFFFFF then w\<lparr>cw_overflow := True\<rparr>
      else w_fixed data (w_u32 (of_nat (length data)) w))"

definition w_text :: "string \<Rightarrow> cwriter \<Rightarrow> cwriter" where
  "w_text v = w_blob (string_bytes v)"

definition w_ok :: "cwriter \<Rightarrow> bool" where
  "w_ok w = (\<not> cw_overflow w)"

text \<open>A record encoder is a sequence of field writes.\<close>

definition w_seq :: "(cwriter \<Rightarrow> cwriter) \<Rightarrow> (cwriter \<Rightarrow> cwriter) \<Rightarrow> cwriter \<Rightarrow> cwriter" where
  "w_seq f g w = g (f w)"

definition w_done :: "cwriter \<Rightarrow> cwriter" where
  "w_done w = w"

fun w_all :: "(cwriter \<Rightarrow> cwriter) list \<Rightarrow> cwriter \<Rightarrow> cwriter" where
  "w_all [] = w_done"
| "w_all (f # fs) = w_seq f (w_all fs)"

section \<open>Reader\<close>

record creader =
  cr_data :: "byte list"
  cr_position :: nat
  cr_failed :: bool
  cr_reason :: reason

definition canonical_reader :: "byte list \<Rightarrow> creader" where
  "canonical_reader data = \<lparr>cr_data = data, cr_position = 0, cr_failed = False, cr_reason = ReasonOk\<rparr>"

text \<open>A read returns \<open>None\<close> where the code returns \<^verbatim>\<open>false\<close>.\<close>

type_synonym 'a rd = "creader \<Rightarrow> 'a option \<times> creader"

definition r_fail :: "reason \<Rightarrow> creader \<Rightarrow> creader" where
  "r_fail code r = (if cr_failed r then r else r\<lparr>cr_failed := True, cr_reason := code\<rparr>)"

definition r_reject :: "reason \<Rightarrow> 'a rd" where
  "r_reject code r = (None, r_fail code r)"

definition r_take :: "nat \<Rightarrow> byte list rd" where
  "r_take n r =
     (if cr_failed r then (None, r)
      else if n > length (cr_data r) - cr_position r then (None, r_fail RejectedTruncatedInput r)
      else (Some (take n (drop (cr_position r) (cr_data r))),
            r\<lparr>cr_position := cr_position r + n\<rparr>))"

definition r_remaining :: "creader \<Rightarrow> nat" where
  "r_remaining r =
     (if cr_failed r \<or> cr_position r > length (cr_data r) then 0
      else length (cr_data r) - cr_position r)"

definition r_at_end :: "creader \<Rightarrow> bool" where
  "r_at_end r = (cr_position r = length (cr_data r))"

definition r_bind :: "'a rd \<Rightarrow> ('a \<Rightarrow> 'b rd) \<Rightarrow> 'b rd" where
  "r_bind m f r = (case m r of (None, r') \<Rightarrow> (None, r') | (Some x, r') \<Rightarrow> f x r')"

definition r_return :: "'a \<Rightarrow> 'a rd" where
  "r_return x r = (Some x, r)"

definition r_u8 :: "u8 rd" where
  "r_u8 = r_bind (r_take 1) (\<lambda>p. r_return (p ! 0))"

definition r_u16 :: "u16 rd" where
  "r_u16 = r_bind (r_take 2) (\<lambda>p. r_return (un_be16 p))"

definition r_u32 :: "u32 rd" where
  "r_u32 = r_bind (r_take 4) (\<lambda>p. r_return (un_be32 p))"

definition r_u64 :: "u64 rd" where
  "r_u64 = r_bind (r_take 8) (\<lambda>p. r_return (un_be64 p))"

definition r_i64 :: "int rd" where
  "r_i64 = r_bind r_u64 (\<lambda>raw. r_return (sint raw))"

definition r_boolean :: "bool rd" where
  "r_boolean = r_bind r_u8 (\<lambda>raw.
     if raw > 1 then r_reject RejectedMalformedInput else r_return (raw = 1))"

definition r_fixed :: "nat \<Rightarrow> byte list rd" where
  "r_fixed n = r_take n"

definition r_digest :: "digest rd" where
  "r_digest = r_take 32"

definition r_blob :: "nat \<Rightarrow> byte list rd" where
  "r_blob max_bytes = r_bind r_u32 (\<lambda>len.
     if unat len > max_bytes then r_reject RejectedOversizedInput else r_take (unat len))"

definition bytes_string :: "byte list \<Rightarrow> string" where
  "bytes_string bs = map (\<lambda>b. char_of (unat b)) bs"

definition r_text :: "nat \<Rightarrow> string rd" where
  "r_text max_bytes = r_bind r_u32 (\<lambda>len.
     if unat len > max_bytes then r_reject RejectedOversizedInput
     else r_bind (r_take (unat len)) (\<lambda>p. r_return (bytes_string p)))"

definition r_skip :: "nat \<Rightarrow> unit rd" where
  "r_skip n = r_bind (r_take n) (\<lambda>_. r_return ())"

section \<open>Canonical order\<close>

text \<open>
  \<^verbatim>\<open>canonical_sort\<close>: insertion sort in place.  The inner loop shifts elements greater than
  the key one slot to the right, from position \<open>j\<close> downwards.
\<close>

fun sort_shift :: "'a::linorder list \<Rightarrow> nat \<Rightarrow> 'a \<Rightarrow> 'a list" where
  "sort_shift values 0 key = values[0 := key]"
| "sort_shift values (Suc j) key =
     (if values ! j > key then sort_shift (values[Suc j := values ! j]) j key
      else values[Suc j := key])"

definition canonical_sort :: "'a::linorder list \<Rightarrow> 'a list" where
  "canonical_sort values = foldl (\<lambda>vs i. sort_shift vs i (vs ! i)) values [1..<length values]"

lemma length_sort_shift [simp]: "length (sort_shift vs j key) = length vs"
  by (induction vs j key rule: sort_shift.induct) auto

lemma insort_snoc_greater: "key < y \<Longrightarrow> insort key (xs @ [y]) = insort key xs @ [y]"
  by (induction xs) auto

lemma insort_snoc_least: "sorted xs \<Longrightarrow> \<forall>x\<in>set xs. x \<le> key \<Longrightarrow> insort key xs = xs @ [key]"
proof (induction xs)
  case (Cons x xs)
  show ?case
  proof (cases "key \<le> x")
    case True
    with Cons.prems have "x = key" and "\<forall>z\<in>set xs. key \<le> z" by auto
    then have "xs @ [key] = key # xs" using Cons by (simp add: insort_is_Cons)
    then show ?thesis using \<open>x = key\<close> by simp
  qed (use Cons in auto)
qed simp

text \<open>The shift inserts the key into the sorted prefix and leaves the rest alone.\<close>

lemma sort_shift_insort:
  assumes "sorted (take j vs)" and "j < length vs"
  shows "sort_shift vs j key = insort key (take j vs) @ drop (Suc j) vs"
  using assms
proof (induction vs j key rule: sort_shift.induct)
  case (1 vs key)
  then show ?case by (cases vs) auto
next
  case (2 vs j key)
  have pre: "take (Suc j) vs = take j vs @ [vs ! j]"
    using "2.prems"(2) by (simp add: take_Suc_conv_app_nth)
  have srt: "sorted (take j vs)" and le: "\<forall>x\<in>set (take j vs). x \<le> vs ! j"
    using "2.prems"(1) unfolding pre by (auto simp: sorted_append)
  show ?case
  proof (cases "key < vs ! j")
    case True
    have "sort_shift (vs[Suc j := vs ! j]) j key = insort key (take j vs) @ drop (Suc j) (vs[Suc j := vs ! j])"
      using "2.IH" [OF True] srt "2.prems"(2) by simp
    moreover have "drop (Suc j) (vs[Suc j := vs ! j]) = vs ! j # drop (Suc (Suc j)) vs"
      using "2.prems"(2) by (simp add: upd_conv_take_nth_drop)
    moreover have "insort key (take (Suc j) vs) = insort key (take j vs) @ [vs ! j]"
      using True unfolding pre by (rule insort_snoc_greater)
    ultimately show ?thesis using True by simp
  next
    case False
    have "insort key (take (Suc j) vs) = take (Suc j) vs @ [key]"
    proof -
      have "\<forall>x\<in>set (take (Suc j) vs). x \<le> key" using le False unfolding pre by auto
      moreover have "sorted (take (Suc j) vs)" by (fact "2.prems"(1))
      ultimately show ?thesis by (intro insort_snoc_least)
    qed
    moreover have "vs[Suc j := key] = take (Suc j) vs @ key # drop (Suc (Suc j)) vs"
      using "2.prems"(2) by (simp add: upd_conv_take_nth_drop)
    ultimately show ?thesis using False by simp
  qed
qed

lemma canonical_sort_prefix:
  assumes "k \<le> length vs" and "1 \<le> k"
  shows "foldl (\<lambda>vs i. sort_shift vs i (vs ! i)) vs [1..<k] = sort (take k vs) @ drop k vs"
  using assms(2,1)
proof (induction k rule: dec_induct)
  case base
  then show ?case by (cases vs) auto
next
  case (step n)
  let ?ws = "sort (take n vs) @ drop n vs"
  have fold: "foldl (\<lambda>vs i. sort_shift vs i (vs ! i)) vs [1..<Suc n] = sort_shift ?ws n (?ws ! n)"
    using step by (simp add: upt_Suc_append)
  have len: "length (sort (take n vs)) = n" using step by simp
  have key: "?ws ! n = vs ! n" using step len by (simp add: nth_append)
  have pre: "take n ?ws = sort (take n vs)" and post: "drop (Suc n) ?ws = drop (Suc n) vs"
    using len by simp_all
  have "sort_shift ?ws n (?ws ! n) = insort (vs ! n) (sort (take n vs)) @ drop (Suc n) vs"
    using sort_shift_insort [of n ?ws "vs ! n"] step len unfolding key pre post by simp
  moreover have "insort (vs ! n) (sort (take n vs)) = sort (take (Suc n) vs)"
    using step.hyps step.prems
    by (simp add: take_Suc_conv_app_nth) (rule sym, rule properties_for_sort, simp_all add: sorted_insort)
  ultimately show ?case unfolding fold by simp
qed

lemma canonical_sort_sort: "canonical_sort vs = sort vs"
proof (cases vs)
  case (Cons v ws)
  then show ?thesis
    using canonical_sort_prefix [of "length vs" vs] by (simp add: canonical_sort_def)
qed (simp add: canonical_sort_def)

section \<open>The codec contract\<close>

text \<open>
  \<open>writes e bs\<close>: where the write sequence \<open>e\<close> succeeds, it has appended exactly \<open>bs\<close>.
  \<open>reads d x bs\<close>: on a reader positioned at \<open>bs\<close>, \<open>d\<close> yields \<open>x\<close> and consumes \<open>bs\<close>.
\<close>

definition writes :: "(cwriter \<Rightarrow> cwriter) \<Rightarrow> byte list \<Rightarrow> bool" where
  "writes e bs \<longleftrightarrow> (\<forall>w. w_ok (e w) \<longrightarrow> w_ok w \<and> cw_buffer (e w) = cw_buffer w @ bs \<and> cw_limit (e w) = cw_limit w)"

definition reads :: "'a rd \<Rightarrow> 'a \<Rightarrow> byte list \<Rightarrow> bool" where
  "reads d x bs \<longleftrightarrow> (\<forall>r rest. \<not> cr_failed r \<longrightarrow> cr_position r \<le> length (cr_data r) \<longrightarrow>
     drop (cr_position r) (cr_data r) = bs @ rest \<longrightarrow>
     d r = (Some x, r\<lparr>cr_position := cr_position r + length bs\<rparr>))"

definition codec_at :: "(cwriter \<Rightarrow> cwriter) \<Rightarrow> 'a rd \<Rightarrow> 'a \<Rightarrow> bool" where
  "codec_at e d x \<longleftrightarrow> (\<exists>bs. writes e bs \<and> reads d x bs)"

lemma writes_put: "writes (w_put bs) bs"
  by (auto simp: writes_def w_put_def w_ok_def)

lemma writesD:
  "writes e bs \<Longrightarrow> w_ok (e w) \<Longrightarrow> w_ok w \<and> cw_buffer (e w) = cw_buffer w @ bs \<and> cw_limit (e w) = cw_limit w"
  by (simp add: writes_def)

lemma readsD:
  "reads d x bs \<Longrightarrow> \<not> cr_failed r \<Longrightarrow> cr_position r \<le> length (cr_data r) \<Longrightarrow>
     drop (cr_position r) (cr_data r) = bs @ rest \<Longrightarrow>
     d r = (Some x, r\<lparr>cr_position := cr_position r + length bs\<rparr>)"
  by (simp add: reads_def)

lemma writes_seq:
  assumes "writes e bs" and "writes f cs"
  shows "writes (w_seq e f) (bs @ cs)"
  unfolding writes_def w_seq_def
proof (intro allI impI)
  fix w
  assume "w_ok (f (e w))"
  from writesD [OF assms(2) this] writesD [OF assms(1), of w]
  show "w_ok w \<and> cw_buffer (f (e w)) = cw_buffer w @ bs @ cs \<and> cw_limit (f (e w)) = cw_limit w"
    by simp
qed

lemma writes_done: "writes w_done []"
  by (simp add: writes_def w_done_def)

lemma reads_take: "reads (r_take (length bs)) bs bs"
  unfolding reads_def r_take_def
proof (intro allI impI)
  fix r :: creader and rest
  assume "\<not> cr_failed r" "cr_position r \<le> length (cr_data r)"
    and d: "drop (cr_position r) (cr_data r) = bs @ rest"
  have "length (cr_data r) - cr_position r = length bs + length rest"
    using arg_cong [OF d, of length] by simp
  then show "(if cr_failed r then (None, r)
      else if length bs > length (cr_data r) - cr_position r then (None, r_fail RejectedTruncatedInput r)
      else (Some (take (length bs) (drop (cr_position r) (cr_data r))),
            r\<lparr>cr_position := cr_position r + length bs\<rparr>)) =
      (Some bs, r\<lparr>cr_position := cr_position r + length bs\<rparr>)"
    using \<open>\<not> cr_failed r\<close> d by simp
qed

lemma reads_return: "reads (r_return x) x []"
  by (simp add: reads_def r_return_def)

lemma reads_bind:
  assumes "reads m x bs" and "reads (f x) y cs"
  shows "reads (r_bind m f) y (bs @ cs)"
  unfolding reads_def
proof (intro allI impI)
  fix r :: creader and rest
  assume r: "\<not> cr_failed r" "cr_position r \<le> length (cr_data r)"
    and d: "drop (cr_position r) (cr_data r) = (bs @ cs) @ rest"
  have "length (cr_data r) - cr_position r = length bs + length cs + length rest"
    using arg_cong [OF d, of length] by simp
  with r(2) have "cr_position r + length bs \<le> length (cr_data r)" by linarith
  moreover have "drop (cr_position r + length bs) (cr_data r) = cs @ rest"
    using arg_cong [OF d, of "drop (length bs)"] by (simp add: add.commute)
  ultimately show "r_bind m f r = (Some y, r\<lparr>cr_position := cr_position r + length (bs @ cs)\<rparr>)"
    using readsD [OF assms(1) r, of "cs @ rest"] d
      readsD [OF assms(2), of "r\<lparr>cr_position := cr_position r + length bs\<rparr>" rest] r(1)
    by (simp add: r_bind_def add.assoc)
qed

lemma reads_map:
  assumes "reads m x bs"
  shows "reads (r_bind m (\<lambda>z. r_return (g z))) (g x) bs"
  using reads_bind [of m x bs "\<lambda>z. r_return (g z)" "g x" "[]"] assms reads_return [of "g x"] by simp

named_theorems codec_intros \<open>codecs of the record fields\<close>

lemma codec_seq:
  "codec_at e d x \<Longrightarrow> codec_at f (g x) y \<Longrightarrow> codec_at (w_seq e f) (r_bind d g) y"
  unfolding codec_at_def by (elim exE conjE) (rule exI, rule conjI, rule writes_seq, assumption+, rule reads_bind)

lemma codec_done: "x = y \<Longrightarrow> codec_at w_done (r_return x) y"
  using writes_done reads_return [of x] by (auto simp: codec_at_def intro!: exI [of _ "[]"])

lemma codec_u8 [codec_intros]: "codec_at (w_u8 v) r_u8 v"
  unfolding codec_at_def w_u8_def r_u8_def
  using writes_put [of "[v]"] reads_map [OF reads_take [of "[v]"], of "\<lambda>p. p ! 0"] by auto

lemma codec_u16 [codec_intros]: "codec_at (w_u16 v) r_u16 v"
  unfolding codec_at_def w_u16_def r_u16_def
  using writes_put [of "be16 v"] reads_map [OF reads_take [of "be16 v"], of un_be16] by auto

lemma codec_u32 [codec_intros]: "codec_at (w_u32 v) r_u32 v"
  unfolding codec_at_def w_u32_def r_u32_def
  using writes_put [of "be32 v"] reads_map [OF reads_take [of "be32 v"], of un_be32] by auto

lemma codec_u64 [codec_intros]: "codec_at (w_u64 v) r_u64 v"
  unfolding codec_at_def w_u64_def r_u64_def
  using writes_put [of "be64 v"] reads_map [OF reads_take [of "be64 v"], of un_be64] by auto

lemma codec_i64: "- (2 ^ 63) \<le> v \<Longrightarrow> v < 2 ^ 63 \<Longrightarrow> codec_at (w_i64 v) r_i64 v"
  using codec_u64 [of "word_of_int v"] reads_map [of r_u64 "word_of_int v" _ sint]
  by (auto simp: codec_at_def w_i64_def r_i64_def signed_of_int signed_take_bit_int_eq_self)

text \<open>A read validated by a guard that the value passes.\<close>

lemma codec_guard:
  assumes "codec_at e d x" and "\<not> bad x"
  shows "codec_at e (r_bind d (\<lambda>z. if bad z then r_reject code else r_return (g z))) (g x)"
proof -
  obtain bs where "writes e bs" "reads d x bs" using assms(1) by (auto simp: codec_at_def)
  moreover have "reads (if bad x then r_reject code else r_return (g x)) (g x) []"
    using assms(2) by (simp add: reads_return)
  ultimately show ?thesis
    unfolding codec_at_def
    using reads_bind [of d x bs "\<lambda>z. if bad z then r_reject code else r_return (g z)" "g x" "[]"]
    by (intro exI [of _ bs]) simp
qed

lemma codec_boolean [codec_intros]: "codec_at (w_boolean v) r_boolean v"
  using codec_guard [OF codec_u8, where bad = "\<lambda>raw. raw > 1" and g = "\<lambda>raw. raw = 1"
      and x = "if v then 1 else 0" and code = RejectedMalformedInput]
  unfolding w_boolean_def r_boolean_def by (cases v) simp_all

lemma codec_digest [codec_intros]: "length v = 32 \<Longrightarrow> codec_at (w_digest v) r_digest v"
  unfolding codec_at_def w_digest_def r_digest_def
  using writes_put [of v] reads_take [of v] by auto

lemma bytes_string_string_bytes: "bytes_string (string_bytes s) = s"
  by (simp add: bytes_string_def string_bytes_def comp_def unat_of_nat take_bit_eq_mod)

lemma writes_fixed: "writes (w_fixed bs) bs"
  using writes_put [of bs] by (auto simp: writes_def w_fixed_def)

lemma codec_text [codec_intros]:
  assumes "length v \<le> max_bytes" and "length v < 2 ^ 32"
  shows "codec_at (w_text v) (r_text max_bytes) v"
proof -
  let ?bs = "string_bytes v"
  have len: "length ?bs = length v" by (simp add: string_bytes_def)
  have u: "unat (of_nat (length v) :: u32) = length v"
    using assms(2) by (simp add: unat_of_nat take_bit_nat_eq_self)
  have "w_text v = w_seq (w_u32 (of_nat (length v))) (w_fixed ?bs)"
    using assms(2) by (auto simp: w_text_def w_blob_def w_seq_def len fun_eq_iff)
  then have w: "writes (w_text v) (be32 (of_nat (length v)) @ ?bs)"
    using writes_seq [OF writes_put writes_fixed] by (simp add: w_u32_def)
  have "reads r_u32 (of_nat (length v)) (be32 (of_nat (length v)))"
    unfolding r_u32_def using reads_map [OF reads_take [of "be32 (of_nat (length v))"], of un_be32] by simp
  moreover have "reads (r_bind (r_take (length v)) (\<lambda>p. r_return (bytes_string p))) v ?bs"
    using reads_map [OF reads_take [of ?bs], of bytes_string] by (simp add: len bytes_string_string_bytes)
  moreover have "reads (if unat (of_nat (length v) :: u32) > max_bytes then r_reject RejectedOversizedInput
      else r_bind (r_take (unat (of_nat (length v) :: u32))) (\<lambda>p. r_return (bytes_string p))) v ?bs"
    if "reads (r_bind (r_take (length v)) (\<lambda>p. r_return (bytes_string p))) v ?bs"
    using that assms(1) unfolding u by simp
  ultimately have "reads (r_text max_bytes) v (be32 (of_nat (length v)) @ ?bs)"
    unfolding r_text_def by (intro reads_bind) blast+
  with w show ?thesis unfolding codec_at_def by blast
qed

text \<open>
  The contract.  A client that encodes a valid value into a fresh writer and decodes the
  bytes gets the value back and the reader ends exactly at the end; so valid values with
  equal encodings are equal.
\<close>

locale codec =
  fixes encode :: "'a \<Rightarrow> cwriter \<Rightarrow> cwriter"
    and decode :: "'a rd"
    and valid :: "'a \<Rightarrow> bool"
  assumes law: "valid v \<Longrightarrow> codec_at (encode v) decode v"
begin

lemma roundtrip:
  assumes "valid v" and "w_ok (encode v (canonical_writer limit))"
  shows "\<exists>r. decode (canonical_reader (cw_buffer (encode v (canonical_writer limit)))) = (Some v, r) \<and>
    r_at_end r \<and> \<not> cr_failed r"
proof -
  let ?w = "encode v (canonical_writer limit)"
  obtain bs where w: "writes (encode v) bs" and r: "reads decode v bs"
    using law [OF assms(1)] by (auto simp: codec_at_def)
  have "cw_buffer ?w = bs"
    using writesD [OF w assms(2)] by (simp add: canonical_writer_def)
  then show ?thesis
    using readsD [OF r, of "canonical_reader (cw_buffer ?w)" "[]"]
    by (simp add: canonical_reader_def r_at_end_def)
qed

lemma injective:
  assumes "valid u" "valid v" "w_ok (encode u (canonical_writer limit))"
    and "cw_buffer (encode u (canonical_writer limit)) = cw_buffer (encode v (canonical_writer limit))"
    and "w_ok (encode v (canonical_writer limit))"
  shows "u = v"
proof -
  let ?dec = "\<lambda>x. fst (decode (canonical_reader (cw_buffer (encode x (canonical_writer limit)))))"
  have "?dec u = Some u" using roundtrip [OF assms(1,3)] by (elim exE conjE) simp
  moreover have "?dec v = Some v" using roundtrip [OF assms(2,5)] by (elim exE conjE) simp
  ultimately show ?thesis unfolding assms(4) by (metis option.inject)
qed

end

section \<open>Properties\<close>

text \<open>
  The in-place insertion sort that canonicalises collections sorts: its result is the
  sorted permutation of its input, so it only depends on the bag of elements.
\<close>

theorem canonical_sort_correct:
  "canonical_sort vs = sort vs \<and> sorted (canonical_sort vs) \<and> mset (canonical_sort vs) = mset vs"
  by (simp add: canonical_sort_sort)

end
