(* ===== verification/Enums.thy ===== *)
theory Enums
  imports Canonical "HOL-Library.Char_ord" "HOL-Library.List_Lexorder"
begin

text \<open>
  The enumerations and capabilities of \<^verbatim>\<open>include/flow_offload/model.hpp\<close> and their renderings in
  \<^verbatim>\<open>src/model.cpp\<close>: one datatype per \<^verbatim>\<open>enum class\<close> with the enumerators in declaration order,
  its numeric value (the byte that the canonical encoding writes) and its \<^verbatim>\<open>to_string\<close>; the
  order of the two enumerations that the scheduler compares; the capability mask, its
  table, and the capability list renderer and parser, which are inverse to each other.
\<close>

unbundle bit_operations_syntax

section \<open>Enumerations\<close>

datatype execution_domain = DomainUnknown | Host | OffloadDevice

primrec execution_domain_value :: "execution_domain \<Rightarrow> u8" where
  "execution_domain_value DomainUnknown = 0"
| "execution_domain_value Host = 1"
| "execution_domain_value OffloadDevice = 2"

primrec execution_domain_to_string :: "execution_domain \<Rightarrow> string" where
  "execution_domain_to_string DomainUnknown = ''unknown''"
| "execution_domain_to_string Host = ''host''"
| "execution_domain_to_string OffloadDevice = ''offload-device''"

datatype target_kind = KindUnknown | HostKernelPath | HostUserspacePath | NicHardwareOffload | SmartNic | Dpu

primrec target_kind_value :: "target_kind \<Rightarrow> u8" where
  "target_kind_value KindUnknown = 0"
| "target_kind_value HostKernelPath = 1"
| "target_kind_value HostUserspacePath = 2"
| "target_kind_value NicHardwareOffload = 3"
| "target_kind_value SmartNic = 4"
| "target_kind_value Dpu = 5"

primrec target_kind_to_string :: "target_kind \<Rightarrow> string" where
  "target_kind_to_string KindUnknown = ''unknown''"
| "target_kind_to_string HostKernelPath = ''host-kernel-path''"
| "target_kind_to_string HostUserspacePath = ''host-userspace-path''"
| "target_kind_to_string NicHardwareOffload = ''nic-hardware-offload''"
| "target_kind_to_string SmartNic = ''smartnic''"
| "target_kind_to_string Dpu = ''dpu''"

datatype target_lifecycle = LifecycleUnknown | Discovered | Ready | Degraded | Draining | Quiesced | Removed

primrec target_lifecycle_value :: "target_lifecycle \<Rightarrow> u8" where
  "target_lifecycle_value LifecycleUnknown = 0"
| "target_lifecycle_value Discovered = 1"
| "target_lifecycle_value Ready = 2"
| "target_lifecycle_value Degraded = 3"
| "target_lifecycle_value Draining = 4"
| "target_lifecycle_value Quiesced = 5"
| "target_lifecycle_value Removed = 6"

primrec target_lifecycle_to_string :: "target_lifecycle \<Rightarrow> string" where
  "target_lifecycle_to_string LifecycleUnknown = ''unknown''"
| "target_lifecycle_to_string Discovered = ''discovered''"
| "target_lifecycle_to_string Ready = ''ready''"
| "target_lifecycle_to_string Degraded = ''degraded''"
| "target_lifecycle_to_string Draining = ''draining''"
| "target_lifecycle_to_string Quiesced = ''quiesced''"
| "target_lifecycle_to_string Removed = ''removed''"

datatype statefulness = StatefulnessUnknown | Stateless | Stateful

primrec statefulness_value :: "statefulness \<Rightarrow> u8" where
  "statefulness_value StatefulnessUnknown = 0"
| "statefulness_value Stateless = 1"
| "statefulness_value Stateful = 2"

primrec statefulness_to_string :: "statefulness \<Rightarrow> string" where
  "statefulness_to_string StatefulnessUnknown = ''unknown''"
| "statefulness_to_string Stateless = ''stateless''"
| "statefulness_to_string Stateful = ''stateful''"

datatype cost_class = CostUnknown | Economy | Standard | Premium | Scarce

primrec cost_class_value :: "cost_class \<Rightarrow> u8" where
  "cost_class_value CostUnknown = 0"
| "cost_class_value Economy = 1"
| "cost_class_value Standard = 2"
| "cost_class_value Premium = 3"
| "cost_class_value Scarce = 4"

primrec cost_class_to_string :: "cost_class \<Rightarrow> string" where
  "cost_class_to_string CostUnknown = ''unknown''"
| "cost_class_to_string Economy = ''economy''"
| "cost_class_to_string Standard = ''standard''"
| "cost_class_to_string Premium = ''premium''"
| "cost_class_to_string Scarce = ''scarce''"

datatype load_model = LoadModelUnknown | ObservedOnly | ScheduledOnly | SumConservative | MaximumOfBoth

primrec load_model_value :: "load_model \<Rightarrow> u8" where
  "load_model_value LoadModelUnknown = 0"
| "load_model_value ObservedOnly = 1"
| "load_model_value ScheduledOnly = 2"
| "load_model_value SumConservative = 3"
| "load_model_value MaximumOfBoth = 4"

primrec load_model_to_string :: "load_model \<Rightarrow> string" where
  "load_model_to_string LoadModelUnknown = ''unknown''"
| "load_model_to_string ObservedOnly = ''observed-only''"
| "load_model_to_string ScheduledOnly = ''scheduled-only''"
| "load_model_to_string SumConservative = ''sum-conservative''"
| "load_model_to_string MaximumOfBoth = ''maximum-of-both''"

datatype evidence_state = EvidenceUnknown | Known | Unsupported | Conflicting | Stale

primrec evidence_state_value :: "evidence_state \<Rightarrow> u8" where
  "evidence_state_value EvidenceUnknown = 0"
| "evidence_state_value Known = 1"
| "evidence_state_value Unsupported = 2"
| "evidence_state_value Conflicting = 3"
| "evidence_state_value Stale = 4"

primrec evidence_state_to_string :: "evidence_state \<Rightarrow> string" where
  "evidence_state_to_string EvidenceUnknown = ''unknown''"
| "evidence_state_to_string Known = ''known''"
| "evidence_state_to_string Unsupported = ''unsupported''"
| "evidence_state_to_string Conflicting = ''conflicting''"
| "evidence_state_to_string Stale = ''stale''"

datatype domain_preference = PreferenceUnknown | HostFirst | OffloadFirst | HostOnly | OffloadOnly

primrec domain_preference_value :: "domain_preference \<Rightarrow> u8" where
  "domain_preference_value PreferenceUnknown = 0"
| "domain_preference_value HostFirst = 1"
| "domain_preference_value OffloadFirst = 2"
| "domain_preference_value HostOnly = 3"
| "domain_preference_value OffloadOnly = 4"

primrec domain_preference_to_string :: "domain_preference \<Rightarrow> string" where
  "domain_preference_to_string PreferenceUnknown = ''unknown''"
| "domain_preference_to_string HostFirst = ''host-first''"
| "domain_preference_to_string OffloadFirst = ''offload-first''"
| "domain_preference_to_string HostOnly = ''host-only''"
| "domain_preference_to_string OffloadOnly = ''offload-only''"

datatype fallback_policy = FallbackUnknown | Forbid | AllowHostFallback | AllowOffloadFallback | AllowAnyFallback

primrec fallback_policy_value :: "fallback_policy \<Rightarrow> u8" where
  "fallback_policy_value FallbackUnknown = 0"
| "fallback_policy_value Forbid = 1"
| "fallback_policy_value AllowHostFallback = 2"
| "fallback_policy_value AllowOffloadFallback = 3"
| "fallback_policy_value AllowAnyFallback = 4"

primrec fallback_policy_to_string :: "fallback_policy \<Rightarrow> string" where
  "fallback_policy_to_string FallbackUnknown = ''unknown''"
| "fallback_policy_to_string Forbid = ''forbid''"
| "fallback_policy_to_string AllowHostFallback = ''allow-host-fallback''"
| "fallback_policy_to_string AllowOffloadFallback = ''allow-offload-fallback''"
| "fallback_policy_to_string AllowAnyFallback = ''allow-any-fallback''"

datatype locality_kind = LocalityNone | SameHostAsFlow | SameDeviceAsFlow

primrec locality_kind_value :: "locality_kind \<Rightarrow> u8" where
  "locality_kind_value LocalityNone = 0"
| "locality_kind_value SameHostAsFlow = 1"
| "locality_kind_value SameDeviceAsFlow = 2"

primrec locality_kind_to_string :: "locality_kind \<Rightarrow> string" where
  "locality_kind_to_string LocalityNone = ''none''"
| "locality_kind_to_string SameHostAsFlow = ''same-host-as-flow''"
| "locality_kind_to_string SameDeviceAsFlow = ''same-device-as-flow''"

datatype effect_state = EffectUnknown | EffectIntentIssued | Acknowledged | Applied | Verified

primrec effect_state_value :: "effect_state \<Rightarrow> u8" where
  "effect_state_value EffectUnknown = 0"
| "effect_state_value EffectIntentIssued = 1"
| "effect_state_value Acknowledged = 2"
| "effect_state_value Applied = 3"
| "effect_state_value Verified = 4"

primrec effect_state_to_string :: "effect_state \<Rightarrow> string" where
  "effect_state_to_string EffectUnknown = ''unknown''"
| "effect_state_to_string EffectIntentIssued = ''intent-issued''"
| "effect_state_to_string Acknowledged = ''acknowledged''"
| "effect_state_to_string Applied = ''applied''"
| "effect_state_to_string Verified = ''verified''"

datatype migration_phase = PhaseUnknown | Planned | IntentIssued | SourceAcknowledged | DestinationAcknowledged | EffectApplied | EffectVerified | Completed | Aborted | Fenced

primrec migration_phase_value :: "migration_phase \<Rightarrow> u8" where
  "migration_phase_value PhaseUnknown = 0"
| "migration_phase_value Planned = 1"
| "migration_phase_value IntentIssued = 2"
| "migration_phase_value SourceAcknowledged = 3"
| "migration_phase_value DestinationAcknowledged = 4"
| "migration_phase_value EffectApplied = 5"
| "migration_phase_value EffectVerified = 6"
| "migration_phase_value Completed = 7"
| "migration_phase_value Aborted = 8"
| "migration_phase_value Fenced = 9"

primrec migration_phase_to_string :: "migration_phase \<Rightarrow> string" where
  "migration_phase_to_string PhaseUnknown = ''unknown''"
| "migration_phase_to_string Planned = ''planned''"
| "migration_phase_to_string IntentIssued = ''intent-issued''"
| "migration_phase_to_string SourceAcknowledged = ''source-acknowledged''"
| "migration_phase_to_string DestinationAcknowledged = ''destination-acknowledged''"
| "migration_phase_to_string EffectApplied = ''effect-applied''"
| "migration_phase_to_string EffectVerified = ''effect-verified''"
| "migration_phase_to_string Completed = ''completed''"
| "migration_phase_to_string Aborted = ''aborted''"
| "migration_phase_to_string Fenced = ''fenced''"

datatype migration_actor = ActorUnknown | Source | Destination

primrec migration_actor_value :: "migration_actor \<Rightarrow> u8" where
  "migration_actor_value ActorUnknown = 0"
| "migration_actor_value Source = 1"
| "migration_actor_value Destination = 2"

primrec migration_actor_to_string :: "migration_actor \<Rightarrow> string" where
  "migration_actor_to_string ActorUnknown = ''unknown''"
| "migration_actor_to_string Source = ''source''"
| "migration_actor_to_string Destination = ''destination''"

datatype capability = ConnectionTracking | NatTranslation | TlsRecordInspection | IpsecEspProcessing | VxlanEncap | VxlanDecap | PacketClassification | StatefulAcl | LoadBalancingHash | RateMetering | PreciseTimestamping | ProgrammableParser | AtomicCounterUpdate | CryptoAesGcm | SharedStateReplication | OrderingGuarantee

primrec capability_value :: "capability \<Rightarrow> u8" where
  "capability_value ConnectionTracking = 0"
| "capability_value NatTranslation = 1"
| "capability_value TlsRecordInspection = 2"
| "capability_value IpsecEspProcessing = 3"
| "capability_value VxlanEncap = 4"
| "capability_value VxlanDecap = 5"
| "capability_value PacketClassification = 6"
| "capability_value StatefulAcl = 7"
| "capability_value LoadBalancingHash = 8"
| "capability_value RateMetering = 9"
| "capability_value PreciseTimestamping = 10"
| "capability_value ProgrammableParser = 11"
| "capability_value AtomicCounterUpdate = 12"
| "capability_value CryptoAesGcm = 13"
| "capability_value SharedStateReplication = 14"
| "capability_value OrderingGuarantee = 15"

section \<open>Ordered enumerations\<close>

text \<open>Scoped enumerations compare by value; these two are compared by the sources.\<close>

lemma execution_domain_value_inject [simp]:
  "execution_domain_value a = execution_domain_value b \<longleftrightarrow> a = b"
  by (cases a; cases b) simp_all

lemma cost_class_value_inject [simp]: "cost_class_value a = cost_class_value b \<longleftrightarrow> a = b"
  by (cases a; cases b) simp_all

instantiation execution_domain :: linorder
begin

definition less_eq_execution_domain :: "execution_domain \<Rightarrow> execution_domain \<Rightarrow> bool" where
  "a \<le> b \<longleftrightarrow> execution_domain_value a \<le> execution_domain_value b"

definition less_execution_domain :: "execution_domain \<Rightarrow> execution_domain \<Rightarrow> bool" where
  "a < b \<longleftrightarrow> execution_domain_value a < execution_domain_value b"

instance
  by standard (auto simp: less_eq_execution_domain_def less_execution_domain_def order_less_le)

end

instantiation cost_class :: linorder
begin

definition less_eq_cost_class :: "cost_class \<Rightarrow> cost_class \<Rightarrow> bool" where
  "a \<le> b \<longleftrightarrow> cost_class_value a \<le> cost_class_value b"

definition less_cost_class :: "cost_class \<Rightarrow> cost_class \<Rightarrow> bool" where
  "a < b \<longleftrightarrow> cost_class_value a < cost_class_value b"

instance
  by standard (auto simp: less_eq_cost_class_def less_cost_class_def order_less_le)

end

definition lifecycle_accepts_new_flows :: "target_lifecycle \<Rightarrow> bool" where
  "lifecycle_accepts_new_flows v = (v = Ready)"

definition lifecycle_is_terminal :: "target_lifecycle \<Rightarrow> bool" where
  "lifecycle_is_terminal v = (v = Removed)"

section \<open>Capabilities\<close>

type_synonym capability_mask = u64

abbreviation (input) kCapabilityCount :: nat where
  "kCapabilityCount \<equiv> 16"

definition kCapabilityTable :: "(capability \<times> string) list" where
  "kCapabilityTable =
    [(AtomicCounterUpdate, ''atomic-counter-update''),
     (ConnectionTracking, ''connection-tracking''),
     (CryptoAesGcm, ''crypto-aes-gcm''),
     (IpsecEspProcessing, ''ipsec-esp-processing''),
     (LoadBalancingHash, ''load-balancing-hash''),
     (NatTranslation, ''nat-translation''),
     (OrderingGuarantee, ''ordering-guarantee''),
     (PacketClassification, ''packet-classification''),
     (PreciseTimestamping, ''precise-timestamping''),
     (ProgrammableParser, ''programmable-parser''),
     (RateMetering, ''rate-metering''),
     (SharedStateReplication, ''shared-state-replication''),
     (StatefulAcl, ''stateful-acl''),
     (TlsRecordInspection, ''tls-record-inspection''),
     (VxlanDecap, ''vxlan-decap''),
     (VxlanEncap, ''vxlan-encap'')]"

definition capability_table_sorted :: bool where
  "capability_table_sorted =
     list_all (\<lambda>i. \<not> snd (kCapabilityTable ! (i - 1)) \<ge> snd (kCapabilityTable ! i)) [1..<length kCapabilityTable]"

text \<open>\<open>static_cast<Capability>(bit)\<close> for the bits the renderer visits.\<close>

definition kCapabilities :: "capability list" where
  "kCapabilities =
    [ConnectionTracking, NatTranslation, TlsRecordInspection, IpsecEspProcessing, VxlanEncap,
     VxlanDecap, PacketClassification, StatefulAcl, LoadBalancingHash, RateMetering,
     PreciseTimestamping, ProgrammableParser, AtomicCounterUpdate, CryptoAesGcm,
     SharedStateReplication, OrderingGuarantee]"

definition capability_bit :: "capability \<Rightarrow> capability_mask" where
  "capability_bit c = push_bit (unat (capability_value c)) 1"

definition has_capability :: "capability_mask \<Rightarrow> capability \<Rightarrow> bool" where
  "has_capability m c = (m AND capability_bit c \<noteq> 0)"

definition satisfies :: "capability_mask \<Rightarrow> capability_mask \<Rightarrow> bool" where
  "satisfies available required = (available AND required = required)"

fun table_name :: "(capability \<times> string) list \<Rightarrow> capability \<Rightarrow> string" where
  "table_name [] c = ''unknown''"
| "table_name ((k, name) # es) c = (if k = c then name else table_name es c)"

definition capability_to_string :: "capability \<Rightarrow> string" where
  "capability_to_string c = table_name kCapabilityTable c"

definition capability_from_string :: "string \<Rightarrow> capability option" where
  "capability_from_string text =
     (if text = [] then None
      else let it = lower_bound (\<lambda>e. snd e < text) kCapabilityTable 0 (length kCapabilityTable)
           in if it = length kCapabilityTable \<or> snd (kCapabilityTable ! it) \<noteq> text then None
              else Some (fst (kCapabilityTable ! it)))"

definition render_step :: "capability_mask \<Rightarrow> string \<Rightarrow> capability \<Rightarrow> string" where
  "render_step m out c =
     (if \<not> has_capability m c then out
      else (if out \<noteq> [] then out @ '','' else out) @ capability_to_string c)"

definition render_capabilities :: "capability_mask \<Rightarrow> string" where
  "render_capabilities m =
     (let out = foldl (render_step m) [] kCapabilities
      in if out = [] then ''none'' else out)"

text \<open>
  The token loop of \<^verbatim>\<open>parse_capabilities\<close> from position \<open>start\<close>, whose suffix is the argument;
  the result is the return value and the final value of \<open>out\<close>, which a failed parse leaves
  at the bits read so far when the token is empty and clears when the token is unknown.
\<close>

function parse_tokens :: "string \<Rightarrow> capability_mask \<Rightarrow> bool \<times> capability_mask" where
  "parse_tokens s out =
     (let token = takeWhile (\<lambda>c. c \<noteq> CHR '','') s;
          rest = dropWhile (\<lambda>c. c \<noteq> CHR '','') s
      in if token = [] then (False, out)
         else case capability_from_string token of
                None \<Rightarrow> (False, 0)
              | Some c \<Rightarrow>
                  let out' = out OR capability_bit c
                  in if rest = [] then (True, out') else parse_tokens (tl rest) out')"
  by pat_completeness auto

termination
proof (relation "measure (\<lambda>(s, out). length s)")
  fix s :: string and out token rest
  assume r: "rest = dropWhile (\<lambda>c. c \<noteq> CHR '','') s" "rest \<noteq> []"
  have "length rest \<le> length s" unfolding r(1) by (rule length_dropWhile_le)
  then show "\<And>c out'. ((tl rest, out'), s, out) \<in> measure (\<lambda>(s, out). length s)"
    using r(2) by (cases rest) auto
qed simp

declare parse_tokens.simps [simp del]

definition parse_capabilities :: "string \<Rightarrow> bool \<times> capability_mask" where
  "parse_capabilities text =
     (if text = [] \<or> text = ''none'' then (True, 0) else parse_tokens text 0)"

subsection \<open>The table\<close>

lemma capability_table_is_sorted: "capability_table_sorted"
  by code_simp

lemma capability_name_lookup: "capability_from_string (capability_to_string c) = Some c"
  by (cases c; hypsubst; code_simp)

lemma capability_name_token:
  "capability_to_string c \<noteq> []" "CHR '','' \<notin> set (capability_to_string c)"
  "capability_to_string c \<noteq> ''none''"
  by (cases c; simp add: capability_to_string_def kCapabilityTable_def)+

lemma capability_in_kCapabilities: "c \<in> set kCapabilities"
  by (cases c) (simp_all add: kCapabilities_def)

lemma capability_value_small: "unat (capability_value c) < 16"
  by (cases c) simp_all

lemma capability_value_onto: "n < 16 \<Longrightarrow> \<exists>c. unat (capability_value c) = n"
proof -
  assume n: "n < 16"
  have m: "map (\<lambda>c. unat (capability_value c)) kCapabilities = [0..<16]"
    by code_simp
  have "length kCapabilities = 16" by (simp add: kCapabilities_def)
  then have "unat (capability_value (kCapabilities ! n)) = n"
    using n arg_cong [OF m, of "\<lambda>xs. xs ! n"] by simp
  then show ?thesis by blast
qed

lemma bit_capability_bit: "bit (capability_bit c) n \<longleftrightarrow> n = unat (capability_value c)"
  using capability_value_small [of c]
  by (auto simp: capability_bit_def bit_exp_iff possible_bit_word)

lemma has_capability_bit: "has_capability m c \<longleftrightarrow> bit m (unat (capability_value c))"
  unfolding has_capability_def bit_eq_iff [of "m AND capability_bit c" 0]
  by (auto simp: bit_and_iff bit_capability_bit dest: bit_imp_le_length)

lemma satisfies_iff: "satisfies available required \<longleftrightarrow> (\<forall>n. bit required n \<longrightarrow> bit available n)"
  unfolding satisfies_def bit_eq_iff [of "available AND required" required]
  using bit_imp_le_length [of required] by (auto simp: bit_and_iff)

subsection \<open>Rendering and parsing are inverse\<close>

definition comma_names :: "capability list \<Rightarrow> string" where
  "comma_names cs = concat (map (\<lambda>c. CHR '','' # capability_to_string c) cs)"

lemma comma_names_simps [simp]:
  "comma_names [] = []"
  "comma_names (c # cs) = CHR '','' # capability_to_string c @ comma_names cs"
  by (simp_all add: comma_names_def)

lemma render_step_simps [simp]:
  "render_step m [] c = (if has_capability m c then capability_to_string c else [])"
  "out \<noteq> [] \<Longrightarrow> render_step m out c =
     (if has_capability m c then out @ CHR '','' # capability_to_string c else out)"
  by (simp_all add: render_step_def)

lemma render_fold_nonempty:
  "out \<noteq> [] \<Longrightarrow> foldl (render_step m) out cs = out @ comma_names (filter (has_capability m) cs)"
  by (induction cs arbitrary: out) auto

lemma render_fold_empty:
  "foldl (render_step m) [] cs =
     (case filter (has_capability m) cs of [] \<Rightarrow> [] | c # ds \<Rightarrow> capability_to_string c @ comma_names ds)"
  by (induction cs) (auto simp: render_fold_nonempty capability_name_token)

lemma parse_tokens_names:
  "parse_tokens (capability_to_string c @ comma_names cs) out =
     (True, foldl (\<lambda>o' d. o' OR capability_bit d) (out OR capability_bit c) cs)"
proof (induction cs arbitrary: c out)
  case Nil
  have tw: "takeWhile (\<lambda>x. x \<noteq> CHR '','') (capability_to_string c) = capability_to_string c"
    and dw: "dropWhile (\<lambda>x. x \<noteq> CHR '','') (capability_to_string c) = []"
    using capability_name_token(2) [of c] by (auto simp: takeWhile_eq_all_conv)
  show ?case
    by (subst parse_tokens.simps)
      (simp only: comma_names_simps append_Nil2 tw dw Let_def capability_name_token capability_name_lookup
        if_False if_True option.case foldl_Nil simp_thms)
next
  case (Cons d cs)
  let ?s = "capability_to_string c @ comma_names (d # cs)"
  have all: "\<forall>x \<in> set (capability_to_string c). x \<noteq> CHR '',''"
    using capability_name_token(2) [of c] by blast
  have tw: "takeWhile (\<lambda>x. x \<noteq> CHR '','') ?s = capability_to_string c"
    using all by (simp add: takeWhile_append2)
  have dw: "dropWhile (\<lambda>x. x \<noteq> CHR '','') ?s = CHR '','' # capability_to_string d @ comma_names cs"
    using all by (simp add: dropWhile_append2)
  show ?case
    by (subst parse_tokens.simps)
      (simp only: tw dw Let_def capability_name_token capability_name_lookup Cons.IH
        if_False option.case foldl_Cons list.sel list.distinct simp_thms)
qed

lemma bit_fold_or:
  "bit (foldl (\<lambda>o' d. o' OR capability_bit d) out cs) n \<longleftrightarrow>
     bit out n \<or> (\<exists>c \<in> set cs. n = unat (capability_value c))"
  by (induction cs arbitrary: out) (auto simp: bit_or_iff bit_capability_bit)

lemma fold_or_present:
  "foldl (\<lambda>o' d. o' OR capability_bit d) 0 (filter (has_capability m) kCapabilities) = m AND 0xFFFF"
proof (rule bit_eqI)
  fix n
  have "bit (0xFFFF :: u64) n \<longleftrightarrow> n < 16"
    using bit_mask_iff [of 16 n, where 'a = "64 word"] by (auto simp: mask_numeral mask_eq_exp_minus_1)
  then show "bit (foldl (\<lambda>o' d. o' OR capability_bit d) 0 (filter (has_capability m) kCapabilities)) n =
      bit (m AND 0xFFFF) n"
    using capability_value_onto [of n] capability_value_small
    by (auto simp: bit_fold_or bit_and_iff has_capability_bit capability_in_kCapabilities)
qed

lemma parse_render: "parse_capabilities (render_capabilities m) = (True, m AND 0xFFFF)"
proof (cases "filter (has_capability m) kCapabilities")
  case Nil
  then show ?thesis
    using fold_or_present [of m]
    by (simp add: render_capabilities_def render_fold_empty parse_capabilities_def)
next
  case (Cons c ds)
  let ?s = "capability_to_string c @ comma_names ds"
  have "?s \<noteq> []" using capability_name_token(1) [of c] by simp
  moreover have "?s \<noteq> ''none''"
  proof (cases ds)
    case Nil
    then show ?thesis by (simp add: capability_name_token)
  next
    case (Cons e es)
    then have "CHR '','' \<in> set ?s" by simp
    moreover have "CHR '','' \<notin> set ''none''" by simp
    ultimately show ?thesis by (rule_tac notI) (erule notE, erule subst, assumption)
  qed
  ultimately show ?thesis
    using fold_or_present [of m] Cons
    by (simp add: render_capabilities_def render_fold_empty parse_capabilities_def parse_tokens_names
        capability_name_token(1))
qed

section \<open>Properties\<close>

text \<open>
  C30: Parsing a rendered capability mask succeeds and gives the mask back, restricted to the
  sixteen defined bits.
\<close>

theorem capability_list_roundtrip: "parse_capabilities (render_capabilities m) = (True, m AND 0xFFFF)"
  by (rule parse_render)

end
