(* ===== verification/Model.thy ===== *)
theory Model
  imports Units Enums
begin

text \<open>
  The domain model of \<^verbatim>\<open>include/flow_offload/identity.hpp\<close> and \<^verbatim>\<open>include/flow_offload/model.hpp\<close>:
  strongly typed identifiers are 64-bit words with 0 as the invalid value, one record per
  struct with its fields in declaration order, the value of each struct's default member
  initialisers, and the operations of \<^verbatim>\<open>src/model.cpp\<close> and \<^verbatim>\<open>src/identity.cpp\<close> on them:
  policy canonicalization, the contract safety predicate and the explanation renderer.
\<close>

section \<open>Identities\<close>

type_synonym flow_id = u64
type_synonym host_id = u64
type_synonym device_id = u64
type_synonym target_id = u64
type_synonym processing_function_id = u64
type_synonym evidence_source_id = u64
type_synonym migration_contract_id = u64
type_synonym exclusive_state_key_id = u64
type_synonym flow_generation = u64
type_synonym target_incarnation = u64
type_synonym capability_generation = u64
type_synonym topology_generation = u64
type_synonym policy_generation = u64
type_synonym schedule_generation = u64
type_synonym evidence_sequence = u64
type_synonym coordinator_epoch = u64
type_synonym migration_attempt_id = u64
type_synonym fence_id = u64
type_synonym assignment_id = u64
type_synonym recommendation_id = u64
type_synonym authorization_id = u64
type_synonym request_id = u64
type_synonym operation_id = u64

definition is_valid :: "u64 \<Rightarrow> bool" where
  "is_valid i = (i \<noteq> 0)"

record boot_id =
  boot_high :: u64
  boot_low :: u64

definition boot_id_default :: boot_id where
  "boot_id_default = \<lparr>boot_high = 0, boot_low = 0\<rparr>"

definition boot_is_valid :: "boot_id \<Rightarrow> bool" where
  "boot_is_valid b = (boot_high b \<noteq> 0 \<or> boot_low b \<noteq> 0)"

text \<open>\<^verbatim>\<open>std::to_string\<close> of an unsigned integer, and \<^verbatim>\<open>%016llx\<close>.\<close>

fun decimal :: "nat \<Rightarrow> string" where
  "decimal n = (if n < 10 then [kHexDigits ! n] else decimal (n div 10) @ [kHexDigits ! (n mod 10)])"

declare decimal.simps [simp del]

definition id_to_string :: "u64 \<Rightarrow> string" where
  "id_to_string i = decimal (unat i)"

definition hex16 :: "u64 \<Rightarrow> string" where
  "hex16 v = map (\<lambda>k. kHexDigits ! unat (drop_bit (4 * (15 - k)) v AND 0xF)) [0..<16]"

definition boot_to_string :: "boot_id \<Rightarrow> string" where
  "boot_to_string b = hex16 (boot_high b) @ hex16 (boot_low b)"

section \<open>Flows, targets, load and policy\<close>

record flow_descriptor =
  fd_flow :: "flow_id"
  fd_generation :: "flow_generation"
  fd_function :: "processing_function_id"
  fd_statefulness :: "statefulness"
  fd_exclusive_state_key :: "exclusive_state_key_id"
  fd_required_capabilities :: "capability_mask"
  fd_max_cost_class :: "cost_class"
  fd_demand :: "capacity_vector"
  fd_locality :: "locality_kind"
  fd_locality_anchor :: "flow_id"
  fd_allow_migration :: "bool"
  fd_pinned :: "bool"

definition flow_descriptor_default :: flow_descriptor where
  "flow_descriptor_default =
     \<lparr>fd_flow = 0,
      fd_generation = 0,
      fd_function = 0,
      fd_statefulness = StatefulnessUnknown,
      fd_exclusive_state_key = 0,
      fd_required_capabilities = 0,
      fd_max_cost_class = Scarce,
      fd_demand = cv_zero,
      fd_locality = LocalityNone,
      fd_locality_anchor = 0,
      fd_allow_migration = False,
      fd_pinned = False\<rparr>"

record target_descriptor =
  td_target :: "target_id"
  td_incarnation :: "target_incarnation"
  td_capability_generation :: "capability_generation"
  td_topology_generation :: "topology_generation"
  td_domain :: "execution_domain"
  td_kind :: "target_kind"
  td_host :: "host_id"
  td_device :: "device_id"
  td_capabilities :: "capability_mask"
  td_capacity :: "capacity_vector"
  td_reserved :: "capacity_vector"
  td_cost_class :: "cost_class"
  td_lifecycle :: "target_lifecycle"
  td_supports_stateful :: "bool"
  td_supports_migration :: "bool"
  td_source :: "evidence_source_id"
  td_source_sequence :: "evidence_sequence"
  td_issued_at :: "timestamp"

definition target_descriptor_default :: target_descriptor where
  "target_descriptor_default =
     \<lparr>td_target = 0,
      td_incarnation = 0,
      td_capability_generation = 0,
      td_topology_generation = 0,
      td_domain = DomainUnknown,
      td_kind = KindUnknown,
      td_host = 0,
      td_device = 0,
      td_capabilities = 0,
      td_capacity = cv_zero,
      td_reserved = cv_zero,
      td_cost_class = CostUnknown,
      td_lifecycle = LifecycleUnknown,
      td_supports_stateful = False,
      td_supports_migration = False,
      td_source = 0,
      td_source_sequence = 0,
      td_issued_at = 0\<rparr>"

record load_evidence =
  le_target :: "target_id"
  le_incarnation :: "target_incarnation"
  le_capability_generation :: "capability_generation"
  le_source :: "evidence_source_id"
  le_source_sequence :: "evidence_sequence"
  le_observed_at :: "timestamp"
  le_state :: "evidence_state"
  le_utilized :: "capacity_vector"

definition load_evidence_default :: load_evidence where
  "load_evidence_default =
     \<lparr>le_target = 0,
      le_incarnation = 0,
      le_capability_generation = 0,
      le_source = 0,
      le_source_sequence = 0,
      le_observed_at = 0,
      le_state = EvidenceUnknown,
      le_utilized = cv_zero\<rparr>"

record policy =
  pol_generation :: "policy_generation"
  pol_domain_preference :: "domain_preference"
  pol_fallback :: "fallback_policy"
  pol_required_capabilities :: "capability_mask"
  pol_max_cost_class :: "cost_class"
  pol_allowed_domains :: "execution_domain list"
  pol_forbidden_hosts :: "host_id list"
  pol_forbidden_devices :: "device_id list"
  pol_reserve :: "capacity_vector"
  pol_allow_placement_without_load_evidence :: "bool"
  pol_load_model :: "load_model"
  pol_sticky :: "bool"
  pol_allow_migration :: "bool"
  pol_min_improvement_ppm :: "u32"
  pol_max_rebalance_migrations :: "u32"
  pol_allowed_functions :: "processing_function_id list"

definition policy_default :: policy where
  "policy_default =
     \<lparr>pol_generation = 0,
      pol_domain_preference = PreferenceUnknown,
      pol_fallback = FallbackUnknown,
      pol_required_capabilities = 0,
      pol_max_cost_class = Scarce,
      pol_allowed_domains = [],
      pol_forbidden_hosts = [],
      pol_forbidden_devices = [],
      pol_reserve = cv_zero,
      pol_allow_placement_without_load_evidence = False,
      pol_load_model = SumConservative,
      pol_sticky = True,
      pol_allow_migration = False,
      pol_min_improvement_ppm = 0,
      pol_max_rebalance_migrations = 64,
      pol_allowed_functions = []\<rparr>"

text \<open>Policies that differ only in the order of their collections canonicalize alike.\<close>

definition canonicalize :: "policy \<Rightarrow> policy" where
  "canonicalize p = p\<lparr>
     pol_allowed_domains := canonical_sort (pol_allowed_domains p),
     pol_forbidden_hosts := canonical_sort (pol_forbidden_hosts p),
     pol_forbidden_devices := canonical_sort (pol_forbidden_devices p),
     pol_allowed_functions := canonical_sort (pol_allowed_functions p)\<rparr>"

section \<open>Migration contracts\<close>

record migration_contract =
  mc_id :: "migration_contract_id"
  mc_flow :: "flow_id"
  mc_flow_generation :: "flow_generation"
  mc_statefulness :: "statefulness"
  mc_state_transfer_defined :: "bool"
  mc_ordering_preserved :: "bool"
  mc_rollback_defined :: "bool"
  mc_exclusive_handoff :: "bool"
  mc_destination_target :: "target_id"
  mc_destination_incarnation :: "target_incarnation"
  mc_destination_capability_generation :: "capability_generation"
  mc_policy_generation :: "policy_generation"
  mc_max_state_bytes :: "u64"

definition migration_contract_default :: migration_contract where
  "migration_contract_default =
     \<lparr>mc_id = 0,
      mc_flow = 0,
      mc_flow_generation = 0,
      mc_statefulness = StatefulnessUnknown,
      mc_state_transfer_defined = False,
      mc_ordering_preserved = False,
      mc_rollback_defined = False,
      mc_exclusive_handoff = False,
      mc_destination_target = 0,
      mc_destination_incarnation = 0,
      mc_destination_capability_generation = 0,
      mc_policy_generation = 0,
      mc_max_state_bytes = 0\<rparr>"

definition contract_is_safe_for_stateful :: "migration_contract \<Rightarrow> bool" where
  "contract_is_safe_for_stateful c =
     (if mc_statefulness c \<noteq> Stateful then mc_state_transfer_defined c \<and> mc_ordering_preserved c
      else mc_state_transfer_defined c \<and> mc_ordering_preserved c \<and>
           mc_rollback_defined c \<and> mc_exclusive_handoff c)"

section \<open>Committed placement and decision surfaces\<close>

record assignment =
  as_assignment :: "assignment_id"
  as_flow :: "flow_id"
  as_flow_generation :: "flow_generation"
  as_target :: "target_id"
  as_incarnation :: "target_incarnation"
  as_capability_generation :: "capability_generation"
  as_policy_generation :: "policy_generation"
  as_schedule_generation :: "schedule_generation"
  as_effect :: "effect_state"
  as_reason :: "reason"
  as_committed_at :: "timestamp"
  as_supersedes :: "assignment_id"

definition assignment_default :: assignment where
  "assignment_default =
     \<lparr>as_assignment = 0,
      as_flow = 0,
      as_flow_generation = 0,
      as_target = 0,
      as_incarnation = 0,
      as_capability_generation = 0,
      as_policy_generation = 0,
      as_schedule_generation = 0,
      as_effect = EffectUnknown,
      as_reason = ReasonOk,
      as_committed_at = 0,
      as_supersedes = 0\<rparr>"

record recommendation =
  rec_id :: "recommendation_id"
  rec_request :: "request_id"
  rec_flow :: "flow_id"
  rec_flow_generation :: "flow_generation"
  rec_target :: "target_id"
  rec_incarnation :: "target_incarnation"
  rec_capability_generation :: "capability_generation"
  rec_policy_generation :: "policy_generation"
  rec_schedule_generation :: "schedule_generation"
  rec_topology_generation :: "topology_generation"
  rec_epoch :: "coordinator_epoch"
  rec_boot :: "boot_id"
  rec_domain :: "execution_domain"
  rec_outcome :: "reason"
  rec_fallback :: "bool"
  rec_issued_at :: "timestamp"
  rec_digest :: "digest"

definition recommendation_default :: recommendation where
  "recommendation_default =
     \<lparr>rec_id = 0,
      rec_request = 0,
      rec_flow = 0,
      rec_flow_generation = 0,
      rec_target = 0,
      rec_incarnation = 0,
      rec_capability_generation = 0,
      rec_policy_generation = 0,
      rec_schedule_generation = 0,
      rec_topology_generation = 0,
      rec_epoch = 0,
      rec_boot = boot_id_default,
      rec_domain = DomainUnknown,
      rec_outcome = ReasonOk,
      rec_fallback = False,
      rec_issued_at = 0,
      rec_digest = digest_zero\<rparr>"

record authorization =
  auth_id :: "authorization_id"
  auth_recommendation :: "recommendation_id"
  auth_request :: "request_id"
  auth_flow :: "flow_id"
  auth_flow_generation :: "flow_generation"
  auth_target :: "target_id"
  auth_incarnation :: "target_incarnation"
  auth_capability_generation :: "capability_generation"
  auth_policy_generation :: "policy_generation"
  auth_schedule_generation :: "schedule_generation"
  auth_epoch :: "coordinator_epoch"
  auth_boot :: "boot_id"
  auth_fence :: "fence_id"
  auth_outcome :: "reason"
  auth_granted_at :: "timestamp"
  auth_digest :: "digest"

definition authorization_default :: authorization where
  "authorization_default =
     \<lparr>auth_id = 0,
      auth_recommendation = 0,
      auth_request = 0,
      auth_flow = 0,
      auth_flow_generation = 0,
      auth_target = 0,
      auth_incarnation = 0,
      auth_capability_generation = 0,
      auth_policy_generation = 0,
      auth_schedule_generation = 0,
      auth_epoch = 0,
      auth_boot = boot_id_default,
      auth_fence = 0,
      auth_outcome = ReasonOk,
      auth_granted_at = 0,
      auth_digest = digest_zero\<rparr>"

record migration_intent =
  mi_attempt :: "migration_attempt_id"
  mi_flow :: "flow_id"
  mi_flow_generation :: "flow_generation"
  mi_source_assignment :: "assignment_id"
  mi_source_target :: "target_id"
  mi_source_incarnation :: "target_incarnation"
  mi_source_capability_generation :: "capability_generation"
  mi_destination_target :: "target_id"
  mi_destination_incarnation :: "target_incarnation"
  mi_destination_capability_generation :: "capability_generation"
  mi_contract :: "migration_contract_id"
  mi_policy_generation :: "policy_generation"
  mi_schedule_generation :: "schedule_generation"
  mi_epoch :: "coordinator_epoch"
  mi_boot :: "boot_id"
  mi_fence :: "fence_id"
  mi_phase :: "migration_phase"
  mi_issued_at :: "timestamp"

definition migration_intent_default :: migration_intent where
  "migration_intent_default =
     \<lparr>mi_attempt = 0,
      mi_flow = 0,
      mi_flow_generation = 0,
      mi_source_assignment = 0,
      mi_source_target = 0,
      mi_source_incarnation = 0,
      mi_source_capability_generation = 0,
      mi_destination_target = 0,
      mi_destination_incarnation = 0,
      mi_destination_capability_generation = 0,
      mi_contract = 0,
      mi_policy_generation = 0,
      mi_schedule_generation = 0,
      mi_epoch = 0,
      mi_boot = boot_id_default,
      mi_fence = 0,
      mi_phase = PhaseUnknown,
      mi_issued_at = 0\<rparr>"

record migration_acknowledgement =
  ack_attempt :: "migration_attempt_id"
  ack_actor :: "migration_actor"
  ack_target :: "target_id"
  ack_incarnation :: "target_incarnation"
  ack_capability_generation :: "capability_generation"
  ack_epoch :: "coordinator_epoch"
  ack_boot :: "boot_id"
  ack_accepted :: "bool"
  ack_reason :: "reason"
  ack_acknowledged_at :: "timestamp"

definition migration_acknowledgement_default :: migration_acknowledgement where
  "migration_acknowledgement_default =
     \<lparr>ack_attempt = 0,
      ack_actor = ActorUnknown,
      ack_target = 0,
      ack_incarnation = 0,
      ack_capability_generation = 0,
      ack_epoch = 0,
      ack_boot = boot_id_default,
      ack_accepted = False,
      ack_reason = ReasonOk,
      ack_acknowledged_at = 0\<rparr>"

record applied_effect =
  ae_attempt :: "migration_attempt_id"
  ae_target :: "target_id"
  ae_incarnation :: "target_incarnation"
  ae_capability_generation :: "capability_generation"
  ae_epoch :: "coordinator_epoch"
  ae_boot :: "boot_id"
  ae_effect_digest :: "digest"
  ae_state_bytes :: "u64"
  ae_applied_at :: "timestamp"

definition applied_effect_default :: applied_effect where
  "applied_effect_default =
     \<lparr>ae_attempt = 0,
      ae_target = 0,
      ae_incarnation = 0,
      ae_capability_generation = 0,
      ae_epoch = 0,
      ae_boot = boot_id_default,
      ae_effect_digest = digest_zero,
      ae_state_bytes = 0,
      ae_applied_at = 0\<rparr>"

record effect_observation =
  eo_flow :: "flow_id"
  eo_flow_generation :: "flow_generation"
  eo_target :: "target_id"
  eo_incarnation :: "target_incarnation"
  eo_capability_generation :: "capability_generation"
  eo_source :: "evidence_source_id"
  eo_source_sequence :: "evidence_sequence"
  eo_state :: "evidence_state"
  eo_lifecycle :: "target_lifecycle"
  eo_effect_digest :: "digest"
  eo_observed_at :: "timestamp"

definition effect_observation_default :: effect_observation where
  "effect_observation_default =
     \<lparr>eo_flow = 0,
      eo_flow_generation = 0,
      eo_target = 0,
      eo_incarnation = 0,
      eo_capability_generation = 0,
      eo_source = 0,
      eo_source_sequence = 0,
      eo_state = EvidenceUnknown,
      eo_lifecycle = LifecycleUnknown,
      eo_effect_digest = digest_zero,
      eo_observed_at = 0\<rparr>"

record fence_record =
  fr_id :: "fence_id"
  fr_epoch :: "coordinator_epoch"
  fr_boot :: "boot_id"
  fr_flow :: "flow_id"
  fr_target :: "target_id"
  fr_reason :: "reason"
  fr_active :: "bool"
  fr_issued_at :: "timestamp"

definition fence_record_default :: fence_record where
  "fence_record_default =
     \<lparr>fr_id = 0,
      fr_epoch = 0,
      fr_boot = boot_id_default,
      fr_flow = 0,
      fr_target = 0,
      fr_reason = ReasonOk,
      fr_active = False,
      fr_issued_at = 0\<rparr>"

section \<open>Explanations\<close>

record explanation_step =
  es_code :: "reason"
  es_value_a :: "u64"
  es_value_b :: "u64"
  es_detail :: "string"

definition explanation_step_default :: explanation_step where
  "explanation_step_default =
     \<lparr>es_code = ReasonOk,
      es_value_a = 0,
      es_value_b = 0,
      es_detail = []\<rparr>"

record explanation =
  ex_primary :: "reason"
  ex_flow :: "flow_id"
  ex_flow_generation :: "flow_generation"
  ex_target :: "target_id"
  ex_incarnation :: "target_incarnation"
  ex_policy_generation :: "policy_generation"
  ex_schedule_generation :: "schedule_generation"
  ex_topology_generation :: "topology_generation"
  ex_epoch :: "coordinator_epoch"
  ex_boot :: "boot_id"
  ex_evaluation_instant :: "timestamp"
  ex_accepted :: "explanation_step list"
  ex_refused :: "explanation_step list"

definition explanation_default :: explanation where
  "explanation_default =
     \<lparr>ex_primary = ReasonOk,
      ex_flow = 0,
      ex_flow_generation = 0,
      ex_target = 0,
      ex_incarnation = 0,
      ex_policy_generation = 0,
      ex_schedule_generation = 0,
      ex_topology_generation = 0,
      ex_epoch = 0,
      ex_boot = boot_id_default,
      ex_evaluation_instant = 0,
      ex_accepted = [],
      ex_refused = []\<rparr>"

definition render_explanation_step :: "string \<Rightarrow> explanation_step \<Rightarrow> string" where
  "render_explanation_step verb s =
     [CHR 0x0A] @ verb @ reason_to_string (es_code s) @ '' a='' @ decimal (unat (es_value_a s)) @
     '' b='' @ decimal (unat (es_value_b s)) @ '' '' @ es_detail s"

definition render :: "explanation \<Rightarrow> string" where
  "render e =
     ''explanation primary='' @ reason_to_string (ex_primary e) @
     '' flow='' @ id_to_string (ex_flow e) @
     '' flow_generation='' @ id_to_string (ex_flow_generation e) @
     '' target='' @ id_to_string (ex_target e) @
     '' incarnation='' @ id_to_string (ex_incarnation e) @
     '' policy_generation='' @ id_to_string (ex_policy_generation e) @
     '' schedule_generation='' @ id_to_string (ex_schedule_generation e) @
     '' topology_generation='' @ id_to_string (ex_topology_generation e) @
     '' epoch='' @ id_to_string (ex_epoch e) @
     '' boot='' @ boot_to_string (ex_boot e) @
     '' instant_ns='' @ decimal (unat (ex_evaluation_instant e)) @
     concat (map (render_explanation_step ''  accept '') (ex_accepted e)) @
     concat (map (render_explanation_step ''  refuse '') (ex_refused e))"

definition digest_of_explanation :: "explanation \<Rightarrow> digest" where
  "digest_of_explanation e = sha256_of_text (render e)"

section \<open>Laws of canonicalization\<close>

lemma canonicalize_simps [simp]:
  "pol_allowed_domains (canonicalize p) = sort (pol_allowed_domains p)"
  "pol_forbidden_hosts (canonicalize p) = sort (pol_forbidden_hosts p)"
  "pol_forbidden_devices (canonicalize p) = sort (pol_forbidden_devices p)"
  "pol_allowed_functions (canonicalize p) = sort (pol_allowed_functions p)"
  "pol_generation (canonicalize p) = pol_generation p"
  by (simp_all add: canonicalize_def canonical_sort_sort)

text \<open>The collections of a policy, as bags, and everything else of it.\<close>

definition policy_order_equiv :: "policy \<Rightarrow> policy \<Rightarrow> bool" where
  "policy_order_equiv p q \<longleftrightarrow>
     mset (pol_allowed_domains p) = mset (pol_allowed_domains q) \<and>
     mset (pol_forbidden_hosts p) = mset (pol_forbidden_hosts q) \<and>
     mset (pol_forbidden_devices p) = mset (pol_forbidden_devices q) \<and>
     mset (pol_allowed_functions p) = mset (pol_allowed_functions q) \<and>
     p\<lparr>pol_allowed_domains := [], pol_forbidden_hosts := [], pol_forbidden_devices := [],
       pol_allowed_functions := []\<rparr> =
     q\<lparr>pol_allowed_domains := [], pol_forbidden_hosts := [], pol_forbidden_devices := [],
       pol_allowed_functions := []\<rparr>"

lemma sort_eq_iff_mset: "sort xs = sort ys \<longleftrightarrow> mset xs = mset (ys :: 'a::linorder list)"
  by (metis mset_sort properties_for_sort sorted_sort)

lemma canonicalize_eq_iff: "canonicalize p = canonicalize q \<longleftrightarrow> policy_order_equiv p q"
  by (cases p; cases q) (auto simp: canonicalize_def canonical_sort_sort policy_order_equiv_def sort_eq_iff_mset)

lemma canonicalize_idem [simp]: "canonicalize (canonicalize p) = canonicalize p"
  by (simp add: canonicalize_eq_iff policy_order_equiv_def) (simp add: canonicalize_def)

section \<open>Properties\<close>

text \<open>
  C29: Canonicalization identifies exactly the policies that differ only in the order of their
  collections: two policies have the same canonical form if and only if their collections
  are equal as bags and their other fields are equal; canonicalizing again changes nothing.
\<close>

theorem canonicalize_characterises_order:
  "(canonicalize p = canonicalize q \<longleftrightarrow> policy_order_equiv p q) \<and> canonicalize (canonicalize p) = canonicalize p"
  by (simp add: canonicalize_eq_iff)

end
