(* ===== verification/State.thy ===== *)
theory State
  imports Model
begin

text \<open>
  The durable state records of \<^verbatim>\<open>include/flow_offload/state.hpp\<close> and the request and result
  records of \<^verbatim>\<open>include/flow_offload/engine.hpp\<close>, one record per struct with its default
  value, the canonical order of the durable state, and the resource limits of
  \<^verbatim>\<open>include/flow_offload/limits.hpp\<close> and \<^verbatim>\<open>version.hpp\<close> that the code enforces.
\<close>

section \<open>Limits and versions\<close>

definition kMaxStringBytes :: nat where
  "kMaxStringBytes = 4096"

definition kMaxTargets :: nat where
  "kMaxTargets = 65536"

definition kMaxFlows :: nat where
  "kMaxFlows = 1048576"

definition kMaxEvidenceSources :: nat where
  "kMaxEvidenceSources = 4096"

definition kMaxMigrationContracts :: nat where
  "kMaxMigrationContracts = 65536"

definition kMaxMigrationRecords :: nat where
  "kMaxMigrationRecords = 262144"

definition kMaxRequestRecords :: nat where
  "kMaxRequestRecords = 65536"

definition kMaxHistoryRecords :: nat where
  "kMaxHistoryRecords = 4096"

definition kMaxExplanationSteps :: nat where
  "kMaxExplanationSteps = 64"

definition kMaxRankedCandidates :: nat where
  "kMaxRankedCandidates = 4096"

definition kMaxAlternatives :: nat where
  "kMaxAlternatives = 16"

definition kMaxRebalanceMigrations :: nat where
  "kMaxRebalanceMigrations = 1024"

definition kStateSemanticsVersion :: u32 where
  "kStateSemanticsVersion = 1"

definition kProtocolVersion :: u32 where
  "kProtocolVersion = 1"

lemmas limit_defs = kMaxStringBytes_def kMaxTargets_def kMaxFlows_def kMaxEvidenceSources_def kMaxMigrationContracts_def kMaxMigrationRecords_def kMaxRequestRecords_def kMaxHistoryRecords_def kMaxExplanationSteps_def kMaxRankedCandidates_def kMaxAlternatives_def kMaxRebalanceMigrations_def

section \<open>Durable state\<close>

record reason_count =
  rc_code :: "reason"
  rc_count :: "u64"

definition reason_count_default :: reason_count where
  "reason_count_default =
     \<lparr>rc_code = ReasonOk,
      rc_count = 0\<rparr>"

record counters =
  c_flows_registered :: "u64"
  c_targets_registered :: "u64"
  c_targets_removed :: "u64"
  c_evidence_accepted :: "u64"
  c_evidence_rejected :: "u64"
  c_evidence_idempotent :: "u64"
  c_load_records_rejected_stale :: "u64"
  c_placements_accepted :: "u64"
  c_placements_refused :: "u64"
  c_placements_fallback :: "u64"
  c_placements_retained :: "u64"
  c_recommendations_issued :: "u64"
  c_authorizations_granted :: "u64"
  c_authorizations_refused :: "u64"
  c_migrations_issued :: "u64"
  c_migrations_completed :: "u64"
  c_migrations_aborted :: "u64"
  c_migrations_fenced :: "u64"
  c_acknowledgements_accepted :: "u64"
  c_acknowledgements_rejected :: "u64"
  c_effects_applied :: "u64"
  c_effects_verified :: "u64"
  c_effects_rejected :: "u64"
  c_rebalances_executed :: "u64"
  c_rebalances_truncated :: "u64"
  c_rebalances_selected :: "u64"
  c_requests_deduplicated :: "u64"
  c_restarts :: "u64"
  c_persist_commits :: "u64"
  c_persist_failures :: "u64"
  c_compactions :: "u64"
  c_refusals_by_reason_total :: "u64"
  c_history_evictions :: "u64"
  c_observations_rejected :: "u64"
  c_authorizations_revoked :: "u64"
  c_operations_submitted :: "u64"
  c_operations_cancelled :: "u64"
  c_operations_backpressured :: "u64"
  c_evidence_conflicts :: "u64"
  c_load_evidence_stale_at_decision :: "u64"

definition counters_default :: counters where
  "counters_default =
     \<lparr>c_flows_registered = 0,
      c_targets_registered = 0,
      c_targets_removed = 0,
      c_evidence_accepted = 0,
      c_evidence_rejected = 0,
      c_evidence_idempotent = 0,
      c_load_records_rejected_stale = 0,
      c_placements_accepted = 0,
      c_placements_refused = 0,
      c_placements_fallback = 0,
      c_placements_retained = 0,
      c_recommendations_issued = 0,
      c_authorizations_granted = 0,
      c_authorizations_refused = 0,
      c_migrations_issued = 0,
      c_migrations_completed = 0,
      c_migrations_aborted = 0,
      c_migrations_fenced = 0,
      c_acknowledgements_accepted = 0,
      c_acknowledgements_rejected = 0,
      c_effects_applied = 0,
      c_effects_verified = 0,
      c_effects_rejected = 0,
      c_rebalances_executed = 0,
      c_rebalances_truncated = 0,
      c_rebalances_selected = 0,
      c_requests_deduplicated = 0,
      c_restarts = 0,
      c_persist_commits = 0,
      c_persist_failures = 0,
      c_compactions = 0,
      c_refusals_by_reason_total = 0,
      c_history_evictions = 0,
      c_observations_rejected = 0,
      c_authorizations_revoked = 0,
      c_operations_submitted = 0,
      c_operations_cancelled = 0,
      c_operations_backpressured = 0,
      c_evidence_conflicts = 0,
      c_load_evidence_stale_at_decision = 0\<rparr>"

record request_record =
  rr_request :: "request_id"
  rr_request_digest :: "digest"
  rr_result_digest :: "digest"
  rr_schedule_generation :: "schedule_generation"
  rr_outcome :: "reason"

definition request_record_default :: request_record where
  "request_record_default =
     \<lparr>rr_request = 0,
      rr_request_digest = digest_zero,
      rr_result_digest = digest_zero,
      rr_schedule_generation = 0,
      rr_outcome = ReasonOk\<rparr>"

record source_watermark =
  sw_source :: "evidence_source_id"
  sw_sequence :: "evidence_sequence"
  sw_capability_generation :: "capability_generation"
  sw_target :: "target_id"
  sw_incarnation :: "target_incarnation"

definition source_watermark_default :: source_watermark where
  "source_watermark_default =
     \<lparr>sw_source = 0,
      sw_sequence = 0,
      sw_capability_generation = 0,
      sw_target = 0,
      sw_incarnation = 0\<rparr>"

record migration_record =
  mr_intent :: "migration_intent"
  mr_source_acknowledgement :: "migration_acknowledgement"
  mr_destination_acknowledgement :: "migration_acknowledgement"
  mr_source_acknowledged :: "bool"
  mr_destination_acknowledged :: "bool"
  mr_applied :: "applied_effect"
  mr_effect_applied :: "bool"
  mr_effect_verified :: "bool"
  mr_verified_digest :: "digest"
  mr_abort_reason :: "reason"

definition migration_record_default :: migration_record where
  "migration_record_default =
     \<lparr>mr_intent = migration_intent_default,
      mr_source_acknowledgement = migration_acknowledgement_default,
      mr_destination_acknowledgement = migration_acknowledgement_default,
      mr_source_acknowledged = False,
      mr_destination_acknowledged = False,
      mr_applied = applied_effect_default,
      mr_effect_applied = False,
      mr_effect_verified = False,
      mr_verified_digest = digest_zero,
      mr_abort_reason = ReasonOk\<rparr>"

record durable_state =
  ds_semantics_version :: "u32"
  ds_epoch :: "coordinator_epoch"
  ds_boot :: "boot_id"
  ds_schedule_generation :: "schedule_generation"
  ds_topology_generation :: "topology_generation"
  ds_policy :: "policy"
  ds_policy_present :: "bool"
  ds_flows :: "flow_descriptor list"
  ds_targets :: "target_descriptor list"
  ds_assignments :: "assignment list"
  ds_contracts :: "migration_contract list"
  ds_migrations :: "migration_record list"
  ds_fences :: "fence_record list"
  ds_watermarks :: "source_watermark list"
  ds_requests :: "request_record list"
  ds_refusal_counts :: "reason_count list"
  ds_counters :: "counters"

definition durable_state_default :: durable_state where
  "durable_state_default =
     \<lparr>ds_semantics_version = kStateSemanticsVersion,
      ds_epoch = 0,
      ds_boot = boot_id_default,
      ds_schedule_generation = 0,
      ds_topology_generation = 0,
      ds_policy = policy_default,
      ds_policy_present = False,
      ds_flows = [],
      ds_targets = [],
      ds_assignments = [],
      ds_contracts = [],
      ds_migrations = [],
      ds_fences = [],
      ds_watermarks = [],
      ds_requests = [],
      ds_refusal_counts = [],
      ds_counters = counters_default\<rparr>"

text \<open>
  \<^verbatim>\<open>DurableState::canonicalize_order\<close>.  The keys are unique in every collection the engine
  builds, so the result of \<^verbatim>\<open>std::sort\<close> does not depend on how it treats equal keys.
\<close>

definition canonicalize_order :: "durable_state \<Rightarrow> durable_state" where
  "canonicalize_order s = s\<lparr>
     ds_policy := canonicalize (ds_policy s),
     ds_flows := stable_sort (\<lambda>a b. fd_flow a < fd_flow b) (ds_flows s),
     ds_targets := stable_sort (\<lambda>a b. td_target a < td_target b) (ds_targets s),
     ds_assignments := stable_sort (\<lambda>a b. as_flow a < as_flow b) (ds_assignments s),
     ds_contracts := stable_sort (\<lambda>a b. mc_id a < mc_id b) (ds_contracts s),
     ds_migrations := stable_sort (\<lambda>a b. mi_attempt (mr_intent a) < mi_attempt (mr_intent b)) (ds_migrations s),
     ds_fences := stable_sort (\<lambda>a b. fr_id a < fr_id b) (ds_fences s),
     ds_watermarks := stable_sort (\<lambda>a b. sw_source a < sw_source b) (ds_watermarks s),
     ds_requests := stable_sort (\<lambda>a b. rr_request a < rr_request b) (ds_requests s),
     ds_refusal_counts :=
       stable_sort (\<lambda>a b. reason_value (rc_code a) < reason_value (rc_code b)) (ds_refusal_counts s)\<rparr>"

section \<open>Requests and results\<close>

record placement_item =
  it_flow :: "flow_id"
  it_flow_generation :: "flow_generation"

definition placement_item_default :: placement_item where
  "placement_item_default =
     \<lparr>it_flow = 0,
      it_flow_generation = 0\<rparr>"

record placement_request =
  pr_request :: "request_id"
  pr_items :: "placement_item list"
  pr_evaluation_instant :: "timestamp"
  pr_policy_generation :: "policy_generation"
  pr_base_schedule_generation :: "schedule_generation"
  pr_max_alternatives :: "u32"
  pr_dry_run :: "bool"

definition placement_request_default :: placement_request where
  "placement_request_default =
     \<lparr>pr_request = 0,
      pr_items = [],
      pr_evaluation_instant = 0,
      pr_policy_generation = 0,
      pr_base_schedule_generation = 0,
      pr_max_alternatives = 0,
      pr_dry_run = False\<rparr>"

record candidate_view =
  cand_target :: "target_id"
  cand_domain :: "execution_domain"
  cand_host :: "host_id"
  cand_device :: "device_id"
  cand_incarnation :: "target_incarnation"
  cand_capability_generation :: "capability_generation"
  cand_cost_class :: "cost_class"
  cand_capacity :: "capacity_vector"
  cand_effective_used :: "capacity_vector"
  cand_available :: "capacity_vector"
  cand_demand :: "capacity_vector"
  cand_utilisation_ppm :: "u32"
  cand_utilisation_saturated :: "bool"
  cand_load_evidence_present :: "bool"
  cand_load_evidence_fresh :: "bool"
  cand_eligible :: "bool"
  cand_reason :: "reason"
  cand_rank :: "u32"
  cand_fallback_domain :: "bool"

definition candidate_view_default :: candidate_view where
  "candidate_view_default =
     \<lparr>cand_target = 0,
      cand_domain = DomainUnknown,
      cand_host = 0,
      cand_device = 0,
      cand_incarnation = 0,
      cand_capability_generation = 0,
      cand_cost_class = CostUnknown,
      cand_capacity = cv_zero,
      cand_effective_used = cv_zero,
      cand_available = cv_zero,
      cand_demand = cv_zero,
      cand_utilisation_ppm = 0,
      cand_utilisation_saturated = False,
      cand_load_evidence_present = False,
      cand_load_evidence_fresh = False,
      cand_eligible = False,
      cand_reason = ReasonOk,
      cand_rank = 0,
      cand_fallback_domain = False\<rparr>"

record flow_placement =
  fp_flow :: "flow_id"
  fp_flow_generation :: "flow_generation"
  fp_function :: "processing_function_id"
  fp_outcome :: "reason"
  fp_accepted :: "bool"
  fp_fallback :: "bool"
  fp_retained :: "bool"
  fp_changed :: "bool"
  fp_target :: "target_id"
  fp_incarnation :: "target_incarnation"
  fp_capability_generation :: "capability_generation"
  fp_domain :: "execution_domain"
  fp_assignment :: "assignment_id"
  fp_recommendation :: "recommendation_id"
  fp_alternatives :: "u32"
  fp_ranked :: "candidate_view list"
  fp_refused :: "candidate_view list"
  fp_explanation :: "explanation"

definition flow_placement_default :: flow_placement where
  "flow_placement_default =
     \<lparr>fp_flow = 0,
      fp_flow_generation = 0,
      fp_function = 0,
      fp_outcome = ReasonOk,
      fp_accepted = False,
      fp_fallback = False,
      fp_retained = False,
      fp_changed = False,
      fp_target = 0,
      fp_incarnation = 0,
      fp_capability_generation = 0,
      fp_domain = DomainUnknown,
      fp_assignment = 0,
      fp_recommendation = 0,
      fp_alternatives = 0,
      fp_ranked = [],
      fp_refused = [],
      fp_explanation = explanation_default\<rparr>"

record placement_result =
  res_request :: "request_id"
  res_status :: "reason"
  res_accepted :: "bool"
  res_duplicate :: "bool"
  res_dry_run :: "bool"
  res_schedule_generation :: "schedule_generation"
  res_placements :: "flow_placement list"
  res_refusal_summary :: "reason_count list"
  res_digest :: "digest"

definition placement_result_default :: placement_result where
  "placement_result_default =
     \<lparr>res_request = 0,
      res_status = ReasonOk,
      res_accepted = False,
      res_duplicate = False,
      res_dry_run = False,
      res_schedule_generation = 0,
      res_placements = [],
      res_refusal_summary = [],
      res_digest = digest_zero\<rparr>"

record rebalance_request =
  rq_request :: "request_id"
  rq_evaluation_instant :: "timestamp"
  rq_max_migrations :: "u32"
  rq_dry_run :: "bool"

definition rebalance_request_default :: rebalance_request where
  "rebalance_request_default =
     \<lparr>rq_request = 0,
      rq_evaluation_instant = 0,
      rq_max_migrations = 0,
      rq_dry_run = False\<rparr>"

record rebalance_report =
  rep_request :: "request_id"
  rep_status :: "reason"
  rep_schedule_generation :: "schedule_generation"
  rep_considered :: "u32"
  rep_eligible :: "u32"
  rep_selected :: "u32"
  rep_truncated :: "u32"
  rep_dry_run :: "bool"
  rep_intents :: "migration_intent list"
  rep_refusal_summary :: "reason_count list"
  rep_explanation :: "explanation"

definition rebalance_report_default :: rebalance_report where
  "rebalance_report_default =
     \<lparr>rep_request = 0,
      rep_status = ReasonOk,
      rep_schedule_generation = 0,
      rep_considered = 0,
      rep_eligible = 0,
      rep_selected = 0,
      rep_truncated = 0,
      rep_dry_run = False,
      rep_intents = [],
      rep_refusal_summary = [],
      rep_explanation = explanation_default\<rparr>"

end
