(* ===== verification/Serialize.thy ===== *)
theory Serialize
  imports State
begin

text \<open>
  The canonical serialization of \<^verbatim>\<open>include/flow_offload/serialize.hpp\<close> and
  \<^verbatim>\<open>src/serialize.cpp\<close>: an encoder and a decoder per record, field by field in the order of
  the code, with the decoder's checks (admissible enumeration values, known capability
  bits, known reason codes, collection bounds, semantics version).  \<open>valid_x\<close> is what the
  decoder of \<open>x\<close> checks; each codec is proved to satisfy the contract of locale \<open>codec\<close>.
\<close>

unbundle bit_operations_syntax

section \<open>Generic codecs\<close>

definition write_list :: "('a \<Rightarrow> cwriter \<Rightarrow> cwriter) \<Rightarrow> 'a list \<Rightarrow> cwriter \<Rightarrow> cwriter" where
  "write_list enc items = w_seq (w_u32 (of_nat (length items))) (w_all (map enc items))"

fun read_items :: "'a rd \<Rightarrow> nat \<Rightarrow> 'a list rd" where
  "read_items dec 0 = r_return []"
| "read_items dec (Suc n) = r_bind dec (\<lambda>x. r_bind (read_items dec n) (\<lambda>xs. r_return (x # xs)))"

definition read_list :: "'a rd \<Rightarrow> nat \<Rightarrow> 'a list rd" where
  "read_list dec max_items = r_bind r_u32 (\<lambda>count.
     if unat count > max_items then r_reject RejectedOversizedInput
     else read_items dec (unat count))"

definition w_mask :: "capability_mask \<Rightarrow> cwriter \<Rightarrow> cwriter" where
  "w_mask m = w_u64 m"

definition kKnownBits :: u64 where
  "kKnownBits = push_bit kCapabilityCount 1 - 1"

definition read_mask :: "capability_mask rd" where
  "read_mask = r_bind r_u64 (\<lambda>raw.
     if raw AND NOT kKnownBits \<noteq> 0 then r_reject RejectedUnknownCapability else r_return raw)"

definition encode_enum :: "('e \<Rightarrow> u8) \<Rightarrow> 'e \<Rightarrow> cwriter \<Rightarrow> cwriter" where
  "encode_enum value_of e = w_u8 (value_of e)"

text \<open>\<open>traits\<close> lists the enumerators whose values \<^verbatim>\<open>EnumTraits\<close> admits.\<close>

definition decode_enum :: "('e \<Rightarrow> u8) \<Rightarrow> 'e list \<Rightarrow> 'e rd" where
  "decode_enum value_of traits = r_bind r_u8 (\<lambda>raw.
     case List.find (\<lambda>e. value_of e = raw) traits of
       None \<Rightarrow> r_reject RejectedMalformedInput
     | Some e \<Rightarrow> r_return e)"

definition encode_id :: "u64 \<Rightarrow> cwriter \<Rightarrow> cwriter" where
  "encode_id v = w_u64 v"

definition decode_id :: "u64 rd" where
  "decode_id = r_u64"

definition encode_timestamp :: "timestamp \<Rightarrow> cwriter \<Rightarrow> cwriter" where
  "encode_timestamp v = w_u64 v"

definition decode_timestamp :: "timestamp rd" where
  "decode_timestamp = r_u64"

definition encode_digest :: "digest \<Rightarrow> cwriter \<Rightarrow> cwriter" where
  "encode_digest v = w_digest v"

definition decode_digest :: "digest rd" where
  "decode_digest = r_digest"

definition encode_reason :: "reason \<Rightarrow> cwriter \<Rightarrow> cwriter" where
  "encode_reason v = w_u32 (reason_value v)"

definition decode_reason :: "reason rd" where
  "decode_reason = r_bind r_u32 (\<lambda>raw.
     if raw > 0xFFFF then r_reject RejectedMalformedInput
     else if reason_to_string raw = ''UnknownReasonCode'' then r_reject RejectedMalformedInput
     else r_return raw)"

definition mask_known :: "capability_mask \<Rightarrow> bool" where
  "mask_known m \<longleftrightarrow> m AND NOT kKnownBits = 0"

definition digest_ok :: "digest \<Rightarrow> bool" where
  "digest_ok d \<longleftrightarrow> length d = 32"

definition string_ok :: "string \<Rightarrow> bool" where
  "string_ok s \<longleftrightarrow> length s \<le> kMaxStringBytes"

section \<open>Admissible enumeration values\<close>

definition traits_execution_domain :: "execution_domain list" where
  "traits_execution_domain = [DomainUnknown, Host, OffloadDevice]"

definition traits_target_kind :: "target_kind list" where
  "traits_target_kind = [KindUnknown, HostKernelPath, HostUserspacePath, NicHardwareOffload, SmartNic, Dpu]"

definition traits_target_lifecycle :: "target_lifecycle list" where
  "traits_target_lifecycle = [LifecycleUnknown, Discovered, Ready, Degraded, Draining, Quiesced, Removed]"

definition traits_statefulness :: "statefulness list" where
  "traits_statefulness = [StatefulnessUnknown, Stateless, Stateful]"

definition traits_cost_class :: "cost_class list" where
  "traits_cost_class = [CostUnknown, Economy, Standard, Premium, Scarce]"

definition traits_load_model :: "load_model list" where
  "traits_load_model = [LoadModelUnknown, ObservedOnly, ScheduledOnly, SumConservative, MaximumOfBoth]"

definition traits_evidence_state :: "evidence_state list" where
  "traits_evidence_state = [EvidenceUnknown, Known, Unsupported, Conflicting, Stale]"

definition traits_domain_preference :: "domain_preference list" where
  "traits_domain_preference = [PreferenceUnknown, HostFirst, OffloadFirst, HostOnly, OffloadOnly]"

definition traits_fallback_policy :: "fallback_policy list" where
  "traits_fallback_policy = [FallbackUnknown, Forbid, AllowHostFallback, AllowOffloadFallback, AllowAnyFallback]"

definition traits_locality_kind :: "locality_kind list" where
  "traits_locality_kind = [LocalityNone, SameHostAsFlow, SameDeviceAsFlow]"

definition traits_effect_state :: "effect_state list" where
  "traits_effect_state = [EffectUnknown, EffectIntentIssued, Acknowledged, Applied, Verified]"

definition traits_migration_phase :: "migration_phase list" where
  "traits_migration_phase = [PhaseUnknown, Planned, IntentIssued, SourceAcknowledged, DestinationAcknowledged, EffectApplied, EffectVerified, Completed, Aborted, Fenced]"

definition traits_migration_actor :: "migration_actor list" where
  "traits_migration_actor = [ActorUnknown, Source, Destination]"

section \<open>Records\<close>

definition encode_boot_id :: "boot_id \<Rightarrow> cwriter \<Rightarrow> cwriter" where
  "encode_boot_id v = w_all
     [w_u64 (boot_high v),
      w_u64 (boot_low v)]"

definition decode_boot_id :: "boot_id rd" where
  "decode_boot_id =
     r_bind r_u64 (\<lambda>x_high.
     r_bind r_u64 (\<lambda>x_low.
     r_return \<lparr>boot_high = x_high,
        boot_low = x_low\<rparr>))"

definition encode_capacity_vector :: "capacity_vector \<Rightarrow> cwriter \<Rightarrow> cwriter" where
  "encode_capacity_vector v = w_all
     [w_u64 (cv_packets_per_second v),
      w_u64 (cv_bytes_per_second v),
      w_u64 (cv_state_bytes v),
      w_u64 (cv_table_entries v)]"

definition decode_capacity_vector :: "capacity_vector rd" where
  "decode_capacity_vector =
     r_bind r_u64 (\<lambda>x_packets_per_second.
     r_bind r_u64 (\<lambda>x_bytes_per_second.
     r_bind r_u64 (\<lambda>x_state_bytes.
     r_bind r_u64 (\<lambda>x_table_entries.
     r_return \<lparr>cv_packets_per_second = x_packets_per_second,
        cv_bytes_per_second = x_bytes_per_second,
        cv_state_bytes = x_state_bytes,
        cv_table_entries = x_table_entries\<rparr>))))"

definition encode_flow_descriptor :: "flow_descriptor \<Rightarrow> cwriter \<Rightarrow> cwriter" where
  "encode_flow_descriptor v = w_all
     [encode_id (fd_flow v),
      encode_id (fd_generation v),
      encode_id (fd_function v),
      encode_enum statefulness_value (fd_statefulness v),
      encode_id (fd_exclusive_state_key v),
      w_mask (fd_required_capabilities v),
      encode_enum cost_class_value (fd_max_cost_class v),
      encode_capacity_vector (fd_demand v),
      encode_enum locality_kind_value (fd_locality v),
      encode_id (fd_locality_anchor v),
      w_boolean (fd_allow_migration v),
      w_boolean (fd_pinned v)]"

definition decode_flow_descriptor :: "flow_descriptor rd" where
  "decode_flow_descriptor =
     r_bind decode_id (\<lambda>x_flow.
     r_bind decode_id (\<lambda>x_generation.
     r_bind decode_id (\<lambda>x_function.
     r_bind (decode_enum statefulness_value traits_statefulness) (\<lambda>x_statefulness.
     r_bind decode_id (\<lambda>x_exclusive_state_key.
     r_bind read_mask (\<lambda>x_required_capabilities.
     r_bind (decode_enum cost_class_value traits_cost_class) (\<lambda>x_max_cost_class.
     r_bind decode_capacity_vector (\<lambda>x_demand.
     r_bind (decode_enum locality_kind_value traits_locality_kind) (\<lambda>x_locality.
     r_bind decode_id (\<lambda>x_locality_anchor.
     r_bind r_boolean (\<lambda>x_allow_migration.
     r_bind r_boolean (\<lambda>x_pinned.
     r_return \<lparr>fd_flow = x_flow,
        fd_generation = x_generation,
        fd_function = x_function,
        fd_statefulness = x_statefulness,
        fd_exclusive_state_key = x_exclusive_state_key,
        fd_required_capabilities = x_required_capabilities,
        fd_max_cost_class = x_max_cost_class,
        fd_demand = x_demand,
        fd_locality = x_locality,
        fd_locality_anchor = x_locality_anchor,
        fd_allow_migration = x_allow_migration,
        fd_pinned = x_pinned\<rparr>))))))))))))"

definition valid_flow_descriptor :: "flow_descriptor \<Rightarrow> bool" where
  "valid_flow_descriptor v \<longleftrightarrow>
     mask_known (fd_required_capabilities v)"

definition encode_target_descriptor :: "target_descriptor \<Rightarrow> cwriter \<Rightarrow> cwriter" where
  "encode_target_descriptor v = w_all
     [encode_id (td_target v),
      encode_id (td_incarnation v),
      encode_id (td_capability_generation v),
      encode_id (td_topology_generation v),
      encode_enum execution_domain_value (td_domain v),
      encode_enum target_kind_value (td_kind v),
      encode_id (td_host v),
      encode_id (td_device v),
      w_mask (td_capabilities v),
      encode_capacity_vector (td_capacity v),
      encode_capacity_vector (td_reserved v),
      encode_enum cost_class_value (td_cost_class v),
      encode_enum target_lifecycle_value (td_lifecycle v),
      w_boolean (td_supports_stateful v),
      w_boolean (td_supports_migration v),
      encode_id (td_source v),
      encode_id (td_source_sequence v),
      encode_timestamp (td_issued_at v)]"

definition decode_target_descriptor :: "target_descriptor rd" where
  "decode_target_descriptor =
     r_bind decode_id (\<lambda>x_target.
     r_bind decode_id (\<lambda>x_incarnation.
     r_bind decode_id (\<lambda>x_capability_generation.
     r_bind decode_id (\<lambda>x_topology_generation.
     r_bind (decode_enum execution_domain_value traits_execution_domain) (\<lambda>x_domain.
     r_bind (decode_enum target_kind_value traits_target_kind) (\<lambda>x_kind.
     r_bind decode_id (\<lambda>x_host.
     r_bind decode_id (\<lambda>x_device.
     r_bind read_mask (\<lambda>x_capabilities.
     r_bind decode_capacity_vector (\<lambda>x_capacity.
     r_bind decode_capacity_vector (\<lambda>x_reserved.
     r_bind (decode_enum cost_class_value traits_cost_class) (\<lambda>x_cost_class.
     r_bind (decode_enum target_lifecycle_value traits_target_lifecycle) (\<lambda>x_lifecycle.
     r_bind r_boolean (\<lambda>x_supports_stateful.
     r_bind r_boolean (\<lambda>x_supports_migration.
     r_bind decode_id (\<lambda>x_source.
     r_bind decode_id (\<lambda>x_source_sequence.
     r_bind decode_timestamp (\<lambda>x_issued_at.
     r_return \<lparr>td_target = x_target,
        td_incarnation = x_incarnation,
        td_capability_generation = x_capability_generation,
        td_topology_generation = x_topology_generation,
        td_domain = x_domain,
        td_kind = x_kind,
        td_host = x_host,
        td_device = x_device,
        td_capabilities = x_capabilities,
        td_capacity = x_capacity,
        td_reserved = x_reserved,
        td_cost_class = x_cost_class,
        td_lifecycle = x_lifecycle,
        td_supports_stateful = x_supports_stateful,
        td_supports_migration = x_supports_migration,
        td_source = x_source,
        td_source_sequence = x_source_sequence,
        td_issued_at = x_issued_at\<rparr>))))))))))))))))))"

definition valid_target_descriptor :: "target_descriptor \<Rightarrow> bool" where
  "valid_target_descriptor v \<longleftrightarrow>
     mask_known (td_capabilities v)"

definition encode_load_evidence :: "load_evidence \<Rightarrow> cwriter \<Rightarrow> cwriter" where
  "encode_load_evidence v = w_all
     [encode_id (le_target v),
      encode_id (le_incarnation v),
      encode_id (le_capability_generation v),
      encode_id (le_source v),
      encode_id (le_source_sequence v),
      encode_timestamp (le_observed_at v),
      encode_enum evidence_state_value (le_state v),
      encode_capacity_vector (le_utilized v)]"

definition decode_load_evidence :: "load_evidence rd" where
  "decode_load_evidence =
     r_bind decode_id (\<lambda>x_target.
     r_bind decode_id (\<lambda>x_incarnation.
     r_bind decode_id (\<lambda>x_capability_generation.
     r_bind decode_id (\<lambda>x_source.
     r_bind decode_id (\<lambda>x_source_sequence.
     r_bind decode_timestamp (\<lambda>x_observed_at.
     r_bind (decode_enum evidence_state_value traits_evidence_state) (\<lambda>x_state.
     r_bind decode_capacity_vector (\<lambda>x_utilized.
     r_return \<lparr>le_target = x_target,
        le_incarnation = x_incarnation,
        le_capability_generation = x_capability_generation,
        le_source = x_source,
        le_source_sequence = x_source_sequence,
        le_observed_at = x_observed_at,
        le_state = x_state,
        le_utilized = x_utilized\<rparr>))))))))"

definition encode_policy :: "policy \<Rightarrow> cwriter \<Rightarrow> cwriter" where
  "encode_policy v = w_all
     [encode_id (pol_generation v),
      encode_enum domain_preference_value (pol_domain_preference v),
      encode_enum fallback_policy_value (pol_fallback v),
      w_mask (pol_required_capabilities v),
      encode_enum cost_class_value (pol_max_cost_class v),
      write_list (encode_enum execution_domain_value) (pol_allowed_domains v),
      write_list encode_id (pol_forbidden_hosts v),
      write_list encode_id (pol_forbidden_devices v),
      encode_capacity_vector (pol_reserve v),
      encode_enum load_model_value (pol_load_model v),
      w_boolean (pol_allow_placement_without_load_evidence v),
      w_boolean (pol_sticky v),
      w_boolean (pol_allow_migration v),
      w_u32 (pol_min_improvement_ppm v),
      w_u32 (pol_max_rebalance_migrations v),
      write_list encode_id (pol_allowed_functions v)]"

definition decode_policy :: "policy rd" where
  "decode_policy =
     r_bind decode_id (\<lambda>x_generation.
     r_bind (decode_enum domain_preference_value traits_domain_preference) (\<lambda>x_domain_preference.
     r_bind (decode_enum fallback_policy_value traits_fallback_policy) (\<lambda>x_fallback.
     r_bind read_mask (\<lambda>x_required_capabilities.
     r_bind (decode_enum cost_class_value traits_cost_class) (\<lambda>x_max_cost_class.
     r_bind (read_list (decode_enum execution_domain_value traits_execution_domain) 8) (\<lambda>x_allowed_domains.
     r_bind (read_list decode_id kMaxTargets) (\<lambda>x_forbidden_hosts.
     r_bind (read_list decode_id kMaxTargets) (\<lambda>x_forbidden_devices.
     r_bind decode_capacity_vector (\<lambda>x_reserve.
     r_bind (decode_enum load_model_value traits_load_model) (\<lambda>x_load_model.
     r_bind r_boolean (\<lambda>x_allow_placement_without_load_evidence.
     r_bind r_boolean (\<lambda>x_sticky.
     r_bind r_boolean (\<lambda>x_allow_migration.
     r_bind r_u32 (\<lambda>x_min_improvement_ppm.
     r_bind r_u32 (\<lambda>x_max_rebalance_migrations.
     r_bind (read_list decode_id kMaxFlows) (\<lambda>x_allowed_functions.
     r_return \<lparr>pol_generation = x_generation,
        pol_domain_preference = x_domain_preference,
        pol_fallback = x_fallback,
        pol_required_capabilities = x_required_capabilities,
        pol_max_cost_class = x_max_cost_class,
        pol_allowed_domains = x_allowed_domains,
        pol_forbidden_hosts = x_forbidden_hosts,
        pol_forbidden_devices = x_forbidden_devices,
        pol_reserve = x_reserve,
        pol_allow_placement_without_load_evidence = x_allow_placement_without_load_evidence,
        pol_load_model = x_load_model,
        pol_sticky = x_sticky,
        pol_allow_migration = x_allow_migration,
        pol_min_improvement_ppm = x_min_improvement_ppm,
        pol_max_rebalance_migrations = x_max_rebalance_migrations,
        pol_allowed_functions = x_allowed_functions\<rparr>))))))))))))))))"

definition valid_policy :: "policy \<Rightarrow> bool" where
  "valid_policy v \<longleftrightarrow>
     mask_known (pol_required_capabilities v) \<and>
     length (pol_allowed_domains v) \<le> 8 \<and>
     length (pol_forbidden_hosts v) \<le> kMaxTargets \<and>
     length (pol_forbidden_devices v) \<le> kMaxTargets \<and>
     length (pol_allowed_functions v) \<le> kMaxFlows"

definition encode_migration_contract :: "migration_contract \<Rightarrow> cwriter \<Rightarrow> cwriter" where
  "encode_migration_contract v = w_all
     [encode_id (mc_id v),
      encode_id (mc_flow v),
      encode_id (mc_flow_generation v),
      encode_enum statefulness_value (mc_statefulness v),
      w_boolean (mc_state_transfer_defined v),
      w_boolean (mc_ordering_preserved v),
      w_boolean (mc_rollback_defined v),
      w_boolean (mc_exclusive_handoff v),
      encode_id (mc_destination_target v),
      encode_id (mc_destination_incarnation v),
      encode_id (mc_destination_capability_generation v),
      encode_id (mc_policy_generation v),
      w_u64 (mc_max_state_bytes v)]"

definition decode_migration_contract :: "migration_contract rd" where
  "decode_migration_contract =
     r_bind decode_id (\<lambda>x_id.
     r_bind decode_id (\<lambda>x_flow.
     r_bind decode_id (\<lambda>x_flow_generation.
     r_bind (decode_enum statefulness_value traits_statefulness) (\<lambda>x_statefulness.
     r_bind r_boolean (\<lambda>x_state_transfer_defined.
     r_bind r_boolean (\<lambda>x_ordering_preserved.
     r_bind r_boolean (\<lambda>x_rollback_defined.
     r_bind r_boolean (\<lambda>x_exclusive_handoff.
     r_bind decode_id (\<lambda>x_destination_target.
     r_bind decode_id (\<lambda>x_destination_incarnation.
     r_bind decode_id (\<lambda>x_destination_capability_generation.
     r_bind decode_id (\<lambda>x_policy_generation.
     r_bind r_u64 (\<lambda>x_max_state_bytes.
     r_return \<lparr>mc_id = x_id,
        mc_flow = x_flow,
        mc_flow_generation = x_flow_generation,
        mc_statefulness = x_statefulness,
        mc_state_transfer_defined = x_state_transfer_defined,
        mc_ordering_preserved = x_ordering_preserved,
        mc_rollback_defined = x_rollback_defined,
        mc_exclusive_handoff = x_exclusive_handoff,
        mc_destination_target = x_destination_target,
        mc_destination_incarnation = x_destination_incarnation,
        mc_destination_capability_generation = x_destination_capability_generation,
        mc_policy_generation = x_policy_generation,
        mc_max_state_bytes = x_max_state_bytes\<rparr>)))))))))))))"

definition encode_assignment :: "assignment \<Rightarrow> cwriter \<Rightarrow> cwriter" where
  "encode_assignment v = w_all
     [encode_id (as_assignment v),
      encode_id (as_flow v),
      encode_id (as_flow_generation v),
      encode_id (as_target v),
      encode_id (as_incarnation v),
      encode_id (as_capability_generation v),
      encode_id (as_policy_generation v),
      encode_id (as_schedule_generation v),
      encode_enum effect_state_value (as_effect v),
      encode_reason (as_reason v),
      encode_timestamp (as_committed_at v),
      encode_id (as_supersedes v)]"

definition decode_assignment :: "assignment rd" where
  "decode_assignment =
     r_bind decode_id (\<lambda>x_assignment.
     r_bind decode_id (\<lambda>x_flow.
     r_bind decode_id (\<lambda>x_flow_generation.
     r_bind decode_id (\<lambda>x_target.
     r_bind decode_id (\<lambda>x_incarnation.
     r_bind decode_id (\<lambda>x_capability_generation.
     r_bind decode_id (\<lambda>x_policy_generation.
     r_bind decode_id (\<lambda>x_schedule_generation.
     r_bind (decode_enum effect_state_value traits_effect_state) (\<lambda>x_effect.
     r_bind decode_reason (\<lambda>x_reason.
     r_bind decode_timestamp (\<lambda>x_committed_at.
     r_bind decode_id (\<lambda>x_supersedes.
     r_return \<lparr>as_assignment = x_assignment,
        as_flow = x_flow,
        as_flow_generation = x_flow_generation,
        as_target = x_target,
        as_incarnation = x_incarnation,
        as_capability_generation = x_capability_generation,
        as_policy_generation = x_policy_generation,
        as_schedule_generation = x_schedule_generation,
        as_effect = x_effect,
        as_reason = x_reason,
        as_committed_at = x_committed_at,
        as_supersedes = x_supersedes\<rparr>))))))))))))"

definition valid_assignment :: "assignment \<Rightarrow> bool" where
  "valid_assignment v \<longleftrightarrow>
     reason_known (as_reason v)"

definition encode_recommendation :: "recommendation \<Rightarrow> cwriter \<Rightarrow> cwriter" where
  "encode_recommendation v = w_all
     [encode_id (rec_id v),
      encode_id (rec_request v),
      encode_id (rec_flow v),
      encode_id (rec_flow_generation v),
      encode_id (rec_target v),
      encode_id (rec_incarnation v),
      encode_id (rec_capability_generation v),
      encode_id (rec_policy_generation v),
      encode_id (rec_schedule_generation v),
      encode_id (rec_topology_generation v),
      encode_id (rec_epoch v),
      encode_boot_id (rec_boot v),
      encode_enum execution_domain_value (rec_domain v),
      encode_reason (rec_outcome v),
      w_boolean (rec_fallback v),
      encode_timestamp (rec_issued_at v),
      encode_digest (rec_digest v)]"

definition decode_recommendation :: "recommendation rd" where
  "decode_recommendation =
     r_bind decode_id (\<lambda>x_id.
     r_bind decode_id (\<lambda>x_request.
     r_bind decode_id (\<lambda>x_flow.
     r_bind decode_id (\<lambda>x_flow_generation.
     r_bind decode_id (\<lambda>x_target.
     r_bind decode_id (\<lambda>x_incarnation.
     r_bind decode_id (\<lambda>x_capability_generation.
     r_bind decode_id (\<lambda>x_policy_generation.
     r_bind decode_id (\<lambda>x_schedule_generation.
     r_bind decode_id (\<lambda>x_topology_generation.
     r_bind decode_id (\<lambda>x_epoch.
     r_bind decode_boot_id (\<lambda>x_boot.
     r_bind (decode_enum execution_domain_value traits_execution_domain) (\<lambda>x_domain.
     r_bind decode_reason (\<lambda>x_outcome.
     r_bind r_boolean (\<lambda>x_fallback.
     r_bind decode_timestamp (\<lambda>x_issued_at.
     r_bind decode_digest (\<lambda>x_digest.
     r_return \<lparr>rec_id = x_id,
        rec_request = x_request,
        rec_flow = x_flow,
        rec_flow_generation = x_flow_generation,
        rec_target = x_target,
        rec_incarnation = x_incarnation,
        rec_capability_generation = x_capability_generation,
        rec_policy_generation = x_policy_generation,
        rec_schedule_generation = x_schedule_generation,
        rec_topology_generation = x_topology_generation,
        rec_epoch = x_epoch,
        rec_boot = x_boot,
        rec_domain = x_domain,
        rec_outcome = x_outcome,
        rec_fallback = x_fallback,
        rec_issued_at = x_issued_at,
        rec_digest = x_digest\<rparr>)))))))))))))))))"

definition valid_recommendation :: "recommendation \<Rightarrow> bool" where
  "valid_recommendation v \<longleftrightarrow>
     reason_known (rec_outcome v) \<and>
     digest_ok (rec_digest v)"

definition encode_authorization :: "authorization \<Rightarrow> cwriter \<Rightarrow> cwriter" where
  "encode_authorization v = w_all
     [encode_id (auth_id v),
      encode_id (auth_recommendation v),
      encode_id (auth_request v),
      encode_id (auth_flow v),
      encode_id (auth_flow_generation v),
      encode_id (auth_target v),
      encode_id (auth_incarnation v),
      encode_id (auth_capability_generation v),
      encode_id (auth_policy_generation v),
      encode_id (auth_schedule_generation v),
      encode_id (auth_epoch v),
      encode_boot_id (auth_boot v),
      encode_id (auth_fence v),
      encode_reason (auth_outcome v),
      encode_timestamp (auth_granted_at v),
      encode_digest (auth_digest v)]"

definition decode_authorization :: "authorization rd" where
  "decode_authorization =
     r_bind decode_id (\<lambda>x_id.
     r_bind decode_id (\<lambda>x_recommendation.
     r_bind decode_id (\<lambda>x_request.
     r_bind decode_id (\<lambda>x_flow.
     r_bind decode_id (\<lambda>x_flow_generation.
     r_bind decode_id (\<lambda>x_target.
     r_bind decode_id (\<lambda>x_incarnation.
     r_bind decode_id (\<lambda>x_capability_generation.
     r_bind decode_id (\<lambda>x_policy_generation.
     r_bind decode_id (\<lambda>x_schedule_generation.
     r_bind decode_id (\<lambda>x_epoch.
     r_bind decode_boot_id (\<lambda>x_boot.
     r_bind decode_id (\<lambda>x_fence.
     r_bind decode_reason (\<lambda>x_outcome.
     r_bind decode_timestamp (\<lambda>x_granted_at.
     r_bind decode_digest (\<lambda>x_digest.
     r_return \<lparr>auth_id = x_id,
        auth_recommendation = x_recommendation,
        auth_request = x_request,
        auth_flow = x_flow,
        auth_flow_generation = x_flow_generation,
        auth_target = x_target,
        auth_incarnation = x_incarnation,
        auth_capability_generation = x_capability_generation,
        auth_policy_generation = x_policy_generation,
        auth_schedule_generation = x_schedule_generation,
        auth_epoch = x_epoch,
        auth_boot = x_boot,
        auth_fence = x_fence,
        auth_outcome = x_outcome,
        auth_granted_at = x_granted_at,
        auth_digest = x_digest\<rparr>))))))))))))))))"

definition valid_authorization :: "authorization \<Rightarrow> bool" where
  "valid_authorization v \<longleftrightarrow>
     reason_known (auth_outcome v) \<and>
     digest_ok (auth_digest v)"

definition encode_migration_intent :: "migration_intent \<Rightarrow> cwriter \<Rightarrow> cwriter" where
  "encode_migration_intent v = w_all
     [encode_id (mi_attempt v),
      encode_id (mi_flow v),
      encode_id (mi_flow_generation v),
      encode_id (mi_source_assignment v),
      encode_id (mi_source_target v),
      encode_id (mi_source_incarnation v),
      encode_id (mi_source_capability_generation v),
      encode_id (mi_destination_target v),
      encode_id (mi_destination_incarnation v),
      encode_id (mi_destination_capability_generation v),
      encode_id (mi_contract v),
      encode_id (mi_policy_generation v),
      encode_id (mi_schedule_generation v),
      encode_id (mi_epoch v),
      encode_boot_id (mi_boot v),
      encode_id (mi_fence v),
      encode_enum migration_phase_value (mi_phase v),
      encode_timestamp (mi_issued_at v)]"

definition decode_migration_intent :: "migration_intent rd" where
  "decode_migration_intent =
     r_bind decode_id (\<lambda>x_attempt.
     r_bind decode_id (\<lambda>x_flow.
     r_bind decode_id (\<lambda>x_flow_generation.
     r_bind decode_id (\<lambda>x_source_assignment.
     r_bind decode_id (\<lambda>x_source_target.
     r_bind decode_id (\<lambda>x_source_incarnation.
     r_bind decode_id (\<lambda>x_source_capability_generation.
     r_bind decode_id (\<lambda>x_destination_target.
     r_bind decode_id (\<lambda>x_destination_incarnation.
     r_bind decode_id (\<lambda>x_destination_capability_generation.
     r_bind decode_id (\<lambda>x_contract.
     r_bind decode_id (\<lambda>x_policy_generation.
     r_bind decode_id (\<lambda>x_schedule_generation.
     r_bind decode_id (\<lambda>x_epoch.
     r_bind decode_boot_id (\<lambda>x_boot.
     r_bind decode_id (\<lambda>x_fence.
     r_bind (decode_enum migration_phase_value traits_migration_phase) (\<lambda>x_phase.
     r_bind decode_timestamp (\<lambda>x_issued_at.
     r_return \<lparr>mi_attempt = x_attempt,
        mi_flow = x_flow,
        mi_flow_generation = x_flow_generation,
        mi_source_assignment = x_source_assignment,
        mi_source_target = x_source_target,
        mi_source_incarnation = x_source_incarnation,
        mi_source_capability_generation = x_source_capability_generation,
        mi_destination_target = x_destination_target,
        mi_destination_incarnation = x_destination_incarnation,
        mi_destination_capability_generation = x_destination_capability_generation,
        mi_contract = x_contract,
        mi_policy_generation = x_policy_generation,
        mi_schedule_generation = x_schedule_generation,
        mi_epoch = x_epoch,
        mi_boot = x_boot,
        mi_fence = x_fence,
        mi_phase = x_phase,
        mi_issued_at = x_issued_at\<rparr>))))))))))))))))))"

definition encode_migration_acknowledgement :: "migration_acknowledgement \<Rightarrow> cwriter \<Rightarrow> cwriter" where
  "encode_migration_acknowledgement v = w_all
     [encode_id (ack_attempt v),
      encode_enum migration_actor_value (ack_actor v),
      encode_id (ack_target v),
      encode_id (ack_incarnation v),
      encode_id (ack_capability_generation v),
      encode_id (ack_epoch v),
      encode_boot_id (ack_boot v),
      w_boolean (ack_accepted v),
      encode_reason (ack_reason v),
      encode_timestamp (ack_acknowledged_at v)]"

definition decode_migration_acknowledgement :: "migration_acknowledgement rd" where
  "decode_migration_acknowledgement =
     r_bind decode_id (\<lambda>x_attempt.
     r_bind (decode_enum migration_actor_value traits_migration_actor) (\<lambda>x_actor.
     r_bind decode_id (\<lambda>x_target.
     r_bind decode_id (\<lambda>x_incarnation.
     r_bind decode_id (\<lambda>x_capability_generation.
     r_bind decode_id (\<lambda>x_epoch.
     r_bind decode_boot_id (\<lambda>x_boot.
     r_bind r_boolean (\<lambda>x_accepted.
     r_bind decode_reason (\<lambda>x_reason.
     r_bind decode_timestamp (\<lambda>x_acknowledged_at.
     r_return \<lparr>ack_attempt = x_attempt,
        ack_actor = x_actor,
        ack_target = x_target,
        ack_incarnation = x_incarnation,
        ack_capability_generation = x_capability_generation,
        ack_epoch = x_epoch,
        ack_boot = x_boot,
        ack_accepted = x_accepted,
        ack_reason = x_reason,
        ack_acknowledged_at = x_acknowledged_at\<rparr>))))))))))"

definition valid_migration_acknowledgement :: "migration_acknowledgement \<Rightarrow> bool" where
  "valid_migration_acknowledgement v \<longleftrightarrow>
     reason_known (ack_reason v)"

definition encode_applied_effect :: "applied_effect \<Rightarrow> cwriter \<Rightarrow> cwriter" where
  "encode_applied_effect v = w_all
     [encode_id (ae_attempt v),
      encode_id (ae_target v),
      encode_id (ae_incarnation v),
      encode_id (ae_capability_generation v),
      encode_id (ae_epoch v),
      encode_boot_id (ae_boot v),
      encode_digest (ae_effect_digest v),
      w_u64 (ae_state_bytes v),
      encode_timestamp (ae_applied_at v)]"

definition decode_applied_effect :: "applied_effect rd" where
  "decode_applied_effect =
     r_bind decode_id (\<lambda>x_attempt.
     r_bind decode_id (\<lambda>x_target.
     r_bind decode_id (\<lambda>x_incarnation.
     r_bind decode_id (\<lambda>x_capability_generation.
     r_bind decode_id (\<lambda>x_epoch.
     r_bind decode_boot_id (\<lambda>x_boot.
     r_bind decode_digest (\<lambda>x_effect_digest.
     r_bind r_u64 (\<lambda>x_state_bytes.
     r_bind decode_timestamp (\<lambda>x_applied_at.
     r_return \<lparr>ae_attempt = x_attempt,
        ae_target = x_target,
        ae_incarnation = x_incarnation,
        ae_capability_generation = x_capability_generation,
        ae_epoch = x_epoch,
        ae_boot = x_boot,
        ae_effect_digest = x_effect_digest,
        ae_state_bytes = x_state_bytes,
        ae_applied_at = x_applied_at\<rparr>)))))))))"

definition valid_applied_effect :: "applied_effect \<Rightarrow> bool" where
  "valid_applied_effect v \<longleftrightarrow>
     digest_ok (ae_effect_digest v)"

definition encode_effect_observation :: "effect_observation \<Rightarrow> cwriter \<Rightarrow> cwriter" where
  "encode_effect_observation v = w_all
     [encode_id (eo_flow v),
      encode_id (eo_flow_generation v),
      encode_id (eo_target v),
      encode_id (eo_incarnation v),
      encode_id (eo_capability_generation v),
      encode_id (eo_source v),
      encode_id (eo_source_sequence v),
      encode_enum evidence_state_value (eo_state v),
      encode_enum target_lifecycle_value (eo_lifecycle v),
      encode_digest (eo_effect_digest v),
      encode_timestamp (eo_observed_at v)]"

definition decode_effect_observation :: "effect_observation rd" where
  "decode_effect_observation =
     r_bind decode_id (\<lambda>x_flow.
     r_bind decode_id (\<lambda>x_flow_generation.
     r_bind decode_id (\<lambda>x_target.
     r_bind decode_id (\<lambda>x_incarnation.
     r_bind decode_id (\<lambda>x_capability_generation.
     r_bind decode_id (\<lambda>x_source.
     r_bind decode_id (\<lambda>x_source_sequence.
     r_bind (decode_enum evidence_state_value traits_evidence_state) (\<lambda>x_state.
     r_bind (decode_enum target_lifecycle_value traits_target_lifecycle) (\<lambda>x_lifecycle.
     r_bind decode_digest (\<lambda>x_effect_digest.
     r_bind decode_timestamp (\<lambda>x_observed_at.
     r_return \<lparr>eo_flow = x_flow,
        eo_flow_generation = x_flow_generation,
        eo_target = x_target,
        eo_incarnation = x_incarnation,
        eo_capability_generation = x_capability_generation,
        eo_source = x_source,
        eo_source_sequence = x_source_sequence,
        eo_state = x_state,
        eo_lifecycle = x_lifecycle,
        eo_effect_digest = x_effect_digest,
        eo_observed_at = x_observed_at\<rparr>)))))))))))"

definition valid_effect_observation :: "effect_observation \<Rightarrow> bool" where
  "valid_effect_observation v \<longleftrightarrow>
     digest_ok (eo_effect_digest v)"

definition encode_fence_record :: "fence_record \<Rightarrow> cwriter \<Rightarrow> cwriter" where
  "encode_fence_record v = w_all
     [encode_id (fr_id v),
      encode_id (fr_epoch v),
      encode_boot_id (fr_boot v),
      encode_id (fr_flow v),
      encode_id (fr_target v),
      encode_reason (fr_reason v),
      w_boolean (fr_active v),
      encode_timestamp (fr_issued_at v)]"

definition decode_fence_record :: "fence_record rd" where
  "decode_fence_record =
     r_bind decode_id (\<lambda>x_id.
     r_bind decode_id (\<lambda>x_epoch.
     r_bind decode_boot_id (\<lambda>x_boot.
     r_bind decode_id (\<lambda>x_flow.
     r_bind decode_id (\<lambda>x_target.
     r_bind decode_reason (\<lambda>x_reason.
     r_bind r_boolean (\<lambda>x_active.
     r_bind decode_timestamp (\<lambda>x_issued_at.
     r_return \<lparr>fr_id = x_id,
        fr_epoch = x_epoch,
        fr_boot = x_boot,
        fr_flow = x_flow,
        fr_target = x_target,
        fr_reason = x_reason,
        fr_active = x_active,
        fr_issued_at = x_issued_at\<rparr>))))))))"

definition valid_fence_record :: "fence_record \<Rightarrow> bool" where
  "valid_fence_record v \<longleftrightarrow>
     reason_known (fr_reason v)"

definition encode_explanation_step :: "explanation_step \<Rightarrow> cwriter \<Rightarrow> cwriter" where
  "encode_explanation_step v = w_all
     [encode_reason (es_code v),
      w_u64 (es_value_a v),
      w_u64 (es_value_b v),
      w_text (es_detail v)]"

definition decode_explanation_step :: "explanation_step rd" where
  "decode_explanation_step =
     r_bind decode_reason (\<lambda>x_code.
     r_bind r_u64 (\<lambda>x_value_a.
     r_bind r_u64 (\<lambda>x_value_b.
     r_bind (r_text kMaxStringBytes) (\<lambda>x_detail.
     r_return \<lparr>es_code = x_code,
        es_value_a = x_value_a,
        es_value_b = x_value_b,
        es_detail = x_detail\<rparr>))))"

definition valid_explanation_step :: "explanation_step \<Rightarrow> bool" where
  "valid_explanation_step v \<longleftrightarrow>
     reason_known (es_code v) \<and>
     string_ok (es_detail v)"

definition encode_explanation :: "explanation \<Rightarrow> cwriter \<Rightarrow> cwriter" where
  "encode_explanation v = w_all
     [encode_reason (ex_primary v),
      encode_id (ex_flow v),
      encode_id (ex_flow_generation v),
      encode_id (ex_target v),
      encode_id (ex_incarnation v),
      encode_id (ex_policy_generation v),
      encode_id (ex_schedule_generation v),
      encode_id (ex_topology_generation v),
      encode_id (ex_epoch v),
      encode_boot_id (ex_boot v),
      encode_timestamp (ex_evaluation_instant v),
      write_list encode_explanation_step (ex_accepted v),
      write_list encode_explanation_step (ex_refused v)]"

definition decode_explanation :: "explanation rd" where
  "decode_explanation =
     r_bind decode_reason (\<lambda>x_primary.
     r_bind decode_id (\<lambda>x_flow.
     r_bind decode_id (\<lambda>x_flow_generation.
     r_bind decode_id (\<lambda>x_target.
     r_bind decode_id (\<lambda>x_incarnation.
     r_bind decode_id (\<lambda>x_policy_generation.
     r_bind decode_id (\<lambda>x_schedule_generation.
     r_bind decode_id (\<lambda>x_topology_generation.
     r_bind decode_id (\<lambda>x_epoch.
     r_bind decode_boot_id (\<lambda>x_boot.
     r_bind decode_timestamp (\<lambda>x_evaluation_instant.
     r_bind (read_list decode_explanation_step kMaxExplanationSteps) (\<lambda>x_accepted.
     r_bind (read_list decode_explanation_step kMaxExplanationSteps) (\<lambda>x_refused.
     r_return \<lparr>ex_primary = x_primary,
        ex_flow = x_flow,
        ex_flow_generation = x_flow_generation,
        ex_target = x_target,
        ex_incarnation = x_incarnation,
        ex_policy_generation = x_policy_generation,
        ex_schedule_generation = x_schedule_generation,
        ex_topology_generation = x_topology_generation,
        ex_epoch = x_epoch,
        ex_boot = x_boot,
        ex_evaluation_instant = x_evaluation_instant,
        ex_accepted = x_accepted,
        ex_refused = x_refused\<rparr>)))))))))))))"

definition valid_explanation :: "explanation \<Rightarrow> bool" where
  "valid_explanation v \<longleftrightarrow>
     reason_known (ex_primary v) \<and>
     length (ex_accepted v) \<le> kMaxExplanationSteps \<and>
     list_all valid_explanation_step (ex_accepted v) \<and>
     length (ex_refused v) \<le> kMaxExplanationSteps \<and>
     list_all valid_explanation_step (ex_refused v)"

definition encode_migration_record :: "migration_record \<Rightarrow> cwriter \<Rightarrow> cwriter" where
  "encode_migration_record v = w_all
     [encode_migration_intent (mr_intent v),
      encode_migration_acknowledgement (mr_source_acknowledgement v),
      encode_migration_acknowledgement (mr_destination_acknowledgement v),
      w_boolean (mr_source_acknowledged v),
      w_boolean (mr_destination_acknowledged v),
      encode_applied_effect (mr_applied v),
      w_boolean (mr_effect_applied v),
      w_boolean (mr_effect_verified v),
      encode_digest (mr_verified_digest v),
      encode_reason (mr_abort_reason v)]"

definition decode_migration_record :: "migration_record rd" where
  "decode_migration_record =
     r_bind decode_migration_intent (\<lambda>x_intent.
     r_bind decode_migration_acknowledgement (\<lambda>x_source_acknowledgement.
     r_bind decode_migration_acknowledgement (\<lambda>x_destination_acknowledgement.
     r_bind r_boolean (\<lambda>x_source_acknowledged.
     r_bind r_boolean (\<lambda>x_destination_acknowledged.
     r_bind decode_applied_effect (\<lambda>x_applied.
     r_bind r_boolean (\<lambda>x_effect_applied.
     r_bind r_boolean (\<lambda>x_effect_verified.
     r_bind decode_digest (\<lambda>x_verified_digest.
     r_bind decode_reason (\<lambda>x_abort_reason.
     r_return \<lparr>mr_intent = x_intent,
        mr_source_acknowledgement = x_source_acknowledgement,
        mr_destination_acknowledgement = x_destination_acknowledgement,
        mr_source_acknowledged = x_source_acknowledged,
        mr_destination_acknowledged = x_destination_acknowledged,
        mr_applied = x_applied,
        mr_effect_applied = x_effect_applied,
        mr_effect_verified = x_effect_verified,
        mr_verified_digest = x_verified_digest,
        mr_abort_reason = x_abort_reason\<rparr>))))))))))"

definition valid_migration_record :: "migration_record \<Rightarrow> bool" where
  "valid_migration_record v \<longleftrightarrow>
     valid_migration_acknowledgement (mr_source_acknowledgement v) \<and>
     valid_migration_acknowledgement (mr_destination_acknowledgement v) \<and>
     valid_applied_effect (mr_applied v) \<and>
     digest_ok (mr_verified_digest v) \<and>
     reason_known (mr_abort_reason v)"

definition encode_source_watermark :: "source_watermark \<Rightarrow> cwriter \<Rightarrow> cwriter" where
  "encode_source_watermark v = w_all
     [encode_id (sw_source v),
      encode_id (sw_sequence v),
      encode_id (sw_capability_generation v),
      encode_id (sw_target v),
      encode_id (sw_incarnation v)]"

definition decode_source_watermark :: "source_watermark rd" where
  "decode_source_watermark =
     r_bind decode_id (\<lambda>x_source.
     r_bind decode_id (\<lambda>x_sequence.
     r_bind decode_id (\<lambda>x_capability_generation.
     r_bind decode_id (\<lambda>x_target.
     r_bind decode_id (\<lambda>x_incarnation.
     r_return \<lparr>sw_source = x_source,
        sw_sequence = x_sequence,
        sw_capability_generation = x_capability_generation,
        sw_target = x_target,
        sw_incarnation = x_incarnation\<rparr>)))))"

definition encode_request_record :: "request_record \<Rightarrow> cwriter \<Rightarrow> cwriter" where
  "encode_request_record v = w_all
     [encode_id (rr_request v),
      encode_digest (rr_request_digest v),
      encode_digest (rr_result_digest v),
      encode_id (rr_schedule_generation v),
      encode_reason (rr_outcome v)]"

definition decode_request_record :: "request_record rd" where
  "decode_request_record =
     r_bind decode_id (\<lambda>x_request.
     r_bind decode_digest (\<lambda>x_request_digest.
     r_bind decode_digest (\<lambda>x_result_digest.
     r_bind decode_id (\<lambda>x_schedule_generation.
     r_bind decode_reason (\<lambda>x_outcome.
     r_return \<lparr>rr_request = x_request,
        rr_request_digest = x_request_digest,
        rr_result_digest = x_result_digest,
        rr_schedule_generation = x_schedule_generation,
        rr_outcome = x_outcome\<rparr>)))))"

definition valid_request_record :: "request_record \<Rightarrow> bool" where
  "valid_request_record v \<longleftrightarrow>
     digest_ok (rr_request_digest v) \<and>
     digest_ok (rr_result_digest v) \<and>
     reason_known (rr_outcome v)"

definition encode_reason_count :: "reason_count \<Rightarrow> cwriter \<Rightarrow> cwriter" where
  "encode_reason_count v = w_all
     [encode_reason (rc_code v),
      w_u64 (rc_count v)]"

definition decode_reason_count :: "reason_count rd" where
  "decode_reason_count =
     r_bind decode_reason (\<lambda>x_code.
     r_bind r_u64 (\<lambda>x_count.
     r_return \<lparr>rc_code = x_code,
        rc_count = x_count\<rparr>))"

definition valid_reason_count :: "reason_count \<Rightarrow> bool" where
  "valid_reason_count v \<longleftrightarrow>
     reason_known (rc_code v)"

definition encode_placement_item :: "placement_item \<Rightarrow> cwriter \<Rightarrow> cwriter" where
  "encode_placement_item v = w_all
     [encode_id (it_flow v),
      encode_id (it_flow_generation v)]"

definition decode_placement_item :: "placement_item rd" where
  "decode_placement_item =
     r_bind decode_id (\<lambda>x_flow.
     r_bind decode_id (\<lambda>x_flow_generation.
     r_return \<lparr>it_flow = x_flow,
        it_flow_generation = x_flow_generation\<rparr>))"

definition encode_placement_request :: "placement_request \<Rightarrow> cwriter \<Rightarrow> cwriter" where
  "encode_placement_request v = w_all
     [encode_id (pr_request v),
      write_list encode_placement_item (pr_items v),
      encode_timestamp (pr_evaluation_instant v),
      encode_id (pr_policy_generation v),
      encode_id (pr_base_schedule_generation v),
      w_u32 (pr_max_alternatives v),
      w_boolean (pr_dry_run v)]"

definition decode_placement_request :: "placement_request rd" where
  "decode_placement_request =
     r_bind decode_id (\<lambda>x_request.
     r_bind (read_list decode_placement_item kMaxFlows) (\<lambda>x_items.
     r_bind decode_timestamp (\<lambda>x_evaluation_instant.
     r_bind decode_id (\<lambda>x_policy_generation.
     r_bind decode_id (\<lambda>x_base_schedule_generation.
     r_bind r_u32 (\<lambda>x_max_alternatives.
     r_bind r_boolean (\<lambda>x_dry_run.
     if unat x_max_alternatives > kMaxAlternatives then r_reject RejectedOversizedInput else
     r_return \<lparr>pr_request = x_request,
        pr_items = x_items,
        pr_evaluation_instant = x_evaluation_instant,
        pr_policy_generation = x_policy_generation,
        pr_base_schedule_generation = x_base_schedule_generation,
        pr_max_alternatives = x_max_alternatives,
        pr_dry_run = x_dry_run\<rparr>)))))))"

definition valid_placement_request :: "placement_request \<Rightarrow> bool" where
  "valid_placement_request v \<longleftrightarrow>
     length (pr_items v) \<le> kMaxFlows \<and>
     unat (pr_max_alternatives v) \<le> kMaxAlternatives"

definition encode_rebalance_request :: "rebalance_request \<Rightarrow> cwriter \<Rightarrow> cwriter" where
  "encode_rebalance_request v = w_all
     [encode_id (rq_request v),
      encode_timestamp (rq_evaluation_instant v),
      w_u32 (rq_max_migrations v),
      w_boolean (rq_dry_run v)]"

definition decode_rebalance_request :: "rebalance_request rd" where
  "decode_rebalance_request =
     r_bind decode_id (\<lambda>x_request.
     r_bind decode_timestamp (\<lambda>x_evaluation_instant.
     r_bind r_u32 (\<lambda>x_max_migrations.
     r_bind r_boolean (\<lambda>x_dry_run.
     if unat x_max_migrations > kMaxRebalanceMigrations then r_reject RejectedOversizedInput else
     r_return \<lparr>rq_request = x_request,
        rq_evaluation_instant = x_evaluation_instant,
        rq_max_migrations = x_max_migrations,
        rq_dry_run = x_dry_run\<rparr>))))"

definition valid_rebalance_request :: "rebalance_request \<Rightarrow> bool" where
  "valid_rebalance_request v \<longleftrightarrow>
     unat (rq_max_migrations v) \<le> kMaxRebalanceMigrations"

definition encode_rebalance_report :: "rebalance_report \<Rightarrow> cwriter \<Rightarrow> cwriter" where
  "encode_rebalance_report v = w_all
     [encode_id (rep_request v),
      encode_reason (rep_status v),
      encode_id (rep_schedule_generation v),
      w_u32 (rep_considered v),
      w_u32 (rep_eligible v),
      w_u32 (rep_selected v),
      w_u32 (rep_truncated v),
      w_boolean (rep_dry_run v),
      write_list encode_migration_intent (rep_intents v),
      write_list encode_reason_count (rep_refusal_summary v),
      encode_explanation (rep_explanation v)]"

definition decode_rebalance_report :: "rebalance_report rd" where
  "decode_rebalance_report =
     r_bind decode_id (\<lambda>x_request.
     r_bind decode_reason (\<lambda>x_status.
     r_bind decode_id (\<lambda>x_schedule_generation.
     r_bind r_u32 (\<lambda>x_considered.
     r_bind r_u32 (\<lambda>x_eligible.
     r_bind r_u32 (\<lambda>x_selected.
     r_bind r_u32 (\<lambda>x_truncated.
     r_bind r_boolean (\<lambda>x_dry_run.
     r_bind (read_list decode_migration_intent kMaxRebalanceMigrations) (\<lambda>x_intents.
     r_bind (read_list decode_reason_count reason_code_count) (\<lambda>x_refusal_summary.
     r_bind decode_explanation (\<lambda>x_explanation.
     r_return \<lparr>rep_request = x_request,
        rep_status = x_status,
        rep_schedule_generation = x_schedule_generation,
        rep_considered = x_considered,
        rep_eligible = x_eligible,
        rep_selected = x_selected,
        rep_truncated = x_truncated,
        rep_dry_run = x_dry_run,
        rep_intents = x_intents,
        rep_refusal_summary = x_refusal_summary,
        rep_explanation = x_explanation\<rparr>)))))))))))"

definition valid_rebalance_report :: "rebalance_report \<Rightarrow> bool" where
  "valid_rebalance_report v \<longleftrightarrow>
     reason_known (rep_status v) \<and>
     length (rep_intents v) \<le> kMaxRebalanceMigrations \<and>
     length (rep_refusal_summary v) \<le> reason_code_count \<and>
     list_all valid_reason_count (rep_refusal_summary v) \<and>
     valid_explanation (rep_explanation v)"

definition encode_candidate_view :: "candidate_view \<Rightarrow> cwriter \<Rightarrow> cwriter" where
  "encode_candidate_view v = w_all
     [encode_id (cand_target v),
      encode_enum execution_domain_value (cand_domain v),
      encode_id (cand_host v),
      encode_id (cand_device v),
      encode_id (cand_incarnation v),
      encode_id (cand_capability_generation v),
      encode_enum cost_class_value (cand_cost_class v),
      encode_capacity_vector (cand_capacity v),
      encode_capacity_vector (cand_effective_used v),
      encode_capacity_vector (cand_available v),
      encode_capacity_vector (cand_demand v),
      w_u32 (cand_utilisation_ppm v),
      w_boolean (cand_utilisation_saturated v),
      w_boolean (cand_load_evidence_present v),
      w_boolean (cand_load_evidence_fresh v),
      w_boolean (cand_eligible v),
      encode_reason (cand_reason v),
      w_u32 (cand_rank v),
      w_boolean (cand_fallback_domain v)]"

definition decode_candidate_view :: "candidate_view rd" where
  "decode_candidate_view =
     r_bind decode_id (\<lambda>x_target.
     r_bind (decode_enum execution_domain_value traits_execution_domain) (\<lambda>x_domain.
     r_bind decode_id (\<lambda>x_host.
     r_bind decode_id (\<lambda>x_device.
     r_bind decode_id (\<lambda>x_incarnation.
     r_bind decode_id (\<lambda>x_capability_generation.
     r_bind (decode_enum cost_class_value traits_cost_class) (\<lambda>x_cost_class.
     r_bind decode_capacity_vector (\<lambda>x_capacity.
     r_bind decode_capacity_vector (\<lambda>x_effective_used.
     r_bind decode_capacity_vector (\<lambda>x_available.
     r_bind decode_capacity_vector (\<lambda>x_demand.
     r_bind r_u32 (\<lambda>x_utilisation_ppm.
     r_bind r_boolean (\<lambda>x_utilisation_saturated.
     r_bind r_boolean (\<lambda>x_load_evidence_present.
     r_bind r_boolean (\<lambda>x_load_evidence_fresh.
     r_bind r_boolean (\<lambda>x_eligible.
     r_bind decode_reason (\<lambda>x_reason.
     r_bind r_u32 (\<lambda>x_rank.
     r_bind r_boolean (\<lambda>x_fallback_domain.
     r_return \<lparr>cand_target = x_target,
        cand_domain = x_domain,
        cand_host = x_host,
        cand_device = x_device,
        cand_incarnation = x_incarnation,
        cand_capability_generation = x_capability_generation,
        cand_cost_class = x_cost_class,
        cand_capacity = x_capacity,
        cand_effective_used = x_effective_used,
        cand_available = x_available,
        cand_demand = x_demand,
        cand_utilisation_ppm = x_utilisation_ppm,
        cand_utilisation_saturated = x_utilisation_saturated,
        cand_load_evidence_present = x_load_evidence_present,
        cand_load_evidence_fresh = x_load_evidence_fresh,
        cand_eligible = x_eligible,
        cand_reason = x_reason,
        cand_rank = x_rank,
        cand_fallback_domain = x_fallback_domain\<rparr>)))))))))))))))))))"

definition valid_candidate_view :: "candidate_view \<Rightarrow> bool" where
  "valid_candidate_view v \<longleftrightarrow>
     reason_known (cand_reason v)"

definition encode_flow_placement :: "flow_placement \<Rightarrow> cwriter \<Rightarrow> cwriter" where
  "encode_flow_placement v = w_all
     [encode_id (fp_flow v),
      encode_id (fp_flow_generation v),
      encode_id (fp_function v),
      encode_reason (fp_outcome v),
      w_boolean (fp_accepted v),
      w_boolean (fp_fallback v),
      w_boolean (fp_retained v),
      w_boolean (fp_changed v),
      encode_id (fp_target v),
      encode_id (fp_incarnation v),
      encode_id (fp_capability_generation v),
      encode_enum execution_domain_value (fp_domain v),
      encode_id (fp_assignment v),
      encode_id (fp_recommendation v),
      w_u32 (fp_alternatives v),
      write_list encode_candidate_view (fp_ranked v),
      write_list encode_candidate_view (fp_refused v),
      encode_explanation (fp_explanation v)]"

definition decode_flow_placement :: "flow_placement rd" where
  "decode_flow_placement =
     r_bind decode_id (\<lambda>x_flow.
     r_bind decode_id (\<lambda>x_flow_generation.
     r_bind decode_id (\<lambda>x_function.
     r_bind decode_reason (\<lambda>x_outcome.
     r_bind r_boolean (\<lambda>x_accepted.
     r_bind r_boolean (\<lambda>x_fallback.
     r_bind r_boolean (\<lambda>x_retained.
     r_bind r_boolean (\<lambda>x_changed.
     r_bind decode_id (\<lambda>x_target.
     r_bind decode_id (\<lambda>x_incarnation.
     r_bind decode_id (\<lambda>x_capability_generation.
     r_bind (decode_enum execution_domain_value traits_execution_domain) (\<lambda>x_domain.
     r_bind decode_id (\<lambda>x_assignment.
     r_bind decode_id (\<lambda>x_recommendation.
     r_bind r_u32 (\<lambda>x_alternatives.
     r_bind (read_list decode_candidate_view kMaxRankedCandidates) (\<lambda>x_ranked.
     r_bind (read_list decode_candidate_view kMaxExplanationSteps) (\<lambda>x_refused.
     r_bind decode_explanation (\<lambda>x_explanation.
     r_return \<lparr>fp_flow = x_flow,
        fp_flow_generation = x_flow_generation,
        fp_function = x_function,
        fp_outcome = x_outcome,
        fp_accepted = x_accepted,
        fp_fallback = x_fallback,
        fp_retained = x_retained,
        fp_changed = x_changed,
        fp_target = x_target,
        fp_incarnation = x_incarnation,
        fp_capability_generation = x_capability_generation,
        fp_domain = x_domain,
        fp_assignment = x_assignment,
        fp_recommendation = x_recommendation,
        fp_alternatives = x_alternatives,
        fp_ranked = x_ranked,
        fp_refused = x_refused,
        fp_explanation = x_explanation\<rparr>))))))))))))))))))"

definition valid_flow_placement :: "flow_placement \<Rightarrow> bool" where
  "valid_flow_placement v \<longleftrightarrow>
     reason_known (fp_outcome v) \<and>
     length (fp_ranked v) \<le> kMaxRankedCandidates \<and>
     list_all valid_candidate_view (fp_ranked v) \<and>
     length (fp_refused v) \<le> kMaxExplanationSteps \<and>
     list_all valid_candidate_view (fp_refused v) \<and>
     valid_explanation (fp_explanation v)"

definition encode_placement_result :: "placement_result \<Rightarrow> cwriter \<Rightarrow> cwriter" where
  "encode_placement_result v = w_all
     [encode_id (res_request v),
      encode_reason (res_status v),
      w_boolean (res_accepted v),
      w_boolean (res_duplicate v),
      w_boolean (res_dry_run v),
      encode_id (res_schedule_generation v),
      write_list encode_flow_placement (res_placements v),
      write_list encode_reason_count (res_refusal_summary v),
      encode_digest (res_digest v)]"

definition decode_placement_result :: "placement_result rd" where
  "decode_placement_result =
     r_bind decode_id (\<lambda>x_request.
     r_bind decode_reason (\<lambda>x_status.
     r_bind r_boolean (\<lambda>x_accepted.
     r_bind r_boolean (\<lambda>x_duplicate.
     r_bind r_boolean (\<lambda>x_dry_run.
     r_bind decode_id (\<lambda>x_schedule_generation.
     r_bind (read_list decode_flow_placement kMaxFlows) (\<lambda>x_placements.
     r_bind (read_list decode_reason_count reason_code_count) (\<lambda>x_refusal_summary.
     r_bind decode_digest (\<lambda>x_digest.
     r_return \<lparr>res_request = x_request,
        res_status = x_status,
        res_accepted = x_accepted,
        res_duplicate = x_duplicate,
        res_dry_run = x_dry_run,
        res_schedule_generation = x_schedule_generation,
        res_placements = x_placements,
        res_refusal_summary = x_refusal_summary,
        res_digest = x_digest\<rparr>)))))))))"

definition valid_placement_result :: "placement_result \<Rightarrow> bool" where
  "valid_placement_result v \<longleftrightarrow>
     reason_known (res_status v) \<and>
     length (res_placements v) \<le> kMaxFlows \<and>
     list_all valid_flow_placement (res_placements v) \<and>
     length (res_refusal_summary v) \<le> reason_code_count \<and>
     list_all valid_reason_count (res_refusal_summary v) \<and>
     digest_ok (res_digest v)"

definition counter_fields :: "counters \<Rightarrow> u64 list" where
  "counter_fields v =
     [c_flows_registered v,
      c_targets_registered v,
      c_targets_removed v,
      c_evidence_accepted v,
      c_evidence_rejected v,
      c_evidence_idempotent v,
      c_load_records_rejected_stale v,
      c_placements_accepted v,
      c_placements_refused v,
      c_placements_fallback v,
      c_placements_retained v,
      c_recommendations_issued v,
      c_authorizations_granted v,
      c_authorizations_refused v,
      c_migrations_issued v,
      c_migrations_completed v,
      c_migrations_aborted v,
      c_migrations_fenced v,
      c_acknowledgements_accepted v,
      c_acknowledgements_rejected v,
      c_effects_applied v,
      c_effects_verified v,
      c_effects_rejected v,
      c_rebalances_executed v,
      c_rebalances_truncated v,
      c_rebalances_selected v,
      c_requests_deduplicated v,
      c_restarts v,
      c_persist_commits v,
      c_persist_failures v,
      c_compactions v,
      c_refusals_by_reason_total v,
      c_history_evictions v,
      c_observations_rejected v,
      c_authorizations_revoked v,
      c_operations_submitted v,
      c_operations_cancelled v,
      c_operations_backpressured v,
      c_evidence_conflicts v,
      c_load_evidence_stale_at_decision v]"

definition counters_of_fields :: "u64 list \<Rightarrow> counters" where
  "counters_of_fields fs =
     \<lparr>c_flows_registered = fs ! 0,
      c_targets_registered = fs ! 1,
      c_targets_removed = fs ! 2,
      c_evidence_accepted = fs ! 3,
      c_evidence_rejected = fs ! 4,
      c_evidence_idempotent = fs ! 5,
      c_load_records_rejected_stale = fs ! 6,
      c_placements_accepted = fs ! 7,
      c_placements_refused = fs ! 8,
      c_placements_fallback = fs ! 9,
      c_placements_retained = fs ! 10,
      c_recommendations_issued = fs ! 11,
      c_authorizations_granted = fs ! 12,
      c_authorizations_refused = fs ! 13,
      c_migrations_issued = fs ! 14,
      c_migrations_completed = fs ! 15,
      c_migrations_aborted = fs ! 16,
      c_migrations_fenced = fs ! 17,
      c_acknowledgements_accepted = fs ! 18,
      c_acknowledgements_rejected = fs ! 19,
      c_effects_applied = fs ! 20,
      c_effects_verified = fs ! 21,
      c_effects_rejected = fs ! 22,
      c_rebalances_executed = fs ! 23,
      c_rebalances_truncated = fs ! 24,
      c_rebalances_selected = fs ! 25,
      c_requests_deduplicated = fs ! 26,
      c_restarts = fs ! 27,
      c_persist_commits = fs ! 28,
      c_persist_failures = fs ! 29,
      c_compactions = fs ! 30,
      c_refusals_by_reason_total = fs ! 31,
      c_history_evictions = fs ! 32,
      c_observations_rejected = fs ! 33,
      c_authorizations_revoked = fs ! 34,
      c_operations_submitted = fs ! 35,
      c_operations_cancelled = fs ! 36,
      c_operations_backpressured = fs ! 37,
      c_evidence_conflicts = fs ! 38,
      c_load_evidence_stale_at_decision = fs ! 39\<rparr>"

definition encode_counters :: "counters \<Rightarrow> cwriter \<Rightarrow> cwriter" where
  "encode_counters v = w_all (map w_u64 (counter_fields v))"

definition decode_counters :: "counters rd" where
  "decode_counters = r_bind (read_items r_u64 40) (\<lambda>fs. r_return (counters_of_fields fs))"

definition encode_durable_state :: "durable_state \<Rightarrow> cwriter \<Rightarrow> cwriter" where
  "encode_durable_state v = w_all
     [w_u32 (ds_semantics_version v),
      encode_id (ds_epoch v),
      encode_boot_id (ds_boot v),
      encode_id (ds_schedule_generation v),
      encode_id (ds_topology_generation v),
      w_boolean (ds_policy_present v),
      encode_policy (ds_policy v),
      write_list encode_flow_descriptor (ds_flows v),
      write_list encode_target_descriptor (ds_targets v),
      write_list encode_assignment (ds_assignments v),
      write_list encode_migration_contract (ds_contracts v),
      write_list encode_migration_record (ds_migrations v),
      write_list encode_fence_record (ds_fences v),
      write_list encode_source_watermark (ds_watermarks v),
      write_list encode_request_record (ds_requests v),
      write_list encode_reason_count (ds_refusal_counts v),
      encode_counters (ds_counters v)]"

definition decode_durable_state :: "durable_state rd" where
  "decode_durable_state =
     r_bind r_u32 (\<lambda>x_semantics_version.
     if x_semantics_version \<noteq> kStateSemanticsVersion then r_reject RecoverySemanticsMismatch else
     r_bind decode_id (\<lambda>x_epoch.
     r_bind decode_boot_id (\<lambda>x_boot.
     r_bind decode_id (\<lambda>x_schedule_generation.
     r_bind decode_id (\<lambda>x_topology_generation.
     r_bind r_boolean (\<lambda>x_policy_present.
     r_bind decode_policy (\<lambda>x_policy.
     r_bind (read_list decode_flow_descriptor kMaxFlows) (\<lambda>x_flows.
     r_bind (read_list decode_target_descriptor kMaxTargets) (\<lambda>x_targets.
     r_bind (read_list decode_assignment kMaxFlows) (\<lambda>x_assignments.
     r_bind (read_list decode_migration_contract kMaxMigrationContracts) (\<lambda>x_contracts.
     r_bind (read_list decode_migration_record kMaxMigrationRecords) (\<lambda>x_migrations.
     r_bind (read_list decode_fence_record kMaxHistoryRecords) (\<lambda>x_fences.
     r_bind (read_list decode_source_watermark kMaxEvidenceSources) (\<lambda>x_watermarks.
     r_bind (read_list decode_request_record kMaxRequestRecords) (\<lambda>x_requests.
     r_bind (read_list decode_reason_count reason_code_count) (\<lambda>x_refusal_counts.
     r_bind decode_counters (\<lambda>x_counters.
     r_return \<lparr>ds_semantics_version = x_semantics_version,
        ds_epoch = x_epoch,
        ds_boot = x_boot,
        ds_schedule_generation = x_schedule_generation,
        ds_topology_generation = x_topology_generation,
        ds_policy = x_policy,
        ds_policy_present = x_policy_present,
        ds_flows = x_flows,
        ds_targets = x_targets,
        ds_assignments = x_assignments,
        ds_contracts = x_contracts,
        ds_migrations = x_migrations,
        ds_fences = x_fences,
        ds_watermarks = x_watermarks,
        ds_requests = x_requests,
        ds_refusal_counts = x_refusal_counts,
        ds_counters = x_counters\<rparr>)))))))))))))))))"

definition valid_durable_state :: "durable_state \<Rightarrow> bool" where
  "valid_durable_state v \<longleftrightarrow>
     valid_policy (ds_policy v) \<and>
     length (ds_flows v) \<le> kMaxFlows \<and>
     list_all valid_flow_descriptor (ds_flows v) \<and>
     length (ds_targets v) \<le> kMaxTargets \<and>
     list_all valid_target_descriptor (ds_targets v) \<and>
     length (ds_assignments v) \<le> kMaxFlows \<and>
     list_all valid_assignment (ds_assignments v) \<and>
     length (ds_contracts v) \<le> kMaxMigrationContracts \<and>
     length (ds_migrations v) \<le> kMaxMigrationRecords \<and>
     list_all valid_migration_record (ds_migrations v) \<and>
     length (ds_fences v) \<le> kMaxHistoryRecords \<and>
     list_all valid_fence_record (ds_fences v) \<and>
     length (ds_watermarks v) \<le> kMaxEvidenceSources \<and>
     length (ds_requests v) \<le> kMaxRequestRecords \<and>
     list_all valid_request_record (ds_requests v) \<and>
     length (ds_refusal_counts v) \<le> reason_code_count \<and>
     list_all valid_reason_count (ds_refusal_counts v) \<and>
     ds_semantics_version v = kStateSemanticsVersion"

section \<open>Digests of records\<close>

definition digest_of :: "('a \<Rightarrow> cwriter \<Rightarrow> cwriter) \<Rightarrow> 'a \<Rightarrow> digest" where
  "digest_of enc v =
     (let w = enc v (canonical_writer kMaxCanonicalBytes)
      in if \<not> w_ok w then digest_zero else sha256_of (cw_buffer w))"

section \<open>The codecs keep their contract\<close>

lemma codec_if: "\<not> b \<Longrightarrow> codec_at e d x \<Longrightarrow> codec_at e (if b then r_reject c else d) x"
  by simp

lemma codec_map: "codec_at e d x \<Longrightarrow> codec_at e (r_bind d (\<lambda>z. r_return (g z))) (g x)"
  unfolding codec_at_def by (elim exE conjE) (rule exI, rule conjI, assumption, rule reads_map)

lemma if_or_reject: "(if a then x else if b then x else y) = (if a \<or> b then x else y)"
  by simp

lemma codec_id [codec_intros]: "codec_at (encode_id v) decode_id v"
  unfolding encode_id_def decode_id_def by (rule codec_u64)

lemma codec_timestamp [codec_intros]: "codec_at (encode_timestamp v) decode_timestamp v"
  unfolding encode_timestamp_def decode_timestamp_def by (rule codec_u64)

lemma codec_encode_digest [codec_intros]: "digest_ok v \<Longrightarrow> codec_at (encode_digest v) decode_digest v"
  unfolding encode_digest_def decode_digest_def digest_ok_def by (rule codec_digest)

lemma codec_mask [codec_intros]: "mask_known m \<Longrightarrow> codec_at (w_mask m) read_mask m"
  unfolding w_mask_def read_mask_def mask_known_def
  by (rule codec_guard [OF codec_u64, where g = "\<lambda>z. z"]) simp

lemma codec_reason [codec_intros]:
  assumes "reason_known v"
  shows "codec_at (encode_reason v) decode_reason v"
proof -
  have "\<not> (v > 0xFFFF \<or> reason_to_string v = ''UnknownReasonCode'')"
    using assms reason_known_small [OF assms] by (simp add: reason_known_def not_less)
  from codec_guard [OF codec_u32, where g = "\<lambda>z. z" and
      bad = "\<lambda>z. z > 0xFFFF \<or> reason_to_string z = ''UnknownReasonCode''", OF this]
  show ?thesis
    unfolding encode_reason_def decode_reason_def reason_value_def if_or_reject by simp
qed

lemma codec_string [codec_intros]: "string_ok v \<Longrightarrow> codec_at (w_text v) (r_text kMaxStringBytes) v"
  by (rule codec_text) (simp_all add: string_ok_def kMaxStringBytes_def)

lemma codec_enum:
  assumes "List.find (\<lambda>e'. value_of e' = value_of e) traits = Some e"
  shows "codec_at (encode_enum value_of e) (decode_enum value_of traits) e"
proof -
  obtain bs where "writes (w_u8 (value_of e)) bs" "reads r_u8 (value_of e) bs"
    using codec_u8 by (auto simp: codec_at_def)
  moreover have "reads (case List.find (\<lambda>e'. value_of e' = value_of e) traits of
       None \<Rightarrow> r_reject RejectedMalformedInput | Some e \<Rightarrow> r_return e) e []"
    using assms by (simp add: reads_return)
  ultimately show ?thesis
    unfolding codec_at_def encode_enum_def decode_enum_def
    using reads_bind [of r_u8 "value_of e" bs _ e "[]"] by force
qed

lemma codec_execution_domain [codec_intros]:
  "codec_at (encode_enum execution_domain_value e) (decode_enum execution_domain_value traits_execution_domain) e"
  by (rule codec_enum, cases e) (simp_all add: traits_execution_domain_def)

lemma codec_target_kind [codec_intros]:
  "codec_at (encode_enum target_kind_value e) (decode_enum target_kind_value traits_target_kind) e"
  by (rule codec_enum, cases e) (simp_all add: traits_target_kind_def)

lemma codec_target_lifecycle [codec_intros]:
  "codec_at (encode_enum target_lifecycle_value e) (decode_enum target_lifecycle_value traits_target_lifecycle) e"
  by (rule codec_enum, cases e) (simp_all add: traits_target_lifecycle_def)

lemma codec_statefulness [codec_intros]:
  "codec_at (encode_enum statefulness_value e) (decode_enum statefulness_value traits_statefulness) e"
  by (rule codec_enum, cases e) (simp_all add: traits_statefulness_def)

lemma codec_cost_class [codec_intros]:
  "codec_at (encode_enum cost_class_value e) (decode_enum cost_class_value traits_cost_class) e"
  by (rule codec_enum, cases e) (simp_all add: traits_cost_class_def)

lemma codec_load_model [codec_intros]:
  "codec_at (encode_enum load_model_value e) (decode_enum load_model_value traits_load_model) e"
  by (rule codec_enum, cases e) (simp_all add: traits_load_model_def)

lemma codec_evidence_state [codec_intros]:
  "codec_at (encode_enum evidence_state_value e) (decode_enum evidence_state_value traits_evidence_state) e"
  by (rule codec_enum, cases e) (simp_all add: traits_evidence_state_def)

lemma codec_domain_preference [codec_intros]:
  "codec_at (encode_enum domain_preference_value e) (decode_enum domain_preference_value traits_domain_preference) e"
  by (rule codec_enum, cases e) (simp_all add: traits_domain_preference_def)

lemma codec_fallback_policy [codec_intros]:
  "codec_at (encode_enum fallback_policy_value e) (decode_enum fallback_policy_value traits_fallback_policy) e"
  by (rule codec_enum, cases e) (simp_all add: traits_fallback_policy_def)

lemma codec_locality_kind [codec_intros]:
  "codec_at (encode_enum locality_kind_value e) (decode_enum locality_kind_value traits_locality_kind) e"
  by (rule codec_enum, cases e) (simp_all add: traits_locality_kind_def)

lemma codec_effect_state [codec_intros]:
  "codec_at (encode_enum effect_state_value e) (decode_enum effect_state_value traits_effect_state) e"
  by (rule codec_enum, cases e) (simp_all add: traits_effect_state_def)

lemma codec_migration_phase [codec_intros]:
  "codec_at (encode_enum migration_phase_value e) (decode_enum migration_phase_value traits_migration_phase) e"
  by (rule codec_enum, cases e) (simp_all add: traits_migration_phase_def)

lemma codec_migration_actor [codec_intros]:
  "codec_at (encode_enum migration_actor_value e) (decode_enum migration_actor_value traits_migration_actor) e"
  by (rule codec_enum, cases e) (simp_all add: traits_migration_actor_def)

lemma codec_items:
  assumes "\<And>x. valid x \<Longrightarrow> codec_at (enc x) dec x" and "list_all valid xs"
  shows "codec_at (w_all (map enc xs)) (read_items dec (length xs)) xs"
  using assms(2)
proof (induction xs)
  case Nil
  then show ?case by (simp add: codec_done)
next
  case (Cons x xs)
  have "codec_at (w_all (map enc xs)) (r_bind (read_items dec (length xs)) (\<lambda>ys. r_return (x # ys))) (x # xs)"
    by (rule codec_map [where g = "(#) x"]) (use Cons in simp)
  then show ?case using Cons.prems by (auto intro!: codec_seq assms(1))
qed

lemma codec_list:
  assumes "\<And>x. valid x \<Longrightarrow> codec_at (enc x) dec x"
    and "max_items < 2 ^ 32" and "length xs \<le> max_items" and "list_all valid xs"
  shows "codec_at (write_list enc xs) (read_list dec max_items) xs"
proof -
  have "unat (of_nat (length xs) :: u32) = length xs"
    using assms(2,3) by (simp add: unat_of_nat take_bit_nat_eq_self)
  then show ?thesis
    unfolding write_list_def read_list_def using codec_items [OF assms(1,4)] assms(3)
    by (auto intro!: codec_seq [OF codec_u32])
qed

lemma codec_list_any:
  assumes "\<And>x. codec_at (enc x) dec x" and "max_items < 2 ^ 32" and "length xs \<le> max_items"
  shows "codec_at (write_list enc xs) (read_list dec max_items) xs"
  by (rule codec_list [where valid = "\<lambda>_. True"]) (use assms in \<open>simp_all add: list_all_iff\<close>)

lemma reason_code_count_small [simp]: "reason_code_count < 4294967296"
  by (simp add: reason_code_count_def kReasonTable_def)

lemmas codec_list_ids [codec_intros] = codec_list_any [OF codec_id]
lemmas codec_list_domains [codec_intros] = codec_list_any [OF codec_execution_domain]

lemma codec_boot_id [codec_intros]: "codec_at (encode_boot_id v) decode_boot_id v"
  unfolding encode_boot_id_def decode_boot_id_def w_all.simps
  by ((rule codec_seq codec_if codec_intros codec_done | (simp add: limit_defs; fail))+)

lemma codec_capacity_vector [codec_intros]: "codec_at (encode_capacity_vector v) decode_capacity_vector v"
  unfolding encode_capacity_vector_def decode_capacity_vector_def w_all.simps
  by ((rule codec_seq codec_if codec_intros codec_done | (simp add: limit_defs; fail))+)

lemma codec_flow_descriptor [codec_intros]: "valid_flow_descriptor v \<Longrightarrow> codec_at (encode_flow_descriptor v) decode_flow_descriptor v"
  unfolding encode_flow_descriptor_def decode_flow_descriptor_def w_all.simps valid_flow_descriptor_def
  by ((rule codec_seq codec_if codec_intros codec_done | (simp add: limit_defs; fail))+)

lemmas codec_list_flow_descriptor [codec_intros] = codec_list [OF codec_flow_descriptor]

lemma codec_target_descriptor [codec_intros]: "valid_target_descriptor v \<Longrightarrow> codec_at (encode_target_descriptor v) decode_target_descriptor v"
  unfolding encode_target_descriptor_def decode_target_descriptor_def w_all.simps valid_target_descriptor_def
  by ((rule codec_seq codec_if codec_intros codec_done | (simp add: limit_defs; fail))+)

lemmas codec_list_target_descriptor [codec_intros] = codec_list [OF codec_target_descriptor]

lemma codec_load_evidence [codec_intros]: "codec_at (encode_load_evidence v) decode_load_evidence v"
  unfolding encode_load_evidence_def decode_load_evidence_def w_all.simps
  by ((rule codec_seq codec_if codec_intros codec_done | (simp add: limit_defs; fail))+)

lemma codec_policy [codec_intros]: "valid_policy v \<Longrightarrow> codec_at (encode_policy v) decode_policy v"
  unfolding encode_policy_def decode_policy_def w_all.simps valid_policy_def
  by ((rule codec_seq codec_if codec_intros codec_done | (simp add: limit_defs; fail))+)

lemma codec_migration_contract [codec_intros]: "codec_at (encode_migration_contract v) decode_migration_contract v"
  unfolding encode_migration_contract_def decode_migration_contract_def w_all.simps
  by ((rule codec_seq codec_if codec_intros codec_done | (simp add: limit_defs; fail))+)

lemmas codec_list_migration_contract [codec_intros] = codec_list_any [OF codec_migration_contract]

lemma codec_assignment [codec_intros]: "valid_assignment v \<Longrightarrow> codec_at (encode_assignment v) decode_assignment v"
  unfolding encode_assignment_def decode_assignment_def w_all.simps valid_assignment_def
  by ((rule codec_seq codec_if codec_intros codec_done | (simp add: limit_defs; fail))+)

lemmas codec_list_assignment [codec_intros] = codec_list [OF codec_assignment]

lemma codec_recommendation [codec_intros]: "valid_recommendation v \<Longrightarrow> codec_at (encode_recommendation v) decode_recommendation v"
  unfolding encode_recommendation_def decode_recommendation_def w_all.simps valid_recommendation_def
  by ((rule codec_seq codec_if codec_intros codec_done | (simp add: limit_defs; fail))+)

lemma codec_authorization [codec_intros]: "valid_authorization v \<Longrightarrow> codec_at (encode_authorization v) decode_authorization v"
  unfolding encode_authorization_def decode_authorization_def w_all.simps valid_authorization_def
  by ((rule codec_seq codec_if codec_intros codec_done | (simp add: limit_defs; fail))+)

lemma codec_migration_intent [codec_intros]: "codec_at (encode_migration_intent v) decode_migration_intent v"
  unfolding encode_migration_intent_def decode_migration_intent_def w_all.simps
  by ((rule codec_seq codec_if codec_intros codec_done | (simp add: limit_defs; fail))+)

lemmas codec_list_migration_intent [codec_intros] = codec_list_any [OF codec_migration_intent]

lemma codec_migration_acknowledgement [codec_intros]: "valid_migration_acknowledgement v \<Longrightarrow> codec_at (encode_migration_acknowledgement v) decode_migration_acknowledgement v"
  unfolding encode_migration_acknowledgement_def decode_migration_acknowledgement_def w_all.simps valid_migration_acknowledgement_def
  by ((rule codec_seq codec_if codec_intros codec_done | (simp add: limit_defs; fail))+)

lemma codec_applied_effect [codec_intros]: "valid_applied_effect v \<Longrightarrow> codec_at (encode_applied_effect v) decode_applied_effect v"
  unfolding encode_applied_effect_def decode_applied_effect_def w_all.simps valid_applied_effect_def
  by ((rule codec_seq codec_if codec_intros codec_done | (simp add: limit_defs; fail))+)

lemma codec_effect_observation [codec_intros]: "valid_effect_observation v \<Longrightarrow> codec_at (encode_effect_observation v) decode_effect_observation v"
  unfolding encode_effect_observation_def decode_effect_observation_def w_all.simps valid_effect_observation_def
  by ((rule codec_seq codec_if codec_intros codec_done | (simp add: limit_defs; fail))+)

lemma codec_fence_record [codec_intros]: "valid_fence_record v \<Longrightarrow> codec_at (encode_fence_record v) decode_fence_record v"
  unfolding encode_fence_record_def decode_fence_record_def w_all.simps valid_fence_record_def
  by ((rule codec_seq codec_if codec_intros codec_done | (simp add: limit_defs; fail))+)

lemmas codec_list_fence_record [codec_intros] = codec_list [OF codec_fence_record]

lemma codec_explanation_step [codec_intros]: "valid_explanation_step v \<Longrightarrow> codec_at (encode_explanation_step v) decode_explanation_step v"
  unfolding encode_explanation_step_def decode_explanation_step_def w_all.simps valid_explanation_step_def
  by ((rule codec_seq codec_if codec_intros codec_done | (simp add: limit_defs; fail))+)

lemmas codec_list_explanation_step [codec_intros] = codec_list [OF codec_explanation_step]

lemma codec_explanation [codec_intros]: "valid_explanation v \<Longrightarrow> codec_at (encode_explanation v) decode_explanation v"
  unfolding encode_explanation_def decode_explanation_def w_all.simps valid_explanation_def
  by ((rule codec_seq codec_if codec_intros codec_done | (simp add: limit_defs; fail))+)

lemma codec_migration_record [codec_intros]: "valid_migration_record v \<Longrightarrow> codec_at (encode_migration_record v) decode_migration_record v"
  unfolding encode_migration_record_def decode_migration_record_def w_all.simps valid_migration_record_def
  by ((rule codec_seq codec_if codec_intros codec_done | (simp add: limit_defs; fail))+)

lemmas codec_list_migration_record [codec_intros] = codec_list [OF codec_migration_record]

lemma codec_source_watermark [codec_intros]: "codec_at (encode_source_watermark v) decode_source_watermark v"
  unfolding encode_source_watermark_def decode_source_watermark_def w_all.simps
  by ((rule codec_seq codec_if codec_intros codec_done | (simp add: limit_defs; fail))+)

lemmas codec_list_source_watermark [codec_intros] = codec_list_any [OF codec_source_watermark]

lemma codec_request_record [codec_intros]: "valid_request_record v \<Longrightarrow> codec_at (encode_request_record v) decode_request_record v"
  unfolding encode_request_record_def decode_request_record_def w_all.simps valid_request_record_def
  by ((rule codec_seq codec_if codec_intros codec_done | (simp add: limit_defs; fail))+)

lemmas codec_list_request_record [codec_intros] = codec_list [OF codec_request_record]

lemma codec_reason_count [codec_intros]: "valid_reason_count v \<Longrightarrow> codec_at (encode_reason_count v) decode_reason_count v"
  unfolding encode_reason_count_def decode_reason_count_def w_all.simps valid_reason_count_def
  by ((rule codec_seq codec_if codec_intros codec_done | (simp add: limit_defs; fail))+)

lemmas codec_list_reason_count [codec_intros] = codec_list [OF codec_reason_count]

lemma codec_placement_item [codec_intros]: "codec_at (encode_placement_item v) decode_placement_item v"
  unfolding encode_placement_item_def decode_placement_item_def w_all.simps
  by ((rule codec_seq codec_if codec_intros codec_done | (simp add: limit_defs; fail))+)

lemmas codec_list_placement_item [codec_intros] = codec_list_any [OF codec_placement_item]

lemma codec_placement_request [codec_intros]: "valid_placement_request v \<Longrightarrow> codec_at (encode_placement_request v) decode_placement_request v"
  unfolding encode_placement_request_def decode_placement_request_def w_all.simps valid_placement_request_def
  by ((rule codec_seq codec_if codec_intros codec_done | (simp add: limit_defs; fail))+)

lemma codec_rebalance_request [codec_intros]: "valid_rebalance_request v \<Longrightarrow> codec_at (encode_rebalance_request v) decode_rebalance_request v"
  unfolding encode_rebalance_request_def decode_rebalance_request_def w_all.simps valid_rebalance_request_def
  by ((rule codec_seq codec_if codec_intros codec_done | (simp add: limit_defs; fail))+)

lemma codec_rebalance_report [codec_intros]: "valid_rebalance_report v \<Longrightarrow> codec_at (encode_rebalance_report v) decode_rebalance_report v"
  unfolding encode_rebalance_report_def decode_rebalance_report_def w_all.simps valid_rebalance_report_def
  by ((rule codec_seq codec_if codec_intros codec_done | (simp add: limit_defs; fail))+)

lemma codec_candidate_view [codec_intros]: "valid_candidate_view v \<Longrightarrow> codec_at (encode_candidate_view v) decode_candidate_view v"
  unfolding encode_candidate_view_def decode_candidate_view_def w_all.simps valid_candidate_view_def
  by ((rule codec_seq codec_if codec_intros codec_done | (simp add: limit_defs; fail))+)

lemmas codec_list_candidate_view [codec_intros] = codec_list [OF codec_candidate_view]

lemma codec_flow_placement [codec_intros]: "valid_flow_placement v \<Longrightarrow> codec_at (encode_flow_placement v) decode_flow_placement v"
  unfolding encode_flow_placement_def decode_flow_placement_def w_all.simps valid_flow_placement_def
  by ((rule codec_seq codec_if codec_intros codec_done | (simp add: limit_defs; fail))+)

lemmas codec_list_flow_placement [codec_intros] = codec_list [OF codec_flow_placement]

lemma codec_placement_result [codec_intros]: "valid_placement_result v \<Longrightarrow> codec_at (encode_placement_result v) decode_placement_result v"
  unfolding encode_placement_result_def decode_placement_result_def w_all.simps valid_placement_result_def
  by ((rule codec_seq codec_if codec_intros codec_done | (simp add: limit_defs; fail))+)

lemma length_counter_fields: "length (counter_fields v) = 40"
  by (simp add: counter_fields_def)

lemma counters_of_counter_fields: "counters_of_fields (counter_fields v) = v"
  by (simp add: counters_of_fields_def counter_fields_def)

lemma codec_counters [codec_intros]: "codec_at (encode_counters v) decode_counters v"
proof -
  have "codec_at (w_all (map w_u64 (counter_fields v))) (read_items r_u64 40) (counter_fields v)"
    using codec_items [of "\<lambda>_. True" w_u64 r_u64 "counter_fields v"]
    by (simp add: codec_u64 list_all_iff length_counter_fields)
  from codec_map [OF this, of counters_of_fields] show ?thesis
    unfolding encode_counters_def decode_counters_def counters_of_counter_fields .
qed

lemma codec_durable_state [codec_intros]: "valid_durable_state v \<Longrightarrow> codec_at (encode_durable_state v) decode_durable_state v"
  unfolding encode_durable_state_def decode_durable_state_def w_all.simps valid_durable_state_def
  by ((rule codec_seq codec_if codec_intros codec_done | (simp add: limit_defs; fail))+)

section \<open>Instances of the contract\<close>

interpretation boot_id_codec: codec encode_boot_id decode_boot_id "\<lambda>_. True"
  by unfold_locales (rule codec_boot_id)

interpretation capacity_vector_codec: codec encode_capacity_vector decode_capacity_vector "\<lambda>_. True"
  by unfold_locales (rule codec_capacity_vector)

interpretation flow_descriptor_codec: codec encode_flow_descriptor decode_flow_descriptor valid_flow_descriptor
  by unfold_locales (rule codec_flow_descriptor)

interpretation target_descriptor_codec: codec encode_target_descriptor decode_target_descriptor valid_target_descriptor
  by unfold_locales (rule codec_target_descriptor)

interpretation load_evidence_codec: codec encode_load_evidence decode_load_evidence "\<lambda>_. True"
  by unfold_locales (rule codec_load_evidence)

interpretation policy_codec: codec encode_policy decode_policy valid_policy
  by unfold_locales (rule codec_policy)

interpretation migration_contract_codec: codec encode_migration_contract decode_migration_contract "\<lambda>_. True"
  by unfold_locales (rule codec_migration_contract)

interpretation assignment_codec: codec encode_assignment decode_assignment valid_assignment
  by unfold_locales (rule codec_assignment)

interpretation recommendation_codec: codec encode_recommendation decode_recommendation valid_recommendation
  by unfold_locales (rule codec_recommendation)

interpretation authorization_codec: codec encode_authorization decode_authorization valid_authorization
  by unfold_locales (rule codec_authorization)

interpretation migration_intent_codec: codec encode_migration_intent decode_migration_intent "\<lambda>_. True"
  by unfold_locales (rule codec_migration_intent)

interpretation migration_acknowledgement_codec: codec encode_migration_acknowledgement decode_migration_acknowledgement valid_migration_acknowledgement
  by unfold_locales (rule codec_migration_acknowledgement)

interpretation applied_effect_codec: codec encode_applied_effect decode_applied_effect valid_applied_effect
  by unfold_locales (rule codec_applied_effect)

interpretation effect_observation_codec: codec encode_effect_observation decode_effect_observation valid_effect_observation
  by unfold_locales (rule codec_effect_observation)

interpretation fence_record_codec: codec encode_fence_record decode_fence_record valid_fence_record
  by unfold_locales (rule codec_fence_record)

interpretation explanation_step_codec: codec encode_explanation_step decode_explanation_step valid_explanation_step
  by unfold_locales (rule codec_explanation_step)

interpretation explanation_codec: codec encode_explanation decode_explanation valid_explanation
  by unfold_locales (rule codec_explanation)

interpretation migration_record_codec: codec encode_migration_record decode_migration_record valid_migration_record
  by unfold_locales (rule codec_migration_record)

interpretation source_watermark_codec: codec encode_source_watermark decode_source_watermark "\<lambda>_. True"
  by unfold_locales (rule codec_source_watermark)

interpretation request_record_codec: codec encode_request_record decode_request_record valid_request_record
  by unfold_locales (rule codec_request_record)

interpretation reason_count_codec: codec encode_reason_count decode_reason_count valid_reason_count
  by unfold_locales (rule codec_reason_count)

interpretation placement_item_codec: codec encode_placement_item decode_placement_item "\<lambda>_. True"
  by unfold_locales (rule codec_placement_item)

interpretation placement_request_codec: codec encode_placement_request decode_placement_request valid_placement_request
  by unfold_locales (rule codec_placement_request)

interpretation rebalance_request_codec: codec encode_rebalance_request decode_rebalance_request valid_rebalance_request
  by unfold_locales (rule codec_rebalance_request)

interpretation rebalance_report_codec: codec encode_rebalance_report decode_rebalance_report valid_rebalance_report
  by unfold_locales (rule codec_rebalance_report)

interpretation candidate_view_codec: codec encode_candidate_view decode_candidate_view valid_candidate_view
  by unfold_locales (rule codec_candidate_view)

interpretation flow_placement_codec: codec encode_flow_placement decode_flow_placement valid_flow_placement
  by unfold_locales (rule codec_flow_placement)

interpretation placement_result_codec: codec encode_placement_result decode_placement_result valid_placement_result
  by unfold_locales (rule codec_placement_result)

interpretation durable_state_codec: codec encode_durable_state decode_durable_state valid_durable_state
  by unfold_locales (rule codec_durable_state)

interpretation counters_codec: codec encode_counters decode_counters "\<lambda>_. True"
  by unfold_locales (rule codec_counters)

section \<open>Properties\<close>

text \<open>
  C10: A valid durable state survives the journal encoding: whenever the bounded writer did not
  overflow, decoding the bytes returns exactly the state, consumes every byte and reports no
  failure.
\<close>

theorem durable_state_roundtrip:
  assumes "valid_durable_state s" and "w_ok (encode_durable_state s (canonical_writer limit))"
  shows "\<exists>r. decode_durable_state
      (canonical_reader (cw_buffer (encode_durable_state s (canonical_writer limit)))) = (Some s, r) \<and>
    r_at_end r \<and> \<not> cr_failed r"
  by (rule durable_state_codec.roundtrip [OF assms])

lemma valid_durable_state_default: "valid_durable_state durable_state_default"
  by (simp add: valid_durable_state_def durable_state_default_def valid_policy_def policy_default_def
      mask_known_def)

theorem durable_state_roundtrip_witness:
  "\<exists>r. decode_durable_state
      (canonical_reader (cw_buffer (encode_durable_state durable_state_default (canonical_writer 1000)))) =
      (Some durable_state_default, r) \<and> r_at_end r \<and> \<not> cr_failed r"
proof -
  have "w_ok (encode_durable_state durable_state_default (canonical_writer 1000))" by code_simp
  from durable_state_roundtrip [OF valid_durable_state_default this] show ?thesis .
qed

text \<open>
  C28: The encoding of placement results is injective on valid results: two valid results whose
  canonical bytes agree are the same result, so comparing bytes compares decisions.
\<close>

theorem placement_result_encoding_injective:
  assumes "valid_placement_result u" and "valid_placement_result v"
    and "w_ok (encode_placement_result u (canonical_writer limit))"
    and "w_ok (encode_placement_result v (canonical_writer limit))"
  shows "cw_buffer (encode_placement_result u (canonical_writer limit)) =
         cw_buffer (encode_placement_result v (canonical_writer limit)) \<longleftrightarrow> u = v"
  using placement_result_codec.injective [OF assms(1,2,3) _ assms(4)] by blast

theorem placement_result_encoding_injective_witness:
  "cw_buffer (encode_placement_result placement_result_default (canonical_writer 1000)) \<noteq>
   cw_buffer (encode_placement_result (placement_result_default\<lparr>res_dry_run := True\<rparr>) (canonical_writer 1000))"
proof -
  let ?u = "placement_result_default" and ?v = "placement_result_default\<lparr>res_dry_run := True\<rparr>"
  have v: "valid_placement_result ?u" "valid_placement_result ?v"
    by (simp_all add: valid_placement_result_def placement_result_default_def digest_ok_def digest_zero_def
        reason_known_def reason_to_string_def kReasonTable_def)
  have w: "w_ok (encode_placement_result ?u (canonical_writer 1000))"
    "w_ok (encode_placement_result ?v (canonical_writer 1000))" by code_simp+
  have "?u \<noteq> ?v" by (simp add: placement_result_default_def)
  with placement_result_encoding_injective [OF v w] show ?thesis by blast
qed

end
