(* ===== verification/Store.thy ===== *)
theory Store
  imports Serialize "HOL-Library.Code_Target_Nat"
begin

text \<open>
  The durable store (\<^verbatim>\<open>include/flow_offload/store.hpp\<close>, \<^verbatim>\<open>src/store.cpp\<close>): the byte images of the
  snapshot, the journal header and the journal records; recovery from the two files; and the
  operations that change them.  The two files are byte lists in the \<open>disk\<close>; the calls to the
  operating system are resolved by a plan \<open>st_io\<close> that says, action by action, which call of
  the action fails, if any.  The crash hook is a test seam without effect and is not modelled;
  a crash is a disk state between two actions or inside a write.
\<close>

section \<open>Classification and configuration\<close>

datatype recovery_kind =
    EmptyStore | CleanReopen | TornTailTruncated | JournalReplayed | SnapshotOnly | JournalOnly
  | Corrupt | IncompatibleVersion | SemanticsMismatch | Oversized | Unavailable

primrec recovery_kind_to_string :: "recovery_kind \<Rightarrow> string" where
  "recovery_kind_to_string EmptyStore = ''empty-store''"
| "recovery_kind_to_string CleanReopen = ''clean-reopen''"
| "recovery_kind_to_string TornTailTruncated = ''torn-tail-truncated''"
| "recovery_kind_to_string JournalReplayed = ''journal-replayed''"
| "recovery_kind_to_string SnapshotOnly = ''snapshot-only''"
| "recovery_kind_to_string JournalOnly = ''journal-only''"
| "recovery_kind_to_string Corrupt = ''corrupt''"
| "recovery_kind_to_string IncompatibleVersion = ''incompatible-version''"
| "recovery_kind_to_string SemanticsMismatch = ''semantics-mismatch''"
| "recovery_kind_to_string Oversized = ''oversized''"
| "recovery_kind_to_string Unavailable = ''unavailable''"

record recovery_report =
  rv_kind :: recovery_kind
  rv_code :: reason
  rv_usable :: bool
  rv_snapshot_used :: bool
  rv_journal_used :: bool
  rv_records_replayed :: nat
  rv_bytes_truncated :: u64
  rv_commit_sequence :: u64
  rv_state_digest :: digest
  rv_detail :: string

definition recovery_report_default :: recovery_report where
  "recovery_report_default =
     \<lparr>rv_kind = EmptyStore, rv_code = RecoveryEmptyStore, rv_usable = False, rv_snapshot_used = False,
      rv_journal_used = False, rv_records_replayed = 0, rv_bytes_truncated = 0, rv_commit_sequence = 0,
      rv_state_digest = digest_zero, rv_detail = []\<rparr>"

record store_config =
  sc_directory :: string
  sc_max_snapshot_bytes :: u64
  sc_max_journal_bytes :: u64
  sc_max_journal_records :: u32
  sc_compaction_record_threshold :: u32
  sc_flush_to_device :: bool

definition store_config_default :: store_config where
  "store_config_default =
     \<lparr>sc_directory = [], sc_max_snapshot_bytes = 512 * 1024 * 1024, sc_max_journal_bytes = 256 * 1024 * 1024,
      sc_max_journal_records = 512, sc_compaction_record_threshold = 64, sc_flush_to_device = True\<rparr>"

definition kMaxJournalRecordBytes :: nat where
  "kMaxJournalRecordBytes = 16 * 1024 * 1024"

abbreviation (input) kSnapshotHeaderSize :: nat where "kSnapshotHeaderSize \<equiv> 128"
abbreviation (input) kJournalHeaderSize :: nat where "kJournalHeaderSize \<equiv> 96"
abbreviation (input) kRecordHeaderSize :: nat where "kRecordHeaderSize \<equiv> 16"
abbreviation (input) kDigestSize :: nat where "kDigestSize \<equiv> 32"

definition kSnapshotMagic :: "byte list" where
  "kSnapshotMagic = string_bytes ''FOSSNP01''"

definition kJournalMagic :: "byte list" where
  "kJournalMagic = string_bytes ''FOSJNL01''"

definition kRecordKindFullState :: u8 where
  "kRecordKindFullState = 1"

definition kSnapshotContainerVersion :: u32 where
  "kSnapshotContainerVersion = 1"

definition kJournalContainerVersion :: u32 where
  "kJournalContainerVersion = 1"

definition get_u32 :: "byte list \<Rightarrow> nat \<Rightarrow> u32" where
  "get_u32 bytes off = un_be32 (take 4 (drop off bytes))"

definition get_u64 :: "byte list \<Rightarrow> nat \<Rightarrow> u64" where
  "get_u64 bytes off = un_be64 (take 8 (drop off bytes))"

definition get_digest :: "byte list \<Rightarrow> nat \<Rightarrow> digest" where
  "get_digest bytes off = take kDigestSize (drop off bytes)"

definition digest_range :: "byte list \<Rightarrow> nat \<Rightarrow> nat \<Rightarrow> digest" where
  "digest_range bytes start stop = sha256_of (take (stop - start) (drop start bytes))"

section \<open>Byte images\<close>

definition journal_header :: "u64 \<Rightarrow> digest \<Rightarrow> byte list" where
  "journal_header base_sequence base_digest =
     (let p = kJournalMagic @ be32 kJournalContainerVersion @ be32 kStateSemanticsVersion @
              be64 base_sequence @ base_digest @ be64 0
      in p @ sha256_of p)"

definition record_image :: "u64 \<Rightarrow> byte list \<Rightarrow> byte list" where
  "record_image sequence payload =
     (let p = be32 (of_nat (length payload)) @ be64 sequence @ [kRecordKindFullState, 0, 0, 0] @ payload
      in p @ sha256_of p)"

definition snapshot_image :: "durable_state \<Rightarrow> u64 \<Rightarrow> byte list \<Rightarrow> byte list" where
  "snapshot_image s sequence payload =
     (let p = kSnapshotMagic @ be32 kSnapshotContainerVersion @ be32 kStateSemanticsVersion @ be32 0 @ be32 0 @
              be64 (ds_epoch s) @ be64 (boot_high (ds_boot s)) @ be64 (boot_low (ds_boot s)) @
              be64 (of_nat (length payload)) @ be64 sequence @ sha256_of payload
      in p @ sha256_of p @ payload)"

definition probe_journal_header :: "byte list \<Rightarrow> bool" where
  "probe_journal_header bytes =
     (if length bytes < kJournalHeaderSize then False
      else if take 8 bytes \<noteq> kJournalMagic then False
      else digest_range bytes 0 64 = get_digest bytes 64)"

section \<open>The operating system\<close>

text \<open>
  The outcome of one action (reading a file, replacing it, appending to it): which of its
  calls fails.  A failure that does not occur in an action leaves the action successful.
  \<open>ShortIo n\<close> is a read or write that transfers only \<open>n\<close> bytes.
\<close>

datatype io_outcome = IoOk | SizeError | OpenError | ShortIo nat | SyncError | CloseError | RenameError | ResizeError

record disk =
  dk_directory :: bool
  dk_snapshot :: "byte list option"
  dk_journal :: "byte list option"

definition read_file_bounded :: "io_outcome \<Rightarrow> byte list \<Rightarrow> u64 \<Rightarrow> reason + byte list" where
  "read_file_bounded io content max_bytes =
     (if io = SizeError then Inl RejectedStoreUnavailable
      else if length content > unat max_bytes then Inl RejectedOversizedInput
      else if io = OpenError then Inl RejectedStoreUnavailable
      else case io of
             ShortIo n \<Rightarrow> if content \<noteq> [] \<and> n < length content then Inl RejectedTruncatedInput else Inr content
           | _ \<Rightarrow> Inr content)"

section \<open>Recovery\<close>

record recovery_pass =
  rp_report :: recovery_report
  rp_state :: durable_state
  rp_has_state :: bool
  rp_sequence :: u64
  rp_snapshot_digest :: digest
  rp_snapshot_used :: bool
  rp_journal_header_ok :: bool
  rp_journal_exists :: bool
  rp_journal_good_bytes :: nat
  rp_records_replayed :: u32
  rp_torn_tail :: bool

definition recovery_pass_default :: recovery_pass where
  "recovery_pass_default =
     \<lparr>rp_report = recovery_report_default, rp_state = durable_state_default, rp_has_state = False,
      rp_sequence = 0, rp_snapshot_digest = digest_zero, rp_snapshot_used = False,
      rp_journal_header_ok = False, rp_journal_exists = False, rp_journal_good_bytes = 0,
      rp_records_replayed = 0, rp_torn_tail = False\<rparr>"

definition set_detail :: "string \<Rightarrow> recovery_pass \<Rightarrow> recovery_pass" where
  "set_detail d p = p\<lparr>rp_report := (rp_report p)\<lparr>rv_detail := d\<rparr>\<rparr>"

definition classify :: "recovery_kind \<Rightarrow> reason \<Rightarrow> bool \<Rightarrow> recovery_pass \<Rightarrow> recovery_pass" where
  "classify kind code usable p =
     p\<lparr>rp_report := (rp_report p)\<lparr>rv_kind := kind, rv_code := code, rv_usable := usable\<rparr>\<rparr>"

definition unusable :: "recovery_kind \<Rightarrow> reason \<Rightarrow> string \<Rightarrow> recovery_pass \<Rightarrow> recovery_pass" where
  "unusable kind code d p = set_detail d (classify kind code False p)"

text \<open>The payload is accepted when it decodes, without failure, up to its last byte.\<close>

definition decode_payload :: "byte list \<Rightarrow> durable_state option" where
  "decode_payload payload =
     (case decode_durable_state (canonical_reader payload) of
        (None, r) \<Rightarrow> None
      | (Some s, r) \<Rightarrow> if cr_failed r \<or> \<not> r_at_end r then None else Some s)"

text \<open>
  The snapshot half of \<^verbatim>\<open>recover\<close>.  \<open>Inl\<close> is an early return; \<open>Inr\<close> carries the pass and
  \<^verbatim>\<open>snapshot_damaged\<close>.
\<close>

definition recover_snapshot ::
    "store_config \<Rightarrow> io_outcome \<Rightarrow> byte list option \<Rightarrow> recovery_pass \<Rightarrow> recovery_pass + recovery_pass \<times> bool" where
  "recover_snapshot config io file pass =
     (case file of None \<Rightarrow> Inr (pass, False) | Some content \<Rightarrow>
      (case read_file_bounded io content (sc_max_snapshot_bytes config) of
         Inl failure \<Rightarrow>
           Inl (unusable (if failure = RejectedOversizedInput then Oversized else Corrupt)
             (if failure = RejectedOversizedInput then RecoveryOversizedRecord else RecoveryTruncatedSnapshot)
             (''snapshot could not be read: '' @ reason_to_string failure) pass)
       | Inr bytes \<Rightarrow>
         if length bytes < kSnapshotHeaderSize then
           Inr (set_detail ''snapshot is shorter than its header'' pass, True)
         else if take 8 bytes \<noteq> kSnapshotMagic then Inr (set_detail ''snapshot magic mismatch'' pass, True)
         else if get_u32 bytes 8 \<noteq> kSnapshotContainerVersion then
           Inl (unusable IncompatibleVersion RecoveryIncompatibleVersion
             ''snapshot container version is not supported'' pass)
         else if get_u32 bytes 12 \<noteq> kStateSemanticsVersion then
           Inl (unusable SemanticsMismatch RecoverySemanticsMismatch
             ''snapshot semantics version is not supported'' pass)
         else if get_u32 bytes 20 \<noteq> 0 then
           Inr (set_detail ''snapshot reserved field is not zero'' pass, True)
         else if digest_range bytes 0 96 \<noteq> get_digest bytes 96 then
           Inr (set_detail ''snapshot header digest mismatch'' pass, True)
         else if unat (get_u64 bytes 48) \<noteq> length bytes - kSnapshotHeaderSize then
           Inr (set_detail ''snapshot payload length mismatch'' pass, True)
         else if digest_range bytes kSnapshotHeaderSize (length bytes) \<noteq> get_digest bytes 64 then
           Inr (set_detail ''snapshot payload digest mismatch'' pass, True)
         else (case decode_payload (drop kSnapshotHeaderSize bytes) of
             None \<Rightarrow> Inr (set_detail ''snapshot payload is not a canonical state record'' pass, True)
           | Some decoded \<Rightarrow>
               Inr (pass\<lparr>rp_snapshot_used := True, rp_sequence := get_u64 bytes 56,
                         rp_snapshot_digest := get_digest bytes 64, rp_state := decoded,
                         rp_has_state := True\<rparr>, False))))"

text \<open>What the journal half has learnt when it reaches the common tail.\<close>

record journal_scan =
  js_pass :: recovery_pass
  js_used :: bool
  js_torn_tail :: bool
  js_last_good :: nat

text \<open>The forward scan for an intact record after a damaged one at \<open>offset\<close>.\<close>

definition found_valid_after :: "byte list \<Rightarrow> nat \<Rightarrow> bool" where
  "found_valid_after bytes offset =
     list_ex (\<lambda>scan.
        let scan_length = unat (get_u32 bytes scan);
            scan_total = kRecordHeaderSize + scan_length + kDigestSize
        in \<not> scan_length > kMaxJournalRecordBytes \<and> \<not> scan_total > length bytes - scan \<and>
           digest_range bytes scan (scan + kRecordHeaderSize + scan_length) =
             get_digest bytes (scan + kRecordHeaderSize + scan_length))
       [offset + 1..<length bytes + 1 - kRecordHeaderSize]"

text \<open>
  The record loop of \<^verbatim>\<open>recover\<close> from \<open>offset\<close>.  \<open>Inl\<close> is an early return, \<open>Inr\<close> the scan
  after the loop.  Each iteration that continues advances by a whole record.
\<close>

function scan_records ::
    "store_config \<Rightarrow> byte list \<Rightarrow> nat \<Rightarrow> journal_scan \<Rightarrow> recovery_pass + journal_scan" where
  "scan_records config bytes offset j =
     (if \<not> offset < length bytes then Inr j
      else
        let pass = js_pass j; available = length bytes - offset in
        if available < kRecordHeaderSize then
          Inr (j\<lparr>js_torn_tail := True, js_pass := set_detail ''journal ends inside a record header'' pass\<rparr>)
        else
          let payload_length = unat (get_u32 bytes offset);
              total = kRecordHeaderSize + payload_length + kDigestSize;
              record_sequence = get_u64 bytes (offset + 4);
              record_kind = bytes ! (offset + 12) in
          if payload_length > kMaxJournalRecordBytes \<or> total > unat (sc_max_journal_bytes config) then
            Inl (unusable Oversized RecoveryOversizedRecord
              ''journal record length exceeds the configured bound'' pass)
          else if available < total then
            Inr (j\<lparr>js_torn_tail := True, js_pass := set_detail ''journal ends inside a record payload'' pass\<rparr>)
          else
            let computed = digest_range bytes offset (offset + kRecordHeaderSize + payload_length);
                stored = get_digest bytes (offset + kRecordHeaderSize + payload_length) in
            if computed \<noteq> stored then
              if found_valid_after bytes offset then
                Inl (unusable Corrupt RecoveryCorruptJournal
                  ''journal record digest mismatch with intact records after it'' pass)
              else
                Inr (j\<lparr>js_torn_tail := True, js_pass := set_detail ''journal tail record digest mismatch'' pass\<rparr>)
            else if record_kind \<noteq> kRecordKindFullState then
              Inl (unusable Corrupt RecoveryCorruptJournal ''journal record kind is not recognised'' pass)
            else if record_sequence \<le> rp_sequence pass then
              scan_records config bytes (offset + total) (j\<lparr>js_last_good := offset + total\<rparr>)
            else
              (case decode_payload (take payload_length (drop (offset + kRecordHeaderSize) bytes)) of
                 None \<Rightarrow> Inl (unusable Corrupt RecoveryCorruptJournal
                   ''journal record payload is not a canonical state record'' pass)
               | Some decoded \<Rightarrow>
                   scan_records config bytes (offset + total)
                     (j\<lparr>js_pass := pass\<lparr>rp_state := decoded, rp_sequence := record_sequence,
                          rp_snapshot_digest := computed, rp_has_state := True,
                          rp_records_replayed := rp_records_replayed pass + 1\<rparr>,
                        js_used := True, js_last_good := offset + total\<rparr>)))"
  by pat_completeness auto

termination
  by (relation "measure (\<lambda>(config, bytes, offset, j). length bytes - offset)") auto

declare scan_records.simps [simp del]

definition recover_journal ::
    "store_config \<Rightarrow> io_outcome \<Rightarrow> byte list option \<Rightarrow> recovery_pass \<Rightarrow> recovery_pass + journal_scan" where
  "recover_journal config io file pass =
     (let torn = (\<lambda>d. Inr \<lparr>js_pass = set_detail d pass, js_used = False, js_torn_tail = True, js_last_good = 0\<rparr>) in
      case file of
        None \<Rightarrow> Inr \<lparr>js_pass = pass, js_used = False, js_torn_tail = False, js_last_good = 0\<rparr>
      | Some content \<Rightarrow>
      (case read_file_bounded io content (sc_max_journal_bytes config) of
         Inl failure \<Rightarrow>
           Inl (unusable (if failure = RejectedOversizedInput then Oversized else Corrupt)
             (if failure = RejectedOversizedInput then RecoveryOversizedRecord else RecoveryCorruptJournal)
             (''journal could not be read: '' @ reason_to_string failure) pass)
       | Inr bytes \<Rightarrow>
         if length bytes < kJournalHeaderSize then torn ''journal is shorter than its header''
         else if take 8 bytes \<noteq> kJournalMagic then torn ''journal magic mismatch''
         else if get_u32 bytes 8 \<noteq> kJournalContainerVersion then
           Inl (unusable IncompatibleVersion RecoveryIncompatibleVersion
             ''journal container version is not supported'' pass)
         else if get_u32 bytes 12 \<noteq> kStateSemanticsVersion then
           Inl (unusable SemanticsMismatch RecoverySemanticsMismatch
             ''journal semantics version is not supported'' pass)
         else if digest_range bytes 0 64 \<noteq> get_digest bytes 64 then torn ''journal header digest mismatch''
         else
           let pass = pass\<lparr>rp_journal_header_ok := True\<rparr> in
           if rp_snapshot_used pass \<and> get_u64 bytes 16 > rp_sequence pass then
             Inl (unusable Corrupt RecoveryCorruptJournal
               ''journal base is newer than the snapshot it claims'' pass)
           else scan_records config bytes kJournalHeaderSize
             \<lparr>js_pass = pass, js_used = False, js_torn_tail = False, js_last_good = kJournalHeaderSize\<rparr>))"

text \<open>The classification at the end of \<^verbatim>\<open>recover\<close>.\<close>

definition or_detail :: "string \<Rightarrow> recovery_pass \<Rightarrow> recovery_pass" where
  "or_detail d p = (if rv_detail (rp_report p) = [] then set_detail d p else p)"

definition recover_without_state :: "bool \<Rightarrow> journal_scan \<Rightarrow> recovery_pass" where
  "recover_without_state snapshot_damaged j =
     (let pass = js_pass j in
      if snapshot_damaged then
        or_detail ''no usable durable state'' (classify Corrupt RecoveryCorruptSnapshot False pass)
      else if js_torn_tail j then
        (let p = or_detail ''journal tail was truncated''
               (classify TornTailTruncated RecoveryTornTailTruncated True pass)
         in p\<lparr>rp_report := (rp_report p)\<lparr>rv_snapshot_used := False, rv_journal_used := False\<rparr>\<rparr>)
      else set_detail ''store directory holds no durable state''
             (classify EmptyStore RecoveryEmptyStore True pass))"

definition recover_with_state :: "journal_scan \<Rightarrow> recovery_pass" where
  "recover_with_state j =
     (let torn_tail = js_torn_tail j;
          pass = (js_pass j)\<lparr>rp_journal_good_bytes := (if torn_tail then js_last_good j else 0),
                            rp_torn_tail := torn_tail\<rparr>;
          pass = pass\<lparr>rp_report := (rp_report pass)\<lparr>
                   rv_snapshot_used := rp_snapshot_used pass, rv_journal_used := js_used j,
                   rv_records_replayed := unat (rp_records_replayed pass),
                   rv_commit_sequence := rp_sequence pass, rv_state_digest := rp_snapshot_digest pass\<rparr>\<rparr>;
          pass =
            (if torn_tail then classify TornTailTruncated RecoveryTornTailTruncated True pass
             else if rp_snapshot_used pass \<and> rp_records_replayed pass > 0 then
               classify JournalReplayed RecoveryJournalReplayed True pass
             else if \<not> rp_snapshot_used pass \<and> js_used j then
               classify JournalOnly RecoveryJournalOnly True pass
             else if rp_snapshot_used pass \<and> rp_journal_exists pass then
               classify CleanReopen RecoveryCleanReopen True pass
             else if rp_snapshot_used pass then classify SnapshotOnly RecoverySnapshotOnly True pass
             else classify EmptyStore RecoveryEmptyStore True pass)
      in pass\<lparr>rp_state := canonicalize_order (rp_state pass)\<rparr>)"

definition recover :: "store_config \<Rightarrow> io_outcome \<Rightarrow> io_outcome \<Rightarrow> disk \<Rightarrow> recovery_pass" where
  "recover config io_snapshot io_journal d =
     (let pass = recovery_pass_default\<lparr>rp_journal_exists := dk_journal d \<noteq> None\<rparr> in
      case recover_snapshot config io_snapshot (dk_snapshot d) pass of
        Inl p \<Rightarrow> p
      | Inr (pass, snapshot_damaged) \<Rightarrow>
          (case recover_journal config io_journal (dk_journal d) pass of
             Inl p \<Rightarrow> p
           | Inr j \<Rightarrow>
               if \<not> rp_has_state (js_pass j) then recover_without_state snapshot_damaged j
               else recover_with_state j))"

section \<open>The store\<close>

record store =
  st_config :: store_config
  st_open :: bool
  st_has_state :: bool
  st_state :: durable_state
  st_recovery :: recovery_report
  st_commit_sequence :: u64
  st_journal_bytes :: u64
  st_records_since_snapshot :: u32
  st_snapshot_digest :: digest
  st_file_handle :: bool
  st_forced_failure :: reason
  st_disk :: disk
  st_io :: "io_outcome list"

definition store_new :: "store_config \<Rightarrow> disk \<Rightarrow> io_outcome list \<Rightarrow> store" where
  "store_new config d io =
     \<lparr>st_config = config, st_open = False, st_has_state = False, st_state = durable_state_default,
      st_recovery = recovery_report_default, st_commit_sequence = 0, st_journal_bytes = 0,
      st_records_since_snapshot = 0, st_snapshot_digest = digest_zero, st_file_handle = False,
      st_forced_failure = ReasonOk, st_disk = d, st_io = io\<rparr>"

text \<open>The outcome of the next action; an exhausted plan has no more failures.\<close>

definition io_head :: "store \<Rightarrow> io_outcome" where
  "io_head st = (case st_io st of [] \<Rightarrow> IoOk | o' # os \<Rightarrow> o')"

definition io_advance :: "store \<Rightarrow> store" where
  "io_advance st = st\<lparr>st_io := tl (st_io st)\<rparr>"

definition set_journal :: "byte list \<Rightarrow> store \<Rightarrow> store" where
  "set_journal bytes st = st\<lparr>st_disk := (st_disk st)\<lparr>dk_journal := Some bytes\<rparr>\<rparr>"

definition set_snapshot :: "byte list \<Rightarrow> store \<Rightarrow> store" where
  "set_snapshot bytes st = st\<lparr>st_disk := (st_disk st)\<lparr>dk_snapshot := Some bytes\<rparr>\<rparr>"

definition store_close :: "store \<Rightarrow> store" where
  "store_close st = st\<lparr>st_file_handle := False, st_open := False\<rparr>"

text \<open>
  \<^verbatim>\<open>write_atomic\<close> to the snapshot path: the temporary file is written, synced, closed and renamed
  over the target, so the target changes only when every call succeeds.
\<close>

definition write_atomic :: "byte list \<Rightarrow> store \<Rightarrow> reason option \<times> store" where
  "write_atomic bytes st =
     (let io = io_head st; st = io_advance st in
      if io = OpenError then (Some RejectedStoreUnavailable, st)
      else if bytes \<noteq> [] \<and> (case io of ShortIo n \<Rightarrow> n < length bytes | _ \<Rightarrow> False) then (Some PersistCommitFailed, st)
      else if sc_flush_to_device (st_config st) \<and> io = SyncError then (Some PersistCommitFailed, st)
      else if io = CloseError then (Some PersistCommitFailed, st)
      else if io = RenameError then (Some PersistCommitFailed, st)
      else (None, set_snapshot bytes st))"

text \<open>
  \<^verbatim>\<open>rewrite_journal\<close> truncates the journal when it opens it, before the header is written, so a
  failing write leaves a partial header.
\<close>

definition rewrite_journal :: "u64 \<Rightarrow> digest \<Rightarrow> store \<Rightarrow> reason option \<times> store" where
  "rewrite_journal base_sequence base_digest st =
     (let header = journal_header base_sequence base_digest;
          st = st\<lparr>st_file_handle := False\<rparr>;
          io = io_head st; st = io_advance st in
      if io = OpenError then (Some RejectedStoreUnavailable, st)
      else case io of
          ShortIo n \<Rightarrow>
            if n < length header then (Some PersistCommitFailed, set_journal (take n header) st)
            else (None, set_journal header (st\<lparr>st_journal_bytes := of_nat (length header), st_records_since_snapshot := 0\<rparr>))
        | _ \<Rightarrow>
            if sc_flush_to_device (st_config st) \<and> io = SyncError \<or> io = CloseError then
              (Some PersistCommitFailed, set_journal header st)
            else (None, set_journal header (st\<lparr>st_journal_bytes := of_nat (length header), st_records_since_snapshot := 0\<rparr>)))"

text \<open>Opening in append mode creates a missing journal.\<close>

definition open_journal_for_append :: "store \<Rightarrow> reason option \<times> store" where
  "open_journal_for_append st =
     (let st = st\<lparr>st_file_handle := False\<rparr>; io = io_head st; st = io_advance st in
      if io = OpenError then (Some RejectedStoreUnavailable, st)
      else (None, (case dk_journal (st_disk st) of None \<Rightarrow> set_journal [] st | Some _ \<Rightarrow> st)\<lparr>st_file_handle := True\<rparr>))"

definition journal_content :: "store \<Rightarrow> byte list" where
  "journal_content st = (case dk_journal (st_disk st) of None \<Rightarrow> [] | Some bytes \<Rightarrow> bytes)"

definition encode_payload :: "durable_state \<Rightarrow> cwriter" where
  "encode_payload s = encode_durable_state s (canonical_writer kMaxCanonicalBytes)"

text \<open>
  \<^verbatim>\<open>append_record\<close>.  A short write leaves the bytes that were transferred in the journal; a
  failing sync leaves the whole record there, but the commit is not acknowledged.
\<close>

definition append_record :: "durable_state \<Rightarrow> store \<Rightarrow> reason option \<times> store" where
  "append_record s st =
     (let w = encode_payload s; payload = cw_buffer w;
          total = kRecordHeaderSize + length payload + kDigestSize in
      if \<not> w_ok w \<or> length payload > kMaxJournalRecordBytes then (Some RejectedOversizedInput, st)
      else if st_journal_bytes st + of_nat total > sc_max_journal_bytes (st_config st) then
        (Some PersistRotationRequired, st)
      else
        let image = record_image (st_commit_sequence st + 1) payload in
        if \<not> st_file_handle st then (Some RejectedStoreUnavailable, st)
        else
          let io = io_head st; st = io_advance st in
          if (case io of ShortIo n \<Rightarrow> n < length image | _ \<Rightarrow> False) then
            (Some PersistCommitFailed,
             set_journal (journal_content st @ take (case io of ShortIo n \<Rightarrow> n | _ \<Rightarrow> 0) image) st)
          else
            let st = set_journal (journal_content st @ image) st in
            if sc_flush_to_device (st_config st) \<and> io = SyncError then (Some PersistCommitFailed, st)
            else (None, st\<lparr>st_journal_bytes := st_journal_bytes st + of_nat (length image),
                           st_commit_sequence := st_commit_sequence st + 1,
                           st_records_since_snapshot := st_records_since_snapshot st + 1,
                           st_state := canonicalize_order s, st_has_state := True\<rparr>))"

definition compact :: "durable_state \<Rightarrow> store \<Rightarrow> status \<times> store" where
  "compact s st =
     (if \<not> st_open st then (status_refused RejectedStoreUnavailable, st)
      else
        let w = encode_payload s; payload = cw_buffer w in
        if \<not> w_ok w then (status_refused RejectedOversizedInput, st)
        else if of_nat (length payload + kSnapshotHeaderSize) > sc_max_snapshot_bytes (st_config st) then
          (status_refused RejectedOversizedInput, st)
        else
          let next_sequence = st_commit_sequence st + 1 in
          case write_atomic (snapshot_image s next_sequence payload) st of
            (Some failure, st) \<Rightarrow> (status_refused failure, st)
          | (None, st) \<Rightarrow>
              let st = st\<lparr>st_commit_sequence := next_sequence, st_snapshot_digest := sha256_of payload\<rparr> in
              (case rewrite_journal next_sequence (sha256_of payload) st of
                 (Some failure, st) \<Rightarrow> (status_refused failure, st)
               | (None, st) \<Rightarrow>
                   (case open_journal_for_append st of
                      (Some failure, st) \<Rightarrow> (status_refused failure, st)
                    | (None, st) \<Rightarrow> (status_accepted RecoveryCompacted, st))))"

definition commit :: "durable_state \<Rightarrow> store \<Rightarrow> status \<times> store" where
  "commit s st =
     (if st_forced_failure st \<noteq> ReasonOk then
        (status_refused (st_forced_failure st), st\<lparr>st_forced_failure := ReasonOk\<rparr>)
      else if \<not> st_open st \<or> \<not> st_file_handle st then (status_refused RejectedStoreUnavailable, st)
      else
        (case append_record s st of
           (Some failure, st) \<Rightarrow> (status_refused failure, st)
         | (None, st) \<Rightarrow>
             if st_records_since_snapshot st \<ge> sc_compaction_record_threshold (st_config st) \<or>
                st_journal_bytes st \<ge> sc_max_journal_bytes (st_config st) div 2
             then (case compact s st of
                     (compacted, st) \<Rightarrow>
                       if status_failed compacted then (status_accepted PersistRotationRequired, st)
                       else (status_accepted RecoveryCompacted, st))
             else (status_accepted PersistCommitted, st)))"

text \<open>
  \<^verbatim>\<open>Store::open\<close>: recover, truncate a torn tail, establish a journal header, open the journal
  for append and adopt the recovered state.
\<close>

definition truncate_torn_tail :: "recovery_pass \<Rightarrow> store \<Rightarrow> reason option \<times> store" where
  "truncate_torn_tail pass st =
     (if rp_journal_exists pass \<and> rp_torn_tail pass then
        let io = io_head st; st = io_advance st;
            original = length (journal_content st); target = rp_journal_good_bytes pass in
        if io = SizeError then (None, st)
        else if target \<le> original then
          if io = ResizeError then
            (Some RecoveryCorruptJournal,
             st\<lparr>st_recovery := (rp_report pass)\<lparr>rv_kind := Corrupt, rv_code := RecoveryCorruptJournal,
                  rv_usable := False, rv_detail := ''torn journal tail could not be truncated''\<rparr>\<rparr>)
          else (None, set_journal (take target (journal_content st))
                  (st\<lparr>st_recovery := (st_recovery st)\<lparr>rv_bytes_truncated := of_nat (original - target)\<rparr>\<rparr>))
        else (None, st)
      else (None, st))"

definition open_fail :: "recovery_pass \<Rightarrow> reason \<Rightarrow> string \<Rightarrow> store \<Rightarrow> store" where
  "open_fail pass code d st =
     st\<lparr>st_recovery := (rp_report pass)\<lparr>rv_kind := Unavailable, rv_code := code, rv_usable := False, rv_detail := d\<rparr>\<rparr>"

definition ensure_journal_header :: "recovery_pass \<Rightarrow> store \<Rightarrow> reason option \<times> store" where
  "ensure_journal_header pass st =
     (if rp_journal_exists pass \<and> rp_journal_header_ok pass \<and> \<not> rp_torn_tail pass then (None, st)
      else rewrite_journal (if rp_snapshot_used pass then rp_sequence pass else 0)
             (if rp_snapshot_used pass then rp_snapshot_digest pass else digest_zero) st)"

definition adopt_recovery :: "recovery_pass \<Rightarrow> store \<Rightarrow> store" where
  "adopt_recovery pass st =
     (let io = io_head st; st = io_advance st;
          truncated = rv_bytes_truncated (st_recovery st)
      in st\<lparr>st_journal_bytes := (if io = SizeError then 0 else of_nat (length (journal_content st))),
            st_recovery := (rp_report pass)\<lparr>rv_bytes_truncated := truncated\<rparr>,
            st_state := rp_state pass, st_has_state := rp_has_state pass,
            st_commit_sequence := rp_sequence pass, st_snapshot_digest := rp_snapshot_digest pass,
            st_records_since_snapshot := rp_records_replayed pass, st_open := True\<rparr>)"

definition store_open :: "store \<Rightarrow> recovery_report \<times> store" where
  "store_open st =
     (let st = (store_close st)\<lparr>st_recovery := recovery_report_default\<rparr>;
          report = (\<lambda>st. (st_recovery st, st));
          unavailable = (\<lambda>d. st\<lparr>st_recovery := recovery_report_default\<lparr>rv_kind := Unavailable,
             rv_code := RejectedStoreUnavailable, rv_usable := False, rv_detail := d\<rparr>\<rparr>) in
      if sc_directory (st_config st) = [] then report (unavailable ''no store directory configured'')
      else if \<not> dk_directory (st_disk st) \<and> io_head st \<noteq> IoOk then
        report (io_advance (unavailable ''store directory could not be created''))
      else
        let st = (if dk_directory (st_disk st) then st
                  else (io_advance st)\<lparr>st_disk := (st_disk st)\<lparr>dk_directory := True\<rparr>\<rparr>);
            pass = recover (st_config st) (io_head st) (io_head (io_advance st)) (st_disk st);
            st = io_advance (io_advance st) in
        if \<not> rv_usable (rp_report pass) then report (st\<lparr>st_recovery := rp_report pass\<rparr>)
        else (case truncate_torn_tail pass st of
            (Some _, st) \<Rightarrow> report st
          | (None, st) \<Rightarrow>
          (case ensure_journal_header pass st of
            (Some failure, st) \<Rightarrow>
              report (open_fail pass failure ''journal header could not be established'' st)
          | (None, st) \<Rightarrow>
          (case open_journal_for_append st of
            (Some failure, st) \<Rightarrow>
              report (open_fail pass failure ''journal could not be opened for append'' st)
          | (None, st) \<Rightarrow> report (adopt_recovery pass st)))))"

definition verify_integrity :: "store \<Rightarrow> recovery_report \<times> store" where
  "verify_integrity st =
     (rp_report (recover (st_config st) (io_head st) (io_head (io_advance st)) (st_disk st)),
      io_advance (io_advance st))"

definition derive_boot_id :: "boot_id \<Rightarrow> coordinator_epoch \<Rightarrow> boot_id" where
  "derive_boot_id previous epoch =
     (let first = sha256_of (be64 (boot_high previous) @ be64 (boot_low previous));
          final_digest = fst (sha256_finish (sha256_update (sha256_update sha256_init first) (be64 epoch)));
          out = \<lparr>boot_high = get_u64 final_digest 0, boot_low = get_u64 final_digest 8\<rparr>
      in if \<not> boot_is_valid out then out\<lparr>boot_low := 1\<rparr> else out)"

end
