(* ===== verification/EngineState.thy ===== *)
theory EngineState
  imports Store
begin

text \<open>
  The engine's state and the helpers that run with the state mutex held
  (\<^verbatim>\<open>src/engine_internal.hpp\<close> and the first part of \<^verbatim>\<open>src/engine.cpp\<close>).  \<open>impl\<close> is
  \<^verbatim>\<open>Engine::Impl\<close> without its mutexes, its worker pool and its asynchronous operations; each
  \<^verbatim>\<open>std::map\<close> is an ordered map.  Every public operation of the engine runs under the mutex, so
  it is a function from the state to its result and the new state.
\<close>

section \<open>Records\<close>

record engine_config =
  ec_persistence_enabled :: bool
  ec_store :: store_config
  ec_evidence_freshness :: duration
  ec_max_flows :: nat
  ec_max_targets :: nat
  ec_max_contracts :: nat
  ec_max_migrations :: nat
  ec_max_requests :: nat
  ec_max_history :: nat
  ec_max_evidence_sources :: nat
  ec_max_alternatives :: nat
  ec_max_rebalance_migrations :: nat
  ec_workers :: u32
  ec_max_queue_depth :: nat
  ec_boot_id_override :: boot_id

definition engine_config_default :: engine_config where
  "engine_config_default =
     \<lparr>ec_persistence_enabled = False, ec_store = store_config_default, ec_evidence_freshness = 1000000000,
      ec_max_flows = kMaxFlows, ec_max_targets = kMaxTargets, ec_max_contracts = kMaxMigrationContracts,
      ec_max_migrations = kMaxMigrationRecords, ec_max_requests = kMaxRequestRecords,
      ec_max_history = kMaxHistoryRecords, ec_max_evidence_sources = kMaxEvidenceSources,
      ec_max_alternatives = 4, ec_max_rebalance_migrations = kMaxRebalanceMigrations,
      ec_workers = 0, ec_max_queue_depth = 4096, ec_boot_id_override = boot_id_default\<rparr>"

record rank_key =
  rk_sticky :: u8
  rk_domain_rank :: u8
  rk_cost_rank :: u8
  rk_utilisation_ppm :: u32
  rk_target :: u64

record effective_load =
  el_known :: bool
  el_used :: capacity_vector
  el_reason :: reason

record target_state =
  ts_descriptor :: target_descriptor
  ts_declared :: bool
  ts_has_load :: bool
  ts_load :: load_evidence
  ts_conflicting :: bool
  ts_conflict_peer :: load_evidence
  ts_scheduled :: capacity_vector

definition target_state_default :: target_state where
  "target_state_default =
     \<lparr>ts_descriptor = target_descriptor_default, ts_declared = False, ts_has_load = False,
      ts_load = load_evidence_default, ts_conflicting = False, ts_conflict_peer = load_evidence_default,
      ts_scheduled = cv_zero\<rparr>"

record state_holder =
  sh_flow :: flow_id
  sh_flow_generation :: flow_generation
  sh_target :: target_id
  sh_incarnation :: target_incarnation
  sh_assignment :: assignment_id
  sh_handoff_pending :: bool
  sh_pending_attempt :: migration_attempt_id

definition state_holder_default :: state_holder where
  "state_holder_default =
     \<lparr>sh_flow = 0, sh_flow_generation = 0, sh_target = 0, sh_incarnation = 0, sh_assignment = 0,
      sh_handoff_pending = False, sh_pending_attempt = 0\<rparr>"

record impl =
  e_config :: engine_config
  e_open :: bool
  e_shutting_down :: bool
  e_epoch :: coordinator_epoch
  e_boot :: boot_id
  e_policy_generation :: policy_generation
  e_schedule_generation :: schedule_generation
  e_topology_generation :: topology_generation
  e_policy :: policy
  e_policy_present :: bool
  e_flows :: "(flow_id, flow_descriptor) omap"
  e_targets :: "(target_id, target_state) omap"
  e_assignments :: "(flow_id, assignment) omap"
  e_holders :: "(exclusive_state_key_id, state_holder) omap"
  e_migrations :: "(migration_attempt_id, migration_record) omap"
  e_contracts :: "(migration_contract_id, migration_contract) omap"
  e_fences :: "(fence_id, fence_record) omap"
  e_watermarks :: "(evidence_source_id, source_watermark) omap"
  e_requests :: "(request_id, request_record) omap"
  e_refusal_counts :: "(u32, u64) omap"
  e_authorizations :: "(authorization_id, authorization) omap"
  e_recommendations :: "(recommendation_id, recommendation) omap"
  e_counters :: counters
  e_next_assignment :: u64
  e_next_recommendation :: u64
  e_next_authorization :: u64
  e_next_attempt :: u64
  e_next_fence :: u64
  e_store :: store
  e_recovery :: recovery_report

text \<open>\<^verbatim>\<open>Engine::Impl::Impl\<close> on a disk \<open>d\<close> with the outcomes \<open>io\<close>.\<close>

definition impl_new :: "engine_config \<Rightarrow> disk \<Rightarrow> io_outcome list \<Rightarrow> impl" where
  "impl_new config d io =
     \<lparr>e_config = config, e_open = False, e_shutting_down = False, e_epoch = 0, e_boot = boot_id_default,
      e_policy_generation = 0, e_schedule_generation = 0, e_topology_generation = 0, e_policy = policy_default,
      e_policy_present = False, e_flows = [], e_targets = [], e_assignments = [], e_holders = [], e_migrations = [],
      e_contracts = [], e_fences = [], e_watermarks = [], e_requests = [], e_refusal_counts = [],
      e_authorizations = [], e_recommendations = [], e_counters = counters_default, e_next_assignment = 1,
      e_next_recommendation = 1, e_next_authorization = 1, e_next_attempt = 1, e_next_fence = 1,
      e_store = store_new (ec_store config) d io, e_recovery = recovery_report_default\<rparr>"

section \<open>Free functions\<close>

definition same_target_identity :: "target_descriptor \<Rightarrow> target_descriptor \<Rightarrow> bool" where
  "same_target_identity a b \<longleftrightarrow>
     td_target a = td_target b \<and> td_incarnation a = td_incarnation b \<and>
     td_capability_generation a = td_capability_generation b \<and>
     td_topology_generation a = td_topology_generation b \<and> td_domain a = td_domain b \<and>
     td_kind a = td_kind b \<and> td_host a = td_host b \<and> td_device a = td_device b \<and>
     td_capabilities a = td_capabilities b \<and> td_capacity a = td_capacity b \<and> td_reserved a = td_reserved b \<and>
     td_cost_class a = td_cost_class b \<and> td_supports_stateful a = td_supports_stateful b \<and>
     td_supports_migration a = td_supports_migration b"

definition compare_rank :: "rank_key \<Rightarrow> rank_key \<Rightarrow> int" where
  "compare_rank a b =
     (if rk_sticky a \<noteq> rk_sticky b then if rk_sticky a < rk_sticky b then - 1 else 1
      else if rk_domain_rank a \<noteq> rk_domain_rank b then if rk_domain_rank a < rk_domain_rank b then - 1 else 1
      else if rk_cost_rank a \<noteq> rk_cost_rank b then if rk_cost_rank a < rk_cost_rank b then - 1 else 1
      else if rk_utilisation_ppm a \<noteq> rk_utilisation_ppm b then
        if rk_utilisation_ppm a < rk_utilisation_ppm b then - 1 else 1
      else if rk_target a \<noteq> rk_target b then if rk_target a < rk_target b then - 1 else 1
      else 0)"

definition refusal_priority :: "reason \<Rightarrow> int" where
  "refusal_priority code =
     (if code \<in> {RejectedMissingEvidence, RejectedConflictingEvidence, RejectedCapacityUnknown,
                 RejectedUnknownEvidenceSource} then 100
      else if code \<in> {RejectedStaleCapabilityGeneration, RejectedStaleTopologyGeneration,
                 RejectedStaleIncarnation, RejectedStaleEvidence} then 90
      else if code \<in> {RejectedTargetLifecycleUnknown, RejectedTargetNotReady, RejectedTargetDraining,
                 RejectedTargetDegraded, RejectedTargetQuiesced, RejectedTargetRemoved} then 85
      else if code \<in> {RejectedUnsupportedTarget, RejectedUnsupportedFunction, RejectedUnsupportedCapability} then 80
      else if code \<in> {RejectedPolicyForbidsDomain, RejectedPolicyForbidsHost, RejectedPolicyForbidsDevice,
                 RejectedPolicyFunctionNotAllowed, RejectedPolicyCostClass} then 70
      else if code = RejectedAffinityUnsatisfiable then 65
      else if code \<in> {RejectedCapacityInsufficient, RejectedCapacityOverSubscribed, RejectedCapacityOverflow} then 60
      else if code = RejectedExclusiveStateConflict then 55
      else 10)"

text \<open>A phase that no operation leaves.\<close>

definition phase_terminal :: "migration_phase \<Rightarrow> bool" where
  "phase_terminal p \<longleftrightarrow> p = Completed \<or> p = Aborted \<or> p = Fenced"

abbreviation phase_of :: "migration_record \<Rightarrow> migration_phase" where
  "phase_of r \<equiv> mi_phase (mr_intent r)"

section \<open>Counters and refusals\<close>

text \<open>\<^verbatim>\<open>counters.c = saturating_increment(counters.c)\<close>; \<open>upd\<close> is the update of field \<open>c\<close>.\<close>

definition bump :: "((u64 \<Rightarrow> u64) \<Rightarrow> counters \<Rightarrow> counters) \<Rightarrow> impl \<Rightarrow> impl" where
  "bump upd s = s\<lparr>e_counters := upd saturating_increment (e_counters s)\<rparr>"

definition record_refusal_locked :: "reason \<Rightarrow> impl \<Rightarrow> impl" where
  "record_refusal_locked code s =
     (let key = reason_value code in
      bump c_refusals_by_reason_total_update
        (case om_find (e_refusal_counts s) key of
           None \<Rightarrow> s\<lparr>e_refusal_counts := om_emplace key 1 (e_refusal_counts s)\<rparr>
         | Some _ \<Rightarrow> s\<lparr>e_refusal_counts := om_modify key saturating_increment (e_refusal_counts s)\<rparr>))"

text \<open>
  The ways an operation returns: \<open>refuse\<close> and \<open>accept\<close> leave the state alone, \<open>reject\<close> also
  counts the rejection.  \<open>om_at\<close> is the value \<^verbatim>\<open>m[k]\<close> yields, where \<open>d\<close> is what it inserts
  for a missing key.
\<close>

abbreviation refuse :: "reason \<Rightarrow> impl \<Rightarrow> status \<times> impl" where
  "refuse code s \<equiv> (status_refused code, s)"

abbreviation accept :: "reason \<Rightarrow> impl \<Rightarrow> status \<times> impl" where
  "accept code s \<equiv> (status_accepted code, s)"

abbreviation reject :: "((u64 \<Rightarrow> u64) \<Rightarrow> counters \<Rightarrow> counters) \<Rightarrow> reason \<Rightarrow> impl \<Rightarrow> status \<times> impl" where
  "reject upd code s \<equiv> (status_refused code, bump upd s)"

definition om_at :: "'k \<Rightarrow> 'v \<Rightarrow> ('k, 'v) omap \<Rightarrow> 'v" where
  "om_at k d m = (case om_find m k of None \<Rightarrow> d | Some v \<Rightarrow> v)"

section \<open>Persistence\<close>

definition build_durable_locked :: "impl \<Rightarrow> durable_state" where
  "build_durable_locked s =
     canonicalize_order (durable_state_default\<lparr>
       ds_semantics_version := kStateSemanticsVersion,
       ds_epoch := e_epoch s,
       ds_boot := e_boot s,
       ds_schedule_generation := e_schedule_generation s,
       ds_topology_generation := e_topology_generation s,
       ds_policy := e_policy s,
       ds_policy_present := e_policy_present s,
       ds_counters := e_counters s,
       ds_flows := map snd (e_flows s),
       ds_targets := map (\<lambda>(k, t). (ts_descriptor t)\<lparr>td_lifecycle := LifecycleUnknown\<rparr>) (e_targets s),
       ds_assignments :=
         map (\<lambda>(k, a). if as_effect a \<noteq> Verified then a\<lparr>as_effect := EffectUnknown\<rparr> else a) (e_assignments s),
       ds_contracts := map snd (e_contracts s),
       ds_migrations := map snd (e_migrations s),
       ds_fences := map snd (e_fences s),
       ds_watermarks := map snd (e_watermarks s),
       ds_requests := map snd (e_requests s),
       ds_refusal_counts := map (\<lambda>(k, n). \<lparr>rc_code = k, rc_count = n\<rparr>) (e_refusal_counts s)\<rparr>)"

definition persist_locked :: "impl \<Rightarrow> status \<times> impl" where
  "persist_locked s =
     (if \<not> ec_persistence_enabled (e_config s) then (status_accepted PersistNotConfigured, s)
      else
        let s = bump c_persist_commits_update s;
            (status, st) = commit (build_durable_locked s) (e_store s);
            s = s\<lparr>e_store := st\<rparr>
        in if status_failed status then
             (status, bump c_persist_failures_update
                (s\<lparr>e_counters := c_persist_commits_update (\<lambda>n. if n > 0 then n - 1 else n) (e_counters s)\<rparr>))
           else (status, s))"

text \<open>The tail of most operations: persist, and report \<open>outcome\<close> unless that failed.\<close>

definition persist_then :: "reason \<Rightarrow> impl \<Rightarrow> status \<times> impl" where
  "persist_then outcome s =
     (let (persisted, s) = persist_locked s
      in if status_failed persisted then (persisted, s) else (status_accepted outcome, s))"

section \<open>Capacity accounting\<close>

fun committed_demand_loop ::
    "(flow_id, flow_descriptor) omap \<Rightarrow> target_id \<Rightarrow> (flow_id, assignment) omap \<Rightarrow> capacity_vector \<Rightarrow> capacity_vector" where
  "committed_demand_loop flows target [] acc = acc"
| "committed_demand_loop flows target ((k, a) # rest) acc =
     (if as_target a \<noteq> target then committed_demand_loop flows target rest acc
      else case om_find flows k of
             None \<Rightarrow> committed_demand_loop flows target rest acc
           | Some f \<Rightarrow>
               (case checked_add_cv acc (fd_demand f) of
                  None \<Rightarrow> cv_saturated
                | Some acc' \<Rightarrow> committed_demand_loop flows target rest acc'))"

definition committed_demand_for_locked :: "target_id \<Rightarrow> impl \<Rightarrow> capacity_vector" where
  "committed_demand_for_locked target s = committed_demand_loop (e_flows s) target (e_assignments s) cv_zero"

text \<open>One iteration of the second loop of \<^verbatim>\<open>recompute_scheduled_locked\<close>.\<close>

definition schedule_assignment ::
    "(flow_id, flow_descriptor) omap \<Rightarrow> (target_id, target_state) omap \<Rightarrow> flow_id \<times> assignment \<Rightarrow>
     (target_id, target_state) omap" where
  "schedule_assignment flows targets entry =
     (case om_find targets (as_target (snd entry)) of
        None \<Rightarrow> targets
      | Some t \<Rightarrow>
          (case om_find flows (fst entry) of
             None \<Rightarrow> targets
           | Some f \<Rightarrow>
               om_modify (as_target (snd entry)) (\<lambda>t. t\<lparr>ts_scheduled :=
                 (case checked_add_cv (ts_scheduled t) (fd_demand f) of None \<Rightarrow> cv_saturated | Some total' \<Rightarrow> total')\<rparr>)
                 targets))"

definition recompute_scheduled_locked :: "impl \<Rightarrow> impl" where
  "recompute_scheduled_locked s =
     s\<lparr>e_targets := foldl (schedule_assignment (e_flows s))
         (om_map (\<lambda>k t. t\<lparr>ts_scheduled := cv_zero\<rparr>) (e_targets s)) (e_assignments s)\<rparr>"

definition combined_maximum :: "capacity_vector \<Rightarrow> capacity_vector \<Rightarrow> capacity_vector" where
  "combined_maximum a b =
     \<lparr>cv_packets_per_second = max (cv_packets_per_second a) (cv_packets_per_second b),
      cv_bytes_per_second = max (cv_bytes_per_second a) (cv_bytes_per_second b),
      cv_state_bytes = max (cv_state_bytes a) (cv_state_bytes b),
      cv_table_entries = max (cv_table_entries a) (cv_table_entries b)\<rparr>"

definition effective_load_locked :: "target_state \<Rightarrow> timestamp \<Rightarrow> impl \<Rightarrow> effective_load" where
  "effective_load_locked t instant s =
     (let unknown = (\<lambda>r. \<lparr>el_known = False, el_used = cv_zero, el_reason = r\<rparr>);
          known = (\<lambda>u. \<lparr>el_known = True, el_used = u, el_reason = ReasonOk\<rparr>);
          model = pol_load_model (e_policy s);
          observed_needed = (model \<noteq> ScheduledOnly);
          observed_known = (ts_has_load t \<and> \<not> ts_conflicting t \<and> le_state (ts_load t) = Known) in
      if ts_conflicting t then unknown RejectedConflictingEvidence
      else
        let freshness = ec_evidence_freshness (e_config s);
            observed_known =
              (if observed_known \<and> freshness > 0 \<and> saturating_elapsed instant (le_observed_at (ts_load t)) > freshness
               then False else observed_known) in
        if observed_needed \<and> \<not> observed_known \<and> \<not> ts_conflicting t then
          unknown (if ts_has_load t then
                     if le_state (ts_load t) = Unsupported then RejectedUnsupportedTarget else RejectedStaleEvidence
                   else RejectedMissingEvidence)
        else
          let observed = (if observed_known then le_utilized (ts_load t) else cv_zero) in
          case model of
            ObservedOnly \<Rightarrow> known observed
          | ScheduledOnly \<Rightarrow> known (ts_scheduled t)
          | MaximumOfBoth \<Rightarrow> known (combined_maximum observed (ts_scheduled t))
          | _ \<Rightarrow> (case checked_add_cv observed (ts_scheduled t) of
                   None \<Rightarrow> unknown RejectedCapacityOverflow
                 | Some total' \<Rightarrow> known total'))"

section \<open>Fences and history\<close>

text \<open>The first inactive fence, or else the first fence, is the victim.\<close>

definition fence_victim :: "(fence_id, fence_record) omap \<Rightarrow> fence_id" where
  "fence_victim fences =
     (case List.find (\<lambda>(k, f). \<not> fr_active f) fences of
        Some (k, f) \<Rightarrow> k
      | None \<Rightarrow> fst (hd fences))"

function evict_fences :: "nat \<Rightarrow> (fence_id, fence_record) omap \<Rightarrow> counters \<Rightarrow> (fence_id, fence_record) omap \<times> counters" where
  "evict_fences bound fences c =
     (if length fences > bound
      then evict_fences bound (om_erase (fence_victim fences) fences) (c_history_evictions_update saturating_increment c)
      else (fences, c))"
  by pat_completeness auto

lemma fence_victim_in: "fences \<noteq> [] \<Longrightarrow> fence_victim fences \<in> fst ` set fences"
proof -
  assume "fences \<noteq> []"
  then have "fst (hd fences) \<in> fst ` set fences" by simp
  moreover have "k \<in> fst ` set fences" if "List.find (\<lambda>(k, f). \<not> fr_active f) fences = Some (k, f)" for k f
    using that by (force simp: find_Some_iff in_set_conv_nth image_iff)
  ultimately show ?thesis by (auto simp: fence_victim_def split: option.split)
qed

lemma length_om_erase_less: "k \<in> fst ` set m \<Longrightarrow> length (om_erase k m) < length m"
proof -
  assume "k \<in> fst ` set m"
  then obtain v where "(k, v) \<in> set m" by auto
  then show ?thesis unfolding om_erase_def by (rule length_filter_less) simp
qed

termination evict_fences
proof (relation "measure (\<lambda>(bound, fences, c). length fences)", simp)
  fix bound :: nat and fences :: "(fence_id, fence_record) omap" and c
  assume "bound < length fences"
  then have "fences \<noteq> []" by auto
  then show "((bound, om_erase (fence_victim fences) fences, c_history_evictions_update saturating_increment c),
      bound, fences, c) \<in> measure (\<lambda>(bound, fences, c). length fences)"
    by (simp add: length_om_erase_less fence_victim_in)
qed

declare evict_fences.simps [simp del]

definition issue_fence_locked :: "flow_id \<Rightarrow> target_id \<Rightarrow> reason \<Rightarrow> timestamp \<Rightarrow> impl \<Rightarrow> fence_id \<times> impl" where
  "issue_fence_locked flow target reason instant s =
     (let record = \<lparr>fr_id = e_next_fence s, fr_epoch = e_epoch s, fr_boot = e_boot s, fr_flow = flow, fr_target = target,
                    fr_reason = reason, fr_active = True, fr_issued_at = instant\<rparr>;
          s = s\<lparr>e_next_fence := saturating_increment (e_next_fence s),
                e_fences := om_emplace (fr_id record) record (e_fences s)\<rparr>;
          (fences, c) = evict_fences (ec_max_history (e_config s)) (e_fences s) (e_counters s)
      in (fr_id record, s\<lparr>e_fences := fences, e_counters := c\<rparr>))"

definition fence_all_active_locked :: "timestamp \<Rightarrow> impl \<Rightarrow> impl" where
  "fence_all_active_locked instant s =
     snd (issue_fence_locked 0 0 RejectedFencedByRestart instant
       (s\<lparr>e_fences := om_map (\<lambda>k f. if fr_active f then f\<lparr>fr_active := False, fr_reason := RejectedFencedBySupersession\<rparr>
                                  else f) (e_fences s)\<rparr>))"

definition migrations_in_flight_locked :: "impl \<Rightarrow> nat" where
  "migrations_in_flight_locked s = length (filter (\<lambda>(k, r). \<not> phase_terminal (phase_of r)) (e_migrations s))"

fun evict_front :: "nat \<Rightarrow> ('k, 'v) omap \<Rightarrow> counters \<Rightarrow> ('k, 'v) omap \<times> counters" where
  "evict_front bound [] c = ([], c)"
| "evict_front bound (e # m) c =
     (if length (e # m) > bound then evict_front bound m (c_history_evictions_update saturating_increment c)
      else (e # m, c))"

definition evict_history_locked :: "impl \<Rightarrow> impl" where
  "evict_history_locked s =
     (let (recs, c) = evict_front (ec_max_history (e_config s)) (e_recommendations s) (e_counters s);
          (auths, c) = evict_front (ec_max_history (e_config s)) (e_authorizations s) c;
          (reqs, c) = evict_front (ec_max_requests (e_config s)) (e_requests s) c
      in s\<lparr>e_recommendations := recs, e_authorizations := auths, e_requests := reqs, e_counters := c\<rparr>)"

section \<open>Exclusive state\<close>

definition rebuild_holder ::
    "(flow_id, flow_descriptor) omap \<Rightarrow> (exclusive_state_key_id, state_holder) omap \<Rightarrow> flow_id \<times> assignment \<Rightarrow>
     (exclusive_state_key_id, state_holder) omap" where
  "rebuild_holder flows holders entry =
     (case om_find flows (fst entry) of
        None \<Rightarrow> holders
      | Some f \<Rightarrow>
          if fd_statefulness f \<noteq> Stateful then holders
          else if \<not> is_valid (fd_exclusive_state_key f) then holders
          else om_put (fd_exclusive_state_key f)
                 (state_holder_default\<lparr>sh_flow := fst entry, sh_flow_generation := as_flow_generation (snd entry),
                    sh_target := as_target (snd entry), sh_incarnation := as_incarnation (snd entry),
                    sh_assignment := as_assignment (snd entry)\<rparr>) holders)"

definition rebuild_holders_locked :: "impl \<Rightarrow> impl" where
  "rebuild_holders_locked s = s\<lparr>e_holders := foldl (rebuild_holder (e_flows s)) [] (e_assignments s)\<rparr>"

definition find_holder_locked :: "exclusive_state_key_id \<Rightarrow> impl \<Rightarrow> state_holder option" where
  "find_holder_locked key s = om_find (e_holders s) key"

text \<open>The loops that end the handoff of the attempt they close.\<close>

definition release_attempt :: "migration_attempt_id \<Rightarrow> impl \<Rightarrow> impl" where
  "release_attempt attempt s =
     s\<lparr>e_holders := om_map (\<lambda>k h. if sh_pending_attempt h = attempt
         then h\<lparr>sh_handoff_pending := False, sh_pending_attempt := 0\<rparr> else h) (e_holders s)\<rparr>"

text \<open>
  The loops over the migrations that close the unfinished ones among those selected: phase,
  abort reason, and one count per closed attempt.
\<close>

definition close_migrations ::
    "(migration_record \<Rightarrow> bool) \<Rightarrow> migration_phase \<Rightarrow> reason \<Rightarrow> ((u64 \<Rightarrow> u64) \<Rightarrow> counters \<Rightarrow> counters) \<Rightarrow> impl \<Rightarrow> impl" where
  "close_migrations sel phase reason upd s =
     (let hit = (\<lambda>r. sel r \<and> \<not> phase_terminal (phase_of r)) in
      s\<lparr>e_migrations := om_map (\<lambda>k r. if hit r
            then r\<lparr>mr_intent := (mr_intent r)\<lparr>mi_phase := phase\<rparr>, mr_abort_reason := reason\<rparr> else r) (e_migrations s),
        e_counters := (upd saturating_increment ^^ length (filter (\<lambda>(k, r). hit r) (e_migrations s))) (e_counters s)\<rparr>)"

section \<open>Refusal choice\<close>

fun dominant_loop :: "reason list \<Rightarrow> reason \<Rightarrow> int \<Rightarrow> reason" where
  "dominant_loop [] best best_priority = best"
| "dominant_loop (code # codes) best best_priority =
     (let priority = refusal_priority code in
      if priority > best_priority \<or> (priority = best_priority \<and> reason_value code < reason_value best)
      then dominant_loop codes code priority
      else dominant_loop codes best best_priority)"

definition dominant_refusal_locked :: "reason list \<Rightarrow> reason" where
  "dominant_refusal_locked reasons = dominant_loop reasons RejectedNoEligibleTarget (- 1)"

end
