(* ===== verification/Placement.thy ===== *)
theory Placement
  imports EngineState
begin

text \<open>
  Placement, rebalancing and explanations (\<^verbatim>\<open>src/placement.cpp\<close>).  A placement request is decided
  item by item against the committed schedule plus what the batch itself has planned so far
  (\<open>batch\<close>); the decisions are committed afterwards in one pass.
\<close>

section \<open>Helpers\<close>

definition preferred_domain :: "policy \<Rightarrow> execution_domain" where
  "preferred_domain p =
     (case pol_domain_preference p of
        HostFirst \<Rightarrow> Host | HostOnly \<Rightarrow> Host | OffloadFirst \<Rightarrow> OffloadDevice | OffloadOnly \<Rightarrow> OffloadDevice
      | PreferenceUnknown \<Rightarrow> DomainUnknown)"

definition fallback_allowed :: "policy \<Rightarrow> execution_domain \<Rightarrow> execution_domain \<Rightarrow> bool" where
  "fallback_allowed p preferred chosen =
     (if preferred = DomainUnknown \<or> chosen = preferred then True
      else if chosen = Host \<and> preferred = OffloadDevice then
        pol_fallback p = AllowHostFallback \<or> pol_fallback p = AllowAnyFallback
      else if chosen = OffloadDevice \<and> preferred = Host then
        pol_fallback p = AllowOffloadFallback \<or> pol_fallback p = AllowAnyFallback
      else False)"

definition domain_outcome :: "execution_domain \<Rightarrow> bool \<Rightarrow> reason" where
  "domain_outcome domain fallback =
     (if fallback then if domain = Host then AcceptedFallbackToHost else AcceptedFallbackToOffload
      else if domain = Host then AcceptedHostPlacement else AcceptedOffloadPlacement)"

record ranked_candidate =
  rkc_key :: rank_key
  rkc_view :: candidate_view

definition key_for :: "candidate_view \<Rightarrow> bool \<Rightarrow> execution_domain \<Rightarrow> reason + rank_key" where
  "key_for view sticky preferred =
     (if cand_cost_class view = CostUnknown then Inl RejectedPolicyCostClass
      else Inr \<lparr>rk_sticky = (if sticky then 0 else 1), rk_domain_rank = (if cand_domain view = preferred then 0 else 1),
                rk_cost_rank = cost_class_value (cand_cost_class view),
                rk_utilisation_ppm = cand_utilisation_ppm view, rk_target = cand_target view\<rparr>)"

definition add_step :: "reason \<Rightarrow> u64 \<Rightarrow> u64 \<Rightarrow> string \<Rightarrow> explanation_step list \<Rightarrow> explanation_step list" where
  "add_step code a b detail steps =
     (if length steps \<ge> kMaxExplanationSteps then steps
      else steps @ [\<lparr>es_code = code, es_value_a = a, es_value_b = b, es_detail = detail\<rparr>])"

text \<open>\<^verbatim>\<open>++m[key]\<close>, and the summary of such a map.\<close>

definition om_count :: "u32 \<Rightarrow> (u32, u64) omap \<Rightarrow> (u32, u64) omap" where
  "om_count k m = om_put k (om_at k 0 m + 1) m"

definition refusal_summary :: "(u32, u64) omap \<Rightarrow> reason_count list" where
  "refusal_summary m = map (\<lambda>(k, n). \<lparr>rc_code = k, rc_count = n\<rparr>) m"

text \<open>\<^verbatim>\<open>push_back\<close> while there are fewer than \<open>bound\<close> elements.\<close>

definition push_bounded :: "nat \<Rightarrow> 'a \<Rightarrow> 'a list \<Rightarrow> 'a list" where
  "push_bounded bound x xs = (if length xs < bound then xs @ [x] else xs)"

section \<open>Digests\<close>

definition item_less :: "placement_item \<Rightarrow> placement_item \<Rightarrow> bool" where
  "item_less a b =
     (if it_flow a \<noteq> it_flow b then it_flow a < it_flow b else it_flow_generation a < it_flow_generation b)"

definition write_request :: "placement_request \<Rightarrow> cwriter \<Rightarrow> cwriter" where
  "write_request r =
     (let items = stable_sort item_less (pr_items r) in
      w_all ([encode_id (pr_request r), encode_timestamp (pr_evaluation_instant r),
              encode_id (pr_policy_generation r), encode_id (pr_base_schedule_generation r),
              w_u32 (pr_max_alternatives r), w_boolean (pr_dry_run r), w_u32 (of_nat (length items))] @
             concat (map (\<lambda>i. [encode_id (it_flow i), encode_id (it_flow_generation i)]) items)))"

definition placement_request_digest :: "placement_request \<Rightarrow> digest" where
  "placement_request_digest r = digest_of write_request r"

definition write_flow_placement :: "flow_placement \<Rightarrow> (cwriter \<Rightarrow> cwriter) list" where
  "write_flow_placement p =
     [encode_id (fp_flow p), encode_id (fp_flow_generation p), encode_id (fp_function p), encode_reason (fp_outcome p),
      w_boolean (fp_accepted p), w_boolean (fp_fallback p), w_boolean (fp_retained p), w_boolean (fp_changed p),
      encode_id (fp_target p), encode_id (fp_incarnation p), encode_id (fp_capability_generation p),
      encode_enum execution_domain_value (fp_domain p), encode_id (fp_assignment p), encode_id (fp_recommendation p),
      w_u32 (fp_alternatives p)]"

definition write_result :: "placement_result \<Rightarrow> cwriter \<Rightarrow> cwriter" where
  "write_result r =
     w_all ([encode_id (res_request r), encode_reason (res_status r), w_boolean (res_accepted r),
             w_boolean (res_duplicate r), w_boolean (res_dry_run r), encode_id (res_schedule_generation r),
             w_u32 (of_nat (length (res_placements r)))] @
            concat (map write_flow_placement (res_placements r)) @
            [w_u32 (of_nat (length (res_refusal_summary r)))] @
            concat (map (\<lambda>c. [encode_reason (rc_code c), w_u64 (rc_count c)]) (res_refusal_summary r)))"

definition placement_result_digest :: "placement_result \<Rightarrow> digest" where
  "placement_result_digest r = digest_of write_result r"

section \<open>Evaluating one target\<close>

fun target_lifecycle_refusal :: "target_lifecycle \<Rightarrow> reason" where
  "target_lifecycle_refusal Ready = ReasonOk"
| "target_lifecycle_refusal Removed = RejectedTargetRemoved"
| "target_lifecycle_refusal Draining = RejectedTargetDraining"
| "target_lifecycle_refusal Degraded = RejectedTargetDegraded"
| "target_lifecycle_refusal Quiesced = RejectedTargetQuiesced"
| "target_lifecycle_refusal Discovered = RejectedTargetNotReady"
| "target_lifecycle_refusal LifecycleUnknown = RejectedTargetLifecycleUnknown"

definition policy_refusal :: "policy \<Rightarrow> flow_descriptor \<Rightarrow> target_descriptor \<Rightarrow> reason" where
  "policy_refusal p flow d =
     (if pol_domain_preference p = HostOnly \<and> td_domain d \<noteq> Host then RejectedPolicyForbidsDomain
      else if pol_domain_preference p = OffloadOnly \<and> td_domain d \<noteq> OffloadDevice then RejectedPolicyForbidsDomain
      else if pol_allowed_domains p \<noteq> [] \<and> \<not> binary_search (pol_allowed_domains p) (td_domain d) then
        RejectedPolicyForbidsDomain
      else if binary_search (pol_forbidden_hosts p) (td_host d) then RejectedPolicyForbidsHost
      else if is_valid (td_device d) \<and> binary_search (pol_forbidden_devices p) (td_device d) then
        RejectedPolicyForbidsDevice
      else if pol_allowed_functions p \<noteq> [] \<and> \<not> binary_search (pol_allowed_functions p) (fd_function flow) then
        RejectedPolicyFunctionNotAllowed
      else ReasonOk)"

definition capability_refusal :: "policy \<Rightarrow> flow_descriptor \<Rightarrow> target_descriptor \<Rightarrow> reason" where
  "capability_refusal p flow d =
     (if \<not> satisfies (td_capabilities d) (fd_required_capabilities flow OR pol_required_capabilities p) then
        RejectedUnsupportedCapability
      else if fd_statefulness flow = Stateful \<and> \<not> td_supports_stateful d then RejectedUnsupportedTarget
      else if td_cost_class d = CostUnknown \<or> td_cost_class d > fd_max_cost_class flow \<or>
              td_cost_class d > pol_max_cost_class p then RejectedPolicyCostClass
      else ReasonOk)"

definition locality_refusal :: "flow_descriptor \<Rightarrow> target_descriptor \<Rightarrow> impl \<Rightarrow> reason" where
  "locality_refusal flow d s =
     (if fd_locality flow = LocalityNone then ReasonOk
      else if fd_locality_anchor flow = fd_flow flow then RejectedAffinityUnsatisfiable
      else case om_find (e_assignments s) (fd_locality_anchor flow) of
        None \<Rightarrow> RejectedAffinityUnsatisfiable
      | Some anchor \<Rightarrow>
          (case om_find (e_targets s) (as_target anchor) of
             None \<Rightarrow> RejectedAffinityUnsatisfiable
           | Some t \<Rightarrow>
               if fd_locality flow = SameHostAsFlow \<and> td_host (ts_descriptor t) \<noteq> td_host d then
                 RejectedAffinityUnsatisfiable
               else if fd_locality flow = SameDeviceAsFlow \<and> td_device (ts_descriptor t) \<noteq> td_device d then
                 RejectedAffinityUnsatisfiable
               else ReasonOk))"

text \<open>Everything \<^verbatim>\<open>evaluate_target_locked\<close> checks before it looks at load and capacity.\<close>

definition static_refusal :: "flow_descriptor \<Rightarrow> target_state \<Rightarrow> impl \<Rightarrow> reason" where
  "static_refusal flow t s =
     (let d = ts_descriptor t in
      if \<not> ts_declared t then RejectedTargetLifecycleUnknown
      else if target_lifecycle_refusal (td_lifecycle d) \<noteq> ReasonOk then target_lifecycle_refusal (td_lifecycle d)
      else if policy_refusal (e_policy s) flow d \<noteq> ReasonOk then policy_refusal (e_policy s) flow d
      else if capability_refusal (e_policy s) flow d \<noteq> ReasonOk then capability_refusal (e_policy s) flow d
      else locality_refusal flow d s)"

text \<open>The capacity test against the load \<open>used\<close>.\<close>

definition evaluate_capacity ::
    "flow_descriptor \<Rightarrow> target_descriptor \<Rightarrow> capacity_vector \<Rightarrow> candidate_view \<Rightarrow> impl \<Rightarrow> reason \<times> candidate_view" where
  "evaluate_capacity flow d used out s =
     (let out = out\<lparr>cand_effective_used := used\<rparr> in
      if exceeds_any used (td_capacity d) then (RejectedCapacityOverSubscribed, out\<lparr>cand_available := cv_zero\<rparr>)
      else
        let out = out\<lparr>cand_available := saturating_sub (saturating_sub (td_capacity d) (td_reserved d)) used\<rparr> in
        case checked_add_cv (fd_demand flow) (pol_reserve (e_policy s)) of
          None \<Rightarrow> (RejectedCapacityOverflow, out)
        | Some required_total \<Rightarrow>
            if \<not> dominates (cand_available out) required_total then (RejectedCapacityInsufficient, out)
            else case checked_add_cv used (fd_demand flow) of
              None \<Rightarrow> (RejectedCapacityOverflow, out)
            | Some after \<Rightarrow>
                (case aggregate_utilisation_ppm after (td_capacity d) of
                   None \<Rightarrow> (RejectedCapacityUnknown, out)
                 | Some (ppm, saturated) \<Rightarrow>
                     let preferred = preferred_domain (e_policy s) in
                     (ReasonOk, out\<lparr>cand_utilisation_ppm := ppm, cand_utilisation_saturated := saturated,
                        cand_fallback_domain := (preferred \<noteq> DomainUnknown \<and> td_domain d \<noteq> preferred)\<rparr>)))"

definition evaluate_target_locked ::
    "flow_descriptor \<Rightarrow> target_state \<Rightarrow> timestamp \<Rightarrow> impl \<Rightarrow> reason \<times> candidate_view" where
  "evaluate_target_locked flow t instant s =
     (let d = ts_descriptor t;
          out = candidate_view_default\<lparr>cand_target := td_target d, cand_domain := td_domain d, cand_host := td_host d,
                  cand_device := td_device d, cand_incarnation := td_incarnation d,
                  cand_capability_generation := td_capability_generation d, cand_cost_class := td_cost_class d,
                  cand_capacity := td_capacity d, cand_demand := fd_demand flow\<rparr>;
          refusal = static_refusal flow t s in
      if refusal \<noteq> ReasonOk then (refusal, out)
      else
        let present = (ts_has_load t \<and> \<not> ts_conflicting t);
            load = effective_load_locked t instant s;
            freshness = ec_evidence_freshness (e_config s);
            fresh = (el_known load \<and> present \<and> freshness > 0 \<and>
                     saturating_elapsed instant (le_observed_at (ts_load t)) \<le> freshness);
            out = out\<lparr>cand_load_evidence_present := present, cand_load_evidence_fresh := fresh\<rparr> in
        if \<not> el_known load \<and> \<not> pol_allow_placement_without_load_evidence (e_policy s) then (el_reason load, out)
        else evaluate_capacity flow d (if el_known load then el_used load else cv_zero) out s)"

section \<open>Deciding one item\<close>

record pending_commit =
  pc_index :: nat
  pc_flow :: flow_id
  pc_generation :: flow_generation
  pc_target :: target_id
  pc_incarnation :: target_incarnation
  pc_capability :: capability_generation
  pc_domain :: execution_domain
  pc_outcome :: reason
  pc_fallback :: bool
  pc_retained :: bool

text \<open>The variables of the item loop of \<^verbatim>\<open>place_locked\<close>; \<open>b_state\<close> carries the counters.\<close>

record batch =
  b_state :: impl
  b_placements :: "flow_placement list"
  b_planned_add :: "(target_id, capacity_vector) omap"
  b_planned_release :: "(target_id, capacity_vector) omap"
  b_refusals :: "(u32, u64) omap"
  b_any_change :: bool
  b_commits :: "pending_commit list"

definition batch_new :: "impl \<Rightarrow> batch" where
  "batch_new s = \<lparr>b_state = s, b_placements = [], b_planned_add = [], b_planned_release = [], b_refusals = [],
                  b_any_change = False, b_commits = []\<rparr>"

text \<open>The statements of the loop that refuse an item.\<close>

definition refuse_item :: "flow_placement \<Rightarrow> batch \<Rightarrow> batch" where
  "refuse_item p b =
     b\<lparr>b_refusals := om_count (reason_value (fp_outcome p)) (b_refusals b),
       b_state := record_refusal_locked (fp_outcome p) (bump c_placements_refused_update (b_state b)),
       b_placements := b_placements b @ [p]\<rparr>"

definition planned_sum :: "capacity_vector \<Rightarrow> capacity_vector \<Rightarrow> capacity_vector" where
  "planned_sum a b = (case checked_add_cv a b of None \<Rightarrow> cv_saturated | Some c \<Rightarrow> c)"

text \<open>The target as the batch sees it: its scheduled load with what the batch has planned.\<close>

definition planned_state :: "batch \<Rightarrow> target_id \<Rightarrow> target_state \<Rightarrow> target_state" where
  "planned_state b k t =
     (let scheduled = ts_scheduled t;
          scheduled = (case om_find (b_planned_add b) k of None \<Rightarrow> scheduled | Some v \<Rightarrow> planned_sum scheduled v);
          scheduled = (case om_find (b_planned_release b) k of None \<Rightarrow> scheduled | Some v \<Rightarrow> saturating_sub scheduled v)
      in t\<lparr>ts_scheduled := scheduled\<rparr>)"

definition is_sticky :: "policy \<Rightarrow> assignment option \<Rightarrow> candidate_view \<Rightarrow> bool" where
  "is_sticky p current view \<longleftrightarrow>
     pol_sticky p \<and> (case current of None \<Rightarrow> False
                      | Some a \<Rightarrow> as_target a = cand_target view \<and> as_incarnation a = cand_incarnation view)"

definition consider_target ::
    "flow_descriptor \<Rightarrow> assignment option \<Rightarrow> timestamp \<Rightarrow> batch \<Rightarrow> ranked_candidate list \<times> candidate_view list \<Rightarrow>
     target_id \<times> target_state \<Rightarrow> ranked_candidate list \<times> candidate_view list" where
  "consider_target flow current instant b acc entry =
     (let (ranked, refused) = acc; s = b_state b;
          (verdict, view) = evaluate_target_locked flow (planned_state b (fst entry) (snd entry)) instant s;
          view = view\<lparr>cand_eligible := (verdict = ReasonOk), cand_reason := verdict\<rparr> in
      if verdict = ReasonOk then
        case key_for view (is_sticky (e_policy s) current view) (preferred_domain (e_policy s)) of
          Inl keyed \<Rightarrow>
            (ranked, push_bounded kMaxRankedCandidates (view\<lparr>cand_eligible := False, cand_reason := keyed\<rparr>) refused)
        | Inr key \<Rightarrow> (push_bounded kMaxRankedCandidates \<lparr>rkc_key = key, rkc_view = view\<rparr> ranked, refused)
      else (ranked, push_bounded kMaxRankedCandidates view refused))"

definition rank_less :: "ranked_candidate \<Rightarrow> ranked_candidate \<Rightarrow> bool" where
  "rank_less a b \<longleftrightarrow> compare_rank (rkc_key a) (rkc_key b) < 0"

definition number_ranks :: "ranked_candidate list \<Rightarrow> ranked_candidate list" where
  "number_ranks cs =
     map (\<lambda>(i, c). c\<lparr>rkc_view := (rkc_view c)\<lparr>cand_rank := of_nat i\<rparr>\<rparr>) (enumerate 0 cs)"

text \<open>The ranked and the refused candidates of a flow.\<close>

definition candidates :: "flow_descriptor \<Rightarrow> assignment option \<Rightarrow> timestamp \<Rightarrow> batch \<Rightarrow> ranked_candidate list \<times> candidate_view list" where
  "candidates flow current instant b =
     (let (ranked, refused) = foldl (consider_target flow current instant b) ([], []) (e_targets (b_state b))
      in (number_ranks (stable_sort rank_less ranked), refused))"

text \<open>The chosen candidate with its fallback flag.\<close>

definition choose_candidate :: "policy \<Rightarrow> ranked_candidate list \<Rightarrow> (candidate_view \<times> bool) option" where
  "choose_candidate p ranked =
     (case ranked of
        [] \<Rightarrow> None
      | c # _ \<Rightarrow>
          let fallback = (rk_domain_rank (rkc_key c) \<noteq> 0) in
          if fallback \<and> \<not> fallback_allowed p (preferred_domain p) (cand_domain (rkc_view c)) then None
          else Some (rkc_view c, fallback))"

definition placement_outcome :: "policy \<Rightarrow> bool \<Rightarrow> bool \<Rightarrow> candidate_view \<Rightarrow> reason" where
  "placement_outcome p retained fallback view =
     (if retained then AcceptedStickyRetention
      else if fallback then domain_outcome (cand_domain view) True
      else if \<not> cand_load_evidence_fresh view \<and> pol_allow_placement_without_load_evidence p then
        AcceptedWithoutLoadEvidence
      else domain_outcome (cand_domain view) False)"

text \<open>The explanation and the summary of candidates that precede the choice.\<close>

definition describe_candidates ::
    "nat \<Rightarrow> ranked_candidate list \<Rightarrow> candidate_view list \<Rightarrow> flow_placement \<Rightarrow> flow_placement" where
  "describe_candidates max_alternatives ranked refused p =
     (let shown = take (kMaxExplanationSteps - length (fp_refused p)) refused in
      p\<lparr>fp_ranked := fp_ranked p @ map rkc_view (take max_alternatives ranked),
        fp_refused := fp_refused p @ shown,
        fp_explanation := (fp_explanation p)\<lparr>ex_refused :=
          foldl (\<lambda>steps v. add_step (cand_reason v) (cand_target v) (ucast (cand_utilisation_ppm v)) ''target refused'' steps)
            (ex_refused (fp_explanation p)) shown\<rparr>,
        fp_alternatives := of_nat (length ranked)\<rparr>)"

definition explain_choice :: "candidate_view \<Rightarrow> reason \<Rightarrow> explanation \<Rightarrow> explanation" where
  "explain_choice view outcome e =
     e\<lparr>ex_primary := outcome, ex_target := cand_target view, ex_incarnation := cand_incarnation view,
       ex_accepted :=
         add_step AcceptedNoChangeRequired (cv_packets_per_second (cand_available view))
             (cv_packets_per_second (cand_demand view)) ''capacity available vs required (packets per second)''
           (add_step AcceptedEvidenceRecorded (ucast (cand_utilisation_ppm view))
               (if cand_load_evidence_fresh view then 1 else 0)
               (if cand_load_evidence_fresh view then ''fresh load evidence'' else ''no fresh load evidence'')
             (add_step AcceptedHostPlacement (cand_target view) (ucast (cand_rank view))
                 (''selected target '' @ id_to_string (cand_target view) @ '' rank '' @ decimal (unat (cand_rank view)))
               (ex_accepted e)))\<rparr>"

text \<open>The demand that moves: released from the current target, added to the chosen one.\<close>

definition plan_add :: "target_id \<Rightarrow> capacity_vector \<Rightarrow> (target_id, capacity_vector) omap \<Rightarrow> (target_id, capacity_vector) omap" where
  "plan_add k demand m =
     om_put k (case om_find m k of None \<Rightarrow> demand | Some v \<Rightarrow> planned_sum v demand) m"

definition plan_move :: "flow_descriptor \<Rightarrow> assignment option \<Rightarrow> target_id \<Rightarrow> batch \<Rightarrow> batch" where
  "plan_move flow current target b =
     (let b = (case current of
                 None \<Rightarrow> b
               | Some a \<Rightarrow>
                   (case om_find (e_flows (b_state b)) (fd_flow flow) of
                      None \<Rightarrow> b
                    | Some old \<Rightarrow> b\<lparr>b_planned_release := plan_add (as_target a) (fd_demand old) (b_planned_release b)\<rparr>))
      in b\<lparr>b_planned_add := plan_add target (fd_demand flow) (b_planned_add b), b_any_change := True\<rparr>)"

definition accept_item ::
    "flow_descriptor \<Rightarrow> assignment option \<Rightarrow> candidate_view \<Rightarrow> bool \<Rightarrow> flow_placement \<Rightarrow> batch \<Rightarrow> batch" where
  "accept_item flow current view fallback p b =
     (let pol = e_policy (b_state b);
          retained = is_sticky pol current view;
          outcome = placement_outcome pol retained fallback view;
          p = p\<lparr>fp_accepted := True, fp_fallback := fallback, fp_retained := retained, fp_outcome := outcome,
                fp_target := cand_target view, fp_incarnation := cand_incarnation view,
                fp_capability_generation := cand_capability_generation view, fp_domain := cand_domain view,
                fp_changed := \<not> retained, fp_explanation := explain_choice view outcome (fp_explanation p)\<rparr>;
          p = (case current of Some a \<Rightarrow> if retained then p\<lparr>fp_assignment := as_assignment a\<rparr> else p | None \<Rightarrow> p);
          pending = \<lparr>pc_index = length (b_placements b), pc_flow = fd_flow flow, pc_generation = fd_generation flow,
                     pc_target = cand_target view, pc_incarnation = cand_incarnation view,
                     pc_capability = cand_capability_generation view, pc_domain = cand_domain view,
                     pc_outcome = outcome, pc_fallback = fallback, pc_retained = retained\<rparr>;
          b = (if retained then b\<lparr>b_state := bump c_placements_retained_update (b_state b)\<rparr>
               else plan_move flow current (cand_target view) b);
          s = bump c_placements_accepted_update (b_state b);
          s = (if fallback then bump c_placements_fallback_update s else s)
      in b\<lparr>b_state := s, b_commits := b_commits b @ [pending], b_placements := b_placements b @ [p]\<rparr>)"

text \<open>A holder of the flow's exclusive state that is not this generation of the flow.\<close>

definition state_conflict :: "flow_descriptor \<Rightarrow> impl \<Rightarrow> state_holder option" where
  "state_conflict flow s =
     (if fd_statefulness flow \<noteq> Stateful then None
      else case find_holder_locked (fd_exclusive_state_key flow) s of
        None \<Rightarrow> None
      | Some h \<Rightarrow> if sh_flow h \<noteq> fd_flow flow \<or> sh_flow_generation h \<noteq> fd_generation flow then Some h else None)"

definition describe_flow :: "placement_request \<Rightarrow> flow_descriptor \<Rightarrow> impl \<Rightarrow> flow_placement \<Rightarrow> flow_placement" where
  "describe_flow request flow s p =
     p\<lparr>fp_flow_generation := fd_generation flow, fp_function := fd_function flow,
       fp_explanation := (fp_explanation p)\<lparr>ex_flow := fd_flow flow, ex_flow_generation := fd_generation flow,
         ex_policy_generation := e_policy_generation s, ex_topology_generation := e_topology_generation s,
         ex_epoch := e_epoch s, ex_boot := e_boot s, ex_evaluation_instant := pr_evaluation_instant request\<rparr>\<rparr>"

text \<open>The branch in which no candidate is chosen.\<close>

definition refuse_unplaced :: "candidate_view list \<Rightarrow> flow_placement \<Rightarrow> batch \<Rightarrow> batch" where
  "refuse_unplaced refused p b =
     (let reasons = map cand_reason refused;
          dominant = (if reasons = [] then RejectedNoEligibleTarget else dominant_refusal_locked reasons);
          e = (fp_explanation p)\<lparr>ex_primary := dominant\<rparr>;
          e = (if reasons = [] then e\<lparr>ex_refused := add_step dominant 0 0
                 ''no execution target is declared for this coordinator incarnation'' (ex_refused e)\<rparr> else e)
      in refuse_item (p\<lparr>fp_outcome := dominant, fp_explanation := e\<rparr>) b)"

definition place_item :: "placement_request \<Rightarrow> nat \<Rightarrow> batch \<Rightarrow> placement_item \<Rightarrow> batch" where
  "place_item request max_alternatives b item =
     (let s = b_state b; p = flow_placement_default\<lparr>fp_flow := it_flow item\<rparr> in
      case om_find (e_flows s) (it_flow item) of
        None \<Rightarrow> refuse_item (p\<lparr>fp_outcome := RejectedUnknownFlow\<rparr>) b
      | Some flow \<Rightarrow>
          if is_valid (it_flow_generation item) \<and> it_flow_generation item \<noteq> fd_generation flow then
            refuse_item (p\<lparr>fp_outcome := RejectedStaleFlowGeneration\<rparr>) b
          else
            let p = describe_flow request flow s p in
            case state_conflict flow s of
              Some h \<Rightarrow>
                refuse_item (p\<lparr>fp_outcome := RejectedExclusiveStateConflict,
                  fp_explanation := (fp_explanation p)\<lparr>
                    ex_refused := add_step RejectedExclusiveStateConflict (sh_flow h) (sh_flow_generation h)
                      ''exclusive state is held by another flow'' (ex_refused (fp_explanation p)),
                    ex_primary := RejectedExclusiveStateConflict\<rparr>\<rparr>) b
            | None \<Rightarrow>
                let current = om_find (e_assignments s) (fd_flow flow);
                    (ranked, refused) = candidates flow current (pr_evaluation_instant request) b;
                    p = describe_candidates max_alternatives ranked refused p in
                case choose_candidate (e_policy s) ranked of
                  None \<Rightarrow> refuse_unplaced refused p b
                | Some (view, fallback) \<Rightarrow> accept_item flow current view fallback p b)"

section \<open>Committing a batch\<close>

definition recommend :: "placement_request \<Rightarrow> schedule_generation \<Rightarrow> pending_commit \<Rightarrow> impl \<Rightarrow> recommendation" where
  "recommend request published pc s =
     (let r = \<lparr>rec_id = e_next_recommendation s, rec_request = pr_request request, rec_flow = pc_flow pc,
               rec_flow_generation = pc_generation pc, rec_target = pc_target pc, rec_incarnation = pc_incarnation pc,
               rec_capability_generation = pc_capability pc, rec_policy_generation = e_policy_generation s,
               rec_schedule_generation = published, rec_topology_generation = e_topology_generation s,
               rec_epoch = e_epoch s, rec_boot = e_boot s, rec_domain = pc_domain pc, rec_outcome = pc_outcome pc,
               rec_fallback = pc_fallback pc, rec_issued_at = pr_evaluation_instant request,
               rec_digest = rec_digest recommendation_default\<rparr>
      in r\<lparr>rec_digest := digest_of encode_recommendation r\<rparr>)"

text \<open>A new assignment, with the exclusive state of a stateful flow moved to it.\<close>

definition assign_flow :: "placement_request \<Rightarrow> schedule_generation \<Rightarrow> pending_commit \<Rightarrow> impl \<Rightarrow> assignment_id \<times> impl" where
  "assign_flow request published pc s =
     (let a = \<lparr>as_assignment = e_next_assignment s, as_flow = pc_flow pc, as_flow_generation = pc_generation pc,
               as_target = pc_target pc, as_incarnation = pc_incarnation pc,
               as_capability_generation = pc_capability pc, as_policy_generation = e_policy_generation s,
               as_schedule_generation = published, as_effect = EffectUnknown, as_reason = pc_outcome pc,
               as_committed_at = pr_evaluation_instant request,
               as_supersedes = (case om_find (e_assignments s) (pc_flow pc) of
                                  None \<Rightarrow> 0 | Some previous \<Rightarrow> as_assignment previous)\<rparr>;
          s = s\<lparr>e_next_assignment := saturating_increment (e_next_assignment s),
                e_assignments := om_put (pc_flow pc) a (e_assignments s)\<rparr>;
          s = (case om_find (e_flows s) (pc_flow pc) of
                 None \<Rightarrow> s
               | Some f \<Rightarrow>
                   if fd_statefulness f = Stateful
                   then s\<lparr>e_holders := om_put (fd_exclusive_state_key f)
                          \<lparr>sh_flow = pc_flow pc, sh_flow_generation = pc_generation pc, sh_target = as_target a,
                           sh_incarnation = as_incarnation a, sh_assignment = as_assignment a,
                           sh_handoff_pending = False, sh_pending_attempt = 0\<rparr> (e_holders s)\<rparr>
                   else s)
      in (as_assignment a, s))"

definition commit_pending ::
    "placement_request \<Rightarrow> schedule_generation \<Rightarrow> flow_placement list \<times> impl \<Rightarrow> pending_commit \<Rightarrow>
     flow_placement list \<times> impl" where
  "commit_pending request published acc pc =
     (let (placements, s) = acc;
          r = recommend request published pc s;
          s = s\<lparr>e_next_recommendation := saturating_increment (e_next_recommendation s)\<rparr>;
          (assignment_id, s) =
            (if \<not> pc_retained pc then assign_flow request published pc s
             else (case om_find (e_assignments s) (pc_flow pc) of None \<Rightarrow> 0 | Some a \<Rightarrow> as_assignment a, s));
          s = s\<lparr>e_recommendations := om_emplace (rec_id r) r (e_recommendations s)\<rparr>;
          p = (placements ! pc_index pc)\<lparr>fp_recommendation := rec_id r, fp_assignment := assignment_id\<rparr>
      in (placements[pc_index pc := p], bump c_recommendations_issued_update s))"

section \<open>The request\<close>

definition place_refusal :: "placement_request \<Rightarrow> impl \<Rightarrow> reason" where
  "place_refusal request s =
     (if \<not> is_valid (pr_request request) then RejectedMalformedInput
      else if pr_items request = [] then RejectedEmptyRequest
      else if length (pr_items request) > ec_max_flows (e_config s) then RejectedOversizedInput
      else if \<not> ts_is_set (pr_evaluation_instant request) then RejectedMissingEvidence
      else if \<not> e_policy_present s then RejectedMissingEvidence
      else if is_valid (pr_policy_generation request) \<and> pr_policy_generation request \<noteq> e_policy_generation s then
        RejectedStalePolicyGeneration
      else if is_valid (pr_base_schedule_generation request) \<and>
              pr_base_schedule_generation request \<noteq> e_schedule_generation s then RejectedStaleScheduleGeneration
      else if digest_is_zero (placement_request_digest request) then RejectedOversizedInput
      else ReasonOk)"

text \<open>What a replayed request reports for one of its items.\<close>

definition replay_item :: "impl \<Rightarrow> placement_item \<Rightarrow> flow_placement list" where
  "replay_item s item =
     (case om_find (e_flows s) (it_flow item) of
        None \<Rightarrow> []
      | Some f \<Rightarrow>
          let p = flow_placement_default\<lparr>fp_flow := it_flow item, fp_flow_generation := fd_generation f,
                    fp_function := fd_function f\<rparr> in
          case om_find (e_assignments s) (it_flow item) of
            None \<Rightarrow> [p\<lparr>fp_outcome := RejectedUnknownFlow\<rparr>]
          | Some a \<Rightarrow>
              let p = p\<lparr>fp_accepted := True, fp_retained := True, fp_target := as_target a,
                        fp_incarnation := as_incarnation a, fp_capability_generation := as_capability_generation a,
                        fp_assignment := as_assignment a, fp_outcome := AcceptedIdempotentReplay\<rparr>
              in [case om_find (e_targets s) (as_target a) of
                    None \<Rightarrow> p | Some t \<Rightarrow> p\<lparr>fp_domain := td_domain (ts_descriptor t)\<rparr>])"

definition replay_request :: "placement_request \<Rightarrow> request_record \<Rightarrow> placement_result \<Rightarrow> impl \<Rightarrow> placement_result" where
  "replay_request request known result s =
     (let r = result\<lparr>res_duplicate := True, res_status := AcceptedIdempotentReplay, res_accepted := True,
                res_schedule_generation := rr_schedule_generation known,
                res_placements := concat (map (replay_item s) (pr_items request))\<rparr>
      in r\<lparr>res_digest := placement_result_digest r\<rparr>)"

definition generation_clash :: "placement_item list \<Rightarrow> bool" where
  "generation_clash items =
     list_ex (\<lambda>i. it_flow (items ! i) = it_flow (items ! (i - 1)) \<and>
                 it_flow_generation (items ! i) \<noteq> it_flow_generation (items ! (i - 1))) [1..<length items]"

text \<open>\<^verbatim>\<open>std::unique\<close> on the flow: the first item of each run is kept.\<close>

fun unique_flows :: "placement_item list \<Rightarrow> placement_item list" where
  "unique_flows (a # b # items) =
     (if it_flow a = it_flow b then unique_flows (a # items) else a # unique_flows (b # items))"
| "unique_flows items = items"

definition alternatives_limit :: "placement_request \<Rightarrow> impl \<Rightarrow> u32" where
  "alternatives_limit request s =
     (if pr_max_alternatives request = 0 then of_nat (ec_max_alternatives (e_config s))
      else min (pr_max_alternatives request) (of_nat kMaxAlternatives))"

text \<open>The published result and the request record, once the batch is committed.\<close>

definition publish ::
    "placement_request \<Rightarrow> bool \<Rightarrow> schedule_generation \<Rightarrow> (u32, u64) omap \<Rightarrow> placement_result \<Rightarrow> impl \<Rightarrow>
     placement_result \<times> impl" where
  "publish request any_change published refusals result s =
     (let result = result\<lparr>res_schedule_generation := published, res_accepted := True,
            res_status := (if any_change \<and> \<not> pr_dry_run request then AcceptedSchedulePublished
                           else if res_duplicate result then AcceptedIdempotentReplay else AcceptedNoChangeRequired),
            res_refusal_summary := res_refusal_summary result @ refusal_summary refusals\<rparr>;
          result = result\<lparr>res_digest := placement_result_digest result\<rparr> in
      if pr_dry_run request then (result, s)
      else
        let record = \<lparr>rr_request = pr_request request, rr_request_digest = placement_request_digest request,
                      rr_result_digest = res_digest result, rr_schedule_generation = res_schedule_generation result,
                      rr_outcome = res_status result\<rparr>;
            s = evict_history_locked (s\<lparr>e_requests := om_put (pr_request request) record (e_requests s)\<rparr>)
        in (result, snd (persist_locked s)))"

definition place_batch :: "placement_request \<Rightarrow> placement_item list \<Rightarrow> placement_result \<Rightarrow> impl \<Rightarrow> placement_result \<times> impl" where
  "place_batch request items result s =
     (let b = foldl (place_item request (unat (alternatives_limit request s))) (batch_new s) items;
          s = b_state b;
          commit_now = (b_any_change b \<and> \<not> pr_dry_run request);
          published = (if commit_now then e_schedule_generation s + 1 else e_schedule_generation s);
          result = result\<lparr>res_placements := b_placements b\<rparr> in
      if commit_now \<and> \<not> is_valid published then
        (result\<lparr>res_status := RejectedInternalInvariant\<rparr>, record_refusal_locked RejectedInternalInvariant s)
      else
        let s = (if commit_now then recompute_scheduled_locked (s\<lparr>e_schedule_generation := published\<rparr>) else s);
            (placements, s) = (if pr_dry_run request then (b_placements b, s)
                               else foldl (commit_pending request published) (b_placements b, s) (b_commits b))
        in publish request (b_any_change b) published (b_refusals b) (result\<lparr>res_placements := placements\<rparr>) s)"

definition place_locked :: "placement_request \<Rightarrow> impl \<Rightarrow> placement_result \<times> impl" where
  "place_locked request s =
     (let result = placement_result_default\<lparr>res_request := pr_request request, res_dry_run := pr_dry_run request\<rparr>;
          refuse = (\<lambda>code. (result\<lparr>res_status := code\<rparr>, record_refusal_locked code s)) in
      if \<not> e_open s then (result\<lparr>res_status := RejectedShuttingDown\<rparr>, s)
      else if place_refusal request s \<noteq> ReasonOk then refuse (place_refusal request s)
      else case om_find (e_requests s) (pr_request request) of
        Some known \<Rightarrow>
          if rr_request_digest known \<noteq> placement_request_digest request then refuse RejectedConflictingDuplicate
          else
            let s = bump c_requests_deduplicated_update s
            in (replay_request request known result s, s)
      | None \<Rightarrow>
          let items = stable_sort item_less (pr_items request) in
          if generation_clash items then refuse RejectedConflictingDuplicate
          else place_batch request (unique_flows items) result s)"

section \<open>Rebalancing\<close>

record proposal =
  pp_flow :: flow_id
  pp_generation :: flow_generation
  pp_improvement :: u32
  pp_target :: target_id
  pp_incarnation :: target_incarnation
  pp_capability :: capability_generation
  pp_domain :: execution_domain

text \<open>The loop over the other targets: the ranked candidates and the refusals it counted.\<close>

definition rebalance_target ::
    "flow_descriptor \<Rightarrow> assignment \<Rightarrow> timestamp \<Rightarrow> impl \<Rightarrow> ranked_candidate list \<times> (u32, u64) omap \<Rightarrow>
     target_id \<times> target_state \<Rightarrow> ranked_candidate list \<times> (u32, u64) omap" where
  "rebalance_target flow a instant s acc entry =
     (let (ranked, refusals) = acc in
      if fst entry = as_target a then acc
      else
        let (verdict, view) = evaluate_target_locked flow (snd entry) instant s in
        if verdict \<noteq> ReasonOk then (ranked, om_count (reason_value verdict) refusals)
        else case key_for view False (preferred_domain (e_policy s)) of
          Inl keyed \<Rightarrow> (ranked, om_count (reason_value keyed) refusals)
        | Inr key \<Rightarrow> (ranked @ [\<lparr>rkc_key = key, rkc_view = view\<rparr>], refusals))"

definition propose :: "flow_descriptor \<Rightarrow> u32 \<Rightarrow> candidate_view \<Rightarrow> proposal" where
  "propose flow improvement view =
     \<lparr>pp_flow = fd_flow flow, pp_generation = fd_generation flow, pp_improvement = improvement,
      pp_target = cand_target view, pp_incarnation = cand_incarnation view,
      pp_capability = cand_capability_generation view, pp_domain = cand_domain view\<rparr>"

definition rebalance_flow ::
    "timestamp \<Rightarrow> impl \<Rightarrow> proposal list \<times> (u32, u64) omap \<Rightarrow> flow_id \<times> assignment \<Rightarrow> proposal list \<times> (u32, u64) omap" where
  "rebalance_flow instant s acc entry =
     (let (proposals, refusals) = acc; a = snd entry; p = e_policy s;
          count = (\<lambda>code. (proposals, om_count (reason_value code) refusals)) in
      case om_find (e_flows s) (fst entry) of
        None \<Rightarrow> acc
      | Some flow \<Rightarrow>
          if fd_pinned flow then count RejectedMigrationNotPermitted
          else if \<not> fd_allow_migration flow \<and> \<not> pol_allow_migration p then count RejectedMigrationNotPermitted
          else case om_find (e_targets s) (as_target a) of
            None \<Rightarrow> count RejectedUnknownTarget
          | Some t \<Rightarrow>
              let load = effective_load_locked t instant s in
              if \<not> el_known load then count (el_reason load)
              else case aggregate_utilisation_ppm (el_used load) (td_capacity (ts_descriptor t)) of
                None \<Rightarrow> count RejectedCapacityUnknown
              | Some (current_ppm, saturated) \<Rightarrow>
                  let (ranked, refusals) = foldl (rebalance_target flow a instant s) ([], refusals) (e_targets s) in
                  (case stable_sort rank_less ranked of
                     [] \<Rightarrow> (proposals, refusals)
                   | best # _ \<Rightarrow>
                       let view = rkc_view best in
                       if rk_domain_rank (rkc_key best) \<noteq> 0 \<and>
                          \<not> fallback_allowed p (preferred_domain p) (cand_domain view) then
                         (proposals, om_count (reason_value RejectedPolicyForbidsDomain) refusals)
                       else if cand_utilisation_ppm view \<ge> current_ppm then (proposals, refusals)
                       else
                         let improvement = current_ppm - cand_utilisation_ppm view in
                         if improvement < pol_min_improvement_ppm p then (proposals, refusals)
                         else (proposals @ [propose flow improvement view], refusals)))"

definition proposal_less :: "proposal \<Rightarrow> proposal \<Rightarrow> bool" where
  "proposal_less a b =
     (if pp_improvement a \<noteq> pp_improvement b then pp_improvement a > pp_improvement b else pp_flow a < pp_flow b)"

definition rebalance_limit :: "rebalance_request \<Rightarrow> impl \<Rightarrow> nat" where
  "rebalance_limit request s =
     (let policy_limit = unat (pol_max_rebalance_migrations (e_policy s));
          limit = (if rq_max_migrations request = 0 then policy_limit
                   else min (unat (rq_max_migrations request)) policy_limit);
          limit = min limit (ec_max_rebalance_migrations (e_config s));
          in_flight = migrations_in_flight_locked s;
          capacity = (if ec_max_migrations (e_config s) > in_flight then ec_max_migrations (e_config s) - in_flight else 0)
      in min limit capacity)"

definition plan_intent :: "timestamp \<Rightarrow> impl \<Rightarrow> proposal \<Rightarrow> migration_intent" where
  "plan_intent instant s p =
     (let i = migration_intent_default\<lparr>mi_flow := pp_flow p, mi_flow_generation := pp_generation p,
                mi_destination_target := pp_target p, mi_destination_incarnation := pp_incarnation p,
                mi_destination_capability_generation := pp_capability p,
                mi_policy_generation := e_policy_generation s, mi_schedule_generation := e_schedule_generation s,
                mi_epoch := e_epoch s, mi_boot := e_boot s, mi_phase := Planned, mi_issued_at := instant\<rparr>
      in case om_find (e_assignments s) (pp_flow p) of
           None \<Rightarrow> i
         | Some a \<Rightarrow> i\<lparr>mi_source_assignment := as_assignment a, mi_source_target := as_target a,
                       mi_source_incarnation := as_incarnation a,
                       mi_source_capability_generation := as_capability_generation a\<rparr>)"

definition rebalance_explanation :: "rebalance_request \<Rightarrow> rebalance_report \<Rightarrow> nat \<Rightarrow> impl \<Rightarrow> explanation" where
  "rebalance_explanation request rep limit s =
     (let e = rep_explanation rep in
      e\<lparr>ex_accepted := add_step AcceptedRebalanceBounded (ucast (rep_considered rep)) (ucast (rep_selected rep))
                        ''considered/selected'' (ex_accepted e),
        ex_refused := add_step RejectedMigrationLimitReached (ucast (rep_truncated rep)) (of_nat limit)
                        ''truncated/limit'' (ex_refused e),
        ex_primary := rep_status rep, ex_policy_generation := e_policy_generation s,
        ex_schedule_generation := e_schedule_generation s, ex_topology_generation := e_topology_generation s,
        ex_epoch := e_epoch s, ex_boot := e_boot s, ex_evaluation_instant := rq_evaluation_instant request\<rparr>)"

definition count_rebalance :: "rebalance_report \<Rightarrow> counters \<Rightarrow> counters" where
  "count_rebalance rep c =
     (let c = c_rebalances_executed_update saturating_increment c;
          c = c_rebalances_selected_update (\<lambda>n. saturating_add n (ucast (rep_selected rep))) c
      in if rep_truncated rep > 0
         then c_rebalances_truncated_update (\<lambda>n. saturating_add n (ucast (rep_truncated rep))) c else c)"

definition rebalance_locked :: "rebalance_request \<Rightarrow> impl \<Rightarrow> rebalance_report \<times> impl" where
  "rebalance_locked request s =
     (let report = rebalance_report_default\<lparr>rep_request := rq_request request, rep_dry_run := rq_dry_run request\<rparr> in
      if \<not> e_open s then (report\<lparr>rep_status := RejectedShuttingDown\<rparr>, s)
      else if \<not> ts_is_set (rq_evaluation_instant request) then (report\<lparr>rep_status := RejectedMissingEvidence\<rparr>, s)
      else if \<not> e_policy_present s then (report\<lparr>rep_status := RejectedMissingEvidence\<rparr>, s)
      else
        let instant = rq_evaluation_instant request;
            (proposals, refusals) = foldl (rebalance_flow instant s) ([], []) (e_assignments s);
            proposals = stable_sort proposal_less proposals;
            limit = rebalance_limit request s;
            selected = min limit (length proposals);
            report = report\<lparr>rep_considered := of_nat (length (e_assignments s)),
                       rep_eligible := of_nat (length proposals),
                       rep_intents := map (plan_intent instant s) (take selected proposals),
                       rep_selected := of_nat selected,
                       rep_truncated := of_nat (length proposals) - of_nat selected,
                       rep_schedule_generation := e_schedule_generation s,
                       rep_status := (if selected > 0 then AcceptedRebalanceBounded else AcceptedNoChangeRequired),
                       rep_refusal_summary := refusal_summary refusals\<rparr>;
            report = report\<lparr>rep_explanation := rebalance_explanation request report limit s\<rparr>;
            s = s\<lparr>e_counters := count_rebalance report (e_counters s)\<rparr>
        in (report, if rq_dry_run request then s else snd (persist_locked s)))"

section \<open>Explanations\<close>

definition explain_target :: "assignment \<Rightarrow> impl \<Rightarrow> explanation \<Rightarrow> explanation" where
  "explain_target a s e =
     (case om_find (e_targets s) (as_target a) of
        None \<Rightarrow> e\<lparr>ex_refused := add_step RejectedUnknownTarget (as_target a) 0
                  ''the committed target is no longer declared'' (ex_refused e)\<rparr>
      | Some t \<Rightarrow>
          let e = e\<lparr>ex_accepted := add_step AcceptedTargetRegistered (td_capability_generation (ts_descriptor t))
                     (if ts_declared t then 1 else 0) ''declared capability generation and declaration state''
                     (ex_accepted e)\<rparr>
          in if \<not> ts_declared t
             then e\<lparr>ex_refused := add_step RejectedTargetLifecycleUnknown (as_target a) 0
                     ''the target is not declared in this coordinator incarnation'' (ex_refused e)\<rparr>
             else e)"

definition explain_effect :: "assignment \<Rightarrow> explanation \<Rightarrow> explanation" where
  "explain_effect a e =
     (let e = e\<lparr>ex_accepted := add_step AcceptedAppliedEffectRecorded (ucast (effect_state_value (as_effect a))) 0
                 (''effect state '' @ effect_state_to_string (as_effect a)) (ex_accepted e)\<rparr>
      in if as_effect a \<noteq> Verified
         then e\<lparr>ex_refused := add_step RejectedMissingEvidence 0 0
                 ''no verified effect observation has been recorded for this placement'' (ex_refused e)\<rparr>
         else e)"

definition explain_flow :: "flow_id \<Rightarrow> impl \<Rightarrow> status \<times> explanation option" where
  "explain_flow flow s =
     (case om_find (e_flows s) flow of
        None \<Rightarrow> (status_refused RejectedUnknownFlow, None)
      | Some f \<Rightarrow>
          let e = explanation_default\<lparr>ex_flow := flow, ex_flow_generation := fd_generation f,
                    ex_policy_generation := e_policy_generation s, ex_schedule_generation := e_schedule_generation s,
                    ex_topology_generation := e_topology_generation s, ex_epoch := e_epoch s, ex_boot := e_boot s\<rparr> in
          case om_find (e_assignments s) flow of
            None \<Rightarrow>
              (status_accepted RejectedNoEligibleTarget,
               Some (e\<lparr>ex_primary := RejectedNoEligibleTarget,
                       ex_refused := add_step RejectedNoEligibleTarget 0 0 ''the flow has no committed placement''
                         (ex_refused e)\<rparr>))
          | Some a \<Rightarrow>
              let e = e\<lparr>ex_target := as_target a, ex_incarnation := as_incarnation a, ex_primary := as_reason a,
                        ex_accepted := add_step AcceptedEvidenceRecorded (as_capability_generation a)
                            (as_flow_generation a) ''capability and flow generation of record''
                          (add_step (as_reason a) (as_target a) (as_incarnation a) ''committed placement''
                            (ex_accepted e))\<rparr>
              in (status_accepted (as_reason a), Some (explain_effect a (explain_target a s e))))"

end
