(* ===== verification/EngineIngest.thy ===== *)
theory EngineIngest
  imports EngineState
begin

text \<open>
  The ingest operations of \<^verbatim>\<open>src/engine.cpp\<close>: flows, targets, load evidence, policy, topology
  and migration contracts.  Each operation maps the state to its status and the new state; a
  refusal that comes before any assignment returns the state it was given.
\<close>

section \<open>Flows\<close>

text \<open>The statements that give up the exclusive state held by an old generation of a flow.\<close>

definition drop_holder :: "flow_descriptor \<Rightarrow> flow_id \<Rightarrow> impl \<Rightarrow> impl" where
  "drop_holder old flow s =
     (if fd_statefulness old = Stateful then
        case om_find (e_holders s) (fd_exclusive_state_key old) of
          None \<Rightarrow> s
        | Some h \<Rightarrow> if sh_flow h = flow
                   then s\<lparr>e_holders := om_erase (fd_exclusive_state_key old) (e_holders s)\<rparr> else s
      else s)"

text \<open>Erase the assignment of a flow and recompute the scheduled load when there was one.\<close>

definition drop_assignment :: "flow_id \<Rightarrow> impl \<Rightarrow> impl" where
  "drop_assignment flow s =
     (case om_find (e_assignments s) flow of
        None \<Rightarrow> s
      | Some _ \<Rightarrow> recompute_scheduled_locked (s\<lparr>e_assignments := om_erase flow (e_assignments s)\<rparr>))"

text \<open>The branch of \<^verbatim>\<open>register_flow\<close> that supersedes the previous generation \<open>old\<close>.\<close>

definition supersede_flow :: "flow_descriptor \<Rightarrow> flow_descriptor \<Rightarrow> impl \<Rightarrow> impl" where
  "supersede_flow flow old s =
     (let s = drop_holder old (fd_flow flow) s;
          s = drop_assignment (fd_flow flow) s;
          s = close_migrations (\<lambda>r. mi_flow (mr_intent r) = fd_flow flow) Fenced RejectedStaleFlowGeneration
                c_migrations_fenced_update s
      in s\<lparr>e_flows := om_modify (fd_flow flow) (\<lambda>_. flow) (e_flows s)\<rparr>)"

definition register_flow :: "flow_descriptor \<Rightarrow> impl \<Rightarrow> status \<times> impl" where
  "register_flow flow s =
     (if \<not> e_open s then refuse RejectedShuttingDown s
      else if \<not> is_valid (fd_flow flow) \<or> \<not> is_valid (fd_generation flow) \<or> \<not> is_valid (fd_function flow) then
        refuse RejectedMalformedInput s
      else if fd_statefulness flow = StatefulnessUnknown then refuse RejectedMissingEvidence s
      else if fd_statefulness flow = Stateful \<and> \<not> is_valid (fd_exclusive_state_key flow) then
        refuse RejectedMalformedInput s
      else if fd_locality flow \<noteq> LocalityNone \<and> \<not> is_valid (fd_locality_anchor flow) then
        refuse RejectedMalformedInput s
      else case om_find (e_flows s) (fd_flow flow) of
        None \<Rightarrow>
          if length (e_flows s) \<ge> ec_max_flows (e_config s) then refuse RejectedResourceExhausted s
          else persist_then AcceptedFlowRegistered (bump c_flows_registered_update
                 (s\<lparr>e_flows := om_emplace (fd_flow flow) flow (e_flows s)\<rparr>))
      | Some old \<Rightarrow>
          if old = flow then accept AcceptedNoChangeRequired s
          else if fd_generation flow < fd_generation old then refuse RejectedStaleFlowGeneration s
          else if fd_generation flow = fd_generation old then refuse RejectedConflictingDuplicate s
          else persist_then AcceptedFlowUpdated (supersede_flow flow old s))"

text \<open>The updates of \<^verbatim>\<open>remove_flow\<close> once its guards have passed.\<close>

definition retire_flow :: "flow_id \<Rightarrow> flow_descriptor \<Rightarrow> impl \<Rightarrow> impl" where
  "retire_flow flow old s =
     (let s = drop_holder old flow s;
          s = s\<lparr>e_flows := om_erase flow (e_flows s)\<rparr>;
          s = drop_assignment flow s;
          s = close_migrations (\<lambda>r. mi_flow (mr_intent r) = flow) Fenced RejectedUnknownFlow
                c_migrations_fenced_update s
      in snd (issue_fence_locked flow 0 RejectedFencedBySupersession 0 s))"

definition remove_flow :: "flow_id \<Rightarrow> flow_generation \<Rightarrow> impl \<Rightarrow> status \<times> impl" where
  "remove_flow flow generation s =
     (if \<not> e_open s then refuse RejectedShuttingDown s
      else case om_find (e_flows s) flow of
        None \<Rightarrow> refuse RejectedUnknownFlow s
      | Some old \<Rightarrow>
          if is_valid generation \<and> generation \<noteq> fd_generation old then refuse RejectedStaleFlowGeneration s
          else persist_then AcceptedNoChangeRequired (retire_flow flow old s))"

section \<open>Targets\<close>

text \<open>Every assignment on \<open>target\<close> loses its verified effect.\<close>

definition demote_assignments :: "target_id \<Rightarrow> impl \<Rightarrow> impl" where
  "demote_assignments target s =
     s\<lparr>e_assignments := om_map (\<lambda>k a. if as_target a = target then a\<lparr>as_effect := EffectUnknown\<rparr> else a)
         (e_assignments s)\<rparr>"

definition touches :: "target_id \<Rightarrow> migration_record \<Rightarrow> bool" where
  "touches target r \<longleftrightarrow> mi_source_target (mr_intent r) = target \<or> mi_destination_target (mr_intent r) = target"

text \<open>The two branches of \<^verbatim>\<open>declare_target\<close> in which the declared target changes what it is.\<close>

definition advance_capabilities :: "target_descriptor \<Rightarrow> impl \<Rightarrow> impl" where
  "advance_capabilities target s =
     (let s = demote_assignments (td_target target) s
      in s\<lparr>e_targets := om_modify (td_target target)
             (\<lambda>t. t\<lparr>ts_descriptor := target, ts_declared := True, ts_has_load := False, ts_conflicting := False\<rparr>)
             (e_targets s)\<rparr>)"

definition advance_incarnation :: "target_descriptor \<Rightarrow> impl \<Rightarrow> impl" where
  "advance_incarnation target s =
     (let s = demote_assignments (td_target target) s;
          s = close_migrations (touches (td_target target)) Aborted RejectedStaleIncarnation
                c_migrations_aborted_update s
      in s\<lparr>e_holders := om_map (\<lambda>k h. if sh_target h = td_target target
                then h\<lparr>sh_incarnation := td_incarnation target, sh_handoff_pending := False\<rparr> else h) (e_holders s),
           e_targets := om_modify (td_target target)
             (\<lambda>_. target_state_default\<lparr>ts_descriptor := target, ts_declared := True\<rparr>) (e_targets s)\<rparr>)"

text \<open>A target whose declaration is older than the topology generation is no longer declared.\<close>

definition undeclare :: "target_state \<Rightarrow> target_state" where
  "undeclare t = t\<lparr>ts_declared := False, ts_has_load := False, ts_conflicting := False\<rparr>"

definition adopt_topology :: "target_descriptor \<Rightarrow> impl \<Rightarrow> impl" where
  "adopt_topology target s =
     (if td_topology_generation target > e_topology_generation s then
        s\<lparr>e_topology_generation := td_topology_generation target,
          e_targets := om_map (\<lambda>k t.
            if k = td_target target then t
            else if td_topology_generation (ts_descriptor t) < td_topology_generation target then undeclare t
            else t) (e_targets s)\<rparr>
      else s)"

definition finish_declaration :: "target_descriptor \<Rightarrow> reason \<Rightarrow> impl \<Rightarrow> status \<times> impl" where
  "finish_declaration target outcome s = persist_then outcome (recompute_scheduled_locked (adopt_topology target s))"

definition declare_target :: "target_descriptor \<Rightarrow> impl \<Rightarrow> status \<times> impl" where
  "declare_target target s =
     (if \<not> e_open s then refuse RejectedShuttingDown s
      else if \<not> is_valid (td_target target) \<or> \<not> is_valid (td_incarnation target) then refuse RejectedMalformedInput s
      else if td_domain target = DomainUnknown \<or> td_kind target = KindUnknown then refuse RejectedUnsupportedTarget s
      else if td_cost_class target = CostUnknown then refuse RejectedPolicyCostClass s
      else if td_domain target = OffloadDevice \<and> \<not> is_valid (td_device target) then refuse RejectedMalformedInput s
      else if \<not> is_valid (td_host target) then refuse RejectedMalformedInput s
      else if exceeds_any (td_reserved target) (td_capacity target) then refuse RejectedCapacityInsufficient s
      else if td_topology_generation target < e_topology_generation s then refuse RejectedStaleTopologyGeneration s
      else case om_find (e_targets s) (td_target target) of
        None \<Rightarrow>
          if length (e_targets s) \<ge> ec_max_targets (e_config s) then refuse RejectedResourceExhausted s
          else finish_declaration target AcceptedTargetRegistered (bump c_targets_registered_update
                 (s\<lparr>e_targets := om_emplace (td_target target)
                      (target_state_default\<lparr>ts_descriptor := target, ts_declared := True\<rparr>) (e_targets s)\<rparr>))
      | Some existing \<Rightarrow>
          let old = ts_descriptor existing in
          if td_incarnation target < td_incarnation old then refuse RejectedStaleIncarnation s
          else if td_incarnation target = td_incarnation old then
            if td_capability_generation target < td_capability_generation old then
              refuse RejectedStaleCapabilityGeneration s
            else if td_capability_generation target = td_capability_generation old then
              if \<not> same_target_identity old target then refuse RejectedConflictingDuplicate s
              else
                let s' = s\<lparr>e_targets := om_modify (td_target target)
                       (\<lambda>t. t\<lparr>ts_descriptor := target, ts_declared := True\<rparr>) (e_targets s)\<rparr> in
                if \<not> (\<not> ts_declared existing \<or> td_lifecycle old \<noteq> td_lifecycle target) then
                  accept AcceptedNoChangeRequired s'
                else finish_declaration target AcceptedTargetUpdated s'
            else finish_declaration target AcceptedTargetUpdated (advance_capabilities target s)
          else finish_declaration target AcceptedTargetUpdated (advance_incarnation target s))"

text \<open>
  The migration loop of \<^verbatim>\<open>remove_target\<close>: it aborts the unfinished attempts that touch the target
  and, for each, ends its handoff.
\<close>

definition abort_touching :: "target_id \<Rightarrow> impl \<Rightarrow> impl" where
  "abort_touching target s =
     foldl (\<lambda>s r. release_attempt (mi_attempt (mr_intent r)) s)
       (close_migrations (touches target) Aborted RejectedTargetRemoved c_migrations_aborted_update s)
       (filter (\<lambda>r. touches target r \<and> \<not> phase_terminal (phase_of r)) (map snd (e_migrations s)))"

text \<open>The updates of \<^verbatim>\<open>remove_target\<close> once its guards have passed.\<close>

definition retire_target :: "target_id \<Rightarrow> timestamp \<Rightarrow> impl \<Rightarrow> impl" where
  "retire_target target instant s =
     (let s = s\<lparr>e_targets := om_modify target (\<lambda>t. t\<lparr>ts_declared := True,
                  ts_descriptor := (ts_descriptor t)\<lparr>td_lifecycle := Removed\<rparr>,
                  ts_has_load := False, ts_conflicting := False\<rparr>) (e_targets s)\<rparr>;
          s = demote_assignments target s;
          s = abort_touching target s;
          s = snd (issue_fence_locked 0 target RejectedTargetRemoved instant s)
      in recompute_scheduled_locked (bump c_targets_removed_update s))"

definition remove_target :: "target_id \<Rightarrow> target_incarnation \<Rightarrow> timestamp \<Rightarrow> impl \<Rightarrow> status \<times> impl" where
  "remove_target target incarnation instant s =
     (if \<not> e_open s then refuse RejectedShuttingDown s
      else case om_find (e_targets s) target of
        None \<Rightarrow> refuse RejectedUnknownTarget s
      | Some old \<Rightarrow>
          if is_valid incarnation \<and> incarnation \<noteq> td_incarnation (ts_descriptor old) then
            refuse RejectedStaleIncarnation s
          else persist_then AcceptedTargetRemoved (retire_target target instant s))"

section \<open>Load evidence\<close>

text \<open>\<^verbatim>\<open>s.watermarks[source]\<close> with its sequence raised to that of the evidence.\<close>

definition raise_watermark :: "load_evidence \<Rightarrow> source_watermark \<Rightarrow> source_watermark" where
  "raise_watermark evidence mark =
     mark\<lparr>sw_source := le_source evidence,
          sw_sequence := (if le_source_sequence evidence > sw_sequence mark then le_source_sequence evidence
                          else sw_sequence mark)\<rparr>"

text \<open>The evidence accepted for a target: conflict classification, then the new load.\<close>

definition settle_conflict :: "load_evidence \<Rightarrow> target_state \<Rightarrow> target_state" where
  "settle_conflict evidence t =
     (let same_source = (ts_has_load t \<and> le_source (ts_load t) = le_source evidence) in
      if ts_has_load t \<and> \<not> same_source then
        if le_observed_at evidence = le_observed_at (ts_load t) \<and> le_utilized evidence \<noteq> le_utilized (ts_load t) then
          t\<lparr>ts_conflicting := True, ts_conflict_peer := evidence\<rparr>
        else if le_observed_at evidence = le_observed_at (ts_load t) then t\<lparr>ts_conflict_peer := evidence\<rparr>
        else t\<lparr>ts_conflicting := False, ts_conflict_peer := load_evidence_default\<rparr>
      else if \<not> ts_has_load t then t\<lparr>ts_conflicting := False\<rparr>
      else t\<lparr>ts_conflicting := False, ts_conflict_peer := load_evidence_default\<rparr>)"

definition evidence_conflicts :: "load_evidence \<Rightarrow> target_state \<Rightarrow> bool" where
  "evidence_conflicts evidence t \<longleftrightarrow>
     ts_has_load t \<and> le_source (ts_load t) \<noteq> le_source evidence \<and>
     le_observed_at evidence = le_observed_at (ts_load t) \<and> le_utilized evidence \<noteq> le_utilized (ts_load t)"

definition record_evidence :: "load_evidence \<Rightarrow> target_state \<Rightarrow> impl \<Rightarrow> impl" where
  "record_evidence evidence t s =
     (let s = (if evidence_conflicts evidence t then bump c_evidence_conflicts_update s else s);
          mark = (raise_watermark evidence (om_at (le_source evidence) source_watermark_default (e_watermarks s)))
                   \<lparr>sw_capability_generation := le_capability_generation evidence,
                    sw_target := le_target evidence, sw_incarnation := le_incarnation evidence\<rparr>
      in bump c_evidence_accepted_update
           (s\<lparr>e_targets := om_modify (le_target evidence)
                (\<lambda>t. (settle_conflict evidence t)\<lparr>ts_load := evidence, ts_has_load := True\<rparr>) (e_targets s),
              e_watermarks := om_put (le_source evidence) mark (e_watermarks s)\<rparr>))"

definition ingest_load :: "load_evidence \<Rightarrow> timestamp \<Rightarrow> impl \<Rightarrow> status \<times> impl" where
  "ingest_load evidence evaluation_instant s =
     (if \<not> e_open s then refuse RejectedShuttingDown s
      else if \<not> is_valid (le_target evidence) \<or> \<not> is_valid (le_source evidence) \<or>
              \<not> is_valid (le_source_sequence evidence) then refuse RejectedMalformedInput s
      else if le_state evidence = EvidenceUnknown then refuse RejectedMissingEvidence s
      else case om_find (e_targets s) (le_target evidence) of
        None \<Rightarrow> refuse RejectedUnknownTarget s
      | Some t \<Rightarrow>
          if le_incarnation evidence \<noteq> td_incarnation (ts_descriptor t) then refuse RejectedStaleIncarnation s
          else if le_capability_generation evidence \<noteq> td_capability_generation (ts_descriptor t) then
            refuse RejectedStaleCapabilityGeneration s
          else if (case om_find (e_watermarks s) (le_source evidence) of
                     None \<Rightarrow> False | Some mark \<Rightarrow> le_source_sequence evidence < sw_sequence mark) then
            reject c_evidence_rejected_update RejectedReplayedEvidence s
          else if ts_has_load t \<and> le_source (ts_load t) = le_source evidence \<and>
                  le_source_sequence evidence = le_source_sequence (ts_load t) then
            if evidence = ts_load t then
              accept AcceptedIdempotentReplay (bump c_evidence_idempotent_update s)
            else reject c_evidence_rejected_update RejectedConflictingDuplicate s
          else if ts_has_load t \<and> le_observed_at evidence < le_observed_at (ts_load t) then
            if le_state evidence = le_state (ts_load t) \<and> le_utilized evidence = le_utilized (ts_load t) then
              accept AcceptedIdempotentReplay (bump c_evidence_accepted_update
                (s\<lparr>e_watermarks := om_put (le_source evidence)
                     (raise_watermark evidence (om_at (le_source evidence) source_watermark_default (e_watermarks s)))
                     (e_watermarks s)\<rparr>))
            else reject c_evidence_rejected_update RejectedOutOfOrderEvidence s
          else if length (e_watermarks s) \<ge> ec_max_evidence_sources (e_config s) \<and>
                  om_find (e_watermarks s) (le_source evidence) = None then refuse RejectedResourceExhausted s
          else accept AcceptedEvidenceRecorded (record_evidence evidence t s))"

section \<open>Policy, topology and contracts\<close>

definition set_policy :: "policy \<Rightarrow> impl \<Rightarrow> status \<times> impl" where
  "set_policy p s =
     (if \<not> e_open s then refuse RejectedShuttingDown s
      else if \<not> is_valid (pol_generation p) then refuse RejectedMalformedInput s
      else if pol_domain_preference p = PreferenceUnknown \<or> pol_fallback p = FallbackUnknown \<or>
              pol_max_cost_class p = CostUnknown \<or> pol_load_model p = LoadModelUnknown then
        refuse RejectedMissingEvidence s
      else
        let canonical = canonicalize p in
        if e_policy_present s \<and> pol_generation canonical < e_policy_generation s then
          refuse RejectedStalePolicyGeneration s
        else if e_policy_present s \<and> pol_generation canonical = e_policy_generation s then
          if canonical = e_policy s then accept AcceptedNoChangeRequired s
          else refuse RejectedConflictingDuplicate s
        else persist_then AcceptedPolicyApplied
               (s\<lparr>e_policy := canonical, e_policy_present := True, e_policy_generation := pol_generation canonical\<rparr>))"

definition set_topology_generation :: "topology_generation \<Rightarrow> impl \<Rightarrow> status \<times> impl" where
  "set_topology_generation generation s =
     (if \<not> e_open s then refuse RejectedShuttingDown s
      else if \<not> is_valid generation then refuse RejectedMalformedInput s
      else if generation < e_topology_generation s then refuse RejectedStaleTopologyGeneration s
      else if generation = e_topology_generation s then accept AcceptedNoChangeRequired s
      else persist_then AcceptedNoChangeRequired
             (s\<lparr>e_topology_generation := generation,
                e_targets := om_map (\<lambda>k t. if td_topology_generation (ts_descriptor t) < generation
                  then undeclare t else t) (e_targets s)\<rparr>))"

definition register_migration_contract :: "migration_contract \<Rightarrow> impl \<Rightarrow> status \<times> impl" where
  "register_migration_contract contract s =
     (if \<not> e_open s then refuse RejectedShuttingDown s
      else if \<not> is_valid (mc_id contract) \<or> \<not> is_valid (mc_flow contract) then refuse RejectedMalformedInput s
      else case om_find (e_contracts s) (mc_id contract) of
        Some known \<Rightarrow> if known = contract then accept AcceptedIdempotentReplay s
                      else refuse RejectedConflictingDuplicate s
      | None \<Rightarrow>
          if length (e_contracts s) \<ge> ec_max_contracts (e_config s) then refuse RejectedResourceExhausted s
          else persist_then AcceptedNoChangeRequired
                 (s\<lparr>e_contracts := om_emplace (mc_id contract) contract (e_contracts s)\<rparr>))"

end
