(* ===== verification/EngineAuthority.thy ===== *)
theory EngineAuthority
  imports EngineState
begin

text \<open>
  Authority and the effect lifecycle of \<^verbatim>\<open>src/engine.cpp\<close>: authorizations, migration intents,
  acknowledgements, applied effects, observations and aborts.  An output parameter of the source
  is part of the result, \<open>None\<close> where the source leaves it untouched.
\<close>

section \<open>Authorizations\<close>

definition authorizable :: "reason list" where
  "authorizable = [AcceptedHostPlacement, AcceptedOffloadPlacement, AcceptedStickyRetention,
     AcceptedFallbackToHost, AcceptedFallbackToOffload, AcceptedWithoutLoadEvidence]"

text \<open>The refusal computed by \<^verbatim>\<open>authorize\<close>; \<open>ReasonOk\<close> when there is none.\<close>

definition authorize_refusal :: "recommendation \<Rightarrow> impl \<Rightarrow> reason" where
  "authorize_refusal rec s =
     (if \<not> List.member authorizable (rec_outcome rec) then RejectedRecommendationMismatch
      else if rec_epoch rec \<noteq> e_epoch s \<or> rec_boot rec \<noteq> e_boot s then RejectedFencedByRestart
      else if rec_schedule_generation rec \<noteq> e_schedule_generation s then RejectedStaleScheduleGeneration
      else if rec_policy_generation rec \<noteq> e_policy_generation s then RejectedStalePolicyGeneration
      else if rec_topology_generation rec \<noteq> e_topology_generation s then RejectedStaleTopologyGeneration
      else case om_find (e_targets s) (rec_target rec) of
        None \<Rightarrow> RejectedTargetLifecycleUnknown
      | Some t \<Rightarrow>
          if \<not> ts_declared t then RejectedTargetLifecycleUnknown
          else if td_lifecycle (ts_descriptor t) \<noteq> Ready then RejectedTargetNotReady
          else if td_incarnation (ts_descriptor t) \<noteq> rec_incarnation rec then RejectedStaleIncarnation
          else if td_capability_generation (ts_descriptor t) \<noteq> rec_capability_generation rec then
            RejectedStaleCapabilityGeneration
          else case om_find (e_flows s) (rec_flow rec) of
            None \<Rightarrow> RejectedUnknownFlow
          | Some f \<Rightarrow>
              if fd_generation f \<noteq> rec_flow_generation rec then RejectedStaleFlowGeneration
              else case om_find (e_assignments s) (rec_flow rec) of
                None \<Rightarrow> RejectedRecommendationMismatch
              | Some a \<Rightarrow> if as_target a \<noteq> rec_target rec then RejectedRecommendationMismatch else ReasonOk)"

definition grant :: "recommendation \<Rightarrow> timestamp \<Rightarrow> impl \<Rightarrow> authorization \<times> impl" where
  "grant rec instant s =
     (let a = authorization_default\<lparr>auth_id := e_next_authorization s, auth_recommendation := rec_id rec,
                auth_request := rec_request rec, auth_flow := rec_flow rec,
                auth_flow_generation := rec_flow_generation rec, auth_target := rec_target rec,
                auth_incarnation := rec_incarnation rec, auth_capability_generation := rec_capability_generation rec,
                auth_policy_generation := e_policy_generation s, auth_schedule_generation := e_schedule_generation s,
                auth_epoch := e_epoch s, auth_boot := e_boot s\<rparr>;
          s = s\<lparr>e_next_authorization := saturating_increment (e_next_authorization s)\<rparr>;
          (fence, s) = issue_fence_locked (rec_flow rec) (rec_target rec) AcceptedAuthorizationGranted instant s;
          a = a\<lparr>auth_fence := fence, auth_outcome := AcceptedAuthorizationGranted, auth_granted_at := instant\<rparr>;
          a = a\<lparr>auth_digest := digest_of encode_authorization a\<rparr>;
          s = s\<lparr>e_authorizations := om_emplace (auth_id a) a (e_authorizations s)\<rparr>
      in (a, evict_history_locked (bump c_authorizations_granted_update s)))"

definition authorize :: "recommendation_id \<Rightarrow> timestamp \<Rightarrow> impl \<Rightarrow> status \<times> authorization option \<times> impl" where
  "authorize recommendation instant s =
     (if \<not> e_open s then (status_refused RejectedShuttingDown, None, s)
      else case om_find (e_recommendations s) recommendation of
        None \<Rightarrow> (status_refused RejectedRecommendationMismatch, None, bump c_authorizations_refused_update s)
      | Some rec \<Rightarrow>
          let refusal = authorize_refusal rec s in
          if refusal \<noteq> ReasonOk then
            (status_refused refusal, None, record_refusal_locked refusal (bump c_authorizations_refused_update s))
          else
            let (a, s) = grant rec instant s
            in (status_accepted AcceptedAuthorizationGranted, Some a, s))"

text \<open>\<^verbatim>\<open>fences.find(fence)\<close>, and when it is there deactivate it with \<open>reason\<close>.\<close>

definition retire_fence :: "fence_id \<Rightarrow> reason \<Rightarrow> impl \<Rightarrow> impl" where
  "retire_fence fence reason s =
     s\<lparr>e_fences := om_modify fence (\<lambda>f. f\<lparr>fr_active := False, fr_reason := reason\<rparr>) (e_fences s)\<rparr>"

definition revoke :: "authorization_id \<Rightarrow> authorization \<Rightarrow> impl \<Rightarrow> impl" where
  "revoke authorization a s =
     retire_fence (auth_fence a) RejectedAuthorizationSuperseded
       (bump c_authorizations_revoked_update
         (s\<lparr>e_authorizations := om_modify authorization
              (\<lambda>a. a\<lparr>auth_outcome := RejectedAuthorizationSuperseded\<rparr>) (e_authorizations s)\<rparr>))"

definition revoke_authorization :: "authorization_id \<Rightarrow> impl \<Rightarrow> status \<times> impl" where
  "revoke_authorization authorization s =
     (if \<not> e_open s then refuse RejectedShuttingDown s
      else case om_find (e_authorizations s) authorization of
        None \<Rightarrow> refuse RejectedAuthorizationMissing s
      | Some a \<Rightarrow>
          if auth_outcome a \<noteq> AcceptedAuthorizationGranted then accept AcceptedNoChangeRequired s
          else accept AcceptedNoChangeRequired (revoke authorization a s))"

section \<open>Migration intents\<close>

text \<open>The effect state of the assignment of a flow, where it has one.\<close>

definition set_effect :: "flow_id \<Rightarrow> effect_state \<Rightarrow> impl \<Rightarrow> impl" where
  "set_effect flow effect s =
     s\<lparr>e_assignments := om_modify flow (\<lambda>a. a\<lparr>as_effect := effect\<rparr>) (e_assignments s)\<rparr>"

text \<open>The guards of \<^verbatim>\<open>issue_intent\<close> on the destination and on permission.\<close>

definition intent_destination_refusal :: "migration_intent \<Rightarrow> flow_descriptor \<Rightarrow> assignment \<Rightarrow> impl \<Rightarrow> reason" where
  "intent_destination_refusal inout flow source s =
     (if \<not> is_valid (mi_destination_target inout) \<or> \<not> is_valid (mi_destination_incarnation inout) then
        RejectedMalformedInput
      else if mi_destination_target inout = as_target source \<and> mi_destination_incarnation inout = as_incarnation source then
        RejectedMigrationSameTarget
      else case om_find (e_targets s) (mi_destination_target inout) of
        None \<Rightarrow> RejectedTargetLifecycleUnknown
      | Some d \<Rightarrow>
          if \<not> ts_declared d then RejectedTargetLifecycleUnknown
          else if td_lifecycle (ts_descriptor d) \<noteq> Ready then RejectedTargetNotReady
          else if td_incarnation (ts_descriptor d) \<noteq> mi_destination_incarnation inout then RejectedStaleIncarnation
          else if td_capability_generation (ts_descriptor d) \<noteq> mi_destination_capability_generation inout then
            RejectedStaleCapabilityGeneration
          else if (case om_find (e_targets s) (as_target source) of
                     None \<Rightarrow> False | Some t \<Rightarrow> \<not> td_supports_migration (ts_descriptor t)) then
            RejectedMigrationNotPermitted
          else if \<not> fd_allow_migration flow \<and> \<not> pol_allow_migration (e_policy s) then RejectedMigrationNotPermitted
          else if migrations_in_flight_locked s \<ge> ec_max_migrations (e_config s) then RejectedMigrationLimitReached
          else ReasonOk)"

definition contract_matches :: "authorization \<Rightarrow> flow_descriptor \<Rightarrow> migration_intent \<Rightarrow> impl \<Rightarrow> migration_contract \<Rightarrow> bool" where
  "contract_matches stored flow inout s c \<longleftrightarrow>
     mc_flow c = auth_flow stored \<and> mc_flow_generation c = fd_generation flow \<and>
     mc_destination_target c = mi_destination_target inout \<and>
     mc_destination_incarnation c = mi_destination_incarnation inout \<and>
     mc_destination_capability_generation c = mi_destination_capability_generation inout \<and>
     mc_policy_generation c = e_policy_generation s"

text \<open>The contract of a stateful flow's migration: a refusal or the contract's identity.\<close>

definition intent_contract :: "authorization \<Rightarrow> flow_descriptor \<Rightarrow> migration_intent \<Rightarrow> impl \<Rightarrow> reason + migration_contract_id" where
  "intent_contract stored flow inout s =
     (if fd_statefulness flow \<noteq> Stateful then Inr 0
      else case List.find (contract_matches stored flow inout s) (map snd (e_contracts s)) of
        None \<Rightarrow> Inl RejectedMigrationContractMissing
      | Some c \<Rightarrow>
          if mc_statefulness c \<noteq> Stateful then Inl RejectedMigrationContractMismatch
          else if \<not> contract_is_safe_for_stateful c then Inl RejectedStatefulMigrationUnsafe
          else if mc_max_state_bytes c \<noteq> 0 \<and> cv_state_bytes (fd_demand flow) > mc_max_state_bytes c then
            Inl RejectedMigrationContractMismatch
          else case find_holder_locked (fd_exclusive_state_key flow) s of
            None \<Rightarrow> Inr (mc_id c)
          | Some h \<Rightarrow>
              if sh_handoff_pending h then Inl RejectedMigrationAlreadyInFlight
              else if sh_flow h \<noteq> auth_flow stored then Inl RejectedExclusiveStateConflict
              else Inr (mc_id c))"

text \<open>The updates of \<^verbatim>\<open>issue_intent\<close> once every guard has passed.\<close>

definition begin_migration ::
    "authorization \<Rightarrow> flow_descriptor \<Rightarrow> assignment \<Rightarrow> migration_contract_id \<Rightarrow> migration_intent \<Rightarrow> impl \<Rightarrow>
     migration_intent \<times> impl" where
  "begin_migration stored flow source contract_id inout s =
     (let attempt = e_next_attempt s;
          s = s\<lparr>e_next_attempt := saturating_increment (e_next_attempt s)\<rparr>;
          (fence, s) = issue_fence_locked (auth_flow stored) (auth_target stored) AcceptedMigrationIntentIssued
                         (mi_issued_at inout) s;
          intent = \<lparr>mi_attempt = attempt, mi_flow = auth_flow stored, mi_flow_generation = fd_generation flow,
                    mi_source_assignment = as_assignment source, mi_source_target = as_target source,
                    mi_source_incarnation = as_incarnation source,
                    mi_source_capability_generation = as_capability_generation source,
                    mi_destination_target = mi_destination_target inout,
                    mi_destination_incarnation = mi_destination_incarnation inout,
                    mi_destination_capability_generation = mi_destination_capability_generation inout,
                    mi_contract = contract_id, mi_policy_generation = e_policy_generation s,
                    mi_schedule_generation = e_schedule_generation s, mi_epoch = e_epoch s, mi_boot = e_boot s,
                    mi_fence = fence, mi_phase = IntentIssued, mi_issued_at = mi_issued_at inout\<rparr>;
          s = s\<lparr>e_migrations := om_emplace attempt (migration_record_default\<lparr>mr_intent := intent\<rparr>) (e_migrations s)\<rparr>;
          s = set_effect (auth_flow stored) EffectIntentIssued s;
          s = (if fd_statefulness flow = Stateful
               then s\<lparr>e_holders := om_put (fd_exclusive_state_key flow)
                      \<lparr>sh_flow = auth_flow stored, sh_flow_generation = fd_generation flow,
                       sh_target = as_target source, sh_incarnation = as_incarnation source,
                       sh_assignment = as_assignment source, sh_handoff_pending = True, sh_pending_attempt = attempt\<rparr>
                      (e_holders s)\<rparr>
               else s)
      in (intent, bump c_migrations_issued_update s))"

definition issue_intent :: "authorization \<Rightarrow> migration_intent \<Rightarrow> impl \<Rightarrow> status \<times> migration_intent option \<times> impl" where
  "issue_intent authorization inout s =
     (let refuse = (\<lambda>code. (status_refused code, None, s)) in
      if \<not> e_open s then refuse RejectedShuttingDown
      else case om_find (e_authorizations s) (auth_id authorization) of
        None \<Rightarrow> refuse RejectedAuthorizationMissing
      | Some stored \<Rightarrow>
          if auth_outcome stored \<noteq> AcceptedAuthorizationGranted then refuse RejectedAuthorizationSuperseded
          else if auth_epoch stored \<noteq> e_epoch s \<or> auth_boot stored \<noteq> e_boot s then refuse RejectedFencedByRestart
          else if auth_policy_generation stored \<noteq> e_policy_generation s then refuse RejectedStalePolicyGeneration
          else if auth_schedule_generation stored \<noteq> e_schedule_generation s then refuse RejectedStaleScheduleGeneration
          else case om_find (e_flows s) (auth_flow stored) of
            None \<Rightarrow> refuse RejectedUnknownFlow
          | Some flow \<Rightarrow>
              if fd_generation flow \<noteq> auth_flow_generation stored then refuse RejectedStaleFlowGeneration
              else case om_find (e_assignments s) (auth_flow stored) of
                None \<Rightarrow> refuse RejectedRecommendationMismatch
              | Some source \<Rightarrow>
                  let refusal = intent_destination_refusal inout flow source s in
                  if refusal \<noteq> ReasonOk then refuse refusal
                  else case intent_contract stored flow inout s of
                    Inl refusal \<Rightarrow> refuse refusal
                  | Inr contract_id \<Rightarrow>
                      let (intent, s) = begin_migration stored flow source contract_id inout s;
                          (persisted, s) = persist_locked s
                      in if status_failed persisted then (persisted, None, s)
                         else (status_accepted AcceptedMigrationIntentIssued, Some intent, s))"

section \<open>Acknowledgements\<close>

text \<open>Assignment to the record \<^verbatim>\<open>it->second\<close> of an attempt.\<close>

definition set_record :: "migration_attempt_id \<Rightarrow> migration_record \<Rightarrow> impl \<Rightarrow> impl" where
  "set_record attempt r s = s\<lparr>e_migrations := om_modify attempt (\<lambda>_. r) (e_migrations s)\<rparr>"

definition with_phase :: "migration_phase \<Rightarrow> migration_record \<Rightarrow> migration_record" where
  "with_phase phase r = r\<lparr>mr_intent := (mr_intent r)\<lparr>mi_phase := phase\<rparr>\<rparr>"

definition ack_flag :: "migration_actor \<Rightarrow> migration_record \<Rightarrow> bool" where
  "ack_flag actor r = (if actor = Source then mr_source_acknowledged r else mr_destination_acknowledged r)"

definition ack_slot :: "migration_actor \<Rightarrow> migration_record \<Rightarrow> migration_acknowledgement" where
  "ack_slot actor r = (if actor = Source then mr_source_acknowledgement r else mr_destination_acknowledgement r)"

definition fill_ack :: "migration_acknowledgement \<Rightarrow> migration_record \<Rightarrow> migration_record" where
  "fill_ack a r =
     (if ack_actor a = Source then r\<lparr>mr_source_acknowledgement := a, mr_source_acknowledged := True\<rparr>
      else r\<lparr>mr_destination_acknowledgement := a, mr_destination_acknowledged := True\<rparr>)"

text \<open>The refusals of \<^verbatim>\<open>acknowledge\<close> that count a rejected acknowledgement, in order.\<close>

definition ack_authority_refusal :: "migration_acknowledgement \<Rightarrow> migration_record \<Rightarrow> impl \<Rightarrow> reason" where
  "ack_authority_refusal a r s =
     (if phase_of r = Fenced then RejectedFencedByRestart
      else if phase_of r = Completed \<or> phase_of r = Aborted then RejectedMigrationAttemptTerminal
      else if mi_boot (mr_intent r) \<noteq> e_boot s \<or> ack_boot a \<noteq> e_boot s then RejectedFencedByRestart
      else if mi_epoch (mr_intent r) \<noteq> e_epoch s \<or> ack_epoch a \<noteq> e_epoch s then RejectedStaleCoordinatorEpoch
      else ReasonOk)"

definition ack_target_refusal :: "migration_acknowledgement \<Rightarrow> migration_record \<Rightarrow> reason" where
  "ack_target_refusal a r =
     (let i = mr_intent r; is_source = (ack_actor a = Source) in
      if ack_target a \<noteq> (if is_source then mi_source_target i else mi_destination_target i) then
        RejectedConflictingAuthority
      else if ack_incarnation a \<noteq> (if is_source then mi_source_incarnation i else mi_destination_incarnation i) then
        RejectedStaleIncarnation
      else if ack_capability_generation a \<noteq>
              (if is_source then mi_source_capability_generation i else mi_destination_capability_generation i) then
        RejectedStaleCapabilityGeneration
      else ReasonOk)"

text \<open>The updates for an acknowledgement that declines, and for one that agrees.\<close>

definition decline_migration :: "migration_acknowledgement \<Rightarrow> migration_record \<Rightarrow> impl \<Rightarrow> impl" where
  "decline_migration a r s =
     (let r = (with_phase Aborted (fill_ack a r))\<lparr>mr_abort_reason :=
                (if ack_reason a = ReasonOk then RejectedMigrationFenced else ack_reason a)\<rparr>;
          s = bump c_acknowledgements_accepted_update s;
          s = bump c_migrations_aborted_update (set_record (ack_attempt a) r s)
      in release_attempt (mi_attempt (mr_intent r)) s)"

definition agree_migration :: "migration_acknowledgement \<Rightarrow> migration_record \<Rightarrow> impl \<Rightarrow> impl" where
  "agree_migration a r s =
     (let r = with_phase (if ack_actor a = Source then SourceAcknowledged else DestinationAcknowledged) (fill_ack a r);
          s = bump c_acknowledgements_accepted_update s
      in set_effect (mi_flow (mr_intent r)) Acknowledged (set_record (ack_attempt a) r s))"

definition record_acknowledgement :: "migration_acknowledgement \<Rightarrow> migration_record \<Rightarrow> impl \<Rightarrow> status \<times> impl" where
  "record_acknowledgement a r s =
     (if \<not> ack_accepted a then
        let (persisted, s) = persist_locked (decline_migration a r s)
        in if status_failed persisted \<and> persisted \<noteq> PersistNotConfigured \<and> persisted \<noteq> RecoveryCompacted
           then (persisted, s)
           else accept AcceptedMigrationAborted s
      else persist_then (if ack_actor a = Source then AcceptedSourceAckRecorded else AcceptedDestinationAckRecorded)
             (agree_migration a r s))"

definition acknowledge :: "migration_acknowledgement \<Rightarrow> impl \<Rightarrow> status \<times> impl" where
  "acknowledge a s =
     (let rejected = c_acknowledgements_rejected_update in
      if \<not> e_open s then refuse RejectedShuttingDown s
      else case om_find (e_migrations s) (ack_attempt a) of
        None \<Rightarrow> reject rejected RejectedMigrationAttemptUnknown s
      | Some r \<Rightarrow>
          if ack_authority_refusal a r s \<noteq> ReasonOk then reject rejected (ack_authority_refusal a r s) s
          else if ack_actor a = ActorUnknown then refuse RejectedMalformedInput s
          else if ack_target_refusal a r \<noteq> ReasonOk then reject rejected (ack_target_refusal a r) s
          else if ack_flag (ack_actor a) r then
            if ack_slot (ack_actor a) r = a then
              accept AcceptedIdempotentReplay (bump c_evidence_idempotent_update s)
            else reject rejected RejectedMigrationAckDuplicate s
          else if ack_actor a = Source \<and> phase_of r \<noteq> IntentIssued then
            reject rejected RejectedMigrationAckOutOfOrder s
          else if ack_actor a \<noteq> Source \<and> phase_of r \<noteq> SourceAcknowledged then
            reject rejected RejectedMigrationAckOutOfOrder s
          else record_acknowledgement a r s)"

section \<open>Applied effects\<close>

definition applied_refusal :: "applied_effect \<Rightarrow> migration_record \<Rightarrow> impl \<Rightarrow> reason" where
  "applied_refusal e r s =
     (if phase_of r \<noteq> DestinationAcknowledged then RejectedMigrationEffectBeforeAck
      else if ae_boot e \<noteq> e_boot s \<or> mi_boot (mr_intent r) \<noteq> e_boot s then RejectedFencedByRestart
      else if ae_epoch e \<noteq> e_epoch s then RejectedStaleCoordinatorEpoch
      else if ae_target e \<noteq> mi_destination_target (mr_intent r) then RejectedConflictingAuthority
      else if ae_incarnation e \<noteq> mi_destination_incarnation (mr_intent r) then RejectedStaleIncarnation
      else if ae_capability_generation e \<noteq> mi_destination_capability_generation (mr_intent r) then
        RejectedStaleCapabilityGeneration
      else if digest_is_zero (ae_effect_digest e) then RejectedMissingEvidence
      else ReasonOk)"

definition apply_effect :: "applied_effect \<Rightarrow> migration_record \<Rightarrow> impl \<Rightarrow> impl" where
  "apply_effect e r s =
     bump c_effects_applied_update
       (set_effect (mi_flow (mr_intent r)) Applied
         (set_record (ae_attempt e) (with_phase EffectApplied (r\<lparr>mr_applied := e, mr_effect_applied := True\<rparr>)) s))"

definition report_applied :: "applied_effect \<Rightarrow> impl \<Rightarrow> status \<times> impl" where
  "report_applied e s =
     (let rejected = c_effects_rejected_update in
      if \<not> e_open s then refuse RejectedShuttingDown s
      else case om_find (e_migrations s) (ae_attempt e) of
        None \<Rightarrow> refuse RejectedMigrationAttemptUnknown s
      | Some r \<Rightarrow>
          if phase_of r = Fenced then reject rejected RejectedFencedByRestart s
          else if phase_of r = Completed \<or> phase_of r = Aborted then reject rejected RejectedMigrationAttemptTerminal s
          else if mr_effect_applied r then
            if mr_applied r = e then accept AcceptedIdempotentReplay s else refuse RejectedConflictingDuplicate s
          else if applied_refusal e r s \<noteq> ReasonOk then reject rejected (applied_refusal e r s) s
          else persist_then AcceptedAppliedEffectRecorded (apply_effect e r s))"

section \<open>Observations\<close>

fun evidence_refusal :: "evidence_state \<Rightarrow> reason" where
  "evidence_refusal Conflicting = RejectedConflictingEvidence"
| "evidence_refusal Stale = RejectedStaleEvidence"
| "evidence_refusal Unsupported = RejectedUnsupportedTarget"
| "evidence_refusal _ = RejectedMissingEvidence"

fun lifecycle_refusal :: "target_lifecycle \<Rightarrow> reason" where
  "lifecycle_refusal Removed = RejectedTargetRemoved"
| "lifecycle_refusal Draining = RejectedTargetDraining"
| "lifecycle_refusal Degraded = RejectedTargetDegraded"
| "lifecycle_refusal Quiesced = RejectedTargetQuiesced"
| "lifecycle_refusal Discovered = RejectedTargetNotReady"
| "lifecycle_refusal _ = RejectedTargetLifecycleUnknown"

text \<open>The unfinished attempts of a flow, in the order of the map.\<close>

definition attempts_of :: "flow_id \<Rightarrow> impl \<Rightarrow> migration_record list" where
  "attempts_of flow s =
     filter (\<lambda>r. mi_flow (mr_intent r) = flow \<and> \<not> phase_terminal (phase_of r)) (map snd (e_migrations s))"

definition observation_refusal :: "effect_observation \<Rightarrow> migration_record \<Rightarrow> reason" where
  "observation_refusal ob r =
     (if eo_state ob \<noteq> Known then evidence_refusal (eo_state ob)
      else if eo_lifecycle ob \<noteq> Ready then lifecycle_refusal (eo_lifecycle ob)
      else if phase_of r = Fenced then RejectedFencedByRestart
      else if phase_of r = Completed \<or> phase_of r = Aborted then RejectedMigrationAttemptTerminal
      else if \<not> mr_effect_applied r then RejectedMigrationEffectBeforeAck
      else if eo_target ob \<noteq> mi_destination_target (mr_intent r) then RejectedConflictingAuthority
      else if eo_incarnation ob \<noteq> mi_destination_incarnation (mr_intent r) then RejectedStaleIncarnation
      else if eo_capability_generation ob \<noteq> mi_destination_capability_generation (mr_intent r) then
        RejectedStaleCapabilityGeneration
      else if eo_effect_digest ob \<noteq> ae_effect_digest (mr_applied r) then RejectedMigrationVerificationMismatch
      else ReasonOk)"

text \<open>The assignment and the holder of the flow move to the destination.\<close>

definition hand_over :: "effect_observation \<Rightarrow> migration_intent \<Rightarrow> impl \<Rightarrow> impl" where
  "hand_over ob i s =
     (case om_find (e_assignments s) (mi_flow i) of
        None \<Rightarrow> s
      | Some previous \<Rightarrow>
          let updated = previous\<lparr>as_assignment := e_next_assignment s, as_target := mi_destination_target i,
                as_incarnation := mi_destination_incarnation i,
                as_capability_generation := mi_destination_capability_generation i,
                as_policy_generation := mi_policy_generation i, as_schedule_generation := mi_schedule_generation i,
                as_effect := Verified, as_reason := AcceptedVerifiedEffectRecorded,
                as_committed_at := eo_observed_at ob, as_supersedes := as_assignment previous\<rparr>;
              s = s\<lparr>e_next_assignment := saturating_increment (e_next_assignment s),
                    e_assignments := om_modify (mi_flow i) (\<lambda>_. updated) (e_assignments s)\<rparr>
          in case om_find (e_flows s) (mi_flow i) of
               None \<Rightarrow> s
             | Some f \<Rightarrow>
                 if fd_statefulness f = Stateful
                 then s\<lparr>e_holders := om_put (fd_exclusive_state_key f)
                        \<lparr>sh_flow = mi_flow i, sh_flow_generation = mi_flow_generation i,
                         sh_target = as_target updated, sh_incarnation = as_incarnation updated,
                         sh_assignment = as_assignment updated, sh_handoff_pending = False, sh_pending_attempt = 0\<rparr>
                        (e_holders s)\<rparr>
                 else s)"

definition complete_migration :: "effect_observation \<Rightarrow> migration_attempt_id \<Rightarrow> migration_record \<Rightarrow> impl \<Rightarrow> impl" where
  "complete_migration ob attempt r s =
     (let s = set_record attempt (with_phase Completed
                (r\<lparr>mr_effect_verified := True, mr_verified_digest := eo_effect_digest ob\<rparr>)) s;
          s = hand_over ob (mr_intent r) s;
          s = retire_fence (mi_fence (mr_intent r)) AcceptedVerifiedEffectRecorded s;
          s = bump c_migrations_completed_update (bump c_effects_verified_update s)
      in recompute_scheduled_locked s)"

definition observe :: "effect_observation \<Rightarrow> impl \<Rightarrow> status \<times> impl" where
  "observe ob s =
     (let rejected = c_observations_rejected_update in
      if \<not> e_open s then refuse RejectedShuttingDown s
      else if \<not> is_valid (eo_flow ob) \<or> \<not> is_valid (eo_source ob) \<or> \<not> is_valid (eo_source_sequence ob) then
        refuse RejectedMalformedInput s
      else case attempts_of (eo_flow ob) s of
        [] \<Rightarrow> reject rejected RejectedMigrationAttemptUnknown s
      | _ # _ # _ \<Rightarrow> reject rejected RejectedExclusiveStateConflict s
      | [candidate] \<Rightarrow>
          let attempt = mi_attempt (mr_intent candidate);
              s = s\<lparr>e_migrations := om_emplace attempt migration_record_default (e_migrations s)\<rparr>;
              r = om_at attempt migration_record_default (e_migrations s) in
          if observation_refusal ob r \<noteq> ReasonOk then reject rejected (observation_refusal ob r) s
          else persist_then AcceptedVerifiedEffectRecorded (complete_migration ob attempt r s))"

section \<open>Aborts\<close>

definition abort_attempt :: "migration_attempt_id \<Rightarrow> reason \<Rightarrow> migration_record \<Rightarrow> impl \<Rightarrow> impl" where
  "abort_attempt attempt reason r s =
     (let r = (with_phase Aborted r)\<lparr>mr_abort_reason :=
                (if reason = ReasonOk then RejectedMigrationFenced else reason)\<rparr>;
          s = bump c_migrations_aborted_update (set_record attempt r s);
          s = release_attempt attempt s;
          s = retire_fence (mi_fence (mr_intent r)) (mr_abort_reason r) s
      in set_effect (mi_flow (mr_intent r)) EffectUnknown s)"

definition abort_migration :: "migration_attempt_id \<Rightarrow> reason \<Rightarrow> timestamp \<Rightarrow> impl \<Rightarrow> status \<times> impl" where
  "abort_migration attempt reason instant s =
     (if \<not> e_open s then refuse RejectedShuttingDown s
      else case om_find (e_migrations s) attempt of
        None \<Rightarrow> refuse RejectedMigrationAttemptUnknown s
      | Some r \<Rightarrow>
          if phase_of r = Completed then refuse RejectedMigrationAttemptTerminal s
          else if phase_of r = Aborted \<or> phase_of r = Fenced then accept AcceptedNoChangeRequired s
          else persist_then AcceptedMigrationAborted (abort_attempt attempt reason r s))"

end
