(* ===== verification/EngineLifecycle.thy ===== *)
theory EngineLifecycle
  imports EngineIngest EngineAuthority Placement
begin

text \<open>
  Restoring, opening and shutting down the engine, and the read-only views of its state
  (\<^verbatim>\<open>restore_locked\<close>, \<^verbatim>\<open>Engine::open\<close>, \<^verbatim>\<open>Engine::shutdown\<close> and the inspection functions of
  \<^verbatim>\<open>src/engine.cpp\<close>).
\<close>

section \<open>Restore\<close>

text \<open>\<^verbatim>\<open>for (x : xs) m[key(x)] = x\<close> on an empty map.\<close>

definition om_of :: "('v \<Rightarrow> 'k::linorder) \<Rightarrow> 'v list \<Rightarrow> ('k, 'v) omap" where
  "om_of key xs = foldl (\<lambda>m x. om_put (key x) x m) [] xs"

definition restored_target :: "target_descriptor \<Rightarrow> target_state" where
  "restored_target d = target_state_default\<lparr>ts_descriptor := d, ts_declared := False\<rparr>"

definition restored_assignment :: "assignment \<Rightarrow> assignment" where
  "restored_assignment a = (if as_effect a \<noteq> Verified then a\<lparr>as_effect := EffectUnknown\<rparr> else a)"

definition max_id :: "('v \<Rightarrow> u64) \<Rightarrow> ('k, 'v) omap \<Rightarrow> u64" where
  "max_id f m = foldl (\<lambda>n e. max n (f (snd e))) 0 m"

definition restore_maps :: "durable_state \<Rightarrow> impl \<Rightarrow> impl" where
  "restore_maps d s =
     s\<lparr>e_flows := om_of fd_flow (ds_flows d),
       e_targets := om_of (\<lambda>t. td_target (ts_descriptor t)) (map restored_target (ds_targets d)),
       e_assignments := om_of as_flow (map restored_assignment (ds_assignments d)),
       e_contracts := om_of mc_id (ds_contracts d),
       e_migrations := om_of (\<lambda>r. mi_attempt (mr_intent r)) (ds_migrations d),
       e_fences := om_of fr_id (map (\<lambda>f. f\<lparr>fr_active := False\<rparr>) (ds_fences d)),
       e_watermarks := om_of sw_source (ds_watermarks d),
       e_requests := om_of rr_request (ds_requests d),
       e_refusal_counts := foldl (\<lambda>m c. om_put (reason_value (rc_code c)) (rc_count c) m) [] (ds_refusal_counts d),
       e_recommendations := [], e_authorizations := []\<rparr>"

definition restore_counters :: "impl \<Rightarrow> impl" where
  "restore_counters s =
     s\<lparr>e_next_assignment := saturating_increment (max_id as_assignment (e_assignments s)),
       e_next_attempt := saturating_increment (max_id (\<lambda>r. mi_attempt (mr_intent r)) (e_migrations s)),
       e_next_fence := saturating_increment (max_id fr_id (e_fences s)),
       e_next_recommendation := 1, e_next_authorization := 1\<rparr>"

definition restore_locked :: "durable_state \<Rightarrow> impl \<Rightarrow> impl" where
  "restore_locked d s =
     (let s = s\<lparr>e_epoch := ds_epoch d, e_boot := ds_boot d, e_policy := ds_policy d,
                e_policy_present := ds_policy_present d, e_policy_generation := pol_generation (ds_policy d),
                e_schedule_generation := ds_schedule_generation d, e_topology_generation := ds_topology_generation d,
                e_counters := ds_counters d\<rparr>;
          s = restore_counters (restore_maps d s);
          s = recompute_scheduled_locked (rebuild_holders_locked s);
          s = close_migrations (\<lambda>_. True) Fenced RejectedFencedByRestart c_migrations_fenced_update s
      in s\<lparr>e_holders := om_map (\<lambda>k h. h\<lparr>sh_handoff_pending := False, sh_pending_attempt := 0\<rparr>) (e_holders s)\<rparr>)"

section \<open>Open and shutdown\<close>

text \<open>
  The part of \<^verbatim>\<open>open\<close> up to the new epoch: \<open>Inl\<close> is an early return, \<open>Inr\<close> the epoch and boot
  identity of the previous incarnation with the state they were restored into.
\<close>

definition open_restore :: "impl \<Rightarrow> (status \<times> impl) + (coordinator_epoch \<times> boot_id \<times> impl)" where
  "open_restore s =
     (if \<not> ec_persistence_enabled (e_config s) then
        Inr (0, boot_id_default, s\<lparr>e_recovery := recovery_report_default\<lparr>rv_kind := EmptyStore,
          rv_code := RecoveryEmptyStore, rv_usable := True,
          rv_detail := ''persistence is disabled; state is in memory only''\<rparr>\<rparr>)
      else
        let (report, st) = store_open (e_store s);
            s = s\<lparr>e_store := st, e_recovery := report\<rparr> in
        if \<not> rv_usable report then Inl (refuse (rv_code report) s)
        else if st_has_state st then
          Inr (ds_epoch (st_state st), ds_boot (st_state st), restore_locked (st_state st) s)
        else Inr (0, boot_id_default, s))"

definition begin_epoch :: "coordinator_epoch \<Rightarrow> boot_id \<Rightarrow> impl \<Rightarrow> impl" where
  "begin_epoch previous_epoch previous_boot s =
     (let epoch = previous_epoch + 1;
          s = s\<lparr>e_epoch := epoch,
                e_boot := (if boot_is_valid (ec_boot_id_override (e_config s)) then ec_boot_id_override (e_config s)
                           else derive_boot_id previous_boot epoch)\<rparr>;
          s = bump c_restarts_update s
      in if boot_is_valid previous_boot then
           let s = fence_all_active_locked 0 s
           in if rv_usable (e_recovery s)
              then s\<lparr>e_recovery := (e_recovery s)\<lparr>rv_detail :=
                     rv_detail (e_recovery s) @ ''; pre-restart authority fenced''\<rparr>\<rparr>
              else s
         else s)"

definition engine_open :: "impl \<Rightarrow> status \<times> impl" where
  "engine_open s =
     (if e_open s then accept AcceptedNoChangeRequired s
      else
        case open_restore (s\<lparr>e_shutting_down := False\<rparr>) of
          Inl res \<Rightarrow> res
        | Inr (previous_epoch, previous_boot, s) \<Rightarrow>
            if previous_epoch = - 1 then refuse RejectedInternalInvariant s
            else
              let (result, s) = persist_locked ((begin_epoch previous_epoch previous_boot s)\<lparr>e_open := True\<rparr>)
              in if status_failed result then (result, s\<lparr>e_open := False\<rparr>) else (result, s))"

text \<open>
  \<^verbatim>\<open>shutdown\<close> without the worker pool, whose pending jobs run before the state is persisted.  The
  outcomes of the two store operations are ignored.
\<close>

definition engine_shutdown :: "impl \<Rightarrow> impl" where
  "engine_shutdown s =
     (if e_shutting_down s then s
      else
        let s = s\<lparr>e_shutting_down := True\<rparr>;
            s = (if e_open s \<and> ec_persistence_enabled (e_config s) then
                   let s = snd (persist_locked s)
                   in s\<lparr>e_store := snd (compact (build_durable_locked s) (e_store s))\<rparr>
                 else s)
        in s\<lparr>e_store := store_close (e_store s), e_open := False, e_shutting_down := False\<rparr>)"

section \<open>Inspection\<close>

record engine_snapshot =
  sn_epoch :: coordinator_epoch
  sn_boot :: boot_id
  sn_policy_generation :: policy_generation
  sn_schedule_generation :: schedule_generation
  sn_topology_generation :: topology_generation
  sn_recovery :: recovery_report
  sn_counters :: counters
  sn_flows :: nat
  sn_targets :: nat
  sn_live_targets :: nat
  sn_assignments :: nat
  sn_migrations_in_flight :: nat
  sn_active_fences :: nat

definition is_live :: "target_state \<Rightarrow> bool" where
  "is_live t \<longleftrightarrow> ts_declared t \<and> td_lifecycle (ts_descriptor t) = Ready"

definition snapshot :: "impl \<Rightarrow> engine_snapshot" where
  "snapshot s =
     \<lparr>sn_epoch = e_epoch s, sn_boot = e_boot s, sn_policy_generation = e_policy_generation s,
      sn_schedule_generation = e_schedule_generation s, sn_topology_generation = e_topology_generation s,
      sn_recovery = e_recovery s, sn_counters = e_counters s, sn_flows = length (e_flows s),
      sn_targets = length (e_targets s), sn_live_targets = length (filter (\<lambda>(k, t). is_live t) (e_targets s)),
      sn_assignments = length (e_assignments s), sn_migrations_in_flight = migrations_in_flight_locked s,
      sn_active_fences = length (filter (\<lambda>(k, f). fr_active f) (e_fences s))\<rparr>"

definition lookup_flow :: "flow_id \<Rightarrow> impl \<Rightarrow> flow_descriptor option" where
  "lookup_flow flow s = om_find (e_flows s) flow"

definition lookup_target :: "target_id \<Rightarrow> impl \<Rightarrow> target_descriptor option" where
  "lookup_target target s = map_option ts_descriptor (om_find (e_targets s) target)"

definition lookup_assignment :: "flow_id \<Rightarrow> impl \<Rightarrow> assignment option" where
  "lookup_assignment flow s = om_find (e_assignments s) flow"

definition lookup_migration :: "migration_attempt_id \<Rightarrow> impl \<Rightarrow> migration_record option" where
  "lookup_migration attempt s = om_find (e_migrations s) attempt"

definition lookup_authorization :: "authorization_id \<Rightarrow> impl \<Rightarrow> authorization option" where
  "lookup_authorization authorization s = om_find (e_authorizations s) authorization"

definition lookup_recommendation :: "recommendation_id \<Rightarrow> impl \<Rightarrow> recommendation option" where
  "lookup_recommendation recommendation s = om_find (e_recommendations s) recommendation"

definition active_fences :: "impl \<Rightarrow> fence_record list" where
  "active_fences s = filter fr_active (map snd (e_fences s))"

definition refusal_counts :: "impl \<Rightarrow> reason_count list" where
  "refusal_counts s = map (\<lambda>(k, n). \<lparr>rc_code = k, rc_count = n\<rparr>) (e_refusal_counts s)"

definition committed_demand :: "impl \<Rightarrow> (target_id, capacity_vector) omap" where
  "committed_demand s = map (\<lambda>(k, t). (k, committed_demand_for_locked k s)) (e_targets s)"

record target_export =
  te_descriptor :: target_descriptor
  te_live :: bool
  te_has_load :: bool
  te_load_conflicting :: bool
  te_load :: load_evidence
  te_committed :: capacity_vector

record engine_export =
  xx_semantics_version :: u32
  xx_snapshot_container_version :: u32
  xx_protocol_version :: u32
  xx_epoch :: coordinator_epoch
  xx_boot :: boot_id
  xx_policy_generation :: policy_generation
  xx_schedule_generation :: schedule_generation
  xx_topology_generation :: topology_generation
  xx_policy_present :: bool
  xx_policy :: policy
  xx_recovery :: recovery_report
  xx_counters :: counters
  xx_targets :: "target_export list"
  xx_flows :: "flow_descriptor list"
  xx_assignments :: "assignment list"
  xx_migrations :: "migration_record list"
  xx_fences :: "fence_record list"
  xx_refusal_counts :: "reason_count list"
  xx_requests :: "request_record list"
  xx_watermarks :: "source_watermark list"
  xx_contracts :: "migration_contract list"

definition export_target :: "impl \<Rightarrow> target_id \<Rightarrow> target_state \<Rightarrow> target_export" where
  "export_target s k t =
     \<lparr>te_descriptor = ts_descriptor t, te_live = is_live t, te_has_load = ts_has_load t,
      te_load_conflicting = ts_conflicting t, te_load = ts_load t, te_committed = committed_demand_for_locked k s\<rparr>"

definition export_state :: "impl \<Rightarrow> engine_export" where
  "export_state s =
     \<lparr>xx_semantics_version = kStateSemanticsVersion, xx_snapshot_container_version = kSnapshotContainerVersion,
      xx_protocol_version = kProtocolVersion, xx_epoch = e_epoch s, xx_boot = e_boot s, xx_policy_generation = e_policy_generation s,
      xx_schedule_generation = e_schedule_generation s, xx_topology_generation = e_topology_generation s,
      xx_policy_present = e_policy_present s, xx_policy = e_policy s, xx_recovery = e_recovery s,
      xx_counters = e_counters s, xx_targets = map (\<lambda>(k, t). export_target s k t) (e_targets s),
      xx_flows = map snd (e_flows s), xx_assignments = map snd (e_assignments s),
      xx_migrations = map snd (e_migrations s), xx_fences = map snd (e_fences s),
      xx_refusal_counts = refusal_counts s, xx_requests = map snd (e_requests s),
      xx_watermarks = map snd (e_watermarks s), xx_contracts = map snd (e_contracts s)\<rparr>"

end
