(* ===== verification/PlacementFacts.thy ===== *)
theory PlacementFacts
  imports Placement EngineLifecycle "HOL-Library.Product_Lexorder"
begin

text \<open>
  What the placement decision computes: the meaning of a target's verdict, the order of the
  candidates, and where the chosen candidate and the pending commits come from.
\<close>

section \<open>The rank order\<close>

definition rank_tuple :: "rank_key \<Rightarrow> u8 \<times> u8 \<times> u8 \<times> u32 \<times> u64" where
  "rank_tuple k = (rk_sticky k, rk_domain_rank k, rk_cost_rank k, rk_utilisation_ppm k, rk_target k)"

lemma rank_tuple_inject: "rank_tuple a = rank_tuple b \<longleftrightarrow> a = b"
  by (cases a; cases b) (auto simp: rank_tuple_def)

lemma compare_rank_less: "compare_rank a b < 0 \<longleftrightarrow> rank_tuple a < rank_tuple b"
  by (auto simp: compare_rank_def rank_tuple_def less_prod_def)

lemma rank_less_iff: "rank_less a b \<longleftrightarrow> rank_tuple (rkc_key a) < rank_tuple (rkc_key b)"
  by (simp add: rank_less_def compare_rank_less)

lemma strict_weak_rank_less: "strict_weak rank_less"
  by (auto simp: strict_weak_def rank_less_iff)

section \<open>The verdict on a target\<close>

text \<open>
  The abstract view of one capacity dimension: capacity \<open>c\<close> with \<open>r\<close> reserved and \<open>u\<close> in use has
  room for a demand \<open>q\<close> that must leave \<open>w\<close> free.
\<close>

definition room :: "u64 \<Rightarrow> u64 \<Rightarrow> u64 \<Rightarrow> u64 \<Rightarrow> u64 \<Rightarrow> bool" where
  "room c r u q w \<longleftrightarrow> unat u \<le> unat c \<and> 0 < unat c \<and>
     (unat q + unat w = 0 \<or> unat r + unat u + unat q + unat w \<le> unat c)"

definition fits_capacity :: "capacity_vector \<Rightarrow> capacity_vector \<Rightarrow> capacity_vector \<Rightarrow> capacity_vector \<Rightarrow> capacity_vector \<Rightarrow> bool" where
  "fits_capacity c r u q w \<longleftrightarrow>
     room (cv_packets_per_second c) (cv_packets_per_second r) (cv_packets_per_second u) (cv_packets_per_second q) (cv_packets_per_second w) \<and>
     room (cv_bytes_per_second c) (cv_bytes_per_second r) (cv_bytes_per_second u) (cv_bytes_per_second q) (cv_bytes_per_second w) \<and>
     room (cv_state_bytes c) (cv_state_bytes r) (cv_state_bytes u) (cv_state_bytes q) (cv_state_bytes w) \<and>
     room (cv_table_entries c) (cv_table_entries r) (cv_table_entries u) (cv_table_entries q) (cv_table_entries w)"

text \<open>The tests the code makes on one dimension, over the natural numbers.\<close>

lemma room_iff:
  "room c r u q w \<longleftrightarrow>
     unat u \<le> unat c \<and> unat q + unat w < 2 ^ 64 \<and> unat q + unat w \<le> unat c - unat r - unat u \<and>
     unat u + unat q < 2 ^ 64 \<and> c \<noteq> 0"
proof -
  have "unat c < 2 ^ 64" using unsigned_less [of c] by simp
  then show ?thesis
    by (auto simp: room_def unat_gt_0)
qed

lemma fits_capacity_iff:
  "fits_capacity c r u q w \<longleftrightarrow>
     \<not> exceeds_any u c \<and> checked_add_cv q w \<noteq> None \<and>
     list_all2 (\<lambda>x y. x \<le> y) (map2 (+) (cv_dims q) (cv_dims w)) (cv_dims (saturating_sub (saturating_sub c r) u)) \<and>
     checked_add_cv u q \<noteq> None \<and>
     cv_packets_per_second c \<noteq> 0 \<and> cv_bytes_per_second c \<noteq> 0 \<and> cv_state_bytes c \<noteq> 0 \<and> cv_table_entries c \<noteq> 0"
  unfolding fits_capacity_def room_iff exceeds_any_iff dominates_iff checked_add_cv_None saturating_sub_dims
  by (auto simp: cv_dims_def)

lemma aggregate_None_iff:
  "aggregate_utilisation_ppm u c = None \<longleftrightarrow>
     cv_packets_per_second c = 0 \<or> cv_bytes_per_second c = 0 \<or> cv_state_bytes c = 0 \<or> cv_table_entries c = 0"
  unfolding aggregate_utilisation_ppm_def aggregate_loop_None by auto

lemma evaluate_capacity_ok:
  "fst (evaluate_capacity flow d used out s) = ReasonOk \<longleftrightarrow>
     fits_capacity (td_capacity d) (td_reserved d) used (fd_demand flow) (pol_reserve (e_policy s))"
proof (cases "checked_add_cv (fd_demand flow) (pol_reserve (e_policy s))")
  case None
  then show ?thesis by (simp add: evaluate_capacity_def Let_def fits_capacity_iff)
next
  case (Some req)
  then have dims: "cv_dims req = map2 (+) (cv_dims (fd_demand flow)) (cv_dims (pol_reserve (e_policy s)))"
    by (rule checked_add_cv_Some)
  show ?thesis
    using aggregate_None_iff [of _ "td_capacity d"]
    by (auto simp: evaluate_capacity_def Let_def fits_capacity_iff Some dominates_iff dims split: option.split prod.split)
qed

definition policy_permits :: "policy \<Rightarrow> flow_descriptor \<Rightarrow> target_descriptor \<Rightarrow> bool" where
  "policy_permits p flow d \<longleftrightarrow>
     (pol_domain_preference p = HostOnly \<longrightarrow> td_domain d = Host) \<and>
     (pol_domain_preference p = OffloadOnly \<longrightarrow> td_domain d = OffloadDevice) \<and>
     (pol_allowed_domains p = [] \<or> td_domain d \<in> set (pol_allowed_domains p)) \<and>
     td_host d \<notin> set (pol_forbidden_hosts p) \<and>
     (is_valid (td_device d) \<longrightarrow> td_device d \<notin> set (pol_forbidden_devices p)) \<and>
     (pol_allowed_functions p = [] \<or> fd_function flow \<in> set (pol_allowed_functions p))"

definition policy_sorted :: "policy \<Rightarrow> bool" where
  "policy_sorted p \<longleftrightarrow> sorted (pol_allowed_domains p) \<and> sorted (pol_forbidden_hosts p) \<and>
     sorted (pol_forbidden_devices p) \<and> sorted (pol_allowed_functions p)"

lemma policy_refusal_ok: "policy_sorted p \<Longrightarrow> policy_refusal p flow d = ReasonOk \<longleftrightarrow> policy_permits p flow d"
  by (auto simp: policy_refusal_def policy_permits_def policy_sorted_def binary_search_iff)

text \<open>The eligibility of a target for a flow, as the documentation states it.\<close>

definition suitable :: "flow_descriptor \<Rightarrow> target_state \<Rightarrow> impl \<Rightarrow> bool" where
  "suitable flow t s \<longleftrightarrow>
     (let d = ts_descriptor t; p = e_policy s in
      is_live t \<and> policy_permits p flow d \<and>
      satisfies (td_capabilities d) (fd_required_capabilities flow OR pol_required_capabilities p) \<and>
      (fd_statefulness flow = Stateful \<longrightarrow> td_supports_stateful d) \<and>
      td_cost_class d \<noteq> CostUnknown \<and> td_cost_class d \<le> fd_max_cost_class flow \<and> td_cost_class d \<le> pol_max_cost_class p \<and>
      locality_refusal flow d s = ReasonOk)"

lemma target_lifecycle_refusal_ok: "target_lifecycle_refusal l = ReasonOk \<longleftrightarrow> l = Ready"
  by (cases l) simp_all

lemma static_refusal_ok: "policy_sorted (e_policy s) \<Longrightarrow> static_refusal flow t s = ReasonOk \<longleftrightarrow> suitable flow t s"
  by (auto simp: static_refusal_def suitable_def Let_def is_live_def target_lifecycle_refusal_ok policy_refusal_ok
      capability_refusal_def)

lemma static_refusal_live: "static_refusal flow t s = ReasonOk \<Longrightarrow> is_live t"
  by (auto simp: static_refusal_def Let_def is_live_def target_lifecycle_refusal_ok split: if_split_asm)

text \<open>The load a target is charged with: unknown load counts as none only where the policy says so.\<close>

definition charged_load :: "target_state \<Rightarrow> timestamp \<Rightarrow> impl \<Rightarrow> capacity_vector option" where
  "charged_load t instant s =
     (let load = effective_load_locked t instant s in
      if el_known load then Some (el_used load)
      else if pol_allow_placement_without_load_evidence (e_policy s) then Some cv_zero else None)"

lemma effective_load_reason: "\<not> el_known (effective_load_locked t i s) \<Longrightarrow> el_reason (effective_load_locked t i s) \<noteq> ReasonOk"
  by (cases "ts_conflicting t"; cases "ts_has_load t"; cases "le_state (ts_load t) = Known";
      cases "0 < ec_evidence_freshness (e_config s) \<and>
        ec_evidence_freshness (e_config s) < saturating_elapsed i (le_observed_at (ts_load t))";
      cases "pol_load_model (e_policy s)")
    (simp_all add: effective_load_locked_def Let_def split: option.splits)

definition eligible :: "flow_descriptor \<Rightarrow> target_state \<Rightarrow> timestamp \<Rightarrow> impl \<Rightarrow> bool" where
  "eligible flow t instant s \<longleftrightarrow>
     suitable flow t s \<and>
     (case charged_load t instant s of None \<Rightarrow> False
      | Some used \<Rightarrow> fits_capacity (td_capacity (ts_descriptor t)) (td_reserved (ts_descriptor t)) used
          (fd_demand flow) (pol_reserve (e_policy s)))"

lemma evaluate_target_ok:
  assumes "policy_sorted (e_policy s)"
  shows "fst (evaluate_target_locked flow t instant s) = ReasonOk \<longleftrightarrow> eligible flow t instant s"
  using static_refusal_ok [OF assms, of flow t] effective_load_reason [of t instant s]
  by (auto simp: evaluate_target_locked_def eligible_def charged_load_def Let_def evaluate_capacity_ok)

section \<open>The candidates of a flow\<close>

lemma evaluate_capacity_view:
  "cand_target (snd (evaluate_capacity f d u out s)) = cand_target out"
  "cand_incarnation (snd (evaluate_capacity f d u out s)) = cand_incarnation out"
  "cand_capability_generation (snd (evaluate_capacity f d u out s)) = cand_capability_generation out"
  "cand_domain (snd (evaluate_capacity f d u out s)) = cand_domain out"
  "cand_cost_class (snd (evaluate_capacity f d u out s)) = cand_cost_class out"
  by (simp_all add: evaluate_capacity_def Let_def split: option.split prod.split)

lemma evaluate_target_view:
  defines "view f t i s \<equiv> snd (evaluate_target_locked f t i s)"
  shows "cand_target (view f t i s) = td_target (ts_descriptor t)"
    "cand_incarnation (view f t i s) = td_incarnation (ts_descriptor t)"
    "cand_capability_generation (view f t i s) = td_capability_generation (ts_descriptor t)"
    "cand_domain (view f t i s) = td_domain (ts_descriptor t)"
    "cand_cost_class (view f t i s) = td_cost_class (ts_descriptor t)"
  unfolding view_def by (simp_all add: evaluate_target_locked_def Let_def evaluate_capacity_view)

lemma evaluate_target_live: "fst (evaluate_target_locked f t i s) = ReasonOk \<Longrightarrow> is_live t"
  by (auto simp: evaluate_target_locked_def Let_def dest: static_refusal_live split: if_split_asm)

lemma planned_state_fields [simp]:
  "ts_descriptor (planned_state b k t) = ts_descriptor t" "ts_declared (planned_state b k t) = ts_declared t"
  "is_live (planned_state b k t) = is_live t"
  by (simp_all add: planned_state_def Let_def is_live_def)

text \<open>The entry that target \<open>(k, t)\<close> contributes when it is accepted.\<close>

definition candidate_of :: "flow_descriptor \<Rightarrow> assignment option \<Rightarrow> timestamp \<Rightarrow> batch \<Rightarrow> target_id \<times> target_state \<Rightarrow> ranked_candidate option" where
  "candidate_of flow current instant b entry =
     (let s = b_state b;
          (verdict, view) = evaluate_target_locked flow (planned_state b (fst entry) (snd entry)) instant s;
          view = view\<lparr>cand_eligible := True, cand_reason := ReasonOk\<rparr> in
      if verdict = ReasonOk then
        case key_for view (is_sticky (e_policy s) current view) (preferred_domain (e_policy s)) of
          Inl _ \<Rightarrow> None
        | Inr key \<Rightarrow> Some \<lparr>rkc_key = key, rkc_view = view\<rparr>
      else None)"

lemma consider_target_ranked:
  "fst (consider_target flow current instant b (ranked, refused) entry) =
     (case candidate_of flow current instant b entry of
        None \<Rightarrow> ranked | Some c \<Rightarrow> push_bounded kMaxRankedCandidates c ranked)"
  by (cases "evaluate_target_locked flow (planned_state b (fst entry) (snd entry)) instant (b_state b)")
    (simp add: consider_target_def candidate_of_def Let_def split: sum.split)

lemma fold_consider_ranked:
  "fst (foldl (consider_target flow current instant b) (ranked, refused) entries) =
     take (max kMaxRankedCandidates (length ranked)) (ranked @ List.map_filter (candidate_of flow current instant b) entries)"
proof (induction entries arbitrary: ranked refused)
  case (Cons e entries)
  obtain ranked' refused' where acc: "consider_target flow current instant b (ranked, refused) e = (ranked', refused')"
    by fastforce
  have "ranked' = (case candidate_of flow current instant b e of
      None \<Rightarrow> ranked | Some c \<Rightarrow> push_bounded kMaxRankedCandidates c ranked)"
    using consider_target_ranked [of flow current instant b ranked refused e] acc by simp
  then show ?case
    using Cons.IH [of ranked' refused']
    by (auto simp: acc map_filter_simps push_bounded_def max_def take_Cons' split: option.split)
qed (simp add: map_filter_simps)

text \<open>
  With no more targets than the candidate bound, every accepted target is ranked; in general
  the ranked candidates are accepted targets.
\<close>

definition accepted_candidates :: "flow_descriptor \<Rightarrow> assignment option \<Rightarrow> timestamp \<Rightarrow> batch \<Rightarrow> ranked_candidate list" where
  "accepted_candidates flow current instant b =
     List.map_filter (candidate_of flow current instant b) (e_targets (b_state b))"

lemma length_map_filter_le: "length (List.map_filter f xs) \<le> length xs"
  by (induction xs) (auto simp: map_filter_simps split: option.split)

lemma candidates_ranked:
  "fst (candidates flow current instant b) =
     number_ranks (stable_sort rank_less (take kMaxRankedCandidates (accepted_candidates flow current instant b)))"
  using fold_consider_ranked [of flow current instant b "[]" "[]" "e_targets (b_state b)"]
  by (simp add: candidates_def accepted_candidates_def split_beta)

lemma number_ranks_keys:
  "map rkc_key (number_ranks cs) = map rkc_key cs" "length (number_ranks cs) = length cs"
  "map (\<lambda>c. (rkc_view c)\<lparr>cand_rank := 0\<rparr>) (number_ranks cs) = map (\<lambda>c. (rkc_view c)\<lparr>cand_rank := 0\<rparr>) cs"
  by (auto simp: number_ranks_def nth_enumerate_eq intro: nth_equalityI)

lemma number_ranks_Cons:
  "number_ranks cs = c # rest \<Longrightarrow> \<exists>c' rest'. cs = c' # rest' \<and> c = c'\<lparr>rkc_view := (rkc_view c')\<lparr>cand_rank := 0\<rparr>\<rparr>"
  by (cases cs) (auto simp: number_ranks_def enumerate_eq_zip upt_rec)

text \<open>The chosen candidate is an accepted target of least rank, and a fallback only where allowed.\<close>

lemma choose_candidate_Some:
  assumes "choose_candidate p (fst (candidates flow current instant b)) = Some (view, fallback)"
  obtains c where "c \<in> set (take kMaxRankedCandidates (accepted_candidates flow current instant b))"
    "view = (rkc_view c)\<lparr>cand_rank := 0\<rparr>" "fallback = (rk_domain_rank (rkc_key c) \<noteq> 0)"
    "\<And>c'. c' \<in> set (take kMaxRankedCandidates (accepted_candidates flow current instant b)) \<Longrightarrow>
       rank_tuple (rkc_key c) \<le> rank_tuple (rkc_key c')"
    "fallback \<longrightarrow> fallback_allowed p (preferred_domain p) (cand_domain view)"
proof -
  let ?acc = "take kMaxRankedCandidates (accepted_candidates flow current instant b)"
  obtain d ds where ranked: "number_ranks (stable_sort rank_less ?acc) = d # ds"
    using assms by (auto simp: choose_candidate_def candidates_ranked split: list.splits)
  then obtain c cs where c: "stable_sort rank_less ?acc = c # cs" "d = c\<lparr>rkc_view := (rkc_view c)\<lparr>cand_rank := 0\<rparr>\<rparr>"
    using number_ranks_Cons by blast
  have "c \<in> set ?acc" using c(1) by (metis list.set_intros(1) set_stable_sort)
  moreover have "rank_tuple (rkc_key c) \<le> rank_tuple (rkc_key c')" if "c' \<in> set ?acc" for c'
    using stable_sort_hd_least [OF strict_weak_rank_less c(1) that] by (simp add: rank_less_iff not_less)
  ultimately show ?thesis
    using assms that [of c] by (auto simp: choose_candidate_def candidates_ranked ranked c(2) Let_def split: if_split_asm)
qed

lemma candidate_of_Some:
  assumes "candidate_of flow current instant b (k, t) = Some c"
  shows "is_live t" "fst (evaluate_target_locked flow (planned_state b k t) instant (b_state b)) = ReasonOk"
    "cand_target (rkc_view c) = td_target (ts_descriptor t)"
    "cand_incarnation (rkc_view c) = td_incarnation (ts_descriptor t)"
    "cand_capability_generation (rkc_view c) = td_capability_generation (ts_descriptor t)"
    "cand_domain (rkc_view c) = td_domain (ts_descriptor t)"
proof -
  obtain verdict view where e: "evaluate_target_locked flow (planned_state b k t) instant (b_state b) = (verdict, view)"
    by fastforce
  then have ok: "verdict = ReasonOk" and c: "rkc_view c = view\<lparr>cand_eligible := True, cand_reason := ReasonOk\<rparr>"
    using assms by (auto simp: candidate_of_def Let_def split: if_split_asm sum.splits)
  show "is_live t" "fst (evaluate_target_locked flow (planned_state b k t) instant (b_state b)) = ReasonOk"
    using e ok evaluate_target_live [of flow "planned_state b k t" instant "b_state b"] by simp_all
  show "cand_target (rkc_view c) = td_target (ts_descriptor t)"
    "cand_incarnation (rkc_view c) = td_incarnation (ts_descriptor t)"
    "cand_capability_generation (rkc_view c) = td_capability_generation (ts_descriptor t)"
    "cand_domain (rkc_view c) = td_domain (ts_descriptor t)"
    using evaluate_target_view [of flow "planned_state b k t" instant "b_state b"] e c by simp_all
qed

lemma in_accepted_candidates:
  "c \<in> set (take n (accepted_candidates flow current instant b)) \<Longrightarrow>
   \<exists>k t. (k, t) \<in> set (e_targets (b_state b)) \<and> candidate_of flow current instant b (k, t) = Some c"
  by (auto simp: accepted_candidates_def map_filter_def dest!: in_set_takeD) (metis option.sel)

section \<open>Where the pending commits come from\<close>

text \<open>The flow is registered at this generation, the target is live at this incarnation.\<close>

definition placeable :: "impl \<Rightarrow> pending_commit \<Rightarrow> bool" where
  "placeable s pc \<longleftrightarrow>
     (\<exists>k f. om_find (e_flows s) k = Some f \<and> fd_flow f = pc_flow pc \<and> fd_generation f = pc_generation pc) \<and>
     (\<exists>(k, t) \<in> set (e_targets s). is_live t \<and> td_target (ts_descriptor t) = pc_target pc \<and>
        td_incarnation (ts_descriptor t) = pc_incarnation pc \<and>
        td_capability_generation (ts_descriptor t) = pc_capability pc)"

lemma commits_refuse_item [simp]: "b_commits (refuse_item p b) = b_commits b"
  by (simp add: refuse_item_def)

lemma commits_refuse_unplaced [simp]: "b_commits (refuse_unplaced r p b) = b_commits b"
  by (simp add: refuse_unplaced_def Let_def)

lemma commits_plan_move [simp]: "b_commits (plan_move f c t b) = b_commits b"
  by (simp add: plan_move_def Let_def split: option.split)

lemma commits_accept_item:
  "\<exists>pc. b_commits (accept_item flow current view fallback p b) = b_commits b @ [pc] \<and>
     pc_flow pc = fd_flow flow \<and> pc_generation pc = fd_generation flow \<and> pc_target pc = cand_target view \<and>
     pc_incarnation pc = cand_incarnation view \<and> pc_capability pc = cand_capability_generation view"
  by (simp add: accept_item_def Let_def)

lemma place_item_cases:
  obtains "b_commits (place_item request n b item) = b_commits b"
  | flow view fallback p where "om_find (e_flows (b_state b)) (it_flow item) = Some flow"
    "choose_candidate (e_policy (b_state b)) (fst (candidates flow
       (om_find (e_assignments (b_state b)) (fd_flow flow)) (pr_evaluation_instant request) b)) = Some (view, fallback)"
    "state_conflict flow (b_state b) = None"
    "place_item request n b item =
       accept_item flow (om_find (e_assignments (b_state b)) (fd_flow flow)) view fallback p b"
proof (cases "om_find (e_flows (b_state b)) (it_flow item)")
  case None
  then show ?thesis using that(1) by (simp add: place_item_def)
next
  case (Some flow)
  let ?cs = "candidates flow (om_find (e_assignments (b_state b)) (fd_flow flow)) (pr_evaluation_instant request) b"
  consider "is_valid (it_flow_generation item) \<and> it_flow_generation item \<noteq> fd_generation flow"
    | h where "\<not> (is_valid (it_flow_generation item) \<and> it_flow_generation item \<noteq> fd_generation flow)"
        "state_conflict flow (b_state b) = Some h"
    | "\<not> (is_valid (it_flow_generation item) \<and> it_flow_generation item \<noteq> fd_generation flow)"
        "state_conflict flow (b_state b) = None" "choose_candidate (e_policy (b_state b)) (fst ?cs) = None"
    | view fallback where "\<not> (is_valid (it_flow_generation item) \<and> it_flow_generation item \<noteq> fd_generation flow)"
        "state_conflict flow (b_state b) = None" "choose_candidate (e_policy (b_state b)) (fst ?cs) = Some (view, fallback)"
    by (metis option.exhaust surj_pair)
  then show ?thesis
  proof cases
    case 4
    from that(2) [OF Some 4(3,2)] show ?thesis
      unfolding place_item_def Let_def Some option.case split_beta if_not_P [OF 4(1)] 4(2,3) by simp
  qed (rule that(1), simp add: place_item_def Some Let_def split_beta)+
qed

lemma place_item_commits:
  assumes "pc \<in> set (b_commits (place_item request n b item))"
  shows "pc \<in> set (b_commits b) \<or> placeable (b_state b) pc"
proof (cases rule: place_item_cases [of request n b item])
  case 1
  then show ?thesis using assms by simp
next
  case (2 flow view fallback p)
  obtain c k t where c: "view = (rkc_view c)\<lparr>cand_rank := 0\<rparr>" "(k, t) \<in> set (e_targets (b_state b))"
      "candidate_of flow (om_find (e_assignments (b_state b)) (fd_flow flow)) (pr_evaluation_instant request) b (k, t) = Some c"
    using choose_candidate_Some [OF 2(2)] in_accepted_candidates by metis
  obtain pc' where pc': "b_commits (place_item request n b item) = b_commits b @ [pc']"
      "pc_flow pc' = fd_flow flow" "pc_generation pc' = fd_generation flow" "pc_target pc' = cand_target view"
      "pc_incarnation pc' = cand_incarnation view" "pc_capability pc' = cand_capability_generation view"
    using commits_accept_item 2(4) by metis
  then have "placeable (b_state b) pc'"
    using 2(1) c candidate_of_Some [OF c(3)] by (fastforce simp: placeable_def)
  then show ?thesis using assms pc'(1) by auto
qed

end
