(* ===== verification/EngineFrame.thy ===== *)
theory EngineFrame
  imports PlacementFacts
begin

text \<open>
  What each helper of the engine leaves alone.  The lemmas are simplification rules, so that a
  proof about one field of the state looks through the helpers that do not touch it.
\<close>

lemma bump_frame [simp]:
  "e_config (bump upd s) = e_config s" "e_open (bump upd s) = e_open s"
  "e_shutting_down (bump upd s) = e_shutting_down s" "e_epoch (bump upd s) = e_epoch s"
  "e_boot (bump upd s) = e_boot s" "e_policy_generation (bump upd s) = e_policy_generation s"
  "e_schedule_generation (bump upd s) = e_schedule_generation s"
  "e_topology_generation (bump upd s) = e_topology_generation s" "e_policy (bump upd s) = e_policy s"
  "e_policy_present (bump upd s) = e_policy_present s" "e_flows (bump upd s) = e_flows s"
  "e_targets (bump upd s) = e_targets s" "e_assignments (bump upd s) = e_assignments s"
  "e_holders (bump upd s) = e_holders s" "e_migrations (bump upd s) = e_migrations s"
  "e_contracts (bump upd s) = e_contracts s" "e_fences (bump upd s) = e_fences s"
  "e_watermarks (bump upd s) = e_watermarks s" "e_requests (bump upd s) = e_requests s"
  "e_refusal_counts (bump upd s) = e_refusal_counts s" "e_authorizations (bump upd s) = e_authorizations s"
  "e_recommendations (bump upd s) = e_recommendations s" "e_next_assignment (bump upd s) = e_next_assignment s"
  "e_next_recommendation (bump upd s) = e_next_recommendation s"
  "e_next_authorization (bump upd s) = e_next_authorization s" "e_next_attempt (bump upd s) = e_next_attempt s"
  "e_next_fence (bump upd s) = e_next_fence s" "e_store (bump upd s) = e_store s"
  "e_recovery (bump upd s) = e_recovery s"
  by (simp_all add: bump_def)

lemma record_refusal_frame [simp]:
  "e_config (record_refusal_locked code s) = e_config s" "e_open (record_refusal_locked code s) = e_open s"
  "e_shutting_down (record_refusal_locked code s) = e_shutting_down s"
  "e_epoch (record_refusal_locked code s) = e_epoch s" "e_boot (record_refusal_locked code s) = e_boot s"
  "e_policy_generation (record_refusal_locked code s) = e_policy_generation s"
  "e_schedule_generation (record_refusal_locked code s) = e_schedule_generation s"
  "e_topology_generation (record_refusal_locked code s) = e_topology_generation s"
  "e_policy (record_refusal_locked code s) = e_policy s"
  "e_policy_present (record_refusal_locked code s) = e_policy_present s"
  "e_flows (record_refusal_locked code s) = e_flows s" "e_targets (record_refusal_locked code s) = e_targets s"
  "e_assignments (record_refusal_locked code s) = e_assignments s"
  "e_holders (record_refusal_locked code s) = e_holders s"
  "e_migrations (record_refusal_locked code s) = e_migrations s"
  "e_contracts (record_refusal_locked code s) = e_contracts s" "e_fences (record_refusal_locked code s) = e_fences s"
  "e_watermarks (record_refusal_locked code s) = e_watermarks s"
  "e_requests (record_refusal_locked code s) = e_requests s"
  "e_authorizations (record_refusal_locked code s) = e_authorizations s"
  "e_recommendations (record_refusal_locked code s) = e_recommendations s"
  "e_next_assignment (record_refusal_locked code s) = e_next_assignment s"
  "e_next_recommendation (record_refusal_locked code s) = e_next_recommendation s"
  "e_next_authorization (record_refusal_locked code s) = e_next_authorization s"
  "e_next_attempt (record_refusal_locked code s) = e_next_attempt s"
  "e_next_fence (record_refusal_locked code s) = e_next_fence s" "e_store (record_refusal_locked code s) = e_store s"
  "e_recovery (record_refusal_locked code s) = e_recovery s"
  by (simp_all add: record_refusal_locked_def Let_def split: option.split)

lemma persist_frame [simp]:
  "e_config (snd (persist_locked s)) = e_config s" "e_open (snd (persist_locked s)) = e_open s"
  "e_shutting_down (snd (persist_locked s)) = e_shutting_down s" "e_epoch (snd (persist_locked s)) = e_epoch s"
  "e_boot (snd (persist_locked s)) = e_boot s" "e_policy_generation (snd (persist_locked s)) = e_policy_generation s"
  "e_schedule_generation (snd (persist_locked s)) = e_schedule_generation s"
  "e_topology_generation (snd (persist_locked s)) = e_topology_generation s"
  "e_policy (snd (persist_locked s)) = e_policy s" "e_policy_present (snd (persist_locked s)) = e_policy_present s"
  "e_flows (snd (persist_locked s)) = e_flows s" "e_targets (snd (persist_locked s)) = e_targets s"
  "e_assignments (snd (persist_locked s)) = e_assignments s" "e_holders (snd (persist_locked s)) = e_holders s"
  "e_migrations (snd (persist_locked s)) = e_migrations s" "e_contracts (snd (persist_locked s)) = e_contracts s"
  "e_fences (snd (persist_locked s)) = e_fences s" "e_watermarks (snd (persist_locked s)) = e_watermarks s"
  "e_requests (snd (persist_locked s)) = e_requests s" "e_refusal_counts (snd (persist_locked s)) = e_refusal_counts s"
  "e_authorizations (snd (persist_locked s)) = e_authorizations s"
  "e_recommendations (snd (persist_locked s)) = e_recommendations s"
  "e_next_assignment (snd (persist_locked s)) = e_next_assignment s"
  "e_next_recommendation (snd (persist_locked s)) = e_next_recommendation s"
  "e_next_authorization (snd (persist_locked s)) = e_next_authorization s"
  "e_next_attempt (snd (persist_locked s)) = e_next_attempt s" "e_next_fence (snd (persist_locked s)) = e_next_fence s"
  "e_recovery (snd (persist_locked s)) = e_recovery s"
  by (simp_all add: persist_locked_def Let_def split: prod.split)

lemma drop_holder_frame [simp]:
  "e_config (drop_holder old flow s) = e_config s" "e_open (drop_holder old flow s) = e_open s"
  "e_shutting_down (drop_holder old flow s) = e_shutting_down s" "e_epoch (drop_holder old flow s) = e_epoch s"
  "e_boot (drop_holder old flow s) = e_boot s" "e_policy_generation (drop_holder old flow s) = e_policy_generation s"
  "e_schedule_generation (drop_holder old flow s) = e_schedule_generation s"
  "e_topology_generation (drop_holder old flow s) = e_topology_generation s"
  "e_policy (drop_holder old flow s) = e_policy s" "e_policy_present (drop_holder old flow s) = e_policy_present s"
  "e_flows (drop_holder old flow s) = e_flows s" "e_targets (drop_holder old flow s) = e_targets s"
  "e_assignments (drop_holder old flow s) = e_assignments s" "e_migrations (drop_holder old flow s) = e_migrations s"
  "e_contracts (drop_holder old flow s) = e_contracts s" "e_fences (drop_holder old flow s) = e_fences s"
  "e_watermarks (drop_holder old flow s) = e_watermarks s" "e_requests (drop_holder old flow s) = e_requests s"
  "e_refusal_counts (drop_holder old flow s) = e_refusal_counts s"
  "e_authorizations (drop_holder old flow s) = e_authorizations s"
  "e_recommendations (drop_holder old flow s) = e_recommendations s"
  "e_counters (drop_holder old flow s) = e_counters s"
  "e_next_assignment (drop_holder old flow s) = e_next_assignment s"
  "e_next_recommendation (drop_holder old flow s) = e_next_recommendation s"
  "e_next_authorization (drop_holder old flow s) = e_next_authorization s"
  "e_next_attempt (drop_holder old flow s) = e_next_attempt s" "e_next_fence (drop_holder old flow s) = e_next_fence s"
  "e_store (drop_holder old flow s) = e_store s" "e_recovery (drop_holder old flow s) = e_recovery s"
  by (simp_all add: drop_holder_def split: option.split)

lemma recompute_frame [simp]:
  "e_config (recompute_scheduled_locked s) = e_config s" "e_open (recompute_scheduled_locked s) = e_open s"
  "e_shutting_down (recompute_scheduled_locked s) = e_shutting_down s"
  "e_epoch (recompute_scheduled_locked s) = e_epoch s" "e_boot (recompute_scheduled_locked s) = e_boot s"
  "e_policy_generation (recompute_scheduled_locked s) = e_policy_generation s"
  "e_schedule_generation (recompute_scheduled_locked s) = e_schedule_generation s"
  "e_topology_generation (recompute_scheduled_locked s) = e_topology_generation s"
  "e_policy (recompute_scheduled_locked s) = e_policy s"
  "e_policy_present (recompute_scheduled_locked s) = e_policy_present s"
  "e_flows (recompute_scheduled_locked s) = e_flows s" "e_assignments (recompute_scheduled_locked s) = e_assignments s"
  "e_holders (recompute_scheduled_locked s) = e_holders s"
  "e_migrations (recompute_scheduled_locked s) = e_migrations s"
  "e_contracts (recompute_scheduled_locked s) = e_contracts s" "e_fences (recompute_scheduled_locked s) = e_fences s"
  "e_watermarks (recompute_scheduled_locked s) = e_watermarks s"
  "e_requests (recompute_scheduled_locked s) = e_requests s"
  "e_refusal_counts (recompute_scheduled_locked s) = e_refusal_counts s"
  "e_authorizations (recompute_scheduled_locked s) = e_authorizations s"
  "e_recommendations (recompute_scheduled_locked s) = e_recommendations s"
  "e_counters (recompute_scheduled_locked s) = e_counters s"
  "e_next_assignment (recompute_scheduled_locked s) = e_next_assignment s"
  "e_next_recommendation (recompute_scheduled_locked s) = e_next_recommendation s"
  "e_next_authorization (recompute_scheduled_locked s) = e_next_authorization s"
  "e_next_attempt (recompute_scheduled_locked s) = e_next_attempt s"
  "e_next_fence (recompute_scheduled_locked s) = e_next_fence s" "e_store (recompute_scheduled_locked s) = e_store s"
  "e_recovery (recompute_scheduled_locked s) = e_recovery s"
  by (simp_all add: recompute_scheduled_locked_def)

lemma drop_assignment_frame [simp]:
  "e_config (drop_assignment flow s) = e_config s" "e_open (drop_assignment flow s) = e_open s"
  "e_shutting_down (drop_assignment flow s) = e_shutting_down s" "e_epoch (drop_assignment flow s) = e_epoch s"
  "e_boot (drop_assignment flow s) = e_boot s" "e_policy_generation (drop_assignment flow s) = e_policy_generation s"
  "e_schedule_generation (drop_assignment flow s) = e_schedule_generation s"
  "e_topology_generation (drop_assignment flow s) = e_topology_generation s"
  "e_policy (drop_assignment flow s) = e_policy s" "e_policy_present (drop_assignment flow s) = e_policy_present s"
  "e_flows (drop_assignment flow s) = e_flows s" "e_holders (drop_assignment flow s) = e_holders s"
  "e_migrations (drop_assignment flow s) = e_migrations s" "e_contracts (drop_assignment flow s) = e_contracts s"
  "e_fences (drop_assignment flow s) = e_fences s" "e_watermarks (drop_assignment flow s) = e_watermarks s"
  "e_requests (drop_assignment flow s) = e_requests s" "e_refusal_counts (drop_assignment flow s) = e_refusal_counts s"
  "e_authorizations (drop_assignment flow s) = e_authorizations s"
  "e_recommendations (drop_assignment flow s) = e_recommendations s"
  "e_counters (drop_assignment flow s) = e_counters s"
  "e_next_assignment (drop_assignment flow s) = e_next_assignment s"
  "e_next_recommendation (drop_assignment flow s) = e_next_recommendation s"
  "e_next_authorization (drop_assignment flow s) = e_next_authorization s"
  "e_next_attempt (drop_assignment flow s) = e_next_attempt s" "e_next_fence (drop_assignment flow s) = e_next_fence s"
  "e_store (drop_assignment flow s) = e_store s" "e_recovery (drop_assignment flow s) = e_recovery s"
  by (simp_all add: drop_assignment_def split: option.split)

lemma close_migrations_frame [simp]:
  "e_config (close_migrations sel p r upd s) = e_config s" "e_open (close_migrations sel p r upd s) = e_open s"
  "e_shutting_down (close_migrations sel p r upd s) = e_shutting_down s"
  "e_epoch (close_migrations sel p r upd s) = e_epoch s" "e_boot (close_migrations sel p r upd s) = e_boot s"
  "e_policy_generation (close_migrations sel p r upd s) = e_policy_generation s"
  "e_schedule_generation (close_migrations sel p r upd s) = e_schedule_generation s"
  "e_topology_generation (close_migrations sel p r upd s) = e_topology_generation s"
  "e_policy (close_migrations sel p r upd s) = e_policy s"
  "e_policy_present (close_migrations sel p r upd s) = e_policy_present s"
  "e_flows (close_migrations sel p r upd s) = e_flows s" "e_targets (close_migrations sel p r upd s) = e_targets s"
  "e_assignments (close_migrations sel p r upd s) = e_assignments s"
  "e_holders (close_migrations sel p r upd s) = e_holders s"
  "e_contracts (close_migrations sel p r upd s) = e_contracts s"
  "e_fences (close_migrations sel p r upd s) = e_fences s"
  "e_watermarks (close_migrations sel p r upd s) = e_watermarks s"
  "e_requests (close_migrations sel p r upd s) = e_requests s"
  "e_refusal_counts (close_migrations sel p r upd s) = e_refusal_counts s"
  "e_authorizations (close_migrations sel p r upd s) = e_authorizations s"
  "e_recommendations (close_migrations sel p r upd s) = e_recommendations s"
  "e_next_assignment (close_migrations sel p r upd s) = e_next_assignment s"
  "e_next_recommendation (close_migrations sel p r upd s) = e_next_recommendation s"
  "e_next_authorization (close_migrations sel p r upd s) = e_next_authorization s"
  "e_next_attempt (close_migrations sel p r upd s) = e_next_attempt s"
  "e_next_fence (close_migrations sel p r upd s) = e_next_fence s"
  "e_store (close_migrations sel p r upd s) = e_store s" "e_recovery (close_migrations sel p r upd s) = e_recovery s"
  by (simp_all add: close_migrations_def Let_def)

lemma issue_fence_frame [simp]:
  "e_config (snd (issue_fence_locked f t r i s)) = e_config s" "e_open (snd (issue_fence_locked f t r i s)) = e_open s"
  "e_shutting_down (snd (issue_fence_locked f t r i s)) = e_shutting_down s"
  "e_epoch (snd (issue_fence_locked f t r i s)) = e_epoch s" "e_boot (snd (issue_fence_locked f t r i s)) = e_boot s"
  "e_policy_generation (snd (issue_fence_locked f t r i s)) = e_policy_generation s"
  "e_schedule_generation (snd (issue_fence_locked f t r i s)) = e_schedule_generation s"
  "e_topology_generation (snd (issue_fence_locked f t r i s)) = e_topology_generation s"
  "e_policy (snd (issue_fence_locked f t r i s)) = e_policy s"
  "e_policy_present (snd (issue_fence_locked f t r i s)) = e_policy_present s"
  "e_flows (snd (issue_fence_locked f t r i s)) = e_flows s"
  "e_targets (snd (issue_fence_locked f t r i s)) = e_targets s"
  "e_assignments (snd (issue_fence_locked f t r i s)) = e_assignments s"
  "e_holders (snd (issue_fence_locked f t r i s)) = e_holders s"
  "e_migrations (snd (issue_fence_locked f t r i s)) = e_migrations s"
  "e_contracts (snd (issue_fence_locked f t r i s)) = e_contracts s"
  "e_watermarks (snd (issue_fence_locked f t r i s)) = e_watermarks s"
  "e_requests (snd (issue_fence_locked f t r i s)) = e_requests s"
  "e_refusal_counts (snd (issue_fence_locked f t r i s)) = e_refusal_counts s"
  "e_authorizations (snd (issue_fence_locked f t r i s)) = e_authorizations s"
  "e_recommendations (snd (issue_fence_locked f t r i s)) = e_recommendations s"
  "e_next_assignment (snd (issue_fence_locked f t r i s)) = e_next_assignment s"
  "e_next_recommendation (snd (issue_fence_locked f t r i s)) = e_next_recommendation s"
  "e_next_authorization (snd (issue_fence_locked f t r i s)) = e_next_authorization s"
  "e_next_attempt (snd (issue_fence_locked f t r i s)) = e_next_attempt s"
  "e_store (snd (issue_fence_locked f t r i s)) = e_store s"
  "e_recovery (snd (issue_fence_locked f t r i s)) = e_recovery s"
  by (simp_all add: issue_fence_locked_def Let_def split: prod.split)

lemma demote_assignments_frame [simp]:
  "e_config (demote_assignments t s) = e_config s" "e_open (demote_assignments t s) = e_open s"
  "e_shutting_down (demote_assignments t s) = e_shutting_down s" "e_epoch (demote_assignments t s) = e_epoch s"
  "e_boot (demote_assignments t s) = e_boot s" "e_policy_generation (demote_assignments t s) = e_policy_generation s"
  "e_schedule_generation (demote_assignments t s) = e_schedule_generation s"
  "e_topology_generation (demote_assignments t s) = e_topology_generation s"
  "e_policy (demote_assignments t s) = e_policy s" "e_policy_present (demote_assignments t s) = e_policy_present s"
  "e_flows (demote_assignments t s) = e_flows s" "e_targets (demote_assignments t s) = e_targets s"
  "e_holders (demote_assignments t s) = e_holders s" "e_migrations (demote_assignments t s) = e_migrations s"
  "e_contracts (demote_assignments t s) = e_contracts s" "e_fences (demote_assignments t s) = e_fences s"
  "e_watermarks (demote_assignments t s) = e_watermarks s" "e_requests (demote_assignments t s) = e_requests s"
  "e_refusal_counts (demote_assignments t s) = e_refusal_counts s"
  "e_authorizations (demote_assignments t s) = e_authorizations s"
  "e_recommendations (demote_assignments t s) = e_recommendations s"
  "e_counters (demote_assignments t s) = e_counters s"
  "e_next_assignment (demote_assignments t s) = e_next_assignment s"
  "e_next_recommendation (demote_assignments t s) = e_next_recommendation s"
  "e_next_authorization (demote_assignments t s) = e_next_authorization s"
  "e_next_attempt (demote_assignments t s) = e_next_attempt s" "e_next_fence (demote_assignments t s) = e_next_fence s"
  "e_store (demote_assignments t s) = e_store s" "e_recovery (demote_assignments t s) = e_recovery s"
  by (simp_all add: demote_assignments_def)

lemma adopt_topology_frame [simp]:
  "e_config (adopt_topology t s) = e_config s" "e_open (adopt_topology t s) = e_open s"
  "e_shutting_down (adopt_topology t s) = e_shutting_down s" "e_epoch (adopt_topology t s) = e_epoch s"
  "e_boot (adopt_topology t s) = e_boot s" "e_policy_generation (adopt_topology t s) = e_policy_generation s"
  "e_schedule_generation (adopt_topology t s) = e_schedule_generation s" "e_policy (adopt_topology t s) = e_policy s"
  "e_policy_present (adopt_topology t s) = e_policy_present s" "e_flows (adopt_topology t s) = e_flows s"
  "e_assignments (adopt_topology t s) = e_assignments s" "e_holders (adopt_topology t s) = e_holders s"
  "e_migrations (adopt_topology t s) = e_migrations s" "e_contracts (adopt_topology t s) = e_contracts s"
  "e_fences (adopt_topology t s) = e_fences s" "e_watermarks (adopt_topology t s) = e_watermarks s"
  "e_requests (adopt_topology t s) = e_requests s" "e_refusal_counts (adopt_topology t s) = e_refusal_counts s"
  "e_authorizations (adopt_topology t s) = e_authorizations s"
  "e_recommendations (adopt_topology t s) = e_recommendations s" "e_counters (adopt_topology t s) = e_counters s"
  "e_next_assignment (adopt_topology t s) = e_next_assignment s"
  "e_next_recommendation (adopt_topology t s) = e_next_recommendation s"
  "e_next_authorization (adopt_topology t s) = e_next_authorization s"
  "e_next_attempt (adopt_topology t s) = e_next_attempt s" "e_next_fence (adopt_topology t s) = e_next_fence s"
  "e_store (adopt_topology t s) = e_store s" "e_recovery (adopt_topology t s) = e_recovery s"
  by (simp_all add: adopt_topology_def)

lemma release_attempt_frame [simp]:
  "e_config (release_attempt a s) = e_config s" "e_open (release_attempt a s) = e_open s"
  "e_shutting_down (release_attempt a s) = e_shutting_down s" "e_epoch (release_attempt a s) = e_epoch s"
  "e_boot (release_attempt a s) = e_boot s" "e_policy_generation (release_attempt a s) = e_policy_generation s"
  "e_schedule_generation (release_attempt a s) = e_schedule_generation s"
  "e_topology_generation (release_attempt a s) = e_topology_generation s" "e_policy (release_attempt a s) = e_policy s"
  "e_policy_present (release_attempt a s) = e_policy_present s" "e_flows (release_attempt a s) = e_flows s"
  "e_targets (release_attempt a s) = e_targets s" "e_assignments (release_attempt a s) = e_assignments s"
  "e_migrations (release_attempt a s) = e_migrations s" "e_contracts (release_attempt a s) = e_contracts s"
  "e_fences (release_attempt a s) = e_fences s" "e_watermarks (release_attempt a s) = e_watermarks s"
  "e_requests (release_attempt a s) = e_requests s" "e_refusal_counts (release_attempt a s) = e_refusal_counts s"
  "e_authorizations (release_attempt a s) = e_authorizations s"
  "e_recommendations (release_attempt a s) = e_recommendations s" "e_counters (release_attempt a s) = e_counters s"
  "e_next_assignment (release_attempt a s) = e_next_assignment s"
  "e_next_recommendation (release_attempt a s) = e_next_recommendation s"
  "e_next_authorization (release_attempt a s) = e_next_authorization s"
  "e_next_attempt (release_attempt a s) = e_next_attempt s" "e_next_fence (release_attempt a s) = e_next_fence s"
  "e_store (release_attempt a s) = e_store s" "e_recovery (release_attempt a s) = e_recovery s"
  by (simp_all add: release_attempt_def)

lemma release_attempts_frame [simp]:
  "e_config (foldl (\<lambda>s r. release_attempt (a r) s) s rs) = e_config s"
  "e_open (foldl (\<lambda>s r. release_attempt (a r) s) s rs) = e_open s"
  "e_shutting_down (foldl (\<lambda>s r. release_attempt (a r) s) s rs) = e_shutting_down s"
  "e_epoch (foldl (\<lambda>s r. release_attempt (a r) s) s rs) = e_epoch s"
  "e_boot (foldl (\<lambda>s r. release_attempt (a r) s) s rs) = e_boot s"
  "e_policy_generation (foldl (\<lambda>s r. release_attempt (a r) s) s rs) = e_policy_generation s"
  "e_schedule_generation (foldl (\<lambda>s r. release_attempt (a r) s) s rs) = e_schedule_generation s"
  "e_topology_generation (foldl (\<lambda>s r. release_attempt (a r) s) s rs) = e_topology_generation s"
  "e_policy (foldl (\<lambda>s r. release_attempt (a r) s) s rs) = e_policy s"
  "e_policy_present (foldl (\<lambda>s r. release_attempt (a r) s) s rs) = e_policy_present s"
  "e_flows (foldl (\<lambda>s r. release_attempt (a r) s) s rs) = e_flows s"
  "e_targets (foldl (\<lambda>s r. release_attempt (a r) s) s rs) = e_targets s"
  "e_assignments (foldl (\<lambda>s r. release_attempt (a r) s) s rs) = e_assignments s"
  "e_migrations (foldl (\<lambda>s r. release_attempt (a r) s) s rs) = e_migrations s"
  "e_contracts (foldl (\<lambda>s r. release_attempt (a r) s) s rs) = e_contracts s"
  "e_fences (foldl (\<lambda>s r. release_attempt (a r) s) s rs) = e_fences s"
  "e_watermarks (foldl (\<lambda>s r. release_attempt (a r) s) s rs) = e_watermarks s"
  "e_requests (foldl (\<lambda>s r. release_attempt (a r) s) s rs) = e_requests s"
  "e_refusal_counts (foldl (\<lambda>s r. release_attempt (a r) s) s rs) = e_refusal_counts s"
  "e_authorizations (foldl (\<lambda>s r. release_attempt (a r) s) s rs) = e_authorizations s"
  "e_recommendations (foldl (\<lambda>s r. release_attempt (a r) s) s rs) = e_recommendations s"
  "e_counters (foldl (\<lambda>s r. release_attempt (a r) s) s rs) = e_counters s"
  "e_next_assignment (foldl (\<lambda>s r. release_attempt (a r) s) s rs) = e_next_assignment s"
  "e_next_recommendation (foldl (\<lambda>s r. release_attempt (a r) s) s rs) = e_next_recommendation s"
  "e_next_authorization (foldl (\<lambda>s r. release_attempt (a r) s) s rs) = e_next_authorization s"
  "e_next_attempt (foldl (\<lambda>s r. release_attempt (a r) s) s rs) = e_next_attempt s"
  "e_next_fence (foldl (\<lambda>s r. release_attempt (a r) s) s rs) = e_next_fence s"
  "e_store (foldl (\<lambda>s r. release_attempt (a r) s) s rs) = e_store s"
  "e_recovery (foldl (\<lambda>s r. release_attempt (a r) s) s rs) = e_recovery s"
  by (induction rs arbitrary: s) simp_all

lemma abort_touching_frame [simp]:
  "e_config (abort_touching t s) = e_config s" "e_open (abort_touching t s) = e_open s"
  "e_shutting_down (abort_touching t s) = e_shutting_down s" "e_epoch (abort_touching t s) = e_epoch s"
  "e_boot (abort_touching t s) = e_boot s" "e_policy_generation (abort_touching t s) = e_policy_generation s"
  "e_schedule_generation (abort_touching t s) = e_schedule_generation s"
  "e_topology_generation (abort_touching t s) = e_topology_generation s" "e_policy (abort_touching t s) = e_policy s"
  "e_policy_present (abort_touching t s) = e_policy_present s" "e_flows (abort_touching t s) = e_flows s"
  "e_targets (abort_touching t s) = e_targets s" "e_assignments (abort_touching t s) = e_assignments s"
  "e_contracts (abort_touching t s) = e_contracts s" "e_fences (abort_touching t s) = e_fences s"
  "e_watermarks (abort_touching t s) = e_watermarks s" "e_requests (abort_touching t s) = e_requests s"
  "e_refusal_counts (abort_touching t s) = e_refusal_counts s"
  "e_authorizations (abort_touching t s) = e_authorizations s"
  "e_recommendations (abort_touching t s) = e_recommendations s"
  "e_next_assignment (abort_touching t s) = e_next_assignment s"
  "e_next_recommendation (abort_touching t s) = e_next_recommendation s"
  "e_next_authorization (abort_touching t s) = e_next_authorization s"
  "e_next_attempt (abort_touching t s) = e_next_attempt s" "e_next_fence (abort_touching t s) = e_next_fence s"
  "e_store (abort_touching t s) = e_store s" "e_recovery (abort_touching t s) = e_recovery s"
  by (simp_all add: abort_touching_def)

lemma evict_history_frame [simp]:
  "e_config (evict_history_locked s) = e_config s" "e_open (evict_history_locked s) = e_open s"
  "e_shutting_down (evict_history_locked s) = e_shutting_down s" "e_epoch (evict_history_locked s) = e_epoch s"
  "e_boot (evict_history_locked s) = e_boot s" "e_policy_generation (evict_history_locked s) = e_policy_generation s"
  "e_schedule_generation (evict_history_locked s) = e_schedule_generation s"
  "e_topology_generation (evict_history_locked s) = e_topology_generation s"
  "e_policy (evict_history_locked s) = e_policy s" "e_policy_present (evict_history_locked s) = e_policy_present s"
  "e_flows (evict_history_locked s) = e_flows s" "e_targets (evict_history_locked s) = e_targets s"
  "e_assignments (evict_history_locked s) = e_assignments s" "e_holders (evict_history_locked s) = e_holders s"
  "e_migrations (evict_history_locked s) = e_migrations s" "e_contracts (evict_history_locked s) = e_contracts s"
  "e_fences (evict_history_locked s) = e_fences s" "e_watermarks (evict_history_locked s) = e_watermarks s"
  "e_refusal_counts (evict_history_locked s) = e_refusal_counts s"
  "e_next_assignment (evict_history_locked s) = e_next_assignment s"
  "e_next_recommendation (evict_history_locked s) = e_next_recommendation s"
  "e_next_authorization (evict_history_locked s) = e_next_authorization s"
  "e_next_attempt (evict_history_locked s) = e_next_attempt s" "e_next_fence (evict_history_locked s) = e_next_fence s"
  "e_store (evict_history_locked s) = e_store s" "e_recovery (evict_history_locked s) = e_recovery s"
  by (simp_all add: evict_history_locked_def Let_def split: prod.split)

lemma retire_fence_frame [simp]:
  "e_config (retire_fence f r s) = e_config s" "e_open (retire_fence f r s) = e_open s"
  "e_shutting_down (retire_fence f r s) = e_shutting_down s" "e_epoch (retire_fence f r s) = e_epoch s"
  "e_boot (retire_fence f r s) = e_boot s" "e_policy_generation (retire_fence f r s) = e_policy_generation s"
  "e_schedule_generation (retire_fence f r s) = e_schedule_generation s"
  "e_topology_generation (retire_fence f r s) = e_topology_generation s" "e_policy (retire_fence f r s) = e_policy s"
  "e_policy_present (retire_fence f r s) = e_policy_present s" "e_flows (retire_fence f r s) = e_flows s"
  "e_targets (retire_fence f r s) = e_targets s" "e_assignments (retire_fence f r s) = e_assignments s"
  "e_holders (retire_fence f r s) = e_holders s" "e_migrations (retire_fence f r s) = e_migrations s"
  "e_contracts (retire_fence f r s) = e_contracts s" "e_watermarks (retire_fence f r s) = e_watermarks s"
  "e_requests (retire_fence f r s) = e_requests s" "e_refusal_counts (retire_fence f r s) = e_refusal_counts s"
  "e_authorizations (retire_fence f r s) = e_authorizations s"
  "e_recommendations (retire_fence f r s) = e_recommendations s" "e_counters (retire_fence f r s) = e_counters s"
  "e_next_assignment (retire_fence f r s) = e_next_assignment s"
  "e_next_recommendation (retire_fence f r s) = e_next_recommendation s"
  "e_next_authorization (retire_fence f r s) = e_next_authorization s"
  "e_next_attempt (retire_fence f r s) = e_next_attempt s" "e_next_fence (retire_fence f r s) = e_next_fence s"
  "e_store (retire_fence f r s) = e_store s" "e_recovery (retire_fence f r s) = e_recovery s"
  by (simp_all add: retire_fence_def)

lemma set_effect_frame [simp]:
  "e_config (set_effect f e s) = e_config s" "e_open (set_effect f e s) = e_open s"
  "e_shutting_down (set_effect f e s) = e_shutting_down s" "e_epoch (set_effect f e s) = e_epoch s"
  "e_boot (set_effect f e s) = e_boot s" "e_policy_generation (set_effect f e s) = e_policy_generation s"
  "e_schedule_generation (set_effect f e s) = e_schedule_generation s"
  "e_topology_generation (set_effect f e s) = e_topology_generation s" "e_policy (set_effect f e s) = e_policy s"
  "e_policy_present (set_effect f e s) = e_policy_present s" "e_flows (set_effect f e s) = e_flows s"
  "e_targets (set_effect f e s) = e_targets s" "e_holders (set_effect f e s) = e_holders s"
  "e_migrations (set_effect f e s) = e_migrations s" "e_contracts (set_effect f e s) = e_contracts s"
  "e_fences (set_effect f e s) = e_fences s" "e_watermarks (set_effect f e s) = e_watermarks s"
  "e_requests (set_effect f e s) = e_requests s" "e_refusal_counts (set_effect f e s) = e_refusal_counts s"
  "e_authorizations (set_effect f e s) = e_authorizations s"
  "e_recommendations (set_effect f e s) = e_recommendations s" "e_counters (set_effect f e s) = e_counters s"
  "e_next_assignment (set_effect f e s) = e_next_assignment s"
  "e_next_recommendation (set_effect f e s) = e_next_recommendation s"
  "e_next_authorization (set_effect f e s) = e_next_authorization s"
  "e_next_attempt (set_effect f e s) = e_next_attempt s" "e_next_fence (set_effect f e s) = e_next_fence s"
  "e_store (set_effect f e s) = e_store s" "e_recovery (set_effect f e s) = e_recovery s"
  by (simp_all add: set_effect_def)

lemma set_record_frame [simp]:
  "e_config (set_record a r s) = e_config s" "e_open (set_record a r s) = e_open s"
  "e_shutting_down (set_record a r s) = e_shutting_down s" "e_epoch (set_record a r s) = e_epoch s"
  "e_boot (set_record a r s) = e_boot s" "e_policy_generation (set_record a r s) = e_policy_generation s"
  "e_schedule_generation (set_record a r s) = e_schedule_generation s"
  "e_topology_generation (set_record a r s) = e_topology_generation s" "e_policy (set_record a r s) = e_policy s"
  "e_policy_present (set_record a r s) = e_policy_present s" "e_flows (set_record a r s) = e_flows s"
  "e_targets (set_record a r s) = e_targets s" "e_assignments (set_record a r s) = e_assignments s"
  "e_holders (set_record a r s) = e_holders s" "e_contracts (set_record a r s) = e_contracts s"
  "e_fences (set_record a r s) = e_fences s" "e_watermarks (set_record a r s) = e_watermarks s"
  "e_requests (set_record a r s) = e_requests s" "e_refusal_counts (set_record a r s) = e_refusal_counts s"
  "e_authorizations (set_record a r s) = e_authorizations s"
  "e_recommendations (set_record a r s) = e_recommendations s" "e_counters (set_record a r s) = e_counters s"
  "e_next_assignment (set_record a r s) = e_next_assignment s"
  "e_next_recommendation (set_record a r s) = e_next_recommendation s"
  "e_next_authorization (set_record a r s) = e_next_authorization s"
  "e_next_attempt (set_record a r s) = e_next_attempt s" "e_next_fence (set_record a r s) = e_next_fence s"
  "e_store (set_record a r s) = e_store s" "e_recovery (set_record a r s) = e_recovery s"
  by (simp_all add: set_record_def)

lemma hand_over_frame [simp]:
  "e_config (hand_over ob i s) = e_config s" "e_open (hand_over ob i s) = e_open s"
  "e_shutting_down (hand_over ob i s) = e_shutting_down s" "e_epoch (hand_over ob i s) = e_epoch s"
  "e_boot (hand_over ob i s) = e_boot s" "e_policy_generation (hand_over ob i s) = e_policy_generation s"
  "e_schedule_generation (hand_over ob i s) = e_schedule_generation s"
  "e_topology_generation (hand_over ob i s) = e_topology_generation s" "e_policy (hand_over ob i s) = e_policy s"
  "e_policy_present (hand_over ob i s) = e_policy_present s" "e_flows (hand_over ob i s) = e_flows s"
  "e_targets (hand_over ob i s) = e_targets s" "e_migrations (hand_over ob i s) = e_migrations s"
  "e_contracts (hand_over ob i s) = e_contracts s" "e_fences (hand_over ob i s) = e_fences s"
  "e_watermarks (hand_over ob i s) = e_watermarks s" "e_requests (hand_over ob i s) = e_requests s"
  "e_refusal_counts (hand_over ob i s) = e_refusal_counts s" "e_authorizations (hand_over ob i s) = e_authorizations s"
  "e_recommendations (hand_over ob i s) = e_recommendations s" "e_counters (hand_over ob i s) = e_counters s"
  "e_next_recommendation (hand_over ob i s) = e_next_recommendation s"
  "e_next_authorization (hand_over ob i s) = e_next_authorization s"
  "e_next_attempt (hand_over ob i s) = e_next_attempt s" "e_next_fence (hand_over ob i s) = e_next_fence s"
  "e_store (hand_over ob i s) = e_store s" "e_recovery (hand_over ob i s) = e_recovery s"
  by (simp_all add: hand_over_def Let_def split: option.split)

lemma assign_flow_frame [simp]:
  "e_config (snd (assign_flow r g pc s)) = e_config s" "e_open (snd (assign_flow r g pc s)) = e_open s"
  "e_shutting_down (snd (assign_flow r g pc s)) = e_shutting_down s" "e_epoch (snd (assign_flow r g pc s)) = e_epoch s"
  "e_boot (snd (assign_flow r g pc s)) = e_boot s"
  "e_policy_generation (snd (assign_flow r g pc s)) = e_policy_generation s"
  "e_schedule_generation (snd (assign_flow r g pc s)) = e_schedule_generation s"
  "e_topology_generation (snd (assign_flow r g pc s)) = e_topology_generation s"
  "e_policy (snd (assign_flow r g pc s)) = e_policy s"
  "e_policy_present (snd (assign_flow r g pc s)) = e_policy_present s"
  "e_flows (snd (assign_flow r g pc s)) = e_flows s" "e_targets (snd (assign_flow r g pc s)) = e_targets s"
  "e_migrations (snd (assign_flow r g pc s)) = e_migrations s"
  "e_contracts (snd (assign_flow r g pc s)) = e_contracts s" "e_fences (snd (assign_flow r g pc s)) = e_fences s"
  "e_watermarks (snd (assign_flow r g pc s)) = e_watermarks s" "e_requests (snd (assign_flow r g pc s)) = e_requests s"
  "e_refusal_counts (snd (assign_flow r g pc s)) = e_refusal_counts s"
  "e_authorizations (snd (assign_flow r g pc s)) = e_authorizations s"
  "e_recommendations (snd (assign_flow r g pc s)) = e_recommendations s"
  "e_counters (snd (assign_flow r g pc s)) = e_counters s"
  "e_next_recommendation (snd (assign_flow r g pc s)) = e_next_recommendation s"
  "e_next_authorization (snd (assign_flow r g pc s)) = e_next_authorization s"
  "e_next_attempt (snd (assign_flow r g pc s)) = e_next_attempt s"
  "e_next_fence (snd (assign_flow r g pc s)) = e_next_fence s" "e_store (snd (assign_flow r g pc s)) = e_store s"
  "e_recovery (snd (assign_flow r g pc s)) = e_recovery s"
  by (simp_all add: assign_flow_def Let_def split: option.split)

section \<open>Ordered maps keyed by their records\<close>

definition keyed :: "('v \<Rightarrow> 'k::linorder) \<Rightarrow> ('k, 'v) omap \<Rightarrow> bool" where
  "keyed key m \<longleftrightarrow> om_wf m \<and> list_all (\<lambda>(k, v). key v = k) m"

lemma keyed_iff: "keyed key m \<longleftrightarrow> om_wf m \<and> (\<forall>k v. om_find m k = Some v \<longrightarrow> key v = k)"
  by (auto simp: keyed_def list_all_iff dest: om_find_in_set simp flip: om_in_set_iff)

lemma keyedD: "keyed key m \<Longrightarrow> om_find m k = Some v \<Longrightarrow> key v = k"
  by (simp add: keyed_iff)

lemma keyed_wf [simp]: "keyed key m \<Longrightarrow> om_wf m"
  by (simp add: keyed_def)

lemma keyed_Nil [simp]: "keyed key []"
  by (simp add: keyed_def)

lemma keyed_put: "keyed key m \<Longrightarrow> key v = k \<Longrightarrow> keyed key (om_put k v m)"
  by (simp add: keyed_iff)

lemma keyed_emplace: "keyed key m \<Longrightarrow> key v = k \<Longrightarrow> keyed key (om_emplace k v m)"
  by (simp add: om_emplace_def keyed_put split: option.split)

lemma keyed_erase: "keyed key m \<Longrightarrow> keyed key (om_erase k m)"
  by (simp add: keyed_iff)

lemma keyed_map: "keyed key m \<Longrightarrow> (\<And>k v. om_find m k = Some v \<Longrightarrow> key (f k v) = key v) \<Longrightarrow> keyed key (om_map f m)"
  by (auto simp: keyed_iff)

lemma keyed_modify: "keyed key m \<Longrightarrow> (\<And>v. om_find m k = Some v \<Longrightarrow> key (f v) = k) \<Longrightarrow> keyed key (om_modify k f m)"
  by (auto simp: keyed_iff split: if_splits)

lemma keyed_tl: "keyed key (e # m) \<Longrightarrow> keyed key m"
  by (auto simp: keyed_def om_wf_def)

lemma keyed_evict_front: "keyed key m \<Longrightarrow> keyed key (fst (evict_front n m c))"
  by (induction n m c rule: evict_front.induct) (auto dest: keyed_tl)

lemma keyed_evict_fences: "keyed key m \<Longrightarrow> keyed key (fst (evict_fences n m c))"
proof (induction n m c rule: evict_fences.induct)
  case (1 bound fences c)
  then show ?case
    by (subst evict_fences.simps) (simp add: keyed_erase)
qed

lemmas keyed_intros = keyed_put keyed_emplace keyed_erase keyed_map keyed_modify keyed_evict_front keyed_evict_fences

section \<open>Targets under recomputation\<close>

lemma targets_recompute_induct:
  assumes "P (om_map (\<lambda>k t. t\<lparr>ts_scheduled := cv_zero\<rparr>) (e_targets s))"
    and "\<And>m k v. P m \<Longrightarrow> P (om_modify k (\<lambda>t. t\<lparr>ts_scheduled := v t\<rparr>) m)"
  shows "P (e_targets (recompute_scheduled_locked s))"
proof -
  have "P (foldl (schedule_assignment flows) m as)" if "P m" for flows m as
    using that
  proof (induction as arbitrary: m)
    case (Cons a as)
    then show ?case by (auto simp: schedule_assignment_def assms(2) split: option.split)
  qed simp
  then show ?thesis using assms(1) by (simp add: recompute_scheduled_locked_def)
qed

abbreviation target_key :: "target_state \<Rightarrow> target_id" where
  "target_key t \<equiv> td_target (ts_descriptor t)"

abbreviation attempt_key :: "migration_record \<Rightarrow> migration_attempt_id" where
  "attempt_key r \<equiv> mi_attempt (mr_intent r)"

lemma recompute_find:
  "om_find (e_targets (recompute_scheduled_locked s)) k = None \<longleftrightarrow> om_find (e_targets s) k = None"
  "om_find (e_targets (recompute_scheduled_locked s)) k = Some t' \<Longrightarrow>
     \<exists>t x. om_find (e_targets s) k = Some t \<and> t' = t\<lparr>ts_scheduled := x\<rparr>"
proof -
  let ?P = "\<lambda>m. (om_find m k = None \<longleftrightarrow> om_find (e_targets s) k = None) \<and>
    (\<forall>t'. om_find m k = Some t' \<longrightarrow> (\<exists>t x. om_find (e_targets s) k = Some t \<and> t' = t\<lparr>ts_scheduled := x\<rparr>))"
  have "?P (e_targets (recompute_scheduled_locked s))"
    by (rule targets_recompute_induct) (fastforce split: if_split_asm)+
  then show "om_find (e_targets (recompute_scheduled_locked s)) k = None \<longleftrightarrow> om_find (e_targets s) k = None"
    and "om_find (e_targets (recompute_scheduled_locked s)) k = Some t' \<Longrightarrow>
     \<exists>t x. om_find (e_targets s) k = Some t \<and> t' = t\<lparr>ts_scheduled := x\<rparr>" by simp_all
qed

section \<open>Well-formed maps\<close>

definition maps_ok :: "impl \<Rightarrow> bool" where
  "maps_ok s \<longleftrightarrow>
     keyed fd_flow (e_flows s) \<and> keyed target_key (e_targets s) \<and> keyed as_flow (e_assignments s) \<and>
     om_wf (e_holders s) \<and> keyed attempt_key (e_migrations s) \<and> keyed mc_id (e_contracts s) \<and>
     keyed fr_id (e_fences s) \<and> keyed sw_source (e_watermarks s) \<and> keyed rr_request (e_requests s) \<and>
     om_wf (e_refusal_counts s) \<and> keyed auth_id (e_authorizations s) \<and> keyed rec_id (e_recommendations s)"

end
