(* ===== verification/EngineEffects.thy ===== *)
theory EngineEffects
  imports EngineFrame
begin

text \<open>
  The engine as a transition system.  \<open>operation\<close> lists the mutating calls of the public interface
  and \<open>execute\<close> runs one.  \<open>effect\<close> is the specification the operations are held to: one rule per
  kind of state change, each with the guard under which the code makes that change.  Every
  operation is a sequence of effects (\<open>execute_effects\<close>), so an invariant is proved once per
  effect.
\<close>

section \<open>Operations\<close>

datatype operation =
    RegisterFlow flow_descriptor
  | RemoveFlow flow_id flow_generation
  | DeclareTarget target_descriptor
  | RemoveTarget target_id target_incarnation timestamp
  | IngestLoad load_evidence timestamp
  | SetPolicy policy
  | SetTopologyGeneration topology_generation
  | RegisterContract migration_contract
  | Place placement_request
  | Rebalance rebalance_request
  | Authorize recommendation_id timestamp
  | Revoke authorization_id
  | IssueIntent authorization migration_intent
  | Acknowledge migration_acknowledgement
  | ReportApplied applied_effect
  | Observe effect_observation
  | AbortMigration migration_attempt_id reason timestamp

fun execute :: "operation \<Rightarrow> impl \<Rightarrow> status \<times> impl" where
  "execute (RegisterFlow f) s = register_flow f s"
| "execute (RemoveFlow f g) s = remove_flow f g s"
| "execute (DeclareTarget t) s = declare_target t s"
| "execute (RemoveTarget t i n) s = remove_target t i n s"
| "execute (IngestLoad e n) s = ingest_load e n s"
| "execute (SetPolicy p) s = set_policy p s"
| "execute (SetTopologyGeneration g) s = set_topology_generation g s"
| "execute (RegisterContract c) s = register_migration_contract c s"
| "execute (Place r) s = (let (res, s') = place_locked r s in (res_status res, s'))"
| "execute (Rebalance r) s = (let (rep, s') = rebalance_locked r s in (rep_status rep, s'))"
| "execute (Authorize r n) s = (let (st, out, s') = authorize r n s in (st, s'))"
| "execute (Revoke a) s = revoke_authorization a s"
| "execute (IssueIntent a i) s = (let (st, out, s') = issue_intent a i s in (st, s'))"
| "execute (Acknowledge a) s = acknowledge a s"
| "execute (ReportApplied e) s = report_applied e s"
| "execute (Observe ob) s = observe ob s"
| "execute (AbortMigration a r n) s = abort_migration a r n s"

section \<open>Effects\<close>

inductive effect :: "impl \<Rightarrow> impl \<Rightarrow> bool" where
  counters: "effect s (s\<lparr>e_counters := c\<rparr>)"
| refusals: "effect s (record_refusal_locked code s)"
| stored: "effect s (s\<lparr>e_store := st\<rparr>)"
| flow_added: "om_find (e_flows s) (fd_flow f) = None \<Longrightarrow> length (e_flows s) < ec_max_flows (e_config s) \<Longrightarrow>
    effect s (s\<lparr>e_flows := om_emplace (fd_flow f) f (e_flows s)\<rparr>)"
| flow_superseded: "om_find (e_flows s) (fd_flow f) = Some old \<Longrightarrow> fd_generation old < fd_generation f \<Longrightarrow>
    effect s (supersede_flow f old s)"
| flow_retired: "om_find (e_flows s) flow = Some old \<Longrightarrow> effect s (retire_flow flow old s)"
| target_added: "om_find (e_targets s) (td_target t) = None \<Longrightarrow> length (e_targets s) < ec_max_targets (e_config s) \<Longrightarrow>
    effect s (s\<lparr>e_targets := om_emplace (td_target t)
      (target_state_default\<lparr>ts_descriptor := t, ts_declared := True\<rparr>) (e_targets s)\<rparr>)"
| target_refreshed: "om_find (e_targets s) (td_target t) = Some old \<Longrightarrow> same_target_identity (ts_descriptor old) t \<Longrightarrow>
    effect s (s\<lparr>e_targets := om_modify (td_target t) (\<lambda>x. x\<lparr>ts_descriptor := t, ts_declared := True\<rparr>) (e_targets s)\<rparr>)"
| capabilities_advanced: "om_find (e_targets s) (td_target t) = Some old \<Longrightarrow>
    td_incarnation t = td_incarnation (ts_descriptor old) \<Longrightarrow>
    td_capability_generation (ts_descriptor old) < td_capability_generation t \<Longrightarrow> effect s (advance_capabilities t s)"
| incarnation_advanced: "om_find (e_targets s) (td_target t) = Some old \<Longrightarrow>
    td_incarnation (ts_descriptor old) < td_incarnation t \<Longrightarrow> effect s (advance_incarnation t s)"
| topology_adopted: "effect s (recompute_scheduled_locked (adopt_topology t s))"
| target_retired: "om_find (e_targets s) t = Some old \<Longrightarrow> effect s (retire_target t instant s)"
| watermark_raised: "effect s (s\<lparr>e_watermarks := om_put (le_source e)
    (raise_watermark e (om_at (le_source e) source_watermark_default (e_watermarks s))) (e_watermarks s)\<rparr>)"
| evidence_recorded: "om_find (e_targets s) (le_target e) = Some t \<Longrightarrow> le_incarnation e = td_incarnation (ts_descriptor t) \<Longrightarrow>
    ts_has_load t \<longrightarrow> le_observed_at (ts_load t) \<le> le_observed_at e \<Longrightarrow> effect s (record_evidence e t s)"
| policy_set: "e_policy_present s \<longrightarrow> e_policy_generation s < pol_generation p \<Longrightarrow>
    effect s (s\<lparr>e_policy := canonicalize p, e_policy_present := True, e_policy_generation := pol_generation p\<rparr>)"
| topology_set: "e_topology_generation s < g \<Longrightarrow>
    effect s (s\<lparr>e_topology_generation := g, e_targets := om_map (\<lambda>k t.
      if td_topology_generation (ts_descriptor t) < g then undeclare t else t) (e_targets s)\<rparr>)"
| contract_added: "om_find (e_contracts s) (mc_id c) = None \<Longrightarrow> length (e_contracts s) < ec_max_contracts (e_config s) \<Longrightarrow>
    effect s (s\<lparr>e_contracts := om_emplace (mc_id c) c (e_contracts s)\<rparr>)"
| granted: "authorize_refusal rec s = ReasonOk \<Longrightarrow> effect s (snd (grant rec instant s))"
| revoked: "om_find (e_authorizations s) auth = Some a \<Longrightarrow> effect s (revoke auth a s)"
| migration_begun: "om_find (e_authorizations s) auth = Some stored \<Longrightarrow>
    auth_outcome stored = AcceptedAuthorizationGranted \<Longrightarrow> auth_epoch stored = e_epoch s \<Longrightarrow> auth_boot stored = e_boot s \<Longrightarrow>
    om_find (e_flows s) (auth_flow stored) = Some f \<Longrightarrow> om_find (e_assignments s) (auth_flow stored) = Some source \<Longrightarrow>
    intent_destination_refusal inout f source s = ReasonOk \<Longrightarrow> intent_contract stored f inout s = Inr c \<Longrightarrow>
    effect s (snd (begin_migration stored f source c inout s))"
| migration_declined: "om_find (e_migrations s) (ack_attempt a) = Some r \<Longrightarrow>
    ack_authority_refusal a r s = ReasonOk \<Longrightarrow> effect s (decline_migration a r s)"
| migration_agreed: "om_find (e_migrations s) (ack_attempt a) = Some r \<Longrightarrow> ack_authority_refusal a r s = ReasonOk \<Longrightarrow>
    ack_target_refusal a r = ReasonOk \<Longrightarrow> ack_accepted a \<Longrightarrow>
    phase_of r = (if ack_actor a = Source then IntentIssued else SourceAcknowledged) \<Longrightarrow> effect s (agree_migration a r s)"
| effect_applied: "om_find (e_migrations s) (ae_attempt e) = Some r \<Longrightarrow> \<not> mr_effect_applied r \<Longrightarrow>
    applied_refusal e r s = ReasonOk \<Longrightarrow> effect s (apply_effect e r s)"
| record_touched: "r \<in> set (attempts_of flow s) \<Longrightarrow>
    effect s (s\<lparr>e_migrations := om_emplace (mi_attempt (mr_intent r)) migration_record_default (e_migrations s)\<rparr>)"
| migration_completed: "om_find (e_migrations s) attempt = Some r \<Longrightarrow> observation_refusal ob r = ReasonOk \<Longrightarrow>
    effect s (complete_migration ob attempt r s)"
| migration_aborted: "om_find (e_migrations s) attempt = Some r \<Longrightarrow> \<not> phase_terminal (phase_of r) \<Longrightarrow>
    effect s (abort_attempt attempt reason r s)"
| schedule_published: "e_schedule_generation s + 1 \<noteq> 0 \<Longrightarrow>
    effect s (recompute_scheduled_locked (s\<lparr>e_schedule_generation := e_schedule_generation s + 1\<rparr>))"
| recommendation_numbered: "effect s (s\<lparr>e_next_recommendation := saturating_increment (e_next_recommendation s)\<rparr>)"
| recommended: "effect s (s\<lparr>e_recommendations := om_emplace (rec_id r) r (e_recommendations s)\<rparr>)"
| assigned: "om_find (e_flows s) (pc_flow pc) = Some f \<Longrightarrow> fd_generation f = pc_generation pc \<Longrightarrow>
    om_find (e_targets s) (pc_target pc) = Some t \<Longrightarrow> is_live t \<Longrightarrow> td_incarnation (ts_descriptor t) = pc_incarnation pc \<Longrightarrow>
    published = e_schedule_generation s \<Longrightarrow> effect s (snd (assign_flow request published pc s))"
| request_recorded: "effect s (evict_history_locked (s\<lparr>e_requests := om_put (rr_request r) r (e_requests s)\<rparr>))"

abbreviation effects :: "impl \<Rightarrow> impl \<Rightarrow> bool" where
  "effects \<equiv> effect\<^sup>*\<^sup>*"

lemma effects_step [intro]: "effect s t \<Longrightarrow> effects s t"
  by (rule r_into_rtranclp)

lemma effects_trans: "effects s t \<Longrightarrow> effects t u \<Longrightarrow> effects s u"
  by (rule rtranclp_trans)

section \<open>Bookkeeping\<close>

lemma effects_bump [intro, simp]: "effects s (bump upd s)"
  unfolding bump_def by (rule effects_step, rule counters)

lemma effects_then_bump: "effects s t \<Longrightarrow> effects s (bump upd t)"
  by (erule effects_trans) (rule effects_bump)

lemma record_refusal_locked_alt:
  "\<exists>m c. record_refusal_locked code s = s\<lparr>e_refusal_counts := m, e_counters := c\<rparr>"
  unfolding record_refusal_locked_def bump_def Let_def
  by (cases "om_find (e_refusal_counts s) (reason_value code)") auto

lemma effects_record_refusal [intro, simp]: "effects s (record_refusal_locked code s)"
  by (rule effects_step, rule refusals)

lemma persist_locked_frame:
  "\<exists>c st. snd (persist_locked s) = s\<lparr>e_counters := c, e_store := st\<rparr>"
proof (cases "ec_persistence_enabled (e_config s)")
  case True
  have swap: "s\<lparr>e_store := st, e_counters := c\<rparr> = s\<lparr>e_counters := c, e_store := st\<rparr>" for c st by simp
  from True show ?thesis
    by (auto simp: persist_locked_def Let_def bump_def swap split: prod.split)
next
  case False
  then have "snd (persist_locked s) = s\<lparr>e_counters := e_counters s, e_store := e_store s\<rparr>"
    by (simp add: persist_locked_def)
  then show ?thesis by blast
qed

lemma effects_persist [intro, simp]: "effects s (snd (persist_locked s))"
proof -
  obtain c st where "snd (persist_locked s) = s\<lparr>e_counters := c, e_store := st\<rparr>"
    using persist_locked_frame by blast
  moreover have "effect (s\<lparr>e_counters := c\<rparr>) (s\<lparr>e_counters := c, e_store := st\<rparr>)"
    using stored [of "s\<lparr>e_counters := c\<rparr>" st] by simp
  ultimately show ?thesis
    using counters [of s c] by (metis effects_step effects_trans)
qed

lemma snd_persist_then: "snd (persist_then outcome s) = snd (persist_locked s)"
  by (simp add: persist_then_def split: prod.split)

lemma effects_persist_then: "effects s t \<Longrightarrow> effects s (snd (persist_then outcome t))"
  by (simp add: snd_persist_then effects_trans [OF _ effects_persist])

lemmas effects_intros = effects_persist_then effects_then_bump
lemmas order_simps = not_le not_less le_less

section \<open>Every operation is a sequence of effects\<close>

lemma register_flow_effects: "effects s (snd (register_flow f s))"
  unfolding register_flow_def
  by (auto simp: order_simps split: option.split intro!: effects_intros intro: effect.intros)

lemma remove_flow_effects: "effects s (snd (remove_flow f g s))"
  unfolding remove_flow_def
  by (auto simp: order_simps split: option.split intro!: effects_intros intro: effect.intros)

lemma finish_declaration_effects: "effects s t \<Longrightarrow> effects s (snd (finish_declaration d outcome t))"
  unfolding finish_declaration_def
  by (rule effects_persist_then) (rule effects_trans, assumption, rule effects_step, rule topology_adopted)

lemma declare_target_effects: "effects s (snd (declare_target t s))"
proof (cases "om_find (e_targets s) (td_target t)")
  case None
  then show ?thesis unfolding declare_target_def
    by (auto simp: not_le intro!: finish_declaration_effects effects_intros intro: effect.intros)
next
  case (Some old)
  show ?thesis unfolding declare_target_def Let_def Some option.case
    by (auto simp: order_simps intro!: finish_declaration_effects
        intro: effects_step [OF target_refreshed [OF Some]] effects_step [OF capabilities_advanced [OF Some]]
          effects_step [OF incarnation_advanced [OF Some]])
qed

lemma remove_target_effects: "effects s (snd (remove_target t i n s))"
  unfolding remove_target_def
  by (auto simp: order_simps split: option.split intro!: effects_intros intro: effect.intros)

lemma ingest_load_effects: "effects s (snd (ingest_load e n s))"
  unfolding ingest_load_def
  by (auto simp: not_le not_less split: option.split intro!: effects_then_bump intro: effect.intros)

lemma pol_generation_canonicalize: "pol_generation (canonicalize p) = pol_generation p"
  by (simp add: canonicalize_def Let_def)

lemma set_policy_effects: "effects s (snd (set_policy p s))"
proof (cases "e_policy_present s \<longrightarrow> e_policy_generation s < pol_generation p")
  case True
  then have "effects s (snd (persist_then AcceptedPolicyApplied (s\<lparr>e_policy := canonicalize p,
      e_policy_present := True, e_policy_generation := pol_generation p\<rparr>)))"
    by (intro effects_intros effects_step policy_set)
  moreover have "\<not> (e_policy_present s \<and> pol_generation p < e_policy_generation s)"
      "\<not> (e_policy_present s \<and> pol_generation p = e_policy_generation s)"
    using True by auto
  ultimately show ?thesis
    by (simp add: set_policy_def Let_def pol_generation_canonicalize)
next
  case False
  then have "e_policy_present s" "\<not> pol_generation p < e_policy_generation s \<longrightarrow>
      pol_generation p = e_policy_generation s"
    by auto
  then show ?thesis by (simp add: set_policy_def Let_def pol_generation_canonicalize)
qed

lemma set_topology_generation_effects: "effects s (snd (set_topology_generation g s))"
  unfolding set_topology_generation_def
  by (auto simp: order_simps intro!: effects_intros intro: effect.intros)

lemma register_migration_contract_effects: "effects s (snd (register_migration_contract c s))"
  unfolding register_migration_contract_def
  by (auto simp: order_simps split: option.split intro!: effects_intros intro: effect.intros)

lemma authorize_effects: "effects s (snd (snd (authorize r n s)))"
proof -
  have "effects s (record_refusal_locked code (bump upd s))" for code upd
    by (rule effects_trans [OF effects_bump effects_record_refusal])
  moreover have "effects s t" if "authorize_refusal rec s = ReasonOk" "grant rec n s = (a, t)" for rec a t
    using effects_step [OF granted [OF that(1), of n]] that(2) by simp
  ultimately show ?thesis
    unfolding authorize_def Let_def
    by (auto split: option.split prod.split)
qed

lemma revoke_authorization_effects: "effects s (snd (revoke_authorization a s))"
  unfolding revoke_authorization_def
  by (auto split: option.split intro: effect.intros)

lemma issue_intent_effects: "effects s (snd (snd (issue_intent a i s)))"
proof -
  have persist: "effects s (snd (persist_locked t))" if "effect s t" for t
    using effects_step [OF that] by (rule effects_trans) simp
  show ?thesis
    unfolding issue_intent_def Let_def
    by (auto split: option.split sum.split prod.split dest: persist [OF migration_begun])
qed

lemma record_acknowledgement_effects:
  assumes "effects s (decline_migration a r s)" "ack_accepted a \<Longrightarrow> effects s (agree_migration a r s)"
  shows "effects s (snd (record_acknowledgement a r s))"
proof -
  have "effects s (snd (persist_locked (decline_migration a r s)))"
    using assms(1) by (rule effects_trans) simp
  then show ?thesis
    unfolding record_acknowledgement_def
    using assms(2) by (auto split: prod.split intro!: effects_persist_then)
qed

lemma acknowledge_effects: "effects s (snd (acknowledge a s))"
proof (cases "om_find (e_migrations s) (ack_attempt a)")
  case (Some r)
  show ?thesis unfolding acknowledge_def Some Let_def option.case
    by (auto intro!: record_acknowledgement_effects
        intro: effects_step [OF migration_declined [OF Some]] effects_step [OF migration_agreed [OF Some]])
qed (simp add: acknowledge_def)

lemma report_applied_effects: "effects s (snd (report_applied e s))"
  unfolding report_applied_def Let_def
  by (auto split: option.split intro!: effects_persist_then intro: effect.intros)

lemma abort_migration_effects: "effects s (snd (abort_migration a r n s))"
  unfolding abort_migration_def Let_def
  by (auto split: option.split intro!: effects_persist_then
      intro: effects_step [OF migration_aborted [unfolded phase_terminal_def]])

lemma observe_effects: "effects s (snd (observe ob s))"
proof (cases "attempts_of (eo_flow ob) s")
  case (Cons c cs)
  show ?thesis
  proof (cases cs)
    case Nil
    let ?t = "s\<lparr>e_migrations := om_emplace (mi_attempt (mr_intent c)) migration_record_default (e_migrations s)\<rparr>"
    let ?r = "om_at (mi_attempt (mr_intent c)) migration_record_default (e_migrations ?t)"
    have touch: "effects s ?t" using Cons by (intro effects_step record_touched [where flow = "eo_flow ob"]) simp
    have find: "om_find (e_migrations ?t) (mi_attempt (mr_intent c)) = Some ?r"
      by (auto simp: om_at_def om_find_emplace split: option.split)
    have finish: "effects s (complete_migration ob (mi_attempt (mr_intent c)) ?r ?t)"
      if "observation_refusal ob ?r = ReasonOk"
      by (rule effects_trans [OF touch]) (rule effects_step, rule migration_completed [OF find that])
    show ?thesis
      using finish by (simp add: observe_def Cons Nil Let_def effects_persist_then effects_then_bump touch)
  qed (simp add: observe_def Cons)
qed (simp add: observe_def)

section \<open>Placement as effects\<close>

text \<open>Deciding a batch changes nothing but the counters and the refusal statistics.\<close>

definition only_counts :: "impl \<Rightarrow> impl \<Rightarrow> bool" where
  "only_counts s t \<longleftrightarrow> (\<exists>c m. t = s\<lparr>e_counters := c, e_refusal_counts := m\<rparr>) \<and> effects s t"

lemma only_counts_refl [simp]: "only_counts s s"
  unfolding only_counts_def
  by (rule conjI, rule exI [of _ "e_counters s"], rule exI [of _ "e_refusal_counts s"]) simp_all

lemma only_counts_trans: "only_counts s t \<Longrightarrow> only_counts t u \<Longrightarrow> only_counts s u"
  unfolding only_counts_def by (fastforce intro: effects_trans)

lemma only_counts_bump [simp]: "only_counts s (bump upd s)"
proof -
  have "bump upd s = s\<lparr>e_counters := upd saturating_increment (e_counters s), e_refusal_counts := e_refusal_counts s\<rparr>"
    by (simp add: bump_def)
  then show ?thesis unfolding only_counts_def using effects_bump by blast
qed

lemma only_counts_record_refusal [simp]: "only_counts s (record_refusal_locked code s)"
proof -
  obtain m c where "record_refusal_locked code s = s\<lparr>e_refusal_counts := m, e_counters := c\<rparr>"
    using record_refusal_locked_alt by blast
  also have "\<dots> = s\<lparr>e_counters := c, e_refusal_counts := m\<rparr>" by simp
  finally show ?thesis unfolding only_counts_def using effects_record_refusal by blast
qed

lemma only_counts_effects: "only_counts s t \<Longrightarrow> effects s t"
  by (simp add: only_counts_def)

lemma only_counts_fields:
  assumes "only_counts s t"
  shows "e_config t = e_config s" "e_open t = e_open s" "e_epoch t = e_epoch s" "e_boot t = e_boot s"
    "e_policy t = e_policy s" "e_policy_generation t = e_policy_generation s" "e_policy_present t = e_policy_present s"
    "e_schedule_generation t = e_schedule_generation s" "e_topology_generation t = e_topology_generation s"
    "e_flows t = e_flows s" "e_targets t = e_targets s" "e_assignments t = e_assignments s"
    "e_holders t = e_holders s" "e_migrations t = e_migrations s" "e_requests t = e_requests s"
    "e_next_assignment t = e_next_assignment s" "e_store t = e_store s"
  using assms by (auto simp: only_counts_def)

lemma refuse_item_state [simp]: "only_counts (b_state b) (b_state (refuse_item p b))"
  unfolding refuse_item_def
  by (simp add: only_counts_trans [OF only_counts_bump only_counts_record_refusal])

lemma plan_move_state [simp]: "b_state (plan_move f c t b) = b_state b"
  by (simp add: plan_move_def Let_def split: option.split)

lemma accept_item_state [simp]: "only_counts (b_state b) (b_state (accept_item f c v fb p b))"
  unfolding accept_item_def Let_def
  by (auto intro: only_counts_trans [OF only_counts_bump] only_counts_trans [OF only_counts_bump only_counts_bump])

lemma place_item_state: "only_counts (b_state b) (b_state (place_item r n b i))"
  unfolding place_item_def Let_def refuse_unplaced_def
  by (auto split: option.split prod.split)

lemma place_items_state: "only_counts (b_state b) (b_state (foldl (place_item r n) b items))"
proof (induction items arbitrary: b)
  case (Cons i items)
  show ?case using only_counts_trans [OF place_item_state Cons.IH] by simp
qed simp

text \<open>The fields a pending commit relies on, which no commit of the batch changes.\<close>

definition same_inputs :: "impl \<Rightarrow> impl \<Rightarrow> bool" where
  "same_inputs s t \<longleftrightarrow> e_flows t = e_flows s \<and> e_targets t = e_targets s \<and> e_schedule_generation t = e_schedule_generation s"

definition commit_ready :: "impl \<Rightarrow> pending_commit \<Rightarrow> bool" where
  "commit_ready s pc \<longleftrightarrow>
     (\<exists>f. om_find (e_flows s) (pc_flow pc) = Some f \<and> fd_generation f = pc_generation pc) \<and>
     (\<exists>t. om_find (e_targets s) (pc_target pc) = Some t \<and> is_live t \<and> td_incarnation (ts_descriptor t) = pc_incarnation pc)"

lemma commit_ready_cong: "same_inputs s t \<Longrightarrow> commit_ready t pc = commit_ready s pc"
  by (simp add: same_inputs_def commit_ready_def)

lemma placeable_ready:
  assumes "keyed fd_flow (e_flows s)" "keyed target_key (e_targets s)" "placeable s pc"
  shows "commit_ready s pc"
proof -
  obtain k f k' t where f: "om_find (e_flows s) k = Some f" "fd_flow f = pc_flow pc" "fd_generation f = pc_generation pc"
    and t: "(k', t) \<in> set (e_targets s)" "is_live t" "td_target (ts_descriptor t) = pc_target pc"
      "td_incarnation (ts_descriptor t) = pc_incarnation pc"
    using assms(3) by (auto simp: placeable_def)
  have "k = pc_flow pc" using keyedD [OF assms(1) f(1)] f(2) by simp
  moreover have find: "om_find (e_targets s) k' = Some t" using t(1) assms(2) by (simp add: om_in_set_iff)
  moreover have "k' = pc_target pc" using keyedD [OF assms(2) find] t(3) by simp
  ultimately show ?thesis using f t by (auto simp: commit_ready_def)
qed

lemma commit_ready_recompute:
  assumes "commit_ready s pc"
  shows "commit_ready (recompute_scheduled_locked (s\<lparr>e_schedule_generation := g\<rparr>)) pc"
proof -
  obtain t where t: "om_find (e_targets s) (pc_target pc) = Some t" "is_live t"
      "td_incarnation (ts_descriptor t) = pc_incarnation pc"
    using assms by (auto simp: commit_ready_def)
  then obtain t' where t': "om_find (e_targets (recompute_scheduled_locked (s\<lparr>e_schedule_generation := g\<rparr>))) (pc_target pc) = Some t'"
    using recompute_find(1) [of "s\<lparr>e_schedule_generation := g\<rparr>" "pc_target pc"] by fastforce
  then have "is_live t'" "td_incarnation (ts_descriptor t') = pc_incarnation pc"
    using recompute_find(2) [OF t'] t by (auto simp: is_live_def)
  then show ?thesis using assms t' by (simp add: commit_ready_def)
qed

lemma commit_pending_inputs: "same_inputs (snd acc) (snd (commit_pending r g acc pc))"
  by (simp add: commit_pending_def same_inputs_def Let_def split_beta)

lemma commit_pending_effects:
  assumes "commit_ready (snd acc) pc" "g = e_schedule_generation (snd acc)"
  shows "effects (snd acc) (snd (commit_pending r g acc pc))"
proof -
  let ?s = "snd acc"
  let ?s1 = "?s\<lparr>e_next_recommendation := saturating_increment (e_next_recommendation ?s)\<rparr>"
  define s2 where "s2 = (if pc_retained pc then ?s1 else snd (assign_flow r g pc ?s1))"
  have "effects ?s ?s1" by (rule effects_step, rule recommendation_numbered)
  moreover have "effects ?s1 s2"
  proof (cases "pc_retained pc")
    case False
    obtain f t where "om_find (e_flows ?s1) (pc_flow pc) = Some f" "fd_generation f = pc_generation pc"
        "om_find (e_targets ?s1) (pc_target pc) = Some t" "is_live t" "td_incarnation (ts_descriptor t) = pc_incarnation pc"
      using assms(1) by (auto simp: commit_ready_def)
    from assigned [OF this] False show ?thesis using assms(2) by (auto simp: s2_def)
  qed (simp add: s2_def)
  moreover have "effects s2 (s2\<lparr>e_recommendations := om_emplace (rec_id c) c (e_recommendations s2)\<rparr>)" for c
    by (rule effects_step, rule recommended)
  ultimately have "effects ?s (bump upd (s2\<lparr>e_recommendations := om_emplace (rec_id c) c (e_recommendations s2)\<rparr>))" for c upd
    by (meson effects_trans effects_then_bump)
  then show ?thesis
    unfolding commit_pending_def Let_def s2_def by (auto split: prod.split)
qed

lemma commit_all_effects:
  assumes "\<forall>pc \<in> set pcs. commit_ready (snd acc) pc" "g = e_schedule_generation (snd acc)"
  shows "effects (snd acc) (snd (foldl (commit_pending r g) acc pcs))"
  using assms
proof (induction pcs arbitrary: acc)
  case (Cons pc pcs)
  have same: "same_inputs (snd acc) (snd (commit_pending r g acc pc))" by (rule commit_pending_inputs)
  have "effects (snd (commit_pending r g acc pc)) (snd (foldl (commit_pending r g) (commit_pending r g acc pc) pcs))"
    using Cons.prems same commit_ready_cong [OF same]
    by (intro Cons.IH) (simp_all add: same_inputs_def)
  moreover have "effects (snd acc) (snd (commit_pending r g acc pc))"
    using Cons.prems by (intro commit_pending_effects) simp_all
  ultimately show ?case using effects_trans by simp
qed simp

lemma only_counts_placeable: "only_counts s t \<Longrightarrow> placeable t pc = placeable s pc"
  unfolding placeable_def by (simp add: only_counts_fields)

lemma place_items_commits:
  "pc \<in> set (b_commits (foldl (place_item r n) b items)) \<Longrightarrow> pc \<in> set (b_commits b) \<or> placeable (b_state b) pc"
proof (induction items arbitrary: b)
  case (Cons i items)
  then have "pc \<in> set (b_commits (place_item r n b i)) \<or> placeable (b_state (place_item r n b i)) pc" by simp
  then show ?case
    using place_item_commits only_counts_placeable [OF place_item_state] by blast
qed simp

lemma publish_effects: "effects s (snd (publish r c g m res s))"
proof -
  have "effects s (snd (persist_locked (evict_history_locked (s\<lparr>e_requests := om_put (rr_request q) q (e_requests s)\<rparr>))))" for q
    by (rule effects_trans [OF effects_step [OF request_recorded] effects_persist])
  from this [of "\<lparr>rr_request = pr_request r, rr_request_digest = _, rr_result_digest = _,
      rr_schedule_generation = _, rr_outcome = _\<rparr>"]
  show ?thesis unfolding publish_def Let_def by simp
qed

lemma place_batch_effects:
  assumes "maps_ok s"
  shows "effects s (snd (place_batch r items res s))"
proof -
  define b where "b = foldl (place_item r (unat (alternatives_limit r s))) (batch_new s) items"
  define commit_now where "commit_now \<longleftrightarrow> b_any_change b \<and> \<not> pr_dry_run r"
  define g where "g = (if commit_now then e_schedule_generation (b_state b) + 1 else e_schedule_generation (b_state b))"
  define s1 where "s1 = (if commit_now then recompute_scheduled_locked ((b_state b)\<lparr>e_schedule_generation := g\<rparr>) else b_state b)"
  define acc where "acc = (if pr_dry_run r then (b_placements b, s1) else foldl (commit_pending r g) (b_placements b, s1) (b_commits b))"
  have b: "effects s (b_state b)"
    using only_counts_effects [OF place_items_state, of "batch_new s"] by (simp add: b_def batch_new_def)
  have 1: "effects (b_state b) s1" if "\<not> (commit_now \<and> \<not> is_valid g)"
    using that by (auto simp: s1_def g_def is_valid_def intro: schedule_published)
  have same: "only_counts s (b_state b)"
    using place_items_state [of "batch_new s"] by (simp add: b_def batch_new_def)
  have "placeable (b_state b) pc" if "pc \<in> set (b_commits b)" for pc
    using that place_items_commits [of pc r "unat (alternatives_limit r s)" "batch_new s" items]
      only_counts_placeable [OF same] by (simp add: b_def batch_new_def)
  then have ready: "commit_ready (b_state b) pc" if "pc \<in> set (b_commits b)" for pc
    using that assms by (intro placeable_ready) (simp_all add: only_counts_fields [OF same] maps_ok_def)
  have "commit_ready s1 pc" if "pc \<in> set (b_commits b)" for pc
    using ready [OF that] commit_ready_recompute by (simp add: s1_def)
  moreover have "g = e_schedule_generation s1" by (simp add: s1_def g_def)
  ultimately have 2: "effects s1 (snd acc)"
    using commit_all_effects [of "b_commits b" "(b_placements b, s1)"] by (auto simp: acc_def)
  have pb: "place_batch r items res s =
      (if commit_now \<and> \<not> is_valid g then (res\<lparr>res_placements := b_placements b, res_status := RejectedInternalInvariant\<rparr>,
         record_refusal_locked RejectedInternalInvariant (b_state b))
       else publish r (b_any_change b) g (b_refusals b) (res\<lparr>res_placements := fst acc\<rparr>) (snd acc))"
    unfolding place_batch_def Let_def b_def [symmetric] commit_now_def [symmetric] g_def [symmetric]
      s1_def [symmetric] acc_def [symmetric]
    by (simp add: split_beta)
  show ?thesis
  proof (cases "commit_now \<and> \<not> is_valid g")
    case True
    then show ?thesis using effects_trans [OF b effects_record_refusal] by (simp add: pb)
  next
    case False
    from effects_trans [OF effects_trans [OF effects_trans [OF b 1 [OF False]] 2] publish_effects] False
    show ?thesis unfolding pb by auto
  qed
qed

lemma place_locked_effects: "maps_ok s \<Longrightarrow> effects s (snd (place_locked r s))"
  unfolding place_locked_def Let_def
  by (auto simp: place_batch_effects split: option.split)

lemma rebalance_locked_effects: "effects s (snd (rebalance_locked r s))"
proof -
  have "effects s (snd (persist_locked (s\<lparr>e_counters := c\<rparr>)))" for c
    by (rule effects_trans [OF effects_step [OF counters] effects_persist])
  then show ?thesis
    unfolding rebalance_locked_def Let_def by (auto split: prod.split intro: counters)
qed

lemmas operation_effects = register_flow_effects remove_flow_effects declare_target_effects remove_target_effects
  ingest_load_effects set_policy_effects set_topology_generation_effects register_migration_contract_effects
  place_locked_effects rebalance_locked_effects authorize_effects revoke_authorization_effects issue_intent_effects
  acknowledge_effects report_applied_effects observe_effects abort_migration_effects

text \<open>The operations refine the specification: each is a sequence of guarded effects.\<close>

lemma execute_effects: "maps_ok s \<Longrightarrow> effects s (snd (execute op s))"
  by (cases op) (simp_all add: operation_effects split_beta)

end
