(* ===== verification/EngineInvariants.thy ===== *)
theory EngineInvariants
  imports EngineEffects
begin

text \<open>
  Invariants of the engine.  A predicate kept by every effect is kept by every operation and by
  every run of operations; the locale states this once and each invariant interprets it.
\<close>

section \<open>The interface of an invariant\<close>

definition run :: "operation list \<Rightarrow> impl \<Rightarrow> impl" where
  "run ops s = foldl (\<lambda>s op. snd (execute op s)) s ops"

locale effect_invariant =
  fixes I :: "impl \<Rightarrow> bool"
  assumes preserved: "effect s t \<Longrightarrow> I s \<Longrightarrow> I t"
    and maps: "I s \<Longrightarrow> maps_ok s"
begin

lemma effects_preserve: "effects s t \<Longrightarrow> I s \<Longrightarrow> I t"
  by (induction rule: rtranclp_induct) (auto intro: preserved)

lemma execute_preserves: "I s \<Longrightarrow> I (snd (execute op s))"
  by (rule effects_preserve [OF execute_effects [OF maps]])

lemma run_preserves: "I s \<Longrightarrow> I (run ops s)"
  by (induction ops arbitrary: s) (simp_all add: run_def execute_preserves)

end

section \<open>Fields the helpers do change\<close>

lemma fences_issue_fence:
  "e_fences (snd (issue_fence_locked f t r i s)) =
     fst (evict_fences (ec_max_history (e_config s)) (om_emplace (e_next_fence s)
       \<lparr>fr_id = e_next_fence s, fr_epoch = e_epoch s, fr_boot = e_boot s, fr_flow = f, fr_target = t,
        fr_reason = r, fr_active = True, fr_issued_at = i\<rparr> (e_fences s)) (e_counters s))"
  by (simp add: issue_fence_locked_def Let_def split: prod.split)

lemma migrations_close:
  "e_migrations (close_migrations sel p reason upd s) =
     om_map (\<lambda>k r. if sel r \<and> \<not> phase_terminal (phase_of r)
       then r\<lparr>mr_intent := (mr_intent r)\<lparr>mi_phase := p\<rparr>, mr_abort_reason := reason\<rparr> else r) (e_migrations s)"
  by (simp add: close_migrations_def Let_def)

lemma migrations_abort_touching:
  "e_migrations (abort_touching t s) =
     e_migrations (close_migrations (touches t) Aborted RejectedTargetRemoved c_migrations_aborted_update s)"
  by (simp add: abort_touching_def)

lemma evict_history_fields:
  "\<exists>c. e_requests (evict_history_locked s) = fst (evict_front (ec_max_requests (e_config s)) (e_requests s) c)"
  "\<exists>c. e_authorizations (evict_history_locked s) = fst (evict_front (ec_max_history (e_config s)) (e_authorizations s) c)"
  "\<exists>c. e_recommendations (evict_history_locked s) = fst (evict_front (ec_max_history (e_config s)) (e_recommendations s) c)"
  unfolding evict_history_locked_def Let_def by (auto split: prod.split, (metis fst_conv)+)

lemma keyed_recompute: "keyed target_key (e_targets s) \<Longrightarrow> keyed target_key (e_targets (recompute_scheduled_locked s))"
  by (rule targets_recompute_induct) (auto intro!: keyed_intros dest: keyedD)

section \<open>Well-formed maps\<close>

lemma keyed_issue_fence: "keyed fr_id (e_fences s) \<Longrightarrow> keyed fr_id (e_fences (snd (issue_fence_locked f t r i s)))"
  unfolding fences_issue_fence by (intro keyed_intros) auto

lemma keyed_close: "keyed attempt_key (e_migrations s) \<Longrightarrow> keyed attempt_key (e_migrations (close_migrations sel p r u s))"
  unfolding migrations_close by (intro keyed_map) auto

lemma wf_refusals: "om_wf (e_refusal_counts s) \<Longrightarrow> om_wf (e_refusal_counts (record_refusal_locked code s))"
  by (simp add: record_refusal_locked_def Let_def bump_def split: option.split)

lemma keyed_evict_history:
  "keyed rr_request (e_requests s) \<Longrightarrow> keyed rr_request (e_requests (evict_history_locked s))"
  "keyed auth_id (e_authorizations s) \<Longrightarrow> keyed auth_id (e_authorizations (evict_history_locked s))"
  "keyed rec_id (e_recommendations s) \<Longrightarrow> keyed rec_id (e_recommendations (evict_history_locked s))"
  using evict_history_fields [of s] by (auto simp: keyed_evict_front)

lemma wf_holders_helpers:
  "om_wf (e_holders s) \<Longrightarrow> om_wf (e_holders (drop_holder old f s))"
  "om_wf (e_holders s) \<Longrightarrow> om_wf (e_holders (release_attempt a s))"
  "om_wf (e_holders s) \<Longrightarrow> om_wf (e_holders (hand_over ob i s))"
  "om_wf (e_holders s) \<Longrightarrow> om_wf (e_holders (snd (assign_flow r g pc s)))"
  by (simp_all add: drop_holder_def release_attempt_def hand_over_def assign_flow_def Let_def split: option.split)

lemma wf_holders_release_attempts:
  "om_wf (e_holders s) \<Longrightarrow> om_wf (e_holders (foldl (\<lambda>s r. release_attempt (a r) s) s rs))"
  by (induction rs arbitrary: s) (simp_all add: wf_holders_helpers)

lemma wf_holders_abort_touching: "om_wf (e_holders s) \<Longrightarrow> om_wf (e_holders (abort_touching t s))"
  unfolding abort_touching_def by (rule wf_holders_release_attempts) simp

lemma keyed_assignments_helpers:
  "keyed as_flow (e_assignments s) \<Longrightarrow> keyed as_flow (e_assignments (drop_assignment f s))"
  "keyed as_flow (e_assignments s) \<Longrightarrow> keyed as_flow (e_assignments (demote_assignments t s))"
  "keyed as_flow (e_assignments s) \<Longrightarrow> keyed as_flow (e_assignments (set_effect f e s))"
  "keyed as_flow (e_assignments s) \<Longrightarrow> keyed as_flow (e_assignments (hand_over ob i s))"
  "keyed as_flow (e_assignments s) \<Longrightarrow> keyed as_flow (e_assignments (snd (assign_flow r g pc s)))"
  by (auto simp: drop_assignment_def demote_assignments_def set_effect_def hand_over_def assign_flow_def Let_def
      split: option.split intro!: keyed_intros dest: keyedD)

lemma keyed_targets_drop_assignment:
  "keyed target_key (e_targets s) \<Longrightarrow> keyed target_key (e_targets (drop_assignment f s))"
  by (simp add: drop_assignment_def keyed_recompute split: option.split)

lemma keyed_targets_adopt:
  "keyed target_key (e_targets s) \<Longrightarrow> keyed target_key (e_targets (adopt_topology t s))"
  by (auto simp: adopt_topology_def undeclare_def intro!: keyed_intros dest: keyedD)

lemma keyed_fences_retire: "keyed fr_id (e_fences s) \<Longrightarrow> keyed fr_id (e_fences (retire_fence f r s))"
  by (auto simp: retire_fence_def intro!: keyed_intros dest: keyedD)

lemma keyed_set_record:
  "keyed attempt_key (e_migrations s) \<Longrightarrow> attempt_key r = a \<Longrightarrow> keyed attempt_key (e_migrations (set_record a r s))"
  by (auto simp: set_record_def intro!: keyed_intros)

lemmas maps_ok_helpers = keyed_issue_fence keyed_close wf_refusals keyed_evict_history wf_holders_helpers
  wf_holders_abort_touching keyed_assignments_helpers keyed_targets_drop_assignment keyed_targets_adopt
  keyed_fences_retire keyed_set_record keyed_recompute

text \<open>The attempt that \<open>observe\<close> looks up is in the map, so the lookup inserts nothing.\<close>

lemma attempts_of_find:
  assumes "keyed attempt_key (e_migrations s)" "r \<in> set (attempts_of flow s)"
  shows "om_find (e_migrations s) (attempt_key r) = Some r"
proof -
  from assms(2) obtain k where k: "(k, r) \<in> set (e_migrations s)" by (auto simp: attempts_of_def)
  then have "om_find (e_migrations s) k = Some r" using assms(1) by (simp add: om_in_set_iff)
  with keyedD [OF assms(1) this] show ?thesis by simp
qed

lemma record_touched_id:
  assumes "keyed attempt_key (e_migrations s)" "r \<in> set (attempts_of flow s)"
  shows "om_emplace (attempt_key r) d (e_migrations s) = e_migrations s"
  by (simp add: om_emplace_def attempts_of_find [OF assms])

lemma maps_ok_effect:
  assumes "effect s t" "maps_ok s"
  shows "maps_ok t"
  using assms
proof (cases rule: effect.cases)
  case (flow_superseded f old)
  then show ?thesis using assms(2)
    by (auto simp: maps_ok_def supersede_flow_def Let_def maps_ok_helpers intro!: keyed_modify)
next
  case (flow_retired flow old)
  then show ?thesis using assms(2)
    by (auto simp: maps_ok_def retire_flow_def Let_def maps_ok_helpers intro!: keyed_erase)
next
  case (target_refreshed t old)
  then show ?thesis using assms(2)
    by (auto simp: maps_ok_def intro!: keyed_modify)
next
  case (capabilities_advanced t old)
  then show ?thesis using assms(2)
    by (auto simp: maps_ok_def advance_capabilities_def Let_def maps_ok_helpers intro!: keyed_modify)
next
  case (incarnation_advanced t old)
  then show ?thesis using assms(2)
    by (auto simp: maps_ok_def advance_incarnation_def Let_def maps_ok_helpers intro!: keyed_modify)
next
  case (topology_adopted t)
  then show ?thesis using assms(2) by (simp add: maps_ok_def maps_ok_helpers)
next
  case (target_retired k old instant)
  moreover have "target_key old = k"
    using target_retired(2) assms(2) by (auto simp: maps_ok_def dest: keyedD)
  ultimately show ?thesis using assms(2)
    by (auto simp: maps_ok_def retire_target_def Let_def migrations_abort_touching maps_ok_helpers
        intro!: keyed_modify keyed_recompute)
next
  case (watermark_raised e)
  then show ?thesis using assms(2)
    by (auto simp: maps_ok_def raise_watermark_def intro!: keyed_put)
next
  case (evidence_recorded e t)
  have "target_key (settle_conflict e t) = target_key t" for t
    by (simp add: settle_conflict_def Let_def)
  with evidence_recorded show ?thesis using assms(2)
    by (auto simp: maps_ok_def record_evidence_def Let_def raise_watermark_def intro!: keyed_put keyed_modify dest: keyedD)
next
  case (granted rec instant)
  then show ?thesis using assms(2)
    by (auto simp: maps_ok_def grant_def Let_def split_beta maps_ok_helpers intro!: keyed_evict_history keyed_emplace keyed_issue_fence)
next
  case (revoked auth a)
  then show ?thesis using assms(2)
    by (auto simp: maps_ok_def revoke_def maps_ok_helpers intro!: keyed_fences_retire keyed_modify dest: keyedD)
next
  case (migration_begun auth stored f source inout c)
  then show ?thesis using assms(2)
    by (auto simp: maps_ok_def begin_migration_def Let_def split_beta maps_ok_helpers intro!: keyed_emplace)
next
  case (migration_declined a r)
  moreover have "attempt_key r = ack_attempt a"
    using migration_declined(2) assms(2) by (auto simp: maps_ok_def dest: keyedD)
  ultimately show ?thesis using assms(2)
    by (auto simp: maps_ok_def decline_migration_def Let_def with_phase_def fill_ack_def maps_ok_helpers)
next
  case (migration_agreed a r)
  moreover have "attempt_key r = ack_attempt a"
    using migration_agreed(2) assms(2) by (auto simp: maps_ok_def dest: keyedD)
  ultimately show ?thesis using assms(2)
    by (auto simp: maps_ok_def agree_migration_def Let_def with_phase_def fill_ack_def maps_ok_helpers)
next
  case (effect_applied e r)
  moreover have "attempt_key r = ae_attempt e"
    using effect_applied(2) assms(2) by (auto simp: maps_ok_def dest: keyedD)
  ultimately show ?thesis using assms(2)
    by (auto simp: maps_ok_def apply_effect_def Let_def with_phase_def maps_ok_helpers)
next
  case (record_touched r flow)
  then show ?thesis using assms(2)
    by (simp add: maps_ok_def record_touched_id)
next
  case (migration_completed attempt r ob)
  moreover have "attempt_key r = attempt"
    using migration_completed(2) assms(2) by (auto simp: maps_ok_def dest: keyedD)
  ultimately show ?thesis using assms(2)
    by (auto simp: maps_ok_def complete_migration_def Let_def with_phase_def maps_ok_helpers intro!: keyed_recompute keyed_fences_retire)
next
  case (migration_aborted attempt r reason)
  moreover have "attempt_key r = attempt"
    using migration_aborted(2) assms(2) by (auto simp: maps_ok_def dest: keyedD)
  ultimately show ?thesis using assms(2)
    by (auto simp: maps_ok_def abort_attempt_def Let_def with_phase_def maps_ok_helpers)
next
  case (request_recorded r)
  then show ?thesis using assms(2)
    by (auto simp: maps_ok_def maps_ok_helpers intro!: keyed_evict_history keyed_put)
qed (auto simp: maps_ok_def maps_ok_helpers undeclare_def intro!: keyed_intros dest: keyedD)

interpretation maps: effect_invariant maps_ok
  by unfold_locales (auto intro: maps_ok_effect)

section \<open>Opening establishes well-formed maps\<close>

lemma keyed_om_of: "keyed key (om_of key xs)"
proof -
  have "keyed key (foldl (\<lambda>m x. om_put (key x) x m) m xs)" if "keyed key m" for m
    using that by (induction xs arbitrary: m) (simp_all add: keyed_put)
  then show ?thesis by (simp add: om_of_def)
qed

lemma wf_foldl_put: "om_wf m \<Longrightarrow> om_wf (foldl (\<lambda>m x. om_put (f x) (g x) m) m xs)"
  by (induction xs arbitrary: m) simp_all

lemma wf_rebuild_holders: "om_wf (foldl (rebuild_holder flows) m as)" if "om_wf m"
  using that
proof (induction as arbitrary: m)
  case (Cons a as)
  then show ?case by (simp add: rebuild_holder_def split: option.split)
qed simp

lemma maps_ok_restore: "maps_ok (restore_locked d s)"
proof -
  define s1 where "s1 = restore_counters (restore_maps d (s\<lparr>e_epoch := ds_epoch d, e_boot := ds_boot d, e_policy := ds_policy d,
      e_policy_present := ds_policy_present d, e_policy_generation := pol_generation (ds_policy d),
      e_schedule_generation := ds_schedule_generation d, e_topology_generation := ds_topology_generation d,
      e_counters := ds_counters d\<rparr>))"
  have 1: "maps_ok (rebuild_holders_locked s1)"
    unfolding s1_def
    by (simp add: maps_ok_def restore_counters_def restore_maps_def rebuild_holders_locked_def keyed_om_of
        wf_foldl_put wf_rebuild_holders)
  then show ?thesis
    unfolding restore_locked_def Let_def s1_def [symmetric]
    by (simp add: maps_ok_def maps_ok_helpers)
qed

lemma maps_ok_fields:
  "maps_ok (s\<lparr>e_config := x1\<rparr>) = maps_ok s" "maps_ok (s\<lparr>e_open := x2\<rparr>) = maps_ok s" "maps_ok (s\<lparr>e_shutting_down := x2\<rparr>) = maps_ok s"
  "maps_ok (s\<lparr>e_epoch := x3\<rparr>) = maps_ok s" "maps_ok (s\<lparr>e_boot := x4\<rparr>) = maps_ok s" "maps_ok (s\<lparr>e_recovery := x5\<rparr>) = maps_ok s"
  "maps_ok (s\<lparr>e_store := x6\<rparr>) = maps_ok s" "maps_ok (s\<lparr>e_counters := x7\<rparr>) = maps_ok s"
  by (simp_all add: maps_ok_def)

lemma maps_ok_bookkeeping:
  "maps_ok s \<Longrightarrow> maps_ok (bump upd s)" "maps_ok s \<Longrightarrow> maps_ok (snd (persist_locked s))"
  using maps.effects_preserve [OF effects_bump] maps.effects_preserve [OF effects_persist] by blast+

lemma maps_ok_fence_all: "maps_ok s \<Longrightarrow> maps_ok (fence_all_active_locked n s)"
  unfolding fence_all_active_locked_def
  by (auto simp: maps_ok_def intro!: keyed_issue_fence keyed_map)

lemma maps_ok_begin_epoch: "maps_ok s \<Longrightarrow> maps_ok (begin_epoch e b s)"
  unfolding begin_epoch_def Let_def by (auto simp: maps_ok_fields maps_ok_bookkeeping maps_ok_fence_all)

lemma maps_ok_open_restore:
  assumes "maps_ok s"
  shows "case open_restore s of Inl (st, t) \<Rightarrow> maps_ok t | Inr (e, b, t) \<Rightarrow> maps_ok t"
  using assms unfolding open_restore_def Let_def
  by (auto simp: maps_ok_fields maps_ok_restore split: prod.split)

lemma maps_ok_open: "maps_ok s \<Longrightarrow> maps_ok (snd (engine_open s))"
  unfolding engine_open_def Let_def
  using maps_ok_open_restore [of "s\<lparr>e_shutting_down := False\<rparr>"]
    maps_ok_bookkeeping(2) [of "begin_epoch _ _ _ \<lparr>e_open := True\<rparr>"]
  by (auto simp: maps_ok_fields maps_ok_begin_epoch split: sum.split prod.split; metis maps_ok_begin_epoch maps_ok_fields(2) maps_ok_bookkeeping(2) snd_conv)

lemma maps_ok_new: "maps_ok (impl_new config d io)"
  by (simp add: maps_ok_def impl_new_def)

text \<open>A process lifetime: a new engine is opened on a disk and runs operations.\<close>

definition lifetime :: "engine_config \<Rightarrow> disk \<Rightarrow> io_outcome list \<Rightarrow> operation list \<Rightarrow> impl" where
  "lifetime config d io ops = run ops (snd (engine_open (impl_new config d io)))"

text \<open>
  C17: The engine's maps are always well formed.  Whatever the files held, whatever calls to the
  operating system failed and whatever operations were run, every map iterates in strictly
  increasing key order and files every flow, target, assignment, attempt, contract, fence,
  watermark, request, authorization and recommendation under its own identity.
\<close>

theorem maps_always_well_formed: "maps_ok (lifetime config d io ops)"
  unfolding lifetime_def by (intro maps.run_preserves maps_ok_open maps_ok_new)

end
