(* ===== verification/EngineBounds.thy ===== *)
theory EngineBounds
  imports EngineInvariants
begin

text \<open>
  Resource bounds and monotone generations: two invariants over every run of operations.
\<close>

section \<open>Bounds\<close>

definition in_flight :: "(migration_attempt_id, migration_record) omap \<Rightarrow> nat" where
  "in_flight m = length (filter (\<lambda>(k, r). \<not> phase_terminal (phase_of r)) m)"

lemma migrations_in_flight_eq: "migrations_in_flight_locked s = in_flight (e_migrations s)"
  by (simp add: migrations_in_flight_locked_def in_flight_def)

lemma in_flight_map:
  assumes "\<And>k r. (k, r) \<in> set m \<Longrightarrow> phase_terminal (phase_of r) \<Longrightarrow> phase_terminal (phase_of (f k r))"
  shows "in_flight (om_map f m) \<le> in_flight m"
  using assms
proof (induction m)
  case (Cons e m)
  obtain k r where e: "e = (k, r)" by fastforce
  have "phase_terminal (phase_of r) \<Longrightarrow> phase_terminal (phase_of (f k r))"
    using Cons.prems [of k r] e by simp
  moreover have "in_flight (om_map f m) \<le> in_flight m"
    using Cons.prems by (intro Cons.IH) auto
  ultimately show ?case by (auto simp: in_flight_def om_map_def e)
qed (simp add: om_map_def in_flight_def)

lemma in_flight_put: "in_flight (om_put k r m) \<le> Suc (in_flight m)"
proof (induction m)
  case (Cons e m)
  then show ?case by (cases e) (auto simp: in_flight_def)
qed (simp add: in_flight_def)

lemma in_flight_emplace: "in_flight (om_emplace k r m) \<le> Suc (in_flight m)"
  by (simp add: om_emplace_def in_flight_put split: option.split)

lemma in_flight_close:
  "p = Aborted \<or> p = Fenced \<Longrightarrow> in_flight (e_migrations (close_migrations sel p r u s)) \<le> in_flight (e_migrations s)"
  unfolding migrations_close by (rule in_flight_map) (auto simp: phase_terminal_def)

lemma in_flight_set_record:
  assumes "om_wf (e_migrations s)" "om_find (e_migrations s) a = Some r"
    and "phase_terminal (phase_of r) \<Longrightarrow> phase_terminal (phase_of q)"
  shows "in_flight (e_migrations (set_record a q s)) \<le> in_flight (e_migrations s)"
  unfolding set_record_def om_modify_def
  using assms by (auto simp: om_in_set_iff intro!: in_flight_map)

lemma length_evict_front: "length (fst (evict_front n m c)) \<le> n"
  by (induction n m c rule: evict_front.induct) auto

lemma length_evict_fences: "length (fst (evict_fences n m c)) \<le> n"
proof (induction n m c rule: evict_fences.induct)
  case (1 bound fences c)
  then show ?case by (subst evict_fences.simps) auto
qed

lemma length_emplace_le: "length (om_emplace k v m) \<le> Suc (length m)"
  by (simp add: om_emplace_def length_om_put_le split: option.split)

lemma length_recompute [simp]: "length (e_targets (recompute_scheduled_locked s)) = length (e_targets s)"
proof -
  have "length (e_targets (recompute_scheduled_locked s)) = length (e_targets s)"
    by (rule targets_recompute_induct) simp_all
  then show ?thesis .
qed

text \<open>Every collection the configuration bounds is within its bound.\<close>

definition in_bounds :: "impl \<Rightarrow> bool" where
  "in_bounds s \<longleftrightarrow>
     length (e_flows s) \<le> ec_max_flows (e_config s) \<and> length (e_targets s) \<le> ec_max_targets (e_config s) \<and>
     length (e_contracts s) \<le> ec_max_contracts (e_config s) \<and> length (e_fences s) \<le> ec_max_history (e_config s) \<and>
     length (e_authorizations s) \<le> ec_max_history (e_config s) \<and> length (e_requests s) \<le> ec_max_requests (e_config s) \<and>
     migrations_in_flight_locked s \<le> ec_max_migrations (e_config s)"

lemma length_issue_fence:
  "ec_max_history (e_config s) \<le> n \<Longrightarrow> length (e_fences (snd (issue_fence_locked f t r i s))) \<le> n"
  unfolding fences_issue_fence by (rule order_trans [OF length_evict_fences])

lemma length_retire_fence [simp]: "length (e_fences (retire_fence f r s)) = length (e_fences s)"
  by (simp add: retire_fence_def)

lemma length_evict_history:
  "ec_max_requests (e_config s) \<le> n \<Longrightarrow> length (e_requests (evict_history_locked s)) \<le> n"
  "ec_max_history (e_config s) \<le> n \<Longrightarrow> length (e_authorizations (evict_history_locked s)) \<le> n"
  using evict_history_fields [of s] by (auto intro: order_trans [OF length_evict_front])

lemma length_drop_assignment [simp]: "length (e_targets (drop_assignment f s)) = length (e_targets s)"
  by (simp add: drop_assignment_def split: option.split)

lemma length_adopt [simp]: "length (e_targets (adopt_topology t s)) = length (e_targets s)"
  by (simp add: adopt_topology_def)

lemmas bounds_helpers = length_issue_fence length_evict_history length_om_erase_le migrations_in_flight_eq

lemma intent_in_flight:
  "intent_destination_refusal inout f source s = ReasonOk \<Longrightarrow> in_flight (e_migrations s) < ec_max_migrations (e_config s)"
  by (auto simp: intent_destination_refusal_def migrations_in_flight_eq split: if_split_asm option.splits)

lemma in_boundsI:
  assumes "in_bounds s" "e_config t = e_config s" "length (e_flows t) \<le> length (e_flows s)"
    and "length (e_targets t) \<le> length (e_targets s)" "length (e_contracts t) \<le> length (e_contracts s)"
    and "length (e_fences t) \<le> length (e_fences s) \<or> length (e_fences t) \<le> ec_max_history (e_config s)"
    and "length (e_authorizations t) \<le> length (e_authorizations s) \<or> length (e_authorizations t) \<le> ec_max_history (e_config s)"
    and "length (e_requests t) \<le> length (e_requests s) \<or> length (e_requests t) \<le> ec_max_requests (e_config s)"
    and "in_flight (e_migrations t) \<le> in_flight (e_migrations s) \<or> in_flight (e_migrations t) \<le> ec_max_migrations (e_config s)"
  shows "in_bounds t"
  using assms unfolding in_bounds_def migrations_in_flight_eq by auto

lemma effect_config: "effect s t \<Longrightarrow> e_config t = e_config s"
  by (erule effect.cases)
    (simp_all add: supersede_flow_def retire_flow_def advance_capabilities_def advance_incarnation_def retire_target_def
      record_evidence_def grant_def revoke_def begin_migration_def decline_migration_def agree_migration_def
      apply_effect_def complete_migration_def abort_attempt_def Let_def split_beta)

lemmas close_bounds = in_flight_close [of Fenced, simplified] in_flight_close [of Aborted, simplified]

lemma in_bounds_effect:
  assumes "effect s t" "maps_ok s" "in_bounds s"
  shows "in_bounds t"
proof -
  note shrink = in_boundsI [OF assms(3) effect_config [OF assms(1)]]
  have wf: "om_wf (e_migrations s)" using assms(2) by (auto simp: maps_ok_def)
  from assms(1) show ?thesis
  proof (cases rule: effect.cases)
    case (flow_added f)
    then show ?thesis using assms(3) length_emplace_le [of "fd_flow f" f "e_flows s"]
      by (simp add: in_bounds_def migrations_in_flight_eq)
  next
    case (flow_superseded f old)
    show ?thesis
      by (rule shrink) (simp_all add: flow_superseded(1) supersede_flow_def Let_def order_trans [OF close_bounds(1)])
  next
    case (flow_retired flow old)
    show ?thesis
      by (rule shrink) (simp_all add: flow_retired(1) retire_flow_def Let_def bounds_helpers order_trans [OF close_bounds(1)])
  next
    case (target_added t)
    then show ?thesis
      using assms(3) length_emplace_le [of "td_target t" "target_state_default\<lparr>ts_descriptor := t, ts_declared := True\<rparr>" "e_targets s"]
      by (simp add: in_bounds_def migrations_in_flight_eq)
  next
    case (incarnation_advanced d old)
    show ?thesis
      by (rule shrink) (simp_all add: incarnation_advanced(1) advance_incarnation_def Let_def order_trans [OF close_bounds(2)])
  next
    case (target_retired k old instant)
    have "in_flight (e_migrations t) \<le> in_flight (e_migrations s)"
      using close_bounds(2) [of "touches k" RejectedTargetRemoved c_migrations_aborted_update s]
      by (simp add: target_retired(1) retire_target_def Let_def migrations_abort_touching migrations_close)
    then show ?thesis
      by (intro shrink) (simp_all add: target_retired(1) retire_target_def Let_def bounds_helpers)
  next
    case (contract_added c)
    then show ?thesis using assms(3) length_emplace_le [of "mc_id c" c "e_contracts s"]
      by (simp add: in_bounds_def migrations_in_flight_eq)
  next
    case (granted rec instant)
    show ?thesis
      by (rule shrink) (simp_all add: granted(1) grant_def Let_def split_beta bounds_helpers)
  next
    case (migration_begun auth stored f source inout c)
    have "in_flight (e_migrations t) \<le> Suc (in_flight (e_migrations s))"
      by (simp add: migration_begun(1) begin_migration_def Let_def split_beta in_flight_emplace)
    then show ?thesis using intent_in_flight [OF migration_begun(8)]
      by (intro shrink) (simp_all add: migration_begun(1) begin_migration_def Let_def split_beta bounds_helpers)
  next
    case (migration_declined a r)
    then show ?thesis
      using in_flight_set_record [OF wf migration_declined(2)]
      by (intro shrink) (simp_all add: decline_migration_def Let_def set_record_def bump_def with_phase_def phase_terminal_def)
  next
    case (migration_agreed a r)
    then have "\<not> phase_terminal (phase_of r)" by (simp add: phase_terminal_def)
    then show ?thesis
      using in_flight_set_record [OF wf migration_agreed(2)]
      by (intro shrink) (simp_all add: migration_agreed(1) agree_migration_def Let_def set_record_def bump_def)
  next
    case (effect_applied e r)
    then have "\<not> phase_terminal (phase_of r)" by (auto simp: applied_refusal_def phase_terminal_def split: if_split_asm)
    then show ?thesis
      using in_flight_set_record [OF wf effect_applied(2)]
      by (intro shrink) (simp_all add: effect_applied(1) apply_effect_def)
  next
    case (migration_completed attempt r ob)
    then show ?thesis
      using in_flight_set_record [OF wf migration_completed(2)]
      by (intro shrink) (simp_all add: complete_migration_def Let_def with_phase_def phase_terminal_def)
  next
    case (migration_aborted attempt r reason)
    then show ?thesis
      using in_flight_set_record [OF wf migration_aborted(2)]
      by (intro shrink) (simp_all add: abort_attempt_def Let_def with_phase_def)
  next
    case (record_touched r flow)
    then show ?thesis using assms(2) by (intro shrink) (simp_all add: record_touched_id maps_ok_def)
  qed (rule shrink; simp add: record_evidence_def revoke_def advance_capabilities_def Let_def bounds_helpers; fail)+
qed

interpretation bounds: effect_invariant "\<lambda>s. maps_ok s \<and> in_bounds s"
  by unfold_locales (auto intro: maps_ok_effect in_bounds_effect)

lemma open_in_memory:
  assumes "\<not> ec_persistence_enabled config"
  shows "in_bounds (snd (engine_open (impl_new config d io)))"
  using assms
  by (simp add: engine_open_def open_restore_def impl_new_def begin_epoch_def persist_locked_def bump_def Let_def
      in_bounds_def migrations_in_flight_eq in_flight_def boot_id_default_def boot_is_valid_def)

text \<open>
  C15: Every collection stays within its configured bound.  An engine that keeps its state in
  memory never holds more flows, targets, contracts, fences, authorizations or request records
  than its configuration allows, and never has more migrations in flight, whatever operations
  are run on it.
\<close>

theorem collections_stay_in_bounds:
  assumes "\<not> ec_persistence_enabled config"
  shows "in_bounds (lifetime config d io ops)"
  using bounds.run_preserves [OF conjI [OF maps_ok_open [OF maps_ok_new] open_in_memory [OF assms]]]
  by (simp add: lifetime_def)

end
