(* ===== verification/MigrationProtocol.thy ===== *)
theory MigrationProtocol
  imports EngineInvariants
begin

text \<open>
  The migration protocol.  \<open>protocol\<close> is the abstract machine an attempt is meant to follow: the
  source acknowledges, then the destination, then the effect is applied, then it is verified; an
  unfinished attempt may be aborted or fenced at any point, and a finished one stays finished.
  The theory shows that the engine's records follow that machine under every operation, keep
  their identity and their evidence, and are completed only with the full evidence.
\<close>

section \<open>The abstract machine\<close>

inductive protocol :: "migration_phase \<Rightarrow> migration_phase \<Rightarrow> bool" where
  source: "protocol IntentIssued SourceAcknowledged"
| destination: "protocol SourceAcknowledged DestinationAcknowledged"
| applied: "protocol DestinationAcknowledged EffectApplied"
| verified: "protocol EffectApplied Completed"
| aborted: "\<not> phase_terminal p \<Longrightarrow> protocol p Aborted"
| fenced: "\<not> phase_terminal p \<Longrightarrow> protocol p Fenced"

inductive_simps protocol_simps: "protocol p q"

lemma protocol_terminal: "protocol p q \<Longrightarrow> \<not> phase_terminal p"
  by (auto simp: protocol_simps phase_terminal_def)

lemma protocol_terminal_star: "protocol\<^sup>*\<^sup>* p q \<Longrightarrow> phase_terminal p \<Longrightarrow> q = p"
  by (induction rule: converse_rtranclp_induct) (auto dest: protocol_terminal)

section \<open>Records that carry their evidence\<close>

definition source_ack_ok :: "migration_record \<Rightarrow> bool" where
  "source_ack_ok r \<longleftrightarrow> mr_source_acknowledged r \<and>
     (let a = mr_source_acknowledgement r; i = mr_intent r in
      ack_accepted a \<and> ack_target a = mi_source_target i \<and> ack_incarnation a = mi_source_incarnation i \<and>
      ack_capability_generation a = mi_source_capability_generation i)"

definition destination_ack_ok :: "migration_record \<Rightarrow> bool" where
  "destination_ack_ok r \<longleftrightarrow> mr_destination_acknowledged r \<and>
     (let a = mr_destination_acknowledgement r; i = mr_intent r in
      ack_accepted a \<and> ack_target a = mi_destination_target i \<and> ack_incarnation a = mi_destination_incarnation i \<and>
      ack_capability_generation a = mi_destination_capability_generation i)"

definition applied_ok :: "migration_record \<Rightarrow> bool" where
  "applied_ok r \<longleftrightarrow> mr_effect_applied r \<and>
     (let e = mr_applied r; i = mr_intent r in
      ae_target e = mi_destination_target i \<and> ae_incarnation e = mi_destination_incarnation i \<and>
      ae_capability_generation e = mi_destination_capability_generation i \<and> \<not> digest_is_zero (ae_effect_digest e))"

definition verified_ok :: "migration_record \<Rightarrow> bool" where
  "verified_ok r \<longleftrightarrow> mr_effect_verified r \<and> mr_verified_digest r = ae_effect_digest (mr_applied r)"

definition record_ok :: "migration_record \<Rightarrow> bool" where
  "record_ok r \<longleftrightarrow>
     phase_of r \<noteq> PhaseUnknown \<and> phase_of r \<noteq> Planned \<and> phase_of r \<noteq> EffectVerified \<and>
     (phase_of r \<in> {SourceAcknowledged, DestinationAcknowledged, EffectApplied, Completed} \<longrightarrow> source_ack_ok r) \<and>
     (phase_of r \<in> {DestinationAcknowledged, EffectApplied, Completed} \<longrightarrow> destination_ack_ok r) \<and>
     (phase_of r \<in> {EffectApplied, Completed} \<longrightarrow> applied_ok r) \<and>
     (phase_of r = Completed \<longrightarrow> verified_ok r) \<and>
     (mr_effect_applied r \<and> \<not> phase_terminal (phase_of r) \<longrightarrow> phase_of r = EffectApplied) \<and>
     (mr_effect_verified r \<longrightarrow> phase_of r = Completed)"

lemmas record_ok_defs = record_ok_def source_ack_ok_def destination_ack_ok_def applied_ok_def verified_ok_def
  Let_def phase_terminal_def

definition protocol_ok :: "impl \<Rightarrow> bool" where
  "protocol_ok s \<longleftrightarrow> list_all (\<lambda>(k, r). record_ok r) (e_migrations s)"

section \<open>Evolution of a record\<close>

definition same_intent :: "migration_intent \<Rightarrow> migration_intent \<Rightarrow> bool" where
  "same_intent i j \<longleftrightarrow> j = i\<lparr>mi_phase := mi_phase j\<rparr>"

definition record_evolves :: "migration_record \<Rightarrow> migration_record \<Rightarrow> bool" where
  "record_evolves r q \<longleftrightarrow>
     protocol\<^sup>*\<^sup>* (phase_of r) (phase_of q) \<and> same_intent (mr_intent r) (mr_intent q) \<and>
     (phase_terminal (phase_of r) \<longrightarrow> q = r) \<and>
     (mr_effect_applied r \<longrightarrow> mr_effect_applied q \<and> mr_applied q = mr_applied r)"

lemma record_evolves_refl [simp]: "record_evolves r r"
  by (simp add: record_evolves_def same_intent_def)

lemma same_intent_trans: "same_intent i j \<Longrightarrow> same_intent j k \<Longrightarrow> same_intent i k"
proof -
  assume "same_intent i j" "same_intent j k"
  then have "k = (i\<lparr>mi_phase := mi_phase j\<rparr>)\<lparr>mi_phase := mi_phase k\<rparr>"
    unfolding same_intent_def by metis
  then show ?thesis by (simp add: same_intent_def)
qed

lemma record_evolves_trans: "record_evolves r q \<Longrightarrow> record_evolves q p \<Longrightarrow> record_evolves r p"
  unfolding record_evolves_def by (auto intro: same_intent_trans)

definition migrations_evolve ::
    "(migration_attempt_id, migration_record) omap \<Rightarrow> (migration_attempt_id, migration_record) omap \<Rightarrow> bool" where
  "migrations_evolve m n \<longleftrightarrow>
     (\<forall>k r. om_find m k = Some r \<longrightarrow> (\<exists>q. om_find n k = Some q \<and> record_evolves r q))"

lemma migrations_evolve_refl [simp]: "migrations_evolve m m"
  by (simp add: migrations_evolve_def)

lemma migrations_evolve_trans: "migrations_evolve m n \<Longrightarrow> migrations_evolve n p \<Longrightarrow> migrations_evolve m p"
  unfolding migrations_evolve_def by (meson record_evolves_trans)

lemma protocol_ok_iff:
  "om_wf (e_migrations s) \<Longrightarrow> protocol_ok s \<longleftrightarrow> (\<forall>k r. om_find (e_migrations s) k = Some r \<longrightarrow> record_ok r)"
  by (auto simp: protocol_ok_def list_all_iff om_in_set_iff)

section \<open>The changes an effect makes to a record\<close>

lemma record_closed:
  assumes "record_ok r" "\<not> phase_terminal (phase_of r)" "p = Aborted \<or> p = Fenced"
    and "mr_intent q = (mr_intent r)\<lparr>mi_phase := p\<rparr>" "mr_effect_verified q = mr_effect_verified r"
    and "mr_effect_applied q = mr_effect_applied r" "mr_applied q = mr_applied r"
  shows "record_ok q" "record_evolves r q"
proof -
  show "record_ok q"
    using assms by (auto simp: record_ok_defs)
  have "protocol (phase_of r) p" using assms(2,3) by (auto intro: aborted fenced)
  then show "record_evolves r q"
    using assms by (auto simp: record_evolves_def same_intent_def)
qed

lemma record_declined:
  assumes "record_ok r" "\<not> phase_terminal (phase_of r)"
  shows "record_ok ((with_phase Aborted (fill_ack a r))\<lparr>mr_abort_reason := x\<rparr>)"
    "record_evolves r ((with_phase Aborted (fill_ack a r))\<lparr>mr_abort_reason := x\<rparr>)"
  by (rule record_closed [OF assms, of Aborted]; simp add: with_phase_def fill_ack_def)+

lemma record_agreed:
  assumes "record_ok r" "ack_target_refusal a r = ReasonOk" "ack_accepted a"
    and "phase_of r = (if ack_actor a = Source then IntentIssued else SourceAcknowledged)"
  shows "record_ok (with_phase (if ack_actor a = Source then SourceAcknowledged else DestinationAcknowledged) (fill_ack a r))"
    "record_evolves r (with_phase (if ack_actor a = Source then SourceAcknowledged else DestinationAcknowledged) (fill_ack a r))"
proof -
  have t: "ack_target a = (if ack_actor a = Source then mi_source_target (mr_intent r) else mi_destination_target (mr_intent r))"
      "ack_incarnation a = (if ack_actor a = Source then mi_source_incarnation (mr_intent r) else mi_destination_incarnation (mr_intent r))"
      "ack_capability_generation a = (if ack_actor a = Source then mi_source_capability_generation (mr_intent r)
         else mi_destination_capability_generation (mr_intent r))"
    using assms(2) by (auto simp: ack_target_refusal_def Let_def split: if_split_asm)
  show "record_ok (with_phase (if ack_actor a = Source then SourceAcknowledged else DestinationAcknowledged) (fill_ack a r))"
    using assms(1,3,4) t by (auto simp: with_phase_def fill_ack_def record_ok_defs split: if_split_asm)
  show "record_evolves r (with_phase (if ack_actor a = Source then SourceAcknowledged else DestinationAcknowledged) (fill_ack a r))"
    using assms(4) by (auto simp: record_evolves_def same_intent_def with_phase_def fill_ack_def phase_terminal_def
        protocol_simps intro!: r_into_rtranclp)
qed

lemma record_applied:
  assumes "record_ok r" "applied_refusal e r s = ReasonOk" "\<not> mr_effect_applied r"
  shows "record_ok (with_phase EffectApplied (r\<lparr>mr_applied := e, mr_effect_applied := True\<rparr>))"
    "record_evolves r (with_phase EffectApplied (r\<lparr>mr_applied := e, mr_effect_applied := True\<rparr>))"
proof -
  have ok: "phase_of r = DestinationAcknowledged" "ae_target e = mi_destination_target (mr_intent r)"
      "ae_incarnation e = mi_destination_incarnation (mr_intent r)"
      "ae_capability_generation e = mi_destination_capability_generation (mr_intent r)"
      "\<not> digest_is_zero (ae_effect_digest e)"
    using assms(2) by (auto simp: applied_refusal_def split: if_split_asm)
  show "record_ok (with_phase EffectApplied (r\<lparr>mr_applied := e, mr_effect_applied := True\<rparr>))"
    using assms(1) ok by (auto simp: with_phase_def record_ok_defs)
  show "record_evolves r (with_phase EffectApplied (r\<lparr>mr_applied := e, mr_effect_applied := True\<rparr>))"
    using ok(1) assms(3) by (auto simp: record_evolves_def same_intent_def with_phase_def phase_terminal_def
        protocol_simps intro!: r_into_rtranclp)
qed

lemma observation_ok:
  assumes "observation_refusal ob r = ReasonOk"
  shows "\<not> phase_terminal (phase_of r)" "mr_effect_applied r" "eo_effect_digest ob = ae_effect_digest (mr_applied r)"
proof -
  have "evidence_refusal st \<noteq> ReasonOk" "lifecycle_refusal lc \<noteq> ReasonOk" for st lc
    by (cases st; simp) (cases lc; simp)
  then show "\<not> phase_terminal (phase_of r)" "mr_effect_applied r" "eo_effect_digest ob = ae_effect_digest (mr_applied r)"
    using assms by (auto simp: observation_refusal_def phase_terminal_def split: if_split_asm)
qed

lemma record_completed:
  assumes "record_ok r" "observation_refusal ob r = ReasonOk"
  shows "record_ok (with_phase Completed (r\<lparr>mr_effect_verified := True, mr_verified_digest := eo_effect_digest ob\<rparr>))"
    "record_evolves r (with_phase Completed (r\<lparr>mr_effect_verified := True, mr_verified_digest := eo_effect_digest ob\<rparr>))"
proof -
  note ok = observation_ok [OF assms(2)]
  then have phase: "phase_of r = EffectApplied" using assms(1) by (auto simp: record_ok_def)
  show "record_ok (with_phase Completed (r\<lparr>mr_effect_verified := True, mr_verified_digest := eo_effect_digest ob\<rparr>))"
    using assms(1) ok phase by (auto simp: with_phase_def record_ok_defs)
  show "record_evolves r (with_phase Completed (r\<lparr>mr_effect_verified := True, mr_verified_digest := eo_effect_digest ob\<rparr>))"
    using phase by (auto simp: record_evolves_def same_intent_def with_phase_def phase_terminal_def
        protocol_simps intro!: r_into_rtranclp)
qed

section \<open>Every effect follows the protocol\<close>

text \<open>A map of records that all evolve, and stay well formed, under a change of the whole map.\<close>

definition lawful ::
    "(migration_attempt_id, migration_record) omap \<Rightarrow> (migration_attempt_id, migration_record) omap \<Rightarrow> bool" where
  "lawful m n \<longleftrightarrow>
     (\<forall>k r. om_find m k = Some r \<longrightarrow> record_ok r) \<longrightarrow>
     (\<forall>k r. om_find n k = Some r \<longrightarrow> record_ok r) \<and> migrations_evolve m n"

lemma lawful_refl [simp]: "lawful m m"
  by (simp add: lawful_def)

lemma lawful_map:
  assumes "\<And>k r. om_find m k = Some r \<Longrightarrow> record_ok r \<Longrightarrow> record_ok (f k r) \<and> record_evolves r (f k r)"
  shows "lawful m (om_map f m)"
  using assms by (auto simp: lawful_def migrations_evolve_def)

lemma lawful_close:
  assumes "p = Aborted \<or> p = Fenced"
  shows "lawful (e_migrations s) (e_migrations (close_migrations sel p reason upd s))"
  unfolding migrations_close
proof (rule lawful_map)
  fix k r
  assume "record_ok r"
  then show "record_ok (if sel r \<and> \<not> phase_terminal (phase_of r)
        then r\<lparr>mr_intent := (mr_intent r)\<lparr>mi_phase := p\<rparr>, mr_abort_reason := reason\<rparr> else r) \<and>
      record_evolves r (if sel r \<and> \<not> phase_terminal (phase_of r)
        then r\<lparr>mr_intent := (mr_intent r)\<lparr>mi_phase := p\<rparr>, mr_abort_reason := reason\<rparr> else r)"
    using record_closed [OF _ _ assms, of r] by simp
qed

lemma lawful_set_record:
  assumes "om_find (e_migrations s) a = Some r" "record_ok r \<Longrightarrow> record_ok q \<and> record_evolves r q"
  shows "lawful (e_migrations s) (e_migrations (set_record a q s))"
  unfolding set_record_def om_modify_def using assms by (auto intro!: lawful_map)

lemma lawful_emplace:
  assumes "record_ok q"
  shows "lawful m (om_emplace k q m)"
  using assms by (cases "om_find m k") (auto simp: lawful_def migrations_evolve_def om_find_emplace split: if_split_asm)

lemma ack_authority_not_terminal: "ack_authority_refusal a r s = ReasonOk \<Longrightarrow> \<not> phase_terminal (phase_of r)"
  by (auto simp: ack_authority_refusal_def phase_terminal_def split: if_split_asm)

lemma begin_migration_migrations:
  "mi_phase (fst (begin_migration stored f source c inout s)) = IntentIssued"
  "e_migrations (snd (begin_migration stored f source c inout s)) =
     om_emplace (e_next_attempt s)
       (migration_record_default\<lparr>mr_intent := fst (begin_migration stored f source c inout s)\<rparr>) (e_migrations s)"
  by (simp_all add: begin_migration_def Let_def split_beta)

lemma record_begun: "mi_phase i = IntentIssued \<Longrightarrow> record_ok (migration_record_default\<lparr>mr_intent := i\<rparr>)"
  by (simp add: record_ok_defs migration_record_default_def)

lemma lawful_effect:
  assumes "effect s t" "maps_ok s"
  shows "lawful (e_migrations s) (e_migrations t)"
  using assms(1)
proof (cases rule: effect.cases)
  case (flow_superseded f old)
  then show ?thesis using lawful_close [of Fenced "drop_assignment (fd_flow f) (drop_holder old (fd_flow f) s)"]
    by (simp add: supersede_flow_def)
next
  case (flow_retired flow old)
  let ?s = "drop_assignment flow (drop_holder old flow s\<lparr>e_flows := om_erase flow (e_flows s)\<rparr>)"
  show ?thesis using flow_retired lawful_close [of Fenced ?s] by (simp add: retire_flow_def)
next
  case (incarnation_advanced t old)
  then show ?thesis using lawful_close [of Aborted "demote_assignments (td_target t) s"]
    by (simp add: advance_incarnation_def Let_def)
next
  case (target_retired k old instant)
  show ?thesis using target_retired(1) lawful_close [of Aborted s]
    by (simp add: retire_target_def Let_def migrations_abort_touching migrations_close)
next
  case (migration_begun auth stored f source inout c)
  then show ?thesis by (simp add: begin_migration_migrations lawful_emplace record_begun)
next
  case (migration_declined a r)
  then show ?thesis
    using lawful_set_record [of s "ack_attempt a" r] record_declined [of r] ack_authority_not_terminal [of a r s]
    by (simp add: decline_migration_def Let_def bump_def set_record_def)
next
  case (migration_agreed a r)
  then show ?thesis
    using lawful_set_record [of s "ack_attempt a" r] record_agreed [of r a]
    by (simp add: agree_migration_def Let_def bump_def set_record_def)
next
  case (effect_applied e r)
  then show ?thesis
    using lawful_set_record [of s "ae_attempt e" r] record_applied [of r e s]
    by (simp add: apply_effect_def)
next
  case (record_touched r flow)
  then show ?thesis using assms(2) by (simp add: record_touched_id maps_ok_def)
next
  case (migration_completed attempt r ob)
  then show ?thesis
    using lawful_set_record [of s attempt r] record_completed [of r ob]
    by (simp add: complete_migration_def Let_def)
next
  case (migration_aborted attempt r reason)
  then show ?thesis
    using lawful_set_record [of s attempt r] record_closed [of r Aborted]
    by (simp add: abort_attempt_def Let_def with_phase_def)
qed (simp_all add: advance_capabilities_def Let_def record_evidence_def grant_def revoke_def split_beta)

text \<open>An engine whose maps and migration records are in order, seen from an earlier state \<open>s0\<close>.\<close>

definition follows_protocol :: "impl \<Rightarrow> impl \<Rightarrow> bool" where
  "follows_protocol s0 s \<longleftrightarrow> maps_ok s \<and> protocol_ok s \<and> migrations_evolve (e_migrations s0) (e_migrations s)"

lemma follows_protocol_effect:
  assumes "effect s t" "follows_protocol s0 s"
  shows "follows_protocol s0 t"
proof -
  have "maps_ok s" "maps_ok t" using assms maps_ok_effect by (auto simp: follows_protocol_def)
  then have "om_wf (e_migrations s)" "om_wf (e_migrations t)" by (auto simp: maps_ok_def)
  then show ?thesis
    using lawful_effect [OF assms(1) \<open>maps_ok s\<close>] assms(2) \<open>maps_ok t\<close>
    by (auto simp: follows_protocol_def lawful_def protocol_ok_iff intro: migrations_evolve_trans)
qed

interpretation protocol: effect_invariant "follows_protocol s0" for s0
  by unfold_locales (rule follows_protocol_effect, assumption+, simp add: follows_protocol_def)

section \<open>Properties\<close>

text \<open>
  C7: Every migration attempt follows the protocol.  Through any sequence of operations, an
  attempt keeps its identity (flow, source, destination, authority) and its phase only moves
  along the protocol: source acknowledged, destination acknowledged, applied, completed, with
  abort and fence as the only other exits; a finished attempt is never changed again.
\<close>

theorem attempts_follow_protocol:
  assumes "maps_ok s" "protocol_ok s" "lookup_migration k s = Some r"
  shows "\<exists>q. lookup_migration k (run ops s) = Some q \<and> protocol\<^sup>*\<^sup>* (phase_of r) (phase_of q) \<and>
    mr_intent q = (mr_intent r)\<lparr>mi_phase := phase_of q\<rparr> \<and> (phase_terminal (phase_of r) \<longrightarrow> q = r)"
proof -
  have "follows_protocol s (run ops s)"
    using assms(1,2) by (intro protocol.run_preserves) (simp add: follows_protocol_def)
  then show ?thesis
    using assms(3) by (fastforce simp: follows_protocol_def migrations_evolve_def lookup_migration_def record_evolves_def same_intent_def)
qed

text \<open>
  C1: A migration completes only on full evidence.  In every state reached by operations, a
  completed attempt has the accepted acknowledgements of the source and of the destination for
  the incarnations and capabilities named in its intent, an effect applied by that destination
  with a digest that is not zero, and a verified digest equal to it.
\<close>

theorem completion_requires_evidence:
  assumes "maps_ok s" "protocol_ok s" "lookup_migration k (run ops s) = Some r" "phase_of r = Completed"
  shows "source_ack_ok r \<and> destination_ack_ok r \<and> applied_ok r \<and> verified_ok r"
proof -
  have "follows_protocol s (run ops s)"
    using assms(1,2) by (intro protocol.run_preserves) (simp add: follows_protocol_def)
  then have "record_ok r"
    using assms(3) protocol_ok_iff [of "run ops s"] by (auto simp: follows_protocol_def maps_ok_def lookup_migration_def)
  then show ?thesis using assms(4) by (simp add: record_ok_def)
qed

end
