(* ===== verification/EngineReferences.thy ===== *)
theory EngineReferences
  imports EngineBounds MigrationProtocol
begin

text \<open>
  Referential integrity: what the assignments, the unfinished migrations and the holders of
  exclusive state name is still there, at the generation and incarnation they name.
\<close>

section \<open>The invariant\<close>

definition incarnation_of :: "impl \<Rightarrow> target_id \<Rightarrow> target_incarnation option" where
  "incarnation_of s k = map_option (\<lambda>t. td_incarnation (ts_descriptor t)) (om_find (e_targets s) k)"






section \<open>Effects that add no reference\<close>

text \<open>
  A change that removes or replaces the flows in \<open>X\<close> and moves the targets in \<open>Y\<close> to another
  incarnation keeps the invariant when no remaining assignment or holder names \<open>X\<close> and no
  unfinished migration names \<open>X\<close> or leads to \<open>Y\<close>.
\<close>

definition same_assignment :: "assignment \<Rightarrow> assignment \<Rightarrow> bool" where
  "same_assignment a b \<longleftrightarrow>
     as_flow_generation a = as_flow_generation b \<and> as_target a = as_target b \<and> as_assignment a = as_assignment b"

definition same_holder :: "state_holder \<Rightarrow> state_holder \<Rightarrow> bool" where
  "same_holder g h \<longleftrightarrow> sh_flow g = sh_flow h \<and> sh_flow_generation g = sh_flow_generation h \<and> sh_target g = sh_target h \<and>
     sh_assignment g = sh_assignment h"



lemma same_refl [simp]: "same_assignment a a" "same_holder h h"
  by (simp_all add: same_assignment_def same_holder_def)

lemma incarnation_of_recompute [simp]: "incarnation_of (recompute_scheduled_locked s) = incarnation_of s"
proof
  fix k
  show "incarnation_of (recompute_scheduled_locked s) k = incarnation_of s k"
    using recompute_find [of s k]
    by (cases "om_find (e_targets (recompute_scheduled_locked s)) k") (fastforce simp: incarnation_of_def)+
qed

lemma incarnation_of_cong: "e_targets t = e_targets s \<Longrightarrow> incarnation_of t = incarnation_of s"
  by (simp add: incarnation_of_def fun_eq_iff)

lemma incarnation_of_drop [simp]: "incarnation_of (drop_assignment f s) = incarnation_of s"
  by (simp add: drop_assignment_def split: option.split) (simp add: incarnation_of_def fun_eq_iff)

lemma incarnation_of_adopt [simp]: "incarnation_of (adopt_topology d s) = incarnation_of s"
proof
  fix k
  show "incarnation_of (adopt_topology d s) k = incarnation_of s k"
    by (cases "om_find (e_targets s) k") (simp_all add: adopt_topology_def incarnation_of_def undeclare_def)
qed



lemma same_effect [simp]: "same_assignment (a\<lparr>as_effect := e\<rparr>) b = same_assignment a b" "same_assignment a (b\<lparr>as_effect := e\<rparr>) = same_assignment a b"
  by (simp_all add: same_assignment_def)







lemma set_record_unfinished:
  assumes "om_find (e_migrations (set_record a q s)) k = Some r" "\<not> phase_terminal (phase_of r)"
    "om_find (e_migrations s) a = Some p" "mr_intent q = (mr_intent p)\<lparr>mi_phase := phase_of q\<rparr>"
    "\<not> phase_terminal (phase_of q) \<Longrightarrow> \<not> phase_terminal (phase_of p)"
  shows "\<exists>q. om_find (e_migrations s) k = Some q \<and> \<not> phase_terminal (phase_of q) \<and>
    mr_intent r = (mr_intent q)\<lparr>mi_phase := phase_of r\<rparr>"
  using assms by (auto simp: set_record_def split: if_split_asm)



section \<open>Flows and targets\<close>


lemma drop_holder_fields [simp]:
  "e_flows (drop_holder old f s) = e_flows s" "e_assignments (drop_holder old f s) = e_assignments s"
  "e_migrations (drop_holder old f s) = e_migrations s" "e_targets (drop_holder old f s) = e_targets s"
  by (simp_all add: drop_holder_def split: option.split)

lemma incarnation_of_fields [simp]:
  "incarnation_of (s\<lparr>e_flows := x1\<rparr>) = incarnation_of s" "incarnation_of (close_migrations sel p r u s) = incarnation_of s"
  "incarnation_of (drop_holder old f s) = incarnation_of s" "incarnation_of (demote_assignments d s) = incarnation_of s"
  "incarnation_of (s\<lparr>e_holders := x2\<rparr>) = incarnation_of s" "incarnation_of (s\<lparr>e_assignments := x3\<rparr>) = incarnation_of s"
  "incarnation_of (snd (issue_fence_locked f' t r' i s)) = incarnation_of s" "incarnation_of (bump u s) = incarnation_of s"
  "incarnation_of (abort_touching d s) = incarnation_of s" "incarnation_of (set_record a q s) = incarnation_of s"
  "incarnation_of (set_effect f e s) = incarnation_of s" "incarnation_of (release_attempt a s) = incarnation_of s"
  "incarnation_of (retire_fence i r' s) = incarnation_of s" "incarnation_of (hand_over ob i' s) = incarnation_of s"
  by (rule incarnation_of_cong, simp)+





section \<open>Migrations\<close>





lemma fill_ack_intent [simp]: "mr_intent (fill_ack a r) = mr_intent r"
  by (simp add: fill_ack_def)









section \<open>The invariant holds in every run\<close>



section \<open>Property\<close>



end
