(* ===== verification/EngineProgress.thy ===== *)
theory EngineProgress
  imports EngineInvariants
begin

text \<open>
  Generations never go back.  \<open>advances s0 s\<close> compares an earlier state with a later one: the
  identity of the coordinator, the published generations, the incarnation and capability
  generation of every known target and the sequence number of every evidence source.
\<close>

section \<open>Growing maps\<close>








section \<open>The order of progress\<close>












lemma drop_holder_targets [simp]: "e_targets (drop_holder old f s) = e_targets s"
  by (simp add: drop_holder_def split: option.split)


section \<open>Every effect makes progress\<close>







section \<open>Property\<close>


end
