(* ===== verification/PlacementProperties.thy ===== *)
theory PlacementProperties
  imports EngineReferences EngineProgress
begin

text \<open>
  What placement promises: the verdict on a target, the choice among the candidates, and the
  effect of a request on the engine (independent of the order of its items, idempotent, free of
  side effects when dry).
\<close>

section \<open>Item order\<close>









section \<open>Dry runs\<close>

lemma place_batch_dry: "pr_dry_run r \<Longrightarrow> only_counts s (snd (place_batch r items result s))"
  using place_items_state [of "batch_new s" r "unat (alternatives_limit r s)" items]
  by (simp add: place_batch_def publish_def Let_def batch_new_def split: prod.split)

text \<open>
  C14: A dry run changes nothing.  Apart from the counters and the refusal statistics the state
  after a dry placement request is the state before it.
\<close>

theorem dry_run_changes_only_statistics:
  assumes "pr_dry_run r"
  shows "\<exists>c m. snd (place_locked r s) = s\<lparr>e_counters := c, e_refusal_counts := m\<rparr>"
proof -
  have "only_counts s (snd (place_locked r s))"
    using place_batch_dry [OF assms] by (simp add: place_locked_def Let_def split: option.split)
  then show ?thesis by (simp add: only_counts_def)
qed

section \<open>Idempotent requests\<close>













section \<open>Scheduled load\<close>

lemma saturated_absorbs: "checked_add_cv cv_saturated d = None \<or> checked_add_cv cv_saturated d = Some cv_saturated"
proof -
  have top: "x = 0" if "\<not> - 1 - x < - 1" for x :: u64
  proof -
    have "- 1 - x = - 1" using that word_order.not_eq_extremum by blast
    then show ?thesis by simp
  qed
  show ?thesis
    by (auto simp: checked_add_cv_def checked_add_def cv_saturated_def Let_def dest: top split: option.splits if_split_asm)
qed

lemma committed_demand_saturated: "committed_demand_loop flows k as cv_saturated = cv_saturated"
proof (induction as)
  case (Cons a as)
  obtain f x where a: "a = (f, x)" by fastforce
  show ?case
  proof (cases "om_find flows f")
    case (Some fl)
    then show ?thesis using saturated_absorbs [of "fd_demand fl"] Cons.IH by (auto simp: a)
  qed (simp add: a Cons.IH)
qed simp

lemma schedule_fold_find:
  "om_find (foldl (schedule_assignment flows) m as) k = None \<longleftrightarrow> om_find m k = None"
proof (induction as arbitrary: m)
  case (Cons a as)
  have "om_find (schedule_assignment flows m a) k = None \<longleftrightarrow> om_find m k = None"
    by (auto simp: schedule_assignment_def split: option.split)
  then show ?case using Cons.IH by simp
qed simp

lemma schedule_fold_scheduled:
  "om_find m k = Some t \<Longrightarrow> om_find (foldl (schedule_assignment flows) m as) k = Some t' \<Longrightarrow>
     ts_scheduled t' = committed_demand_loop flows k as (ts_scheduled t)"
proof (induction as arbitrary: m t)
  case (Cons a as)
  obtain f x where a: "a = (f, x)" by fastforce
  show ?case
  proof (cases "as_target x = k")
    case False
    then have "om_find (schedule_assignment flows m a) k = Some t"
      using Cons.prems(1) by (auto simp: schedule_assignment_def a split: option.split)
    then show ?thesis using Cons.IH [of "schedule_assignment flows m a" t] Cons.prems(2) False by (simp add: a)
  next
    case True
    show ?thesis
    proof (cases "om_find flows f")
      case None
      then have "om_find (schedule_assignment flows m a) k = Some t"
        using Cons.prems(1) by (auto simp: schedule_assignment_def a split: option.split)
      then show ?thesis
        using Cons.IH [of "schedule_assignment flows m a" t] Cons.prems(2) True None by (simp add: a)
    next
      case (Some fl)
      let ?v = "case checked_add_cv (ts_scheduled t) (fd_demand fl) of None \<Rightarrow> cv_saturated | Some v \<Rightarrow> v"
      have "om_find (schedule_assignment flows m a) k = Some (t\<lparr>ts_scheduled := ?v\<rparr>)"
        using Cons.prems(1) True Some by (simp add: schedule_assignment_def a)
      from Cons.IH [OF this] Cons.prems(2)
      have "ts_scheduled t' = committed_demand_loop flows k as ?v" by simp
      then show ?thesis
        using True Some by (simp add: a committed_demand_saturated split: option.splits)
    qed
  qed
qed simp

text \<open>
  C20: The incremental accounting agrees with its definition.  After the scheduled loads are
  recomputed, every target carries exactly the committed demand of the flows assigned to it,
  saturated as a whole when a sum overflows.
\<close>

theorem recomputed_load_is_committed_demand:
  assumes "om_find (e_targets (recompute_scheduled_locked s)) k = Some t"
  shows "ts_scheduled t = committed_demand_for_locked k s"
proof -
  let ?m = "om_map (\<lambda>k t. t\<lparr>ts_scheduled := cv_zero\<rparr>) (e_targets s)"
  have find: "om_find (foldl (schedule_assignment (e_flows s)) ?m (e_assignments s)) k = Some t"
    using assms by (simp add: recompute_scheduled_locked_def)
  then obtain u where "om_find ?m k = Some u"
    using schedule_fold_find [of "e_flows s" ?m "e_assignments s" k] by fastforce
  moreover from this have "ts_scheduled u = cv_zero" by auto
  ultimately show ?thesis
    using schedule_fold_scheduled [OF _ find] by (simp add: committed_demand_for_locked_def)
qed

lemma publish_targets: "e_targets (snd (publish r ch g refs res s)) = e_targets s"
  by (simp add: publish_def Let_def)

lemma commits_targets: "e_targets (snd (foldl (commit_pending r g) acc cs)) = e_targets (snd acc)"
proof (induction cs arbitrary: acc)
  case (Cons c cs)
  then show ?case using commit_pending_inputs [of acc r g c] by (simp add: same_inputs_def)
qed simp

lemma place_batch_targets:
  "e_targets (snd (place_batch r items res s)) = e_targets s \<or>
   e_targets (snd (place_batch r items res s)) = e_targets (recompute_scheduled_locked s)"
proof -
  define b where "b = foldl (place_item r (unat (alternatives_limit r s))) (batch_new s) items"
  have b: "only_counts s (b_state b)"
    using place_items_state [of "batch_new s"] by (simp add: b_def batch_new_def)
  have "e_targets (recompute_scheduled_locked ((b_state b)\<lparr>e_schedule_generation := g\<rparr>)) = e_targets (recompute_scheduled_locked s)" for g
    using only_counts_fields [OF b] by (simp add: recompute_scheduled_locked_def)
  then show ?thesis
    using only_counts_fields [OF b]
    by (auto simp: place_batch_def Let_def split_beta b_def [symmetric] publish_targets commits_targets)
qed

text \<open>
  C22: A placement leaves the scheduled loads as they were before it.  The targets after a request
  are the targets before it, at most with their loads recomputed from the assignments before
  it: the demand the request itself commits is not in them until another operation recomputes
  them.
\<close>

theorem placement_leaves_old_loads:
  "e_targets (snd (place_locked r s)) = e_targets s \<or>
   e_targets (snd (place_locked r s)) = e_targets (recompute_scheduled_locked s)"
  using place_batch_targets by (simp add: place_locked_def Let_def split: option.split)

section \<open>The verdict on a target\<close>






section \<open>The choice among the candidates\<close>







section \<open>Rebalancing\<close>

text \<open>A move that may be proposed: the flow may move and the destination is another live target.\<close>

definition justified :: "impl \<Rightarrow> proposal \<Rightarrow> bool" where
  "justified s p \<longleftrightarrow>
     (\<exists>f a t. om_find (e_flows s) (pp_flow p) = Some f \<and> fd_generation f = pp_generation p \<and> \<not> fd_pinned f \<and>
        (fd_allow_migration f \<or> pol_allow_migration (e_policy s)) \<and>
        om_find (e_assignments s) (pp_flow p) = Some a \<and> om_find (e_targets s) (pp_target p) = Some t \<and> is_live t \<and>
        td_incarnation (ts_descriptor t) = pp_incarnation p \<and> pp_target p \<noteq> as_target a) \<and>
     pol_min_improvement_ppm (e_policy s) \<le> pp_improvement p"

lemma rebalance_target_ranked:
  assumes "maps_ok s" "set entries \<subseteq> set (e_targets s)"
    and "c \<in> set (fst (foldl (rebalance_target flow a instant s) (ranked, refs) entries))"
  shows "c \<in> set ranked \<or> (\<exists>t. om_find (e_targets s) (cand_target (rkc_view c)) = Some t \<and> is_live t \<and>
    td_incarnation (ts_descriptor t) = cand_incarnation (rkc_view c) \<and> cand_target (rkc_view c) \<noteq> as_target a)"
  using assms(2,3)
proof (induction entries arbitrary: ranked refs)
  case (Cons e entries)
  obtain k t where e: "e = (k, t)" by fastforce
  obtain verdict view where v: "evaluate_target_locked flow t instant s = (verdict, view)" by fastforce
  have "keyed target_key (e_targets s)" using assms(1) by (simp add: maps_ok_def)
  then have find: "om_find (e_targets s) k = Some t" "td_target (ts_descriptor t) = k"
    using Cons.prems(1) e keyedD [of target_key "e_targets s" k t] by (auto simp: om_in_set_iff)
  obtain ranked' refs' where step: "rebalance_target flow a instant s (ranked, refs) e = (ranked', refs')" by fastforce
  have "c' \<in> set ranked \<or> (\<exists>t. om_find (e_targets s) (cand_target (rkc_view c')) = Some t \<and> is_live t \<and>
      td_incarnation (ts_descriptor t) = cand_incarnation (rkc_view c') \<and> cand_target (rkc_view c') \<noteq> as_target a)"
    if "c' \<in> set ranked'" for c'
    using that step find evaluate_target_view [of flow t instant s] evaluate_target_live [of flow t instant s]
    by (auto simp: rebalance_target_def e v split: if_split_asm sum.splits)
  moreover have "c \<in> set ranked' \<or> (\<exists>t. om_find (e_targets s) (cand_target (rkc_view c)) = Some t \<and> is_live t \<and>
      td_incarnation (ts_descriptor t) = cand_incarnation (rkc_view c) \<and> cand_target (rkc_view c) \<noteq> as_target a)"
    using Cons.IH [of ranked' refs'] Cons.prems step by simp
  ultimately show ?case by blast
qed simp

lemma rebalance_flow_justified:
  assumes "maps_ok s" "(k, a) \<in> set (e_assignments s)" "\<forall>p \<in> set (fst acc). justified s p"
    and "p \<in> set (fst (rebalance_flow instant s acc (k, a)))"
  shows "justified s p"
proof (cases "p \<in> set (fst acc)")
  case False
  have asg: "om_find (e_assignments s) k = Some a"
    using assms(1,2) by (auto simp: maps_ok_def om_in_set_iff)
  from False obtain flow improvement best rest where f: "om_find (e_flows s) k = Some flow" "\<not> fd_pinned flow"
      "fd_allow_migration flow \<or> pol_allow_migration (e_policy s)"
      "stable_sort rank_less (fst (foldl (rebalance_target flow a instant s) ([], snd acc) (e_targets s))) = best # rest"
      "pol_min_improvement_ppm (e_policy s) \<le> improvement" "p = propose flow improvement (rkc_view best)"
    using assms(4)
    by (auto simp: rebalance_flow_def Let_def split_beta not_less split: option.splits if_split_asm list.splits)
  have "best \<in> set (fst (foldl (rebalance_target flow a instant s) ([], snd acc) (e_targets s)))"
    using f(4) by (metis list.set_intros(1) set_stable_sort)
  from rebalance_target_ranked [OF assms(1) order_refl this]
  obtain t where "om_find (e_targets s) (cand_target (rkc_view best)) = Some t" "is_live t"
      "td_incarnation (ts_descriptor t) = cand_incarnation (rkc_view best)" "cand_target (rkc_view best) \<noteq> as_target a"
    by auto
  moreover have "fd_flow flow = k" using f(1) assms(1) keyedD by (fastforce simp: maps_ok_def)
  ultimately show ?thesis using f asg by (simp add: justified_def propose_def)
qed (use assms(3) in blast)

lemma rebalance_proposals_justified:
  assumes "maps_ok s" "set entries \<subseteq> set (e_assignments s)" "\<forall>p \<in> set (fst acc). justified s p"
  shows "\<forall>p \<in> set (fst (foldl (rebalance_flow instant s) acc entries)). justified s p"
  using assms(2,3)
proof (induction entries arbitrary: acc)
  case (Cons e entries)
  have "justified s p" if "p \<in> set (fst (rebalance_flow instant s acc e))" for p
    using rebalance_flow_justified [OF assms(1), of "fst e" "snd e" acc p instant] Cons.prems that by simp
  then show ?case using Cons.IH [of "rebalance_flow instant s acc e"] Cons.prems(1) by (simp only: foldl_Cons) auto
qed simp

definition intent_justified :: "impl \<Rightarrow> migration_intent \<Rightarrow> bool" where
  "intent_justified s i \<longleftrightarrow>
     (\<exists>f a t. om_find (e_flows s) (mi_flow i) = Some f \<and> fd_generation f = mi_flow_generation i \<and> \<not> fd_pinned f \<and>
        (fd_allow_migration f \<or> pol_allow_migration (e_policy s)) \<and>
        om_find (e_assignments s) (mi_flow i) = Some a \<and> mi_source_target i = as_target a \<and>
        mi_source_assignment i = as_assignment a \<and> mi_destination_target i \<noteq> as_target a \<and>
        om_find (e_targets s) (mi_destination_target i) = Some t \<and> is_live t \<and>
        td_incarnation (ts_descriptor t) = mi_destination_incarnation i)"

lemma plan_intent_justified:
  assumes "justified s p"
  shows "intent_justified s (plan_intent instant s p)"
proof -
  obtain a where a: "om_find (e_assignments s) (pp_flow p) = Some a" using assms by (auto simp: justified_def)
  have fields: "mi_flow (plan_intent instant s p) = pp_flow p" "mi_flow_generation (plan_intent instant s p) = pp_generation p"
      "mi_source_target (plan_intent instant s p) = as_target a" "mi_source_assignment (plan_intent instant s p) = as_assignment a"
      "mi_destination_target (plan_intent instant s p) = pp_target p"
      "mi_destination_incarnation (plan_intent instant s p) = pp_incarnation p"
    by (simp_all add: plan_intent_def Let_def a)
  show ?thesis using assms a unfolding justified_def intent_justified_def fields by auto
qed

text \<open>
  C18: Rebalancing is bounded and justified.  It proposes at most as many migrations as the policy,
  the configuration and the request allow, never more than the engine has room for beside those
  in flight, and each one moves a registered flow that is not pinned and may migrate from the
  target of its assignment to another live target at its current incarnation.
\<close>

theorem rebalance_is_bounded_and_justified:
  assumes "maps_ok s" "rebalance_locked r s = (rep, t)"
  shows "length (rep_intents rep) \<le> unat (pol_max_rebalance_migrations (e_policy s)) \<and>
    length (rep_intents rep) \<le> ec_max_rebalance_migrations (e_config s) \<and>
    (rq_max_migrations r \<noteq> 0 \<longrightarrow> length (rep_intents rep) \<le> unat (rq_max_migrations r)) \<and>
    (rep_intents rep = [] \<or> migrations_in_flight_locked s + length (rep_intents rep) \<le> ec_max_migrations (e_config s)) \<and>
    (\<forall>i \<in> set (rep_intents rep). intent_justified s i)"
proof (cases "rep_intents rep = []")
  case False
  let ?ps = "stable_sort proposal_less (fst (foldl (rebalance_flow (rq_evaluation_instant r) s) ([], []) (e_assignments s)))"
  have intents: "rep_intents rep =
      map (plan_intent (rq_evaluation_instant r) s) (take (min (rebalance_limit r s) (length ?ps)) ?ps)"
    using assms(2) False
    by (auto simp: rebalance_locked_def Let_def split_beta rebalance_report_default_def split: if_split_asm)
  then have len: "length (rep_intents rep) \<le> rebalance_limit r s" by simp
  have "justified s p" if "p \<in> set ?ps" for p
    using rebalance_proposals_justified [OF assms(1) order_refl, of "([], [])" "rq_evaluation_instant r"] that by simp
  then have "intent_justified s i" if "i \<in> set (rep_intents rep)" for i
    using that plan_intent_justified unfolding intents by (auto dest!: in_set_takeD)
  then show ?thesis
    using len False by (auto simp: rebalance_limit_def Let_def split: if_split_asm)
qed simp

section \<open>A closed engine\<close>

text \<open>
  C21: A closed engine refuses every operation: it answers with a refusal and its state is left
  as it was.
\<close>

theorem closed_engine_refuses_everything:
  assumes "\<not> e_open s"
  shows "status_failed (fst (execute op s)) \<and> snd (execute op s) = s"
  using assms
  by (cases op) (simp_all add: register_flow_def remove_flow_def declare_target_def remove_target_def ingest_load_def
      set_policy_def set_topology_generation_def register_migration_contract_def place_locked_def rebalance_locked_def
      authorize_def revoke_authorization_def issue_intent_def acknowledge_def report_applied_def observe_def
      abort_migration_def Let_def status_failed_def status_ok_def is_acceptance_def status_refused_def reason_value_def)

section \<open>Refinement\<close>



end
