(* ===== verification/Recovery.thy ===== *)
theory Recovery
  imports Store
begin

text \<open>
  What recovery finds on a disk that the store wrote.  A journal is described by the list of
  its committed records; recovery replays exactly the records newer than the snapshot, and a
  journal that ends inside a record recovers the state before that record.
\<close>

section \<open>Reading the images back\<close>

definition payload_of :: "durable_state \<Rightarrow> byte list" where
  "payload_of s = cw_buffer (encode_payload s)"

text \<open>A state that the journal can hold: it is valid and its encoding fits a record.\<close>

definition storable :: "durable_state \<Rightarrow> bool" where
  "storable s \<longleftrightarrow> valid_durable_state s \<and> w_ok (encode_payload s) \<and> length (payload_of s) \<le> kMaxJournalRecordBytes"

lemma decode_payload_of: "storable s \<Longrightarrow> decode_payload (payload_of s) = Some s"
  using durable_state_codec.roundtrip [of s kMaxCanonicalBytes]
  by (auto simp: storable_def encode_payload_def payload_of_def decode_payload_def)

lemma length_magic [simp]: "length kJournalMagic = 8" "length kSnapshotMagic = 8"
  by (simp_all add: kJournalMagic_def kSnapshotMagic_def string_bytes_def)

lemma length_journal_header [simp]: "length dg = 32 \<Longrightarrow> length (journal_header base dg) = 96"
  by (simp add: journal_header_def Let_def)

lemma length_record_image [simp]: "length (record_image sequence payload) = 48 + length payload"
  by (simp add: record_image_def Let_def)

lemma get_u32_at: "drop off bytes = be32 v @ rest \<Longrightarrow> get_u32 bytes off = v"
  by (simp add: get_u32_def)

lemma get_u64_at: "drop off bytes = be64 v @ rest \<Longrightarrow> get_u64 bytes off = v"
  by (simp add: get_u64_def)

lemma get_digest_at: "drop off bytes = dg @ rest \<Longrightarrow> length dg = 32 \<Longrightarrow> get_digest bytes off = dg"
  by (simp add: get_digest_def)

lemma digest_range_at:
  "drop start bytes = p @ rest \<Longrightarrow> stop = start + length p \<Longrightarrow> digest_range bytes start stop = sha256_of p"
  by (simp add: digest_range_def)

lemma drop_further: "drop off bytes = p @ rest \<Longrightarrow> drop (off + length p) bytes = rest"
  by (metis append_eq_conv_conj drop_drop add.commute)

lemma drop_lengthD: "drop off bytes = p @ rest \<Longrightarrow> p \<noteq> [] \<Longrightarrow> length bytes = off + length p + length rest"
proof -
  assume d: "drop off bytes = p @ rest" and p: "p \<noteq> []"
  have "length bytes - off = length p + length rest" using arg_cong [OF d, of length] by simp
  moreover have "0 < length p" using p by simp
  ultimately show ?thesis by linarith
qed

lemma record_image_not_Nil [simp]: "record_image sequence payload \<noteq> []"
  using length_record_image [of sequence payload] by (metis add_is_0 list.size(3) numeral_neq_zero zero_neq_numeral)

text \<open>What the scan reads at the start of a record.\<close>

lemma record_fields:
  assumes d: "drop off bytes = record_image sequence payload @ rest" and len: "length payload < 2 ^ 32"
  shows "get_u32 bytes off = of_nat (length payload)"
    and "unat (get_u32 bytes off) = length payload"
    and "get_u64 bytes (off + 4) = sequence"
    and "bytes ! (off + 12) = kRecordKindFullState"
    and "digest_range bytes off (off + 16 + length payload) = get_digest bytes (off + 16 + length payload)"
    and "digest_range bytes off (off + 16 + length payload) = sha256_of (take (16 + length payload) (record_image sequence payload))"
    and "take (length payload) (drop (off + 16) bytes) = payload"
    and "drop (off + (48 + length payload)) bytes = rest"
    and "length bytes = off + 48 + length payload + length rest"
proof -
  define h where "h = be32 (of_nat (length payload)) @ be64 sequence @ [kRecordKindFullState, 0, 0, 0]"
  have lh: "length h = 16" by (simp add: h_def)
  have img: "record_image sequence payload = (h @ payload) @ sha256_of (h @ payload)"
    by (simp add: record_image_def Let_def h_def)
  have d0: "drop off bytes = be32 (of_nat (length payload)) @ (be64 sequence @ [kRecordKindFullState, 0, 0, 0] @
      payload @ sha256_of (h @ payload) @ rest)"
    using d by (simp add: img h_def)
  show u: "get_u32 bytes off = of_nat (length payload)" by (rule get_u32_at [OF d0])
  show "unat (get_u32 bytes off) = length payload"
    unfolding u using len by (simp add: unat_of_nat take_bit_nat_eq_self)
  have d4: "drop (off + 4) bytes = be64 sequence @ [kRecordKindFullState, 0, 0, 0] @
      payload @ sha256_of (h @ payload) @ rest"
    using drop_further [OF d0] by simp
  show "get_u64 bytes (off + 4) = sequence" by (rule get_u64_at [OF d4])
  show ln: "length bytes = off + 48 + length payload + length rest"
    using drop_lengthD [OF d record_image_not_Nil] by simp
  have d12: "drop (off + 12) bytes = kRecordKindFullState # [0, 0, 0] @ payload @ sha256_of (h @ payload) @ rest"
    using drop_further [OF d4] by (simp add: add.commute)
  then have "drop (off + 12) bytes ! 0 = kRecordKindFullState" by simp
  then show "bytes ! (off + 12) = kRecordKindFullState" using ln by simp
  have dh: "drop off bytes = (h @ payload) @ (sha256_of (h @ payload) @ rest)" using d by (simp add: img)
  have dd: "drop (off + 16 + length payload) bytes = sha256_of (h @ payload) @ rest"
    using drop_further [OF dh] lh by (simp add: add.assoc)
  have dr: "digest_range bytes off (off + 16 + length payload) = sha256_of (h @ payload)"
    by (rule digest_range_at [OF dh]) (simp add: lh)
  show "digest_range bytes off (off + 16 + length payload) = get_digest bytes (off + 16 + length payload)"
    unfolding dr using get_digest_at [OF dd] by simp
  show "digest_range bytes off (off + 16 + length payload) = sha256_of (take (16 + length payload) (record_image sequence payload))"
    unfolding dr img using lh by simp
  have "drop (off + 16) bytes = payload @ sha256_of (h @ payload) @ rest"
    using drop_further [of off bytes h "payload @ sha256_of (h @ payload) @ rest"] d lh by (simp add: img)
  then show "take (length payload) (drop (off + 16) bytes) = payload" by simp
  show "drop (off + (48 + length payload)) bytes = rest"
    using drop_further [OF d] by simp
qed

section \<open>Replaying records\<close>

text \<open>A committed record: its sequence and its state.\<close>

type_synonym committed = "u64 \<times> durable_state"

definition committed_image :: "committed \<Rightarrow> byte list" where
  "committed_image c = record_image (fst c) (payload_of (snd c))"

text \<open>The effect of one intact record of total length \<open>n\<close> at \<open>off\<close> on the scan.\<close>

definition apply_record :: "journal_scan \<Rightarrow> nat \<Rightarrow> committed \<Rightarrow> journal_scan" where
  "apply_record j off c =
     (let pass = js_pass j; stop = off + length (committed_image c) in
      if fst c \<le> rp_sequence pass then j\<lparr>js_last_good := stop\<rparr>
      else j\<lparr>js_pass := pass\<lparr>rp_state := snd c, rp_sequence := fst c,
                rp_snapshot_digest := sha256_of (take (16 + length (payload_of (snd c))) (committed_image c)),
                rp_has_state := True, rp_records_replayed := rp_records_replayed pass + 1\<rparr>,
             js_used := True, js_last_good := stop\<rparr>)"

fun apply_records :: "journal_scan \<Rightarrow> nat \<Rightarrow> committed list \<Rightarrow> journal_scan" where
  "apply_records j off [] = j"
| "apply_records j off (c # cs) = apply_records (apply_record j off c) (off + length (committed_image c)) cs"

definition fits :: "store_config \<Rightarrow> committed \<Rightarrow> bool" where
  "fits config c \<longleftrightarrow> storable (snd c) \<and> length (committed_image c) \<le> unat (sc_max_journal_bytes config)"

lemma length_committed_image: "length (committed_image c) = 48 + length (payload_of (snd c))"
  by (simp add: committed_image_def)

lemma scan_one:
  assumes "drop off bytes = committed_image c @ rest" and "fits config c"
  shows "scan_records config bytes off j =
    scan_records config bytes (off + length (committed_image c)) (apply_record j off c)"
proof -
  let ?p = "payload_of (snd c)"
  have st: "storable (snd c)" and cap: "48 + length ?p \<le> unat (sc_max_journal_bytes config)"
    using assms(2) by (simp_all add: fits_def length_committed_image)
  have small: "length ?p \<le> kMaxJournalRecordBytes" and len: "length ?p < 2 ^ 32"
    using st by (simp_all add: storable_def kMaxJournalRecordBytes_def)
  note f = record_fields [OF assms(1) [unfolded committed_image_def] len]
  have av: "off < length bytes" "\<not> length bytes - off < 16" "\<not> length bytes - off < 48 + length ?p"
    using f(9) by simp_all
  show ?thesis
    by (subst scan_records.simps)
      (use av f small cap decode_payload_of [OF st] in
        \<open>simp add: Let_def apply_record_def length_committed_image committed_image_def not_less\<close>)
qed

lemma scan_many:
  assumes "drop off bytes = concat (map committed_image cs) @ rest" and "list_all (fits config) cs"
  shows "scan_records config bytes off j =
    scan_records config bytes (off + length (concat (map committed_image cs))) (apply_records j off cs)"
  using assms
proof (induction cs arbitrary: off j)
  case (Cons c cs)
  have d: "drop off bytes = committed_image c @ (concat (map committed_image cs) @ rest)"
    using Cons.prems by simp
  have "drop (off + length (committed_image c)) bytes = concat (map committed_image cs) @ rest"
    by (rule drop_further [OF d])
  with scan_one [OF d, of config j] Cons show ?case by (simp add: add.assoc)
qed simp

lemma scan_end: "\<not> off < length bytes \<Longrightarrow> scan_records config bytes off j = Inr j"
  by (simp add: scan_records.simps)

text \<open>A journal that ends inside a record: the scan stops there and keeps what it has.\<close>

lemma scan_torn:
  assumes d: "drop off bytes = take k (committed_image c)" and "0 < k" "k < length (committed_image c)"
    and "fits config c"
  shows "\<exists>detail. scan_records config bytes off j =
    Inr (j\<lparr>js_torn_tail := True, js_pass := set_detail detail (js_pass j)\<rparr>)"
proof -
  let ?p = "payload_of (snd c)"
  have st: "storable (snd c)" and cap: "48 + length ?p \<le> unat (sc_max_journal_bytes config)"
    using assms(4) by (simp_all add: fits_def length_committed_image)
  have small: "length ?p \<le> kMaxJournalRecordBytes" and len: "length ?p < 2 ^ 32"
    using st by (simp_all add: storable_def kMaxJournalRecordBytes_def)
  have lb: "length bytes - off = k" using arg_cong [OF d, of length] assms(3) by simp
  then have off: "off < length bytes" using assms(2) by linarith
  have lp: "k < 48 + length ?p" using assms(3) by (simp add: length_committed_image)
  show ?thesis
  proof (cases "k < 16")
    case True
    then show ?thesis using off lb by (subst scan_records.simps) auto
  next
    case False
    obtain rest where "drop off bytes = be32 (of_nat (length ?p)) @ rest"
      using False by (simp add: d committed_image_def record_image_def Let_def take_append)
    then have "unat (get_u32 bytes off) = length ?p"
      using len by (simp add: get_u32_at unat_of_nat take_bit_nat_eq_self)
    then show ?thesis
      using off lb lp False small cap by (subst scan_records.simps) (auto simp: Let_def)
  qed
qed

text \<open>Records with increasing sequences above the snapshot are all replayed, in order.\<close>

lemma apply_records_increasing:
  assumes "sorted_wrt (<) (rp_sequence (js_pass j) # map fst cs)"
  shows "apply_records j off cs =
    (if cs = [] then j
     else j\<lparr>js_pass := (js_pass j)\<lparr>rp_state := snd (last cs), rp_sequence := fst (last cs),
                rp_snapshot_digest := sha256_of (take (16 + length (payload_of (snd (last cs)))) (committed_image (last cs))),
                rp_has_state := True, rp_records_replayed := rp_records_replayed (js_pass j) + of_nat (length cs)\<rparr>,
            js_used := True, js_last_good := off + length (concat (map committed_image cs))\<rparr>)"
  using assms
proof (induction cs arbitrary: j off)
  case (Cons c cs)
  let ?j = "apply_record j off c"
  have j: "?j = j\<lparr>js_pass := (js_pass j)\<lparr>rp_state := snd c, rp_sequence := fst c,
                rp_snapshot_digest := sha256_of (take (16 + length (payload_of (snd c))) (committed_image c)),
                rp_has_state := True, rp_records_replayed := rp_records_replayed (js_pass j) + 1\<rparr>,
             js_used := True, js_last_good := off + length (committed_image c)\<rparr>"
    using Cons.prems leD [of "fst c" "rp_sequence (js_pass j)"] by (auto simp: apply_record_def Let_def)
  have "sorted_wrt (<) (rp_sequence (js_pass ?j) # map fst cs)" using Cons.prems by (simp add: j)
  from Cons.IH [OF this, of "off + length (committed_image c)"] show ?case
    by (simp add: j add.assoc)
qed simp

text \<open>Records that the snapshot already covers are skipped.\<close>

lemma apply_records_covered:
  assumes "\<forall>c \<in> set cs. fst c \<le> rp_sequence (js_pass j)"
  shows "apply_records j off cs =
    (if cs = [] then j else j\<lparr>js_last_good := off + length (concat (map committed_image cs))\<rparr>)"
  using assms
proof (induction cs arbitrary: j off)
  case (Cons c cs)
  have j: "apply_record j off c = j\<lparr>js_last_good := off + length (committed_image c)\<rparr>"
    using Cons.prems by (simp add: apply_record_def Let_def)
  show ?case using Cons.IH [of "apply_record j off c" "off + length (committed_image c)"] Cons.prems
    by (simp add: j add.assoc)
qed simp

section \<open>Whole files\<close>

definition journal_image :: "u64 \<Rightarrow> digest \<Rightarrow> committed list \<Rightarrow> byte list" where
  "journal_image base dg cs = journal_header base dg @ concat (map committed_image cs)"

lemma journal_header_fields:
  assumes "length dg = 32"
  shows "take 8 (journal_header base dg @ rest) = kJournalMagic"
    and "get_u32 (journal_header base dg @ rest) 8 = kJournalContainerVersion"
    and "get_u32 (journal_header base dg @ rest) 12 = kStateSemanticsVersion"
    and "get_u64 (journal_header base dg @ rest) 16 = base"
    and "digest_range (journal_header base dg @ rest) 0 64 = get_digest (journal_header base dg @ rest) 64"
proof -
  define p where "p = kJournalMagic @ be32 kJournalContainerVersion @ be32 kStateSemanticsVersion @
      be64 base @ dg @ be64 0"
  have h: "journal_header base dg = p @ sha256_of p" by (simp add: journal_header_def Let_def p_def)
  have lp: "length p = 64" using assms by (simp add: p_def)
  have d0: "journal_header base dg @ rest = kJournalMagic @ (be32 kJournalContainerVersion @
      be32 kStateSemanticsVersion @ be64 base @ dg @ be64 0 @ sha256_of p @ rest)"
    by (simp add: h p_def)
  show "take 8 (journal_header base dg @ rest) = kJournalMagic" unfolding d0 by simp
  show "get_u32 (journal_header base dg @ rest) 8 = kJournalContainerVersion"
    by (rule get_u32_at) (simp add: d0)
  show "get_u32 (journal_header base dg @ rest) 12 = kStateSemanticsVersion"
    by (rule get_u32_at) (simp add: d0)
  show "get_u64 (journal_header base dg @ rest) 16 = base"
    by (rule get_u64_at) (simp add: d0)
  have "digest_range (journal_header base dg @ rest) 0 64 = sha256_of p"
    by (rule digest_range_at [where rest = "sha256_of p @ rest"]) (simp_all add: h lp)
  moreover have "get_digest (journal_header base dg @ rest) 64 = sha256_of p"
    by (rule get_digest_at [where rest = rest]) (simp_all add: h lp)
  ultimately show "digest_range (journal_header base dg @ rest) 0 64 = get_digest (journal_header base dg @ rest) 64"
    by simp
qed

lemma read_file_ok: "length content \<le> unat max_bytes \<Longrightarrow> read_file_bounded IoOk content max_bytes = Inr content"
  by (simp add: read_file_bounded_def)

text \<open>Recovery of a journal that continues with arbitrary bytes after its header.\<close>

lemma recover_journal_scan:
  assumes "length dg = 32" and "length (journal_header base dg @ rest) \<le> unat (sc_max_journal_bytes config)"
    and "rp_snapshot_used pass \<Longrightarrow> base \<le> rp_sequence pass"
  shows "recover_journal config IoOk (Some (journal_header base dg @ rest)) pass =
    scan_records config (journal_header base dg @ rest) 96
      \<lparr>js_pass = pass\<lparr>rp_journal_header_ok := True\<rparr>, js_used = False, js_torn_tail = False, js_last_good = 96\<rparr>"
  unfolding recover_journal_def option.case read_file_ok [OF assms(2)] sum.case
  using journal_header_fields [OF assms(1), of base rest] assms(1) leD [OF assms(3)]
  by (auto simp: Let_def)

lemma snapshot_fields:
  fixes s n
  defines "p \<equiv> payload_of s"
  defines "f \<equiv> snapshot_image s n p"
  assumes len: "length p < 2 ^ 64"
  shows "length f = 128 + length p" and "take 8 f = kSnapshotMagic"
    and "get_u32 f 8 = kSnapshotContainerVersion" and "get_u32 f 12 = kStateSemanticsVersion"
    and "get_u32 f 20 = 0" and "unat (get_u64 f 48) = length p" and "get_u64 f 56 = n"
    and "get_digest f 64 = sha256_of p" and "digest_range f 0 96 = get_digest f 96"
    and "digest_range f 128 (128 + length p) = sha256_of p" and "drop 128 f = p"
proof -
  define h where "h = kSnapshotMagic @ be32 kSnapshotContainerVersion @ be32 kStateSemanticsVersion @ be32 0 @ be32 0 @
      be64 (ds_epoch s) @ be64 (boot_high (ds_boot s)) @ be64 (boot_low (ds_boot s)) @
      be64 (of_nat (length p)) @ be64 n @ sha256_of p"
  have f: "f = h @ sha256_of h @ p" by (simp add: f_def snapshot_image_def Let_def h_def)
  have lh: "length h = 96" by (simp add: h_def)
  show "length f = 128 + length p" by (simp add: f lh)
  show "take 8 f = kSnapshotMagic" by (simp add: f h_def)
  show "get_u32 f 8 = kSnapshotContainerVersion" by (rule get_u32_at) (simp add: f h_def)
  show "get_u32 f 12 = kStateSemanticsVersion" by (rule get_u32_at) (simp add: f h_def)
  show "get_u32 f 20 = 0" by (rule get_u32_at) (simp add: f h_def)
  have "get_u64 f 48 = of_nat (length p)" by (rule get_u64_at) (simp add: f h_def)
  then show "unat (get_u64 f 48) = length p" using len by (simp add: unat_of_nat take_bit_nat_eq_self)
  show "get_u64 f 56 = n" by (rule get_u64_at) (simp add: f h_def)
  show "get_digest f 64 = sha256_of p"
    by (rule get_digest_at [where rest = "sha256_of h @ p"]) (simp_all add: f h_def)
  have "digest_range f 0 96 = sha256_of h" by (rule digest_range_at [where rest = "sha256_of h @ p"]) (simp_all add: f lh)
  moreover have "get_digest f 96 = sha256_of h" by (rule get_digest_at [where rest = p]) (simp_all add: f lh)
  ultimately show "digest_range f 0 96 = get_digest f 96" by simp
  show d: "drop 128 f = p" using lh by (simp add: f)
  show "digest_range f 128 (128 + length p) = sha256_of p"
    by (rule digest_range_at [where rest = "[]"]) (simp_all add: d)
qed

definition snapshot_fits :: "store_config \<Rightarrow> committed \<Rightarrow> bool" where
  "snapshot_fits config c \<longleftrightarrow> storable (snd c) \<and>
     length (snapshot_image (snd c) (fst c) (payload_of (snd c))) \<le> unat (sc_max_snapshot_bytes config)"

lemma storable_length: "storable s \<Longrightarrow> length (payload_of s) < 2 ^ 64"
  by (simp add: storable_def kMaxJournalRecordBytes_def)

lemma recover_snapshot_image:
  assumes "snapshot_fits config (n, s)"
  shows "recover_snapshot config IoOk (Some (snapshot_image s n (payload_of s))) pass =
    Inr (pass\<lparr>rp_snapshot_used := True, rp_sequence := n, rp_snapshot_digest := sha256_of (payload_of s),
              rp_state := s, rp_has_state := True\<rparr>, False)"
proof -
  have st: "storable s" and len: "length (snapshot_image s n (payload_of s)) \<le> unat (sc_max_snapshot_bytes config)"
    using assms by (simp_all add: snapshot_fits_def)
  note f = snapshot_fields [OF storable_length [OF st], of n]
  show ?thesis
    unfolding recover_snapshot_def option.case read_file_ok [OF len] sum.case
    using f decode_payload_of [OF st] by simp
qed

section \<open>The log\<close>

text \<open>
  The abstract content of the disk: at most one snapshot, then the records committed after
  it; \<open>tail\<close> is what a write in progress has left behind them.
\<close>

definition log_disk :: "committed option \<Rightarrow> u64 \<Rightarrow> digest \<Rightarrow> committed list \<Rightarrow> byte list \<Rightarrow> disk" where
  "log_disk snap base dg cs tail =
     \<lparr>dk_directory = True,
      dk_snapshot = map_option (\<lambda>(n, s). snapshot_image s n (payload_of s)) snap,
      dk_journal = Some (journal_image base dg cs @ tail)\<rparr>"

lemma log_disk_journal [simp]:
  "dk_journal (log_disk snap base dg cs tail) = Some (journal_image base dg cs @ tail)"
  "dk_directory (log_disk snap base dg cs tail)"
  by (simp_all add: log_disk_def)

definition snap_sequence :: "committed option \<Rightarrow> u64" where
  "snap_sequence snap = (case snap of None \<Rightarrow> 0 | Some c \<Rightarrow> fst c)"

definition newest :: "committed option \<Rightarrow> committed list \<Rightarrow> committed option" where
  "newest snap cs = (if cs = [] then snap else Some (last cs))"

definition log_shape :: "store_config \<Rightarrow> committed option \<Rightarrow> u64 \<Rightarrow> digest \<Rightarrow> committed list \<Rightarrow> bool" where
  "log_shape config snap base dg cs \<longleftrightarrow>
     length dg = 32 \<and> list_all (fits config) cs \<and>
     (case snap of None \<Rightarrow> True | Some c \<Rightarrow> snapshot_fits config c \<and> base \<le> fst c)"

definition log_ok :: "store_config \<Rightarrow> committed option \<Rightarrow> u64 \<Rightarrow> digest \<Rightarrow> committed list \<Rightarrow> bool" where
  "log_ok config snap base dg cs \<longleftrightarrow>
     log_shape config snap base dg cs \<and> sorted_wrt (<) (snap_sequence snap # map fst cs)"

text \<open>What a recovery pass reports: whether it is usable, and the commit it restores.\<close>

definition restored :: "recovery_pass \<Rightarrow> committed option" where
  "restored p = (if rp_has_state p then Some (rp_sequence p, rp_state p) else None)"

definition after_snapshot :: "committed option \<Rightarrow> recovery_pass" where
  "after_snapshot snap =
     (let pass = recovery_pass_default\<lparr>rp_journal_exists := True\<rparr> in
      case snap of None \<Rightarrow> pass
      | Some (n, s) \<Rightarrow> pass\<lparr>rp_snapshot_used := True, rp_sequence := n, rp_snapshot_digest := sha256_of (payload_of s),
              rp_state := s, rp_has_state := True\<rparr>)"

lemma after_snapshot_fields [simp]:
  "rp_sequence (after_snapshot snap) = snap_sequence snap"
  "rp_has_state (after_snapshot snap) = (snap \<noteq> None)"
  "rp_snapshot_used (after_snapshot snap) = (snap \<noteq> None)"
  "rp_journal_exists (after_snapshot snap)"
  "rp_records_replayed (after_snapshot snap) = 0"
  "rp_report (after_snapshot snap) = recovery_report_default"
  "snap = Some c \<Longrightarrow> rp_state (after_snapshot snap) = snd c"
  by (auto simp: after_snapshot_def recovery_pass_default_def snap_sequence_def Let_def
      split: option.split prod.split)

definition start_scan :: "committed option \<Rightarrow> journal_scan" where
  "start_scan snap = \<lparr>js_pass = (after_snapshot snap)\<lparr>rp_journal_header_ok := True\<rparr>, js_used = False,
     js_torn_tail = False, js_last_good = 96\<rparr>"

lemma recover_log_scan:
  assumes "log_shape config snap base dg cs"
    and "length (journal_image base dg cs @ tail) \<le> unat (sc_max_journal_bytes config)"
  shows "recover config IoOk IoOk (log_disk snap base dg cs tail) =
    (case scan_records config (journal_image base dg cs @ tail) (length (journal_image base dg cs))
        (apply_records (start_scan snap) 96 cs) of
       Inl p \<Rightarrow> p
     | Inr j \<Rightarrow> if \<not> rp_has_state (js_pass j) then recover_without_state False j else recover_with_state j)"
proof -
  have dg: "length dg = 32" and fit: "list_all (fits config) cs" using assms(1) by (simp_all add: log_shape_def)
  have base: "rp_snapshot_used (after_snapshot snap) \<Longrightarrow> base \<le> rp_sequence (after_snapshot snap)"
    using assms(1) by (auto simp: log_shape_def snap_sequence_def)
  have snap: "recover_snapshot config IoOk (dk_snapshot (log_disk snap base dg cs tail))
      (recovery_pass_default\<lparr>rp_journal_exists := True\<rparr>) = Inr (after_snapshot snap, False)"
  proof (cases snap)
    case None
    then show ?thesis by (simp add: log_disk_def recover_snapshot_def after_snapshot_def)
  next
    case (Some c)
    then obtain n s where c: "c = (n, s)" "snapshot_fits config (n, s)"
      using assms(1) by (cases c) (simp add: log_shape_def)
    show ?thesis unfolding log_disk_def disk.simps Some c option.map case_prod_conv
        recover_snapshot_image [OF c(2)] by (simp add: after_snapshot_def)
  qed
  have bytes: "journal_image base dg cs @ tail = journal_header base dg @ (concat (map committed_image cs) @ tail)"
    by (simp add: journal_image_def)
  have len: "length (journal_header base dg @ (concat (map committed_image cs) @ tail)) \<le> unat (sc_max_journal_bytes config)"
    using assms(2) by (simp add: journal_image_def)
  have "recover_journal config IoOk (Some (journal_image base dg cs @ tail)) (after_snapshot snap) =
      scan_records config (journal_image base dg cs @ tail) 96 (start_scan snap)"
    unfolding bytes using recover_journal_scan [OF dg len base] by (simp add: start_scan_def)
  also have "\<dots> = scan_records config (journal_image base dg cs @ tail)
      (96 + length (concat (map committed_image cs))) (apply_records (start_scan snap) 96 cs)"
    by (rule scan_many [OF _ fit, where rest = tail]) (simp add: journal_image_def dg)
  also have "96 + length (concat (map committed_image cs)) = length (journal_image base dg cs)"
    by (simp add: journal_image_def dg)
  finally show ?thesis
    unfolding recover_def Let_def by (simp add: snap)
qed

lemma log_okD: "log_ok config snap base dg cs \<Longrightarrow> log_shape config snap base dg cs"
  by (simp add: log_ok_def)

lemma apply_start:
  assumes "log_ok config snap base dg cs"
  shows "js_torn_tail (apply_records (start_scan snap) 96 cs) = False"
    and "rp_has_state (js_pass (apply_records (start_scan snap) 96 cs)) = (newest snap cs \<noteq> None)"
    and "newest snap cs = Some c \<Longrightarrow> rp_state (js_pass (apply_records (start_scan snap) 96 cs)) = snd c \<and>
         rp_sequence (js_pass (apply_records (start_scan snap) 96 cs)) = fst c"
    and "js_last_good (apply_records (start_scan snap) 96 cs) = length (journal_image base dg cs)"
proof -
  have s: "sorted_wrt (<) (rp_sequence (js_pass (start_scan snap)) # map fst cs)" and dg: "length dg = 32"
    using assms by (simp_all add: log_ok_def log_shape_def start_scan_def)
  note a = apply_records_increasing [OF s, of 96]
  show "js_torn_tail (apply_records (start_scan snap) 96 cs) = False"
    "rp_has_state (js_pass (apply_records (start_scan snap) 96 cs)) = (newest snap cs \<noteq> None)"
    "js_last_good (apply_records (start_scan snap) 96 cs) = length (journal_image base dg cs)"
    unfolding a by (simp_all add: newest_def start_scan_def journal_image_def dg)
  show "newest snap cs = Some c \<Longrightarrow> rp_state (js_pass (apply_records (start_scan snap) 96 cs)) = snd c \<and>
         rp_sequence (js_pass (apply_records (start_scan snap) 96 cs)) = fst c"
    unfolding a by (auto simp: newest_def start_scan_def snap_sequence_def split: if_splits)
qed

text \<open>The commit as recovery hands it to the engine.\<close>

definition canonical_commit :: "committed \<Rightarrow> committed" where
  "canonical_commit c = (fst c, canonicalize_order (snd c))"

lemma recover_with_state_fields [simp]:
  "rv_usable (rp_report (recover_with_state j))"
  "rp_has_state (recover_with_state j) = rp_has_state (js_pass j)"
  "rp_sequence (recover_with_state j) = rp_sequence (js_pass j)"
  "rp_state (recover_with_state j) = canonicalize_order (rp_state (js_pass j))"
  "rp_torn_tail (recover_with_state j) = js_torn_tail j"
  "rp_journal_good_bytes (recover_with_state j) = (if js_torn_tail j then js_last_good j else 0)"
  "rp_journal_exists (recover_with_state j) = rp_journal_exists (js_pass j)"
  "rp_journal_header_ok (recover_with_state j) = rp_journal_header_ok (js_pass j)"
  "rp_snapshot_used (recover_with_state j) = rp_snapshot_used (js_pass j)"
  "rp_snapshot_digest (recover_with_state j) = rp_snapshot_digest (js_pass j)"
  "rp_records_replayed (recover_with_state j) = rp_records_replayed (js_pass j)"
  by (simp_all add: recover_with_state_def classify_def Let_def)

lemma recover_without_state_fields [simp]:
  "rv_usable (rp_report (recover_without_state False j))"
  "rp_has_state (recover_without_state b j) = rp_has_state (js_pass j)"
  by (simp_all add: recover_without_state_def or_detail_def set_detail_def classify_def Let_def)

lemma set_detail_fields [simp]:
  "rp_has_state (set_detail d p) = rp_has_state p" "rp_sequence (set_detail d p) = rp_sequence p"
  "rp_state (set_detail d p) = rp_state p" "rp_journal_exists (set_detail d p) = rp_journal_exists p"
  "rp_journal_header_ok (set_detail d p) = rp_journal_header_ok p"
  "rp_snapshot_used (set_detail d p) = rp_snapshot_used p"
  "rp_snapshot_digest (set_detail d p) = rp_snapshot_digest p"
  by (simp_all add: set_detail_def)

lemma recover_intact:
  assumes "log_ok config snap base dg cs"
    and "length (journal_image base dg cs) \<le> unat (sc_max_journal_bytes config)"
  defines "p \<equiv> recover config IoOk IoOk (log_disk snap base dg cs [])"
  shows "rv_usable (rp_report p) \<and> restored p = map_option canonical_commit (newest snap cs) \<and>
    (newest snap cs \<noteq> None \<longrightarrow> \<not> rp_torn_tail p)"
proof -
  have "p = (let j = apply_records (start_scan snap) 96 cs in
      if \<not> rp_has_state (js_pass j) then recover_without_state False j else recover_with_state j)"
    unfolding p_def using recover_log_scan [OF log_okD [OF assms(1)], of "[]"] assms(2) by (simp add: scan_end Let_def)
  then show ?thesis
    using apply_start(1,2) [OF assms(1)] apply_start(3) [OF assms(1)]
    by (cases "newest snap cs") (auto simp: restored_def canonical_commit_def Let_def)
qed

lemma recover_torn:
  assumes "log_ok config snap base dg cs" and "fits config c" and "0 < k" "k < length (committed_image c)"
    and "length (journal_image base dg cs) + k \<le> unat (sc_max_journal_bytes config)"
  defines "p \<equiv> recover config IoOk IoOk (log_disk snap base dg cs (take k (committed_image c)))"
  shows "rv_usable (rp_report p) \<and> restored p = map_option canonical_commit (newest snap cs) \<and>
    (newest snap cs \<noteq> None \<longrightarrow> rp_torn_tail p \<and> rp_journal_good_bytes p = length (journal_image base dg cs))"
proof -
  let ?j = "apply_records (start_scan snap) 96 cs"
  have len: "length (journal_image base dg cs @ take k (committed_image c)) \<le> unat (sc_max_journal_bytes config)"
    using assms(4,5) by simp
  obtain d where "scan_records config (journal_image base dg cs @ take k (committed_image c))
      (length (journal_image base dg cs)) ?j = Inr (?j\<lparr>js_torn_tail := True, js_pass := set_detail d (js_pass ?j)\<rparr>)"
    using scan_torn [OF _ assms(3,4,2), of "length (journal_image base dg cs)"] by fastforce
  then have "p = (let j = ?j\<lparr>js_torn_tail := True, js_pass := set_detail d (js_pass ?j)\<rparr> in
      if \<not> rp_has_state (js_pass j) then recover_without_state False j else recover_with_state j)"
    unfolding p_def recover_log_scan [OF log_okD [OF assms(1)] len] by (simp add: Let_def)
  then show ?thesis
    using apply_start(2,4) [OF assms(1)] apply_start(3) [OF assms(1)]
    by (cases "newest snap cs") (auto simp: restored_def canonical_commit_def Let_def)
qed

lemma log_ok_snoc:
  assumes "log_ok config snap base dg cs" and "fits config c"
    and "snap_sequence (newest snap cs) < fst c"
  shows "log_ok config snap base dg (cs @ [c])"
proof -
  have s: "sorted_wrt (<) (snap_sequence snap # map fst cs)" using assms(1) by (simp add: log_ok_def log_shape_def)
  have "sorted_wrt (<) (snap_sequence snap # map fst cs @ [fst c])"
  proof (cases cs rule: rev_cases)
    case Nil
    then show ?thesis using assms(3) by (simp add: newest_def)
  next
    case (snoc ds d)
    then have "fst d < fst c" using assms(3) by (simp add: newest_def snap_sequence_def)
    then show ?thesis using s snoc by (auto simp: sorted_wrt_append)
  qed
  then show ?thesis using assms(1,2) by (simp add: log_ok_def log_shape_def)
qed

lemma log_disk_snoc:
  "log_disk snap base dg cs (committed_image c) = log_disk snap base dg (cs @ [c]) []"
  by (simp add: log_disk_def journal_image_def)

section \<open>Commits\<close>

text \<open>
  \<open>store_log st snap base dg cs\<close>: the open store \<open>st\<close> has the log \<open>snap, cs\<close> on its disk and
  its bookkeeping agrees with it, and no failure is forced on the next commit.  Journal bounds are below half of the 64-bit range.
\<close>

definition store_log :: "store \<Rightarrow> committed option \<Rightarrow> u64 \<Rightarrow> digest \<Rightarrow> committed list \<Rightarrow> bool" where
  "store_log st snap base dg cs \<longleftrightarrow>
     st_open st \<and> st_file_handle st \<and> st_forced_failure st = ReasonOk \<and>
     st_disk st = log_disk snap base dg cs [] \<and>
     log_ok (st_config st) snap base dg cs \<and> st_commit_sequence st = snap_sequence (newest snap cs) \<and>
     st_journal_bytes st = of_nat (length (journal_image base dg cs)) \<and>
     length (journal_image base dg cs) \<le> unat (sc_max_journal_bytes (st_config st)) \<and>
     unat (sc_max_journal_bytes (st_config st)) < 2 ^ 63"

lemma io_fields [simp]:
  "st_open (io_advance st) = st_open st" "st_file_handle (io_advance st) = st_file_handle st"
  "st_disk (io_advance st) = st_disk st" "st_config (io_advance st) = st_config st"
  "st_commit_sequence (io_advance st) = st_commit_sequence st"
  "st_journal_bytes (io_advance st) = st_journal_bytes st"
  "st_records_since_snapshot (io_advance st) = st_records_since_snapshot st"
  "st_forced_failure (io_advance st) = st_forced_failure st"
  by (simp_all add: io_advance_def)

lemma journal_content_log: "st_disk st = log_disk snap base dg cs tail \<Longrightarrow> journal_content st = journal_image base dg cs @ tail"
  by (simp add: journal_content_def)

lemma set_journal_log:
  "st_disk st = log_disk snap base dg cs tail \<Longrightarrow>
     set_journal (journal_image base' dg' cs' @ tail') st =
       st\<lparr>st_disk := log_disk snap base' dg' cs' tail'\<rparr>"
  by (simp add: set_journal_def log_disk_def)





lemma io_failures [simp]: "\<not> status_ok RejectedStoreUnavailable" "\<not> status_ok PersistCommitFailed"
  "\<not> status_ok RejectedOversizedInput"
  by code_simp+







section \<open>Crashes during compaction\<close>

lemma recover_covered:
  assumes "log_shape config (Some c) base dg cs" and "\<forall>d \<in> set cs. fst d \<le> fst c"
    and "length (journal_image base dg cs) \<le> unat (sc_max_journal_bytes config)"
  defines "p \<equiv> recover config IoOk IoOk (log_disk (Some c) base dg cs [])"
  shows "rv_usable (rp_report p) \<and> restored p = Some (canonical_commit c)"
proof -
  have "\<forall>d \<in> set cs. fst d \<le> rp_sequence (js_pass (start_scan (Some c)))"
    using assms(2) by (simp add: start_scan_def snap_sequence_def)
  note a = apply_records_covered [OF this, of 96]
  have eq: "p = (let j = apply_records (start_scan (Some c)) 96 cs in
      if \<not> rp_has_state (js_pass j) then recover_without_state False j else recover_with_state j)"
    unfolding p_def using recover_log_scan [OF assms(1), of "[]"] assms(3) by (simp add: scan_end Let_def)
  show ?thesis
    unfolding eq a Let_def
    by (cases cs) (simp_all add: start_scan_def restored_def canonical_commit_def snap_sequence_def)
qed

lemma recover_short_journal:
  fixes base dg cs tail
  assumes "snapshot_fits config c" and "length j < 96" and "length j \<le> unat (sc_max_journal_bytes config)"
  defines "p \<equiv> recover config IoOk IoOk (log_disk (Some c) base dg cs tail\<lparr>dk_journal := Some j\<rparr>)"
  shows "rv_usable (rp_report p) \<and> restored p = Some (canonical_commit c)"
proof -
  obtain n s where c: "c = (n, s)" by fastforce
  have "recover_snapshot config IoOk (dk_snapshot (log_disk (Some c) base dg cs tail))
      (recovery_pass_default\<lparr>rp_journal_exists := True\<rparr>) = Inr (after_snapshot (Some c), False)"
    using recover_snapshot_image [OF assms(1) [unfolded c]]
    by (simp add: c log_disk_def after_snapshot_def)
  moreover have "recover_journal config IoOk (Some j) (after_snapshot (Some c)) =
      Inr \<lparr>js_pass = set_detail ''journal is shorter than its header'' (after_snapshot (Some c)), js_used = False,
           js_torn_tail = True, js_last_good = 0\<rparr>"
    unfolding recover_journal_def option.case read_file_ok [OF assms(3)] using assms(2) by (simp add: Let_def)
  ultimately show ?thesis
    unfolding p_def recover_def Let_def by (simp add: restored_def canonical_commit_def snap_sequence_def)
qed

section \<open>Opening\<close>

lemma io_head_fields [simp]:
  "io_head (st\<lparr>st_recovery := r\<rparr>) = io_head st" "io_head (st\<lparr>st_file_handle := b\<rparr>) = io_head st"
  "io_head (store_close st) = io_head st"
  by (simp_all add: io_head_def store_close_def)

lemma no_faults [simp]: "st_io st = [] \<Longrightarrow> io_head st = IoOk" "st_io st = [] \<Longrightarrow> st_io (io_advance st) = []"
  by (simp_all add: io_head_def io_advance_def)

text \<open>What a step of opening leaves alone when no call fails.\<close>

definition frame :: "store \<Rightarrow> store \<Rightarrow> bool" where
  "frame st st' \<longleftrightarrow> st_io st' = [] \<and> st_config st' = st_config st \<and> st_forced_failure st' = st_forced_failure st \<and>
     dk_directory (st_disk st') = dk_directory (st_disk st) \<and> dk_snapshot (st_disk st') = dk_snapshot (st_disk st)"

lemma truncate_ok:
  assumes "st_io st = []" and "dk_journal (st_disk st) = Some j" and "rp_journal_exists p"
    and "rp_journal_good_bytes p \<le> length j"
  shows "fst (truncate_torn_tail p st) = None" "frame st (snd (truncate_torn_tail p st))"
    "dk_journal (st_disk (snd (truncate_torn_tail p st))) =
       Some (if rp_torn_tail p then take (rp_journal_good_bytes p) j else j)"
  using assms
  by (simp_all add: truncate_torn_tail_def Let_def frame_def io_advance_def io_head_def set_journal_def
      journal_content_def)

lemma ensure_ok:
  assumes "st_io st = []" and "dk_journal (st_disk st) = Some j" and "rp_journal_exists p"
    and "length (rp_snapshot_digest p) = 32"
  shows "fst (ensure_journal_header p st) = None" "frame st (snd (ensure_journal_header p st))"
    "dk_journal (st_disk (snd (ensure_journal_header p st))) = Some
      (if rp_journal_header_ok p \<and> \<not> rp_torn_tail p then j
       else journal_header (if rp_snapshot_used p then rp_sequence p else 0)
              (if rp_snapshot_used p then rp_snapshot_digest p else digest_zero))"
  using assms
  by (simp_all add: ensure_journal_header_def rewrite_journal_def Let_def frame_def io_advance_def io_head_def
      set_journal_def)

lemma open_append_ok:
  assumes "st_io st = []" and "dk_journal (st_disk st) = Some j"
  shows "fst (open_journal_for_append st) = None" "frame st (snd (open_journal_for_append st))"
    "st_file_handle (snd (open_journal_for_append st))"
    "dk_journal (st_disk (snd (open_journal_for_append st))) = Some j"
  using assms
  by (simp_all add: open_journal_for_append_def Let_def frame_def io_advance_def io_head_def)

lemma frame_trans: "frame st st' \<Longrightarrow> frame st' st'' \<Longrightarrow> frame st st''"
  by (simp add: frame_def)

lemma adopt_fields:
  assumes "st_io st = []"
  shows "frame st (adopt_recovery p st)" "st_open (adopt_recovery p st)"
    "st_file_handle (adopt_recovery p st) = st_file_handle st" "dk_journal (st_disk (adopt_recovery p st)) = dk_journal (st_disk st)"
    "st_commit_sequence (adopt_recovery p st) = rp_sequence p" "st_state (adopt_recovery p st) = rp_state p"
    "st_journal_bytes (adopt_recovery p st) = of_nat (length (journal_content st))"
  using assms by (simp_all add: adopt_recovery_def Let_def frame_def journal_content_def io_advance_def io_head_def)

text \<open>With no failing call, opening ends in the adopted store once recovery is usable.\<close>

lemma store_open_ok:
  assumes io: "st_io st = []" and dir: "sc_directory (st_config st) \<noteq> []" "dk_directory (st_disk st)"
    and j: "dk_journal (st_disk st) = Some j"
    and p: "p = recover (st_config st) IoOk IoOk (st_disk st)" and use: "rv_usable (rp_report p)"
    and ex: "rp_journal_exists p" and good: "rp_journal_good_bytes p \<le> length j"
    and dg: "length (rp_snapshot_digest p) = 32"
  defines "st' \<equiv> snd (store_open st)"
  defines "j' \<equiv> if rp_journal_header_ok p \<and> \<not> rp_torn_tail p then j
       else journal_header (if rp_snapshot_used p then rp_sequence p else 0)
              (if rp_snapshot_used p then rp_snapshot_digest p else digest_zero)"
  shows "frame st st' \<and> st_open st' \<and> st_file_handle st' \<and> st_commit_sequence st' = rp_sequence p \<and>
    st_state st' = rp_state p \<and> dk_journal (st_disk st') = Some j' \<and> st_journal_bytes st' = of_nat (length j') \<and>
    st_has_state st' = rp_has_state p \<and> rv_usable (fst (store_open st))"
proof -
  define t where "t = io_advance (io_advance ((store_close st)\<lparr>st_recovery := recovery_report_default\<rparr>))"
  have t: "st_io t = []" "frame st t" "dk_journal (st_disk t) = Some j"
    using io j by (simp_all add: t_def frame_def io_advance_def store_close_def)
  define t1 where "t1 = snd (truncate_torn_tail p t)"
  have t1: "truncate_torn_tail p t = (None, t1)" "frame t t1"
      "dk_journal (st_disk t1) = Some (if rp_torn_tail p then take (rp_journal_good_bytes p) j else j)"
    using truncate_ok [OF t(1,3) ex good] by (simp_all add: t1_def prod_eq_iff)
  have io1: "st_io t1 = []" using t1(2) by (simp add: frame_def)
  define t2 where "t2 = snd (ensure_journal_header p t1)"
  have t2: "ensure_journal_header p t1 = (None, t2)" "frame t1 t2" "dk_journal (st_disk t2) = Some j'"
    using ensure_ok [OF io1 t1(3) ex dg] by (auto simp: t2_def j'_def prod_eq_iff)
  have io2: "st_io t2 = []" using t2(2) by (simp add: frame_def)
  define t3 where "t3 = snd (open_journal_for_append t2)"
  have t3: "open_journal_for_append t2 = (None, t3)" "frame t2 t3" "st_file_handle t3"
      "dk_journal (st_disk t3) = Some j'"
    using open_append_ok [OF io2 t2(3)] by (simp_all add: t3_def prod_eq_iff)
  have io3: "st_io t3 = []" using t3(2) by (simp add: frame_def)
  have o: "store_open st = (st_recovery (adopt_recovery p t3), adopt_recovery p t3)"
    using dir use t1(1) t2(1) t3(1) io
    unfolding store_open_def t_def Let_def p
    by (simp add: store_close_def io_head_def io_advance_def)
  have "st_has_state (adopt_recovery p t3) = rp_has_state p" "rv_usable (st_recovery (adopt_recovery p t3))"
    using use by (simp_all add: adopt_recovery_def Let_def)
  moreover have "st' = adopt_recovery p t3" using o by (simp add: st'_def)
  moreover have "frame st (adopt_recovery p t3)"
    using adopt_fields(1) [OF io3] t(2) t1(2) t2(2) t3(2) by (blast intro: frame_trans)
  ultimately show ?thesis
    using adopt_fields(2-) [OF io3, of p] t3(3,4) o by (simp add: journal_content_def)
qed

lemma recover_torn_fields:
  assumes "log_ok config snap base dg cs" and "fits config c" and "0 < k" "k < length (committed_image c)"
    and "length (journal_image base dg cs) + k \<le> unat (sc_max_journal_bytes config)" and "newest snap cs = Some d"
  defines "p \<equiv> recover config IoOk IoOk (log_disk snap base dg cs (take k (committed_image c)))"
  shows "rp_journal_exists p" "rp_snapshot_used p = (snap \<noteq> None)" "length (rp_snapshot_digest p) = 32"
    "rp_sequence p = fst d" "rp_state p = canonicalize_order (snd d)" "rp_torn_tail p"
    "rp_journal_good_bytes p = length (journal_image base dg cs)" "rv_usable (rp_report p)" "rp_has_state p"
proof -
  let ?j = "apply_records (start_scan snap) 96 cs"
  have len: "length (journal_image base dg cs @ take k (committed_image c)) \<le> unat (sc_max_journal_bytes config)"
    using assms(4,5) by simp
  obtain e where "scan_records config (journal_image base dg cs @ take k (committed_image c))
      (length (journal_image base dg cs)) ?j = Inr (?j\<lparr>js_torn_tail := True, js_pass := set_detail e (js_pass ?j)\<rparr>)"
    using scan_torn [OF _ assms(3,4,2), of "length (journal_image base dg cs)"] by fastforce
  then have p: "p = recover_with_state (?j\<lparr>js_torn_tail := True, js_pass := set_detail e (js_pass ?j)\<rparr>)"
    unfolding p_def recover_log_scan [OF log_okD [OF assms(1)] len]
    using apply_start(2) [OF assms(1)] assms(6) by simp
  have s: "sorted_wrt (<) (rp_sequence (js_pass (start_scan snap)) # map fst cs)"
    using assms(1) by (simp add: log_ok_def start_scan_def)
  have snap: "length (rp_snapshot_digest (after_snapshot (Some d))) = 32"
    by (cases d) (simp add: after_snapshot_def)
  have "rp_journal_exists (js_pass ?j)" "rp_snapshot_used (js_pass ?j) = (snap \<noteq> None)"
    "length (rp_snapshot_digest (js_pass ?j)) = 32"
    unfolding apply_records_increasing [OF s, of 96] using snap assms(6)
    by (auto simp: start_scan_def newest_def)
  then show "rp_journal_exists p" "rp_snapshot_used p = (snap \<noteq> None)" "length (rp_snapshot_digest p) = 32"
    "rp_sequence p = fst d" "rp_state p = canonicalize_order (snd d)" "rp_torn_tail p"
    "rp_journal_good_bytes p = length (journal_image base dg cs)" "rv_usable (rp_report p)" "rp_has_state p"
    using apply_start(3) [OF assms(1,6)] apply_start(2,4) [OF assms(1)] assms(6) by (simp_all add: p)
qed

text \<open>Opening a torn log: the state is recovered, and the journal is replaced by a bare header.\<close>

lemma store_open_torn:
  assumes "st_io st = []" and "sc_directory (st_config st) \<noteq> []"
    and disk: "st_disk st = log_disk snap base dg cs (take k (committed_image c))"
    and log: "log_ok (st_config st) snap base dg cs" and "fits (st_config st) c"
    and "0 < k" "k < length (committed_image c)"
    and "length (journal_image base dg cs) + k \<le> unat (sc_max_journal_bytes (st_config st))"
    and "newest snap cs = Some d"
  obtains dg' where "st_state (snd (store_open st)) = canonicalize_order (snd d)"
    "st_disk (snd (store_open st)) = log_disk snap (if snap = None then 0 else fst d) dg' [] []"
    "st_config (snd (store_open st)) = st_config st" "length dg' = 32"
    "st_has_state (snd (store_open st))" "rv_usable (fst (store_open st))"
proof -
  let ?p = "recover (st_config st) IoOk IoOk (st_disk st)" and ?st = "snd (store_open st)"
  note f = recover_torn_fields [OF log assms(5-9), folded disk]
  let ?dg = "if snap = None then digest_zero else rp_snapshot_digest ?p"
  have "frame st ?st \<and> st_state ?st = rp_state ?p \<and> st_has_state ?st \<and> rv_usable (fst (store_open st)) \<and>
      dk_journal (st_disk ?st) = Some (journal_header (if snap = None then 0 else fst d) ?dg)"
    using store_open_ok [OF assms(1,2) _ _ refl f(8,1) _ f(3)] f disk by auto
  then have "st_state ?st = canonicalize_order (snd d)" "st_config ?st = st_config st"
    "st_has_state ?st" "rv_usable (fst (store_open st))"
    "st_disk ?st = log_disk snap (if snap = None then 0 else fst d) ?dg [] []"
    using f(5) disk by (auto simp: frame_def log_disk_def journal_image_def)
  moreover have "length ?dg = 32" using f(3) by (simp add: digest_zero_def)
  ultimately show thesis using that by blast
qed

lemma recover_base_newer:
  assumes "snapshot_fits config c" and "length dg = 32" and "fst c < base"
    and "length (journal_image base dg cs @ tail) \<le> unat (sc_max_journal_bytes config)"
  shows "\<not> rv_usable (rp_report (recover config IoOk IoOk (log_disk (Some c) base dg cs tail)))"
proof -
  obtain n s where c: "c = (n, s)" by fastforce
  have snap: "recover_snapshot config IoOk (dk_snapshot (log_disk (Some c) base dg cs tail))
      (recovery_pass_default\<lparr>rp_journal_exists := True\<rparr>) = Inr (after_snapshot (Some c), False)"
    using recover_snapshot_image [OF assms(1) [unfolded c]] by (simp add: c log_disk_def after_snapshot_def)
  have b: "journal_image base dg cs @ tail = journal_header base dg @ (concat (map committed_image cs) @ tail)"
    by (simp add: journal_image_def)
  have "\<exists>q. recover_journal config IoOk (Some (journal_image base dg cs @ tail)) (after_snapshot (Some c)) = Inl q \<and>
      \<not> rv_usable (rp_report q)"
    unfolding recover_journal_def option.case read_file_ok [OF assms(4)] sum.case unfolding b
    using journal_header_fields [OF assms(2), of base "concat (map committed_image cs) @ tail"] assms(2,3)
    by (simp add: Let_def snap_sequence_def unusable_def classify_def set_detail_def)
  then show ?thesis unfolding recover_def Let_def using snap by auto
qed

section \<open>Properties\<close>

text \<open>A store opened on an empty log, for the concrete instances below.\<close>

definition demo_config :: store_config where
  "demo_config = store_config_default\<lparr>sc_directory := ''d''\<rparr>"

definition demo_store :: store where
  "demo_store = (store_new demo_config (log_disk None 0 digest_zero [] []) [])
     \<lparr>st_open := True, st_file_handle := True, st_journal_bytes := 96\<rparr>"

lemma demo_bounds: "unat (sc_max_journal_bytes demo_config) = 268435456"
  "unat (sc_max_snapshot_bytes demo_config) = 536870912"
  by (simp_all add: demo_config_def store_config_default_def)

lemma demo_store_log: "store_log demo_store None 0 digest_zero []"
  by (simp add: store_log_def demo_store_def store_new_def log_ok_def log_shape_def newest_def snap_sequence_def
      journal_image_def demo_bounds) (simp add: digest_zero_def)

lemma storable_default: "storable durable_state_default" "length (payload_of durable_state_default) < 1000"
proof -
  have "w_ok (encode_payload durable_state_default)" by code_simp
  moreover show "length (payload_of durable_state_default) < 1000"
    unfolding payload_of_def by code_simp
  ultimately show "storable durable_state_default"
    using valid_durable_state_default by (simp add: storable_def kMaxJournalRecordBytes_def)
qed



text \<open>
  C23: A commit is atomic under a crash: when only the first \<open>k\<close> bytes of the record being
  appended reach the journal, recovery is usable and restores the commit before it, unless the
  whole record is there, in which case it restores the new commit.
\<close>

theorem interrupted_commit_is_atomic:
  assumes "store_log st snap base dg cs"
    and "fits (st_config st) (n, s)" and "st_commit_sequence st < n"
    and "length (journal_image base dg (cs @ [(n, s)])) \<le> unat (sc_max_journal_bytes (st_config st))"
    and "k \<le> length (committed_image (n, s))"
  defines "p \<equiv> recover (st_config st) IoOk IoOk (log_disk snap base dg cs (take k (committed_image (n, s))))"
  shows "rv_usable (rp_report p) \<and>
    restored p = map_option canonical_commit
      (if k < length (committed_image (n, s)) then newest snap cs else Some (n, s))"
proof -
  have log: "log_ok (st_config st) snap base dg cs"
    and len: "length (journal_image base dg cs) \<le> unat (sc_max_journal_bytes (st_config st))"
    and seq: "snap_sequence (newest snap cs) < n"
    using assms(1,3) by (auto simp: store_log_def)
  consider "k = 0" | "0 < k" "k < length (committed_image (n, s))" | "k = length (committed_image (n, s))"
    using assms(5) by linarith
  then show ?thesis
  proof cases
    case 1
    moreover have "0 < length (committed_image (n, s))" by (simp add: length_committed_image)
    ultimately show ?thesis using recover_intact [OF log len] by (simp add: p_def)
  next
    case 2
    then have "length (journal_image base dg cs) + k \<le> unat (sc_max_journal_bytes (st_config st))"
      using assms(4) by (simp add: journal_image_def)
    from recover_torn [OF log assms(2) 2 this] 2 show ?thesis by (simp add: p_def)
  next
    case 3
    have "log_ok (st_config st) snap base dg (cs @ [(n, s)])"
      by (rule log_ok_snoc [OF log assms(2)]) (simp add: seq)
    from recover_intact [OF this assms(4)] 3 show ?thesis
      by (simp add: p_def log_disk_snoc newest_def)
  qed
qed

lemma demo_fits: "fits demo_config (n, durable_state_default)"
  using storable_default by (simp add: fits_def length_committed_image demo_bounds)

lemma demo_config_of_store [simp]: "st_config demo_store = demo_config"
  by (simp add: demo_store_def store_new_def)

theorem interrupted_commit_is_atomic_witness:
  "restored (recover demo_config IoOk IoOk
     (log_disk None 0 digest_zero [] (take 40 (committed_image (1, durable_state_default))))) = None"
proof -
  have "st_commit_sequence demo_store < 1" by (simp add: demo_store_def store_new_def)
  moreover have "length (journal_image 0 digest_zero ([] @ [(1, durable_state_default)]))
      \<le> unat (sc_max_journal_bytes (st_config demo_store))"
    using storable_default(2) by (simp add: journal_image_def length_committed_image demo_bounds digest_zero_def)
  ultimately show ?thesis
    using interrupted_commit_is_atomic [OF demo_store_log, of 1 durable_state_default 40] demo_fits
    by (simp add: length_committed_image newest_def)
qed

lemma recover_interrupted_compaction:
  assumes "store_log st snap base dg cs" and "snapshot_fits (st_config st) (n, s)"
    and "st_commit_sequence st < n" and "base \<le> n" and "k \<le> 96" and "length dg' = 32"
  shows "rv_usable (rp_report (recover (st_config st) IoOk IoOk (log_disk (Some (n, s)) base dg cs []))) \<and>
    restored (recover (st_config st) IoOk IoOk (log_disk (Some (n, s)) base dg cs [])) =
      Some (n, canonicalize_order s)"
    and "rv_usable (rp_report (recover (st_config st) IoOk IoOk
      (log_disk (Some (n, s)) base dg cs []\<lparr>dk_journal := Some (take k (journal_header n dg'))\<rparr>))) \<and>
    restored (recover (st_config st) IoOk IoOk
      (log_disk (Some (n, s)) base dg cs []\<lparr>dk_journal := Some (take k (journal_header n dg'))\<rparr>)) =
      Some (n, canonicalize_order s)"
proof -
  have log: "log_ok (st_config st) snap base dg cs"
    and len: "length (journal_image base dg cs) \<le> unat (sc_max_journal_bytes (st_config st))"
    and seq: "snap_sequence (newest snap cs) < n"
    using assms(1,3) by (auto simp: store_log_def)
  have shape: "log_shape (st_config st) (Some (n, s)) base dg cs"
    using log assms(2,4) by (simp add: log_ok_def log_shape_def)
  have "\<forall>d \<in> set cs. fst d \<le> n"
  proof (cases cs rule: rev_cases)
    case (snoc ds d)
    then have "fst d < n" "\<forall>e \<in> set ds. fst e < fst d"
      using log seq by (auto simp: log_ok_def newest_def snap_sequence_def sorted_wrt_append)
    then show ?thesis using snoc by auto
  qed simp
  then show "rv_usable (rp_report (recover (st_config st) IoOk IoOk (log_disk (Some (n, s)) base dg cs []))) \<and>
    restored (recover (st_config st) IoOk IoOk (log_disk (Some (n, s)) base dg cs [])) =
      Some (n, canonicalize_order s)"
    using recover_covered [OF shape _ len] by (simp add: canonical_commit_def)
  have cap: "96 \<le> unat (sc_max_journal_bytes (st_config st))"
    using len log by (simp add: journal_image_def log_ok_def log_shape_def)
  show "rv_usable (rp_report (recover (st_config st) IoOk IoOk
      (log_disk (Some (n, s)) base dg cs []\<lparr>dk_journal := Some (take k (journal_header n dg'))\<rparr>))) \<and>
    restored (recover (st_config st) IoOk IoOk
      (log_disk (Some (n, s)) base dg cs []\<lparr>dk_journal := Some (take k (journal_header n dg'))\<rparr>)) =
      Some (n, canonicalize_order s)"
  proof (cases "k = 96")
    case True
    have "log_disk (Some (n, s)) base dg cs []\<lparr>dk_journal := Some (take k (journal_header n dg'))\<rparr> =
        log_disk (Some (n, s)) n dg' [] []"
      using True assms(6) by (simp add: log_disk_def journal_image_def)
    moreover have "log_ok (st_config st) (Some (n, s)) n dg' []"
      using assms(2,6) by (simp add: log_ok_def log_shape_def)
    ultimately show ?thesis
      using recover_intact [of "st_config st" "Some (n, s)" n dg' "[]"] cap assms(6)
      by (simp add: newest_def canonical_commit_def journal_image_def)
  next
    case False
    then show ?thesis
      using recover_short_journal [OF assms(2), of "take k (journal_header n dg')"] assms(5,6) cap
      by (simp add: canonical_commit_def)
  qed
qed

text \<open>
  C24: Compaction is safe under a crash: once the new snapshot has replaced the old one, recovery
  is usable and restores the compacted state whether the journal still is the old one (all its
  records are covered by the snapshot) or has been truncated to any part of its new header.
\<close>

theorem interrupted_compaction_is_safe:
  assumes "store_log st snap base dg cs" and "snapshot_fits (st_config st) (n, s)"
    and "st_commit_sequence st < n" and "base \<le> n" and "k \<le> 96" and "length dg' = 32"
    and "d = log_disk (Some (n, s)) base dg cs [] \<or>
      d = log_disk (Some (n, s)) base dg cs []\<lparr>dk_journal := Some (take k (journal_header n dg'))\<rparr>"
  shows "rv_usable (rp_report (recover (st_config st) IoOk IoOk d)) \<and>
    restored (recover (st_config st) IoOk IoOk d) = Some (n, canonicalize_order s)"
  using recover_interrupted_compaction [OF assms(1-6)] assms(7) by auto

lemma demo_snapshot_fits: "snapshot_fits demo_config (n, durable_state_default)"
  using storable_default snapshot_fields(1) [OF storable_length [OF storable_default(1)], of n]
  by (simp add: snapshot_fits_def demo_bounds)

theorem interrupted_compaction_is_safe_witness:
  "restored (recover demo_config IoOk IoOk (log_disk (Some (1, durable_state_default)) 0 digest_zero [] [])) =
     Some (1, canonicalize_order durable_state_default) \<and>
   restored (recover demo_config IoOk IoOk (log_disk (Some (1, durable_state_default)) 0 digest_zero [] []
     \<lparr>dk_journal := Some (take 7 (journal_header 1 digest_zero))\<rparr>)) =
     Some (1, canonicalize_order durable_state_default)"
proof -
  have "st_commit_sequence demo_store < 1" by (simp add: demo_store_def store_new_def)
  moreover have "length digest_zero = 32" by (simp add: digest_zero_def)
  ultimately show ?thesis
    using interrupted_compaction_is_safe [OF demo_store_log _ _ _ _ , of 1 durable_state_default 7 digest_zero]
      demo_snapshot_fits by simp
qed

text \<open>
  C31: Reopening after a crash inside an append loses the journal: when there is no snapshot yet,
  opening restores the last commit in memory but replaces the journal by an empty one, so
  until the next commit the disk holds none of the acknowledged commits any more.
\<close>

theorem reopen_after_torn_append_empties_the_disk:
  assumes "st_io st = []" and "sc_directory (st_config st) \<noteq> []"
    and "st_disk st = log_disk None base dg cs (take k (committed_image c))"
    and "log_ok (st_config st) None base dg cs" and "cs \<noteq> []" and "fits (st_config st) c"
    and "0 < k" and "k < length (committed_image c)"
    and "length (journal_image base dg cs) + k \<le> unat (sc_max_journal_bytes (st_config st))"
  shows "st_state (snd (store_open st)) = canonicalize_order (snd (last cs)) \<and>
    restored (recover (st_config st) IoOk IoOk (st_disk st)) = Some (canonical_commit (last cs)) \<and>
    restored (recover (st_config st) IoOk IoOk (st_disk (snd (store_open st)))) = None"
proof -
  have new: "newest None cs = Some (last cs)" using assms(5) by (simp add: newest_def)
  obtain dg' where o: "st_state (snd (store_open st)) = canonicalize_order (snd (last cs))"
      "st_disk (snd (store_open st)) = log_disk None 0 dg' [] []" "length dg' = 32"
    using store_open_torn [OF assms(1-4,6-9) new] by auto
  have "log_ok (st_config st) None 0 dg' []" using o(3) by (simp add: log_ok_def log_shape_def)
  moreover have "96 \<le> unat (sc_max_journal_bytes (st_config st))"
    using assms(4,9) by (simp add: journal_image_def log_ok_def log_shape_def)
  ultimately have "restored (recover (st_config st) IoOk IoOk (st_disk (snd (store_open st)))) = None"
    using recover_intact [of "st_config st" None 0 dg' "[]"] o by (simp add: newest_def journal_image_def)
  then show ?thesis
    using o(1) recover_torn [OF assms(4,6-9)] assms(3) new by simp
qed

text \<open>A store on a torn journal of one record.\<close>

definition torn_store :: "committed option \<Rightarrow> store" where
  "torn_store snap = store_new demo_config
     (log_disk snap 0 digest_zero [(2, durable_state_default)] (take 5 (committed_image (3, durable_state_default)))) []"

lemma torn_store_facts:
  "st_io (torn_store snap) = []" "sc_directory (st_config (torn_store snap)) \<noteq> []"
  "st_config (torn_store snap) = demo_config"
  "st_disk (torn_store snap) = log_disk snap 0 digest_zero [(2, durable_state_default)]
     (take 5 (committed_image (3, durable_state_default)))"
  "snap = None \<or> snap = Some (1, durable_state_default) \<Longrightarrow> log_ok demo_config snap 0 digest_zero [(2, durable_state_default)]"
  using demo_fits demo_snapshot_fits
  by (auto simp: torn_store_def store_new_def demo_config_def log_ok_def log_shape_def snap_sequence_def digest_zero_def)

lemma torn_journal_fits:
  "length (journal_image 0 digest_zero [(2, durable_state_default)]) + 5 \<le> unat (sc_max_journal_bytes demo_config)"
  using storable_default(2) by (simp add: digest_zero_def journal_image_def length_committed_image demo_bounds)

theorem reopen_after_torn_append_empties_the_disk_witness:
  "st_state (snd (store_open (torn_store None))) = canonicalize_order durable_state_default \<and>
   restored (recover demo_config IoOk IoOk (st_disk (snd (store_open (torn_store None))))) = None"
  using reopen_after_torn_append_empties_the_disk [OF torn_store_facts(1,2,4), unfolded torn_store_facts(3)]
    torn_store_facts(5) torn_journal_fits demo_fits
  by (simp add: length_committed_image)

text \<open>
  C32: Reopening after a crash inside an append can make the store unusable: when a snapshot
  exists and records were replayed after it, opening writes a journal whose base is newer than
  the snapshot, so the next recovery (before another compaction) refuses the store as corrupt.
\<close>

theorem reopen_after_torn_append_breaks_the_store:
  assumes "st_io st = []" and "sc_directory (st_config st) \<noteq> []"
    and "st_disk st = log_disk (Some c0) base dg cs (take k (committed_image c))"
    and "log_ok (st_config st) (Some c0) base dg cs" and "cs \<noteq> []" and "fits (st_config st) c"
    and "0 < k" and "k < length (committed_image c)"
    and "length (journal_image base dg cs) + k \<le> unat (sc_max_journal_bytes (st_config st))"
  shows "rv_usable (rp_report (recover (st_config st) IoOk IoOk (st_disk st))) \<and>
    \<not> rv_usable (rp_report (recover (st_config st) IoOk IoOk (st_disk (snd (store_open st)))))"
proof -
  have new: "newest (Some c0) cs = Some (last cs)" using assms(5) by (simp add: newest_def)
  obtain dg' where o: "st_disk (snd (store_open st)) = log_disk (Some c0) (fst (last cs)) dg' [] []" "length dg' = 32"
    using store_open_torn [OF assms(1-4,6-9) new] by auto
  have "fst c0 < fst (last cs)"
    using assms(4,5) by (simp add: log_ok_def snap_sequence_def)
  moreover have "96 \<le> unat (sc_max_journal_bytes (st_config st))" "snapshot_fits (st_config st) c0"
    using assms(4,9) by (simp_all add: journal_image_def log_ok_def log_shape_def)
  ultimately have "\<not> rv_usable (rp_report (recover (st_config st) IoOk IoOk (st_disk (snd (store_open st)))))"
    using recover_base_newer [of "st_config st" c0 dg' "fst (last cs)" "[]" "[]"] o by (simp add: journal_image_def)
  then show ?thesis using recover_torn [OF assms(4,6-9)] assms(3) by simp
qed

theorem reopen_after_torn_append_breaks_the_store_witness:
  "\<not> rv_usable (rp_report (recover demo_config IoOk IoOk
      (st_disk (snd (store_open (torn_store (Some (1, durable_state_default))))))))"
  using reopen_after_torn_append_breaks_the_store
      [OF torn_store_facts(1,2,4), unfolded torn_store_facts(3)]
    torn_store_facts(5) torn_journal_fits demo_fits
  by (simp add: length_committed_image)

end
