(* ===== verification/EngineRestart.thy ===== *)
theory EngineRestart
  imports EngineInvariants Recovery
begin

text \<open>
  The engine and its store together: what a restart restores, what it fences, and that an
  acknowledged registration survives a crash.
\<close>

section \<open>Writing the state out and reading it back\<close>















section \<open>What a restart fences\<close>

lemma evict_fences_find:
  "om_wf m \<Longrightarrow> om_find (fst (evict_fences n m c)) k = Some f \<Longrightarrow> om_find m k = Some f"
proof (induction n m c rule: evict_fences.induct)
  case (1 n m c)
  show ?case
  proof (cases "length m > n")
    case True
    then have "om_find (om_erase (fence_victim m) m) k = Some f"
      using 1 evict_fences.simps [of n m c] by simp
    then show ?thesis by (simp split: if_split_asm)
  qed (use 1 evict_fences.simps [of n m c] in simp)
qed

lemma fences_fence_all:
  assumes "om_wf (e_fences s)" "om_find (e_fences (fence_all_active_locked i s)) k = Some f" "fr_active f"
  shows "fr_reason f = RejectedFencedByRestart \<and> fr_epoch f = e_epoch s \<and> fr_boot f = e_boot s"
proof -
  define m where "m = om_map (\<lambda>k f. if fr_active f then f\<lparr>fr_active := False, fr_reason := RejectedFencedBySupersession\<rparr> else f) (e_fences s)"
  let ?new = "\<lparr>fr_id = e_next_fence s, fr_epoch = e_epoch s, fr_boot = e_boot s, fr_flow = 0, fr_target = 0,
      fr_reason = RejectedFencedByRestart, fr_active = True, fr_issued_at = i\<rparr>"
  have "om_find (om_emplace (e_next_fence s) ?new m) k = Some f"
    using assms(1,2) evict_fences_find unfolding fence_all_active_locked_def fences_issue_fence m_def by simp
  moreover have "\<not> fr_active g" if found: "om_find m j = Some g" for j g
  proof -
    obtain h where "g = (if fr_active h then h\<lparr>fr_active := False, fr_reason := RejectedFencedBySupersession\<rparr> else h)"
      using found unfolding m_def om_find_map by blast
    then show ?thesis by (cases "fr_active h") simp_all
  qed
  ultimately show ?thesis
    using assms(3) by (cases "om_find m (e_next_fence s)") (auto simp: om_find_emplace split: if_split_asm)
qed

text \<open>The authority of earlier incarnations is gone.\<close>

definition past_fenced :: "impl \<Rightarrow> bool" where
  "past_fenced s \<longleftrightarrow>
     (\<forall>k r. om_find (e_migrations s) k = Some r \<longrightarrow> phase_terminal (phase_of r)) \<and>
     (\<forall>k h. om_find (e_holders s) k = Some h \<longrightarrow> \<not> sh_handoff_pending h) \<and>
     (\<forall>k t. om_find (e_targets s) k = Some t \<longrightarrow> \<not> ts_declared t) \<and>
     e_authorizations s = [] \<and> e_recommendations s = []"

lemma undeclared_recompute:
  "(\<forall>k t. om_find (e_targets s) k = Some t \<longrightarrow> \<not> ts_declared t) \<Longrightarrow>
   om_find (e_targets (recompute_scheduled_locked s)) k = Some t \<Longrightarrow> \<not> ts_declared t"
  by (auto dest!: recompute_find(2))

lemma om_of_in: "om_find (om_of key xs) k = Some v \<Longrightarrow> v \<in> set xs"
proof -
  have "om_find (foldl (\<lambda>m x. om_put (key x) x m) m xs) k = Some v \<Longrightarrow> v \<in> set xs \<or> om_find m k = Some v" for m
    by (induction xs arbitrary: m) (fastforce split: if_split_asm)+
  from this [of "[]"] show "om_find (om_of key xs) k = Some v \<Longrightarrow> v \<in> set xs" by (simp add: om_of_def)
qed

lemma closed_all:
  assumes "om_find (e_migrations (close_migrations (\<lambda>_. True) Fenced reason upd s)) k = Some r"
  shows "phase_terminal (phase_of r)"
proof -
  obtain q where "r = (if \<not> phase_terminal (phase_of q)
      then q\<lparr>mr_intent := (mr_intent q)\<lparr>mi_phase := Fenced\<rparr>, mr_abort_reason := reason\<rparr> else q)"
    using assms by (auto simp: migrations_close)
  then show ?thesis by (cases "phase_terminal (phase_of q)") (simp_all add: phase_terminal_def)
qed

lemma past_fenced_restore: "past_fenced (restore_locked d s)"
  unfolding past_fenced_def
proof (intro conjI allI impI)
  fix k t
  assume "om_find (e_targets (restore_locked d s)) k = Some t"
  then show "\<not> ts_declared t"
    by (auto simp: restore_locked_def Let_def restore_counters_def restore_maps_def rebuild_holders_locked_def restored_target_def
        dest!: undeclared_recompute [rotated] om_of_in)
next
  fix k r
  assume "om_find (e_migrations (restore_locked d s)) k = Some r"
  then show "phase_terminal (phase_of r)" by (auto simp: restore_locked_def Let_def dest: closed_all)
qed (auto simp: restore_locked_def Let_def restore_counters_def restore_maps_def rebuild_holders_locked_def)

lemma past_fenced_cong:
  "e_migrations t = e_migrations s \<Longrightarrow> e_holders t = e_holders s \<Longrightarrow> e_targets t = e_targets s \<Longrightarrow>
   e_authorizations t = e_authorizations s \<Longrightarrow> e_recommendations t = e_recommendations s \<Longrightarrow> past_fenced s \<Longrightarrow> past_fenced t"
  by (simp add: past_fenced_def)

lemma restored_fences_inactive:
  assumes "om_find (e_fences (restore_locked d s)) k = Some f"
  shows "\<not> fr_active f"
  using assms
  by (auto simp: restore_locked_def Let_def restore_counters_def restore_maps_def rebuild_holders_locked_def dest!: om_of_in)

lemma fence_all_fields [simp]:
  "e_migrations (fence_all_active_locked i s) = e_migrations s" "e_holders (fence_all_active_locked i s) = e_holders s"
  "e_targets (fence_all_active_locked i s) = e_targets s" "e_epoch (fence_all_active_locked i s) = e_epoch s"
  "e_authorizations (fence_all_active_locked i s) = e_authorizations s"
  "e_recommendations (fence_all_active_locked i s) = e_recommendations s"
  by (simp_all add: fence_all_active_locked_def)

lemma begin_epoch_fields:
  "e_migrations (begin_epoch e b s) = e_migrations s" "e_holders (begin_epoch e b s) = e_holders s"
  "e_targets (begin_epoch e b s) = e_targets s" "e_epoch (begin_epoch e b s) = e + 1"
  "e_authorizations (begin_epoch e b s) = e_authorizations s" "e_recommendations (begin_epoch e b s) = e_recommendations s"
  by (simp_all add: begin_epoch_def Let_def bump_def)

lemma begin_epoch_fences:
  assumes "om_wf (e_fences s)" "\<And>k f. om_find (e_fences s) k = Some f \<Longrightarrow> \<not> fr_active f"
    and "om_find (e_fences (begin_epoch e b s)) k = Some f" "fr_active f"
  shows "fr_reason f = RejectedFencedByRestart \<and> fr_epoch f = e + 1"
proof (cases "boot_is_valid b")
  case True
  let ?u = "bump c_restarts_update (s\<lparr>e_epoch := e + 1, e_boot := (if boot_is_valid (ec_boot_id_override (e_config s))
      then ec_boot_id_override (e_config s) else derive_boot_id b (e + 1))\<rparr>)"
  have "e_fences (begin_epoch e b s) = e_fences (fence_all_active_locked 0 ?u)"
    using True by (simp add: begin_epoch_def Let_def)
  then show ?thesis
    using fences_fence_all [of ?u 0 k f] assms(1,3,4) by (simp add: bump_def)
next
  case False
  then have "e_fences (begin_epoch e b s) = e_fences s" by (simp add: begin_epoch_def Let_def bump_def)
  then show ?thesis using assms(2-4) by auto
qed

lemma restore_open [simp]: "e_open (restore_locked d s) = e_open s"
  by (simp add: restore_locked_def Let_def restore_counters_def restore_maps_def rebuild_holders_locked_def)

text \<open>
  C9: A restart fences the past.  An engine opened on a store that holds a state has a newer epoch
  than that state; every migration attempt of the past is terminal, no handoff is pending, no
  restored target counts as declared, no authorization or recommendation survives, and every
  active fence is the restart's own.
\<close>

theorem restart_fences_the_past:
  assumes "ec_persistence_enabled (e_config s)" "\<not> e_open s" "store_open (e_store s) = (report, st)" "st_has_state st"
    and "rv_usable report" "ds_epoch (st_state st) \<noteq> - 1" "engine_open s = (code, t)"
  shows "past_fenced t \<and> ds_epoch (st_state st) < e_epoch t \<and>
    (\<forall>k f. om_find (e_fences t) k = Some f \<and> fr_active f \<longrightarrow>
       fr_reason f = RejectedFencedByRestart \<and> fr_epoch f = e_epoch t)"
proof -
  define r where "r = restore_locked (st_state st) (s\<lparr>e_shutting_down := False, e_store := st, e_recovery := report\<rparr>)"
  define u where "u = begin_epoch (ds_epoch (st_state st)) (ds_boot (st_state st)) r"
  have "\<exists>b. t = (snd (persist_locked (u\<lparr>e_open := True\<rparr>)))\<lparr>e_open := b\<rparr>"
  proof (cases "persist_locked (u\<lparr>e_open := True\<rparr>)")
    case (Pair c v)
    then have "t = (if status_failed c then v\<lparr>e_open := False\<rparr> else v)"
      using assms by (simp add: engine_open_def open_restore_def Let_def r_def u_def split: if_split_asm)
    moreover have "v = v\<lparr>e_open := e_open v\<rparr>" by simp
    ultimately show ?thesis using Pair by (metis snd_conv)
  qed
  then have t: "e_migrations t = e_migrations u" "e_holders t = e_holders u" "e_targets t = e_targets u"
      "e_authorizations t = e_authorizations u" "e_recommendations t = e_recommendations u"
      "e_fences t = e_fences u" "e_epoch t = e_epoch u"
    by auto
  have "past_fenced t"
    by (rule past_fenced_cong [of t r]) (simp_all add: t u_def begin_epoch_fields, simp add: r_def past_fenced_restore)
  moreover have "ds_epoch (st_state st) < ds_epoch (st_state st) + 1"
  proof -
    have "1 + ds_epoch (st_state st) \<noteq> 0" using assms(6) by (metis add_eq_0_iff)
    then show ?thesis using unatSuc [of "ds_epoch (st_state st)"] by (simp add: word_less_nat_alt add.commute)
  qed
  moreover have "fr_reason f = RejectedFencedByRestart \<and> fr_epoch f = e_epoch t"
    if "om_find (e_fences t) k = Some f" "fr_active f" for k f
  proof -
    have "om_wf (e_fences r)" using maps_ok_restore [of "st_state st"] unfolding r_def maps_ok_def by (intro keyed_wf) blast
    from begin_epoch_fences [OF this] show ?thesis
      using restored_fences_inactive that by (auto simp: t u_def begin_epoch_fields r_def)
  qed
  ultimately show ?thesis by (auto simp: t u_def begin_epoch_fields)
qed

section \<open>Acknowledged operations survive a crash\<close>






end
