(* ===== verification/EngineScenario.thy ===== *)
theory EngineScenario
  imports PlacementProperties EngineRestart
begin

text \<open>
  A small engine and a complete migration on it, evaluated step by step.  The scenario is the
  concrete input on which the properties of runs are instantiated.
\<close>

section \<open>An engine with two targets and one placed flow\<close>

definition demo_boot :: boot_id where
  "demo_boot = \<lparr>boot_high = 7, boot_low = 9\<rparr>"

definition demo_capacity :: capacity_vector where
  "demo_capacity = \<lparr>cv_packets_per_second = 1000, cv_bytes_per_second = 1000, cv_state_bytes = 1000, cv_table_entries = 1000\<rparr>"

definition demo_policy :: policy where
  "demo_policy = policy_default\<lparr>pol_generation := 1, pol_domain_preference := HostFirst, pol_load_model := ScheduledOnly,
     pol_max_cost_class := Scarce, pol_sticky := True\<rparr>"

definition demo_target :: "target_id \<Rightarrow> target_descriptor" where
  "demo_target k = target_descriptor_default\<lparr>td_target := k, td_incarnation := 1, td_capability_generation := 1,
     td_domain := Host, td_kind := HostKernelPath, td_host := k, td_lifecycle := Ready, td_cost_class := Standard,
     td_capacity := demo_capacity, td_supports_stateful := True, td_supports_migration := True\<rparr>"

definition demo_flow :: flow_descriptor where
  "demo_flow = flow_descriptor_default\<lparr>fd_flow := 10, fd_generation := 1, fd_function := 1,
     fd_statefulness := Stateless, fd_allow_migration := True\<rparr>"

definition demo_assignment :: assignment where
  "demo_assignment = assignment_default\<lparr>as_assignment := 1, as_flow := 10, as_flow_generation := 1, as_target := 1,
     as_incarnation := 1, as_capability_generation := 1\<rparr>"

definition demo_authorization :: authorization where
  "demo_authorization = authorization_default\<lparr>auth_id := 1, auth_flow := 10, auth_flow_generation := 1,
     auth_target := 1, auth_incarnation := 1, auth_capability_generation := 1, auth_policy_generation := 1, auth_epoch := 1, auth_boot := demo_boot,
     auth_outcome := AcceptedAuthorizationGranted\<rparr>"

definition demo_disk :: disk where
  "demo_disk = \<lparr>dk_directory = False, dk_snapshot = None, dk_journal = None\<rparr>"

definition demo_limits :: engine_config where
  "demo_limits = engine_config_default\<lparr>ec_max_flows := 8, ec_max_targets := 8, ec_max_contracts := 8,
     ec_max_migrations := 8, ec_max_requests := 8, ec_max_history := 8, ec_max_evidence_sources := 8,
     ec_max_rebalance_migrations := 8, ec_max_queue_depth := 8\<rparr>"

definition demo_engine :: impl where
  "demo_engine = (impl_new demo_limits demo_disk [])
     \<lparr>e_open := True, e_epoch := 1, e_boot := demo_boot, e_next_assignment := 2, e_next_authorization := 2,
      e_policy := demo_policy, e_policy_present := True, e_policy_generation := 1,
      e_flows := [(10, demo_flow)],
      e_targets := [(1, target_state_default\<lparr>ts_descriptor := demo_target 1, ts_declared := True\<rparr>),
                    (2, target_state_default\<lparr>ts_descriptor := demo_target 2, ts_declared := True\<rparr>)],
      e_assignments := [(10, demo_assignment)], e_authorizations := [(1, demo_authorization)]\<rparr>"

section \<open>One migration, from the intent to the verified effect\<close>

definition demo_digest :: digest where
  "demo_digest = replicate 32 1"

definition demo_ack :: "migration_actor \<Rightarrow> target_id \<Rightarrow> migration_acknowledgement" where
  "demo_ack actor k = migration_acknowledgement_default\<lparr>ack_attempt := 1, ack_actor := actor, ack_target := k,
     ack_incarnation := 1, ack_capability_generation := 1, ack_epoch := 1, ack_boot := demo_boot, ack_accepted := True\<rparr>"

definition demo_intent :: operation where
  "demo_intent = IssueIntent demo_authorization (migration_intent_default\<lparr>mi_destination_target := 2,
     mi_destination_incarnation := 1, mi_destination_capability_generation := 1\<rparr>)"

definition demo_ops :: "operation list" where
  "demo_ops =
     [Acknowledge (demo_ack Source 1), Acknowledge (demo_ack Destination 2),
      ReportApplied (applied_effect_default\<lparr>ae_attempt := 1, ae_target := 2, ae_incarnation := 1,
        ae_capability_generation := 1, ae_epoch := 1, ae_boot := demo_boot, ae_effect_digest := demo_digest\<rparr>),
      Observe (effect_observation_default\<lparr>eo_flow := 10, eo_flow_generation := 1, eo_target := 2, eo_incarnation := 1,
        eo_capability_generation := 1, eo_source := 1, eo_source_sequence := 1, eo_state := Known, eo_lifecycle := Ready,
        eo_effect_digest := demo_digest\<rparr>)]"

lemma demo_issued: "map_option phase_of (lookup_migration 1 (run [demo_intent] demo_engine)) = Some IntentIssued"
  by code_simp

lemma demo_completed:
  "map_option phase_of (lookup_migration 1 (run (demo_intent # demo_ops) demo_engine)) = Some Completed"
  by code_simp

lemma demo_engine_ok: "maps_ok demo_engine" "protocol_ok demo_engine"
  by (simp_all add: maps_ok_def protocol_ok_def demo_engine_def impl_new_def keyed_def om_wf_def demo_flow_def
      demo_target_def demo_assignment_def demo_authorization_def)

section \<open>The properties of runs on this scenario\<close>

theorem completion_requires_evidence_witness:
  "\<exists>r. lookup_migration 1 (run (demo_intent # demo_ops) demo_engine) = Some r \<and> phase_of r = Completed \<and>
     source_ack_ok r \<and> destination_ack_ok r \<and> applied_ok r \<and> verified_ok r"
proof -
  obtain r where "lookup_migration 1 (run (demo_intent # demo_ops) demo_engine) = Some r" "phase_of r = Completed"
    using demo_completed by blast
  then show ?thesis using completion_requires_evidence [OF demo_engine_ok] by blast
qed

theorem attempts_follow_protocol_witness:
  "\<exists>r q. lookup_migration 1 (run [demo_intent] demo_engine) = Some r \<and>
     lookup_migration 1 (run demo_ops (run [demo_intent] demo_engine)) = Some q \<and>
     protocol\<^sup>*\<^sup>* IntentIssued (phase_of q) \<and> mr_intent q = (mr_intent r)\<lparr>mi_phase := phase_of q\<rparr>"
proof -
  obtain r where r: "lookup_migration 1 (run [demo_intent] demo_engine) = Some r" "phase_of r = IntentIssued"
    using demo_issued by blast
  have "follows_protocol demo_engine (run [demo_intent] demo_engine)"
    using demo_engine_ok by (intro protocol.run_preserves) (simp add: follows_protocol_def)
  then show ?thesis
    using attempts_follow_protocol [of "run [demo_intent] demo_engine" 1 r demo_ops] r
    by (auto simp: follows_protocol_def)
qed


theorem collections_stay_in_bounds_witness:
  "in_bounds (lifetime demo_limits demo_disk [] [DeclareTarget (demo_target 1), RegisterFlow demo_flow])"
  by (rule collections_stay_in_bounds) (simp add: demo_limits_def engine_config_default_def)


section \<open>Placement on this scenario\<close>

definition demo_request :: placement_request where
  "demo_request = placement_request_default\<lparr>pr_request := 5, pr_evaluation_instant := 100,
     pr_items := [\<lparr>it_flow = 10, it_flow_generation = 1\<rparr>, \<lparr>it_flow = 11, it_flow_generation = 0\<rparr>]\<rparr>"




theorem dry_run_changes_only_statistics_witness:
  "\<exists>c m. snd (place_locked (demo_request\<lparr>pr_dry_run := True\<rparr>) demo_engine) =
     demo_engine\<lparr>e_counters := c, e_refusal_counts := m\<rparr>"
  by (rule dry_run_changes_only_statistics) simp


theorem recomputed_load_is_committed_demand_witness:
  "\<exists>t. om_find (e_targets (recompute_scheduled_locked demo_engine)) 1 = Some t \<and>
     ts_scheduled t = committed_demand_for_locked 1 demo_engine"
proof -
  have "om_find (e_targets demo_engine) 1 \<noteq> None" by (simp add: demo_engine_def impl_new_def)
  then obtain t where "om_find (e_targets (recompute_scheduled_locked demo_engine)) 1 = Some t"
    using recompute_find(1) [of demo_engine 1] by fastforce
  then show ?thesis using recomputed_load_is_committed_demand by blast
qed




theorem rebalance_is_bounded_and_justified_witness:
  "length (rep_intents (fst (rebalance_locked rebalance_request_default demo_engine))) \<le> 8"
  using rebalance_is_bounded_and_justified [OF demo_engine_ok(1) prod.collapse [symmetric], of rebalance_request_default]
  by (simp add: demo_engine_def impl_new_def demo_limits_def)

theorem closed_engine_refuses_everything_witness:
  "status_failed (fst (execute demo_intent (impl_new demo_limits demo_disk []))) \<and>
   snd (execute demo_intent (impl_new demo_limits demo_disk [])) = impl_new demo_limits demo_disk []"
  by (rule closed_engine_refuses_everything) (simp add: impl_new_def)



end
