(* ===== verification/DurabilityScenario.thy ===== *)
theory DurabilityScenario
  imports EngineScenario
begin

text \<open>
  The scenario with persistence: a registration acknowledged by an engine on an empty store, and
  an engine opened on a store whose journal ends inside a record.
\<close>

section \<open>A registration\<close>

definition durable_limits :: engine_config where
  "durable_limits = demo_limits\<lparr>ec_persistence_enabled := True, ec_store := demo_config\<rparr>"










section \<open>A restart\<close>

definition restarting_engine :: impl where
  "restarting_engine = (impl_new durable_limits demo_disk [])\<lparr>e_store := torn_store None\<rparr>"

lemma torn_opens:
  "\<exists>report st. store_open (torn_store None) = (report, st) \<and> st_has_state st \<and> rv_usable report \<and>
     st_state st = canonicalize_order durable_state_default"
proof -
  note facts = torn_store_facts [of None]
  have new: "newest None [(2, durable_state_default)] = Some (2, durable_state_default)" by (simp add: newest_def)
  have log: "log_ok (st_config (torn_store None)) None 0 digest_zero [(2, durable_state_default)]"
      "fits (st_config (torn_store None)) (3, durable_state_default)"
      "length (journal_image 0 digest_zero [(2, durable_state_default)]) + 5
        \<le> unat (sc_max_journal_bytes (st_config (torn_store None)))"
    using facts(5) torn_journal_fits demo_fits by (simp_all add: facts(3))
  have len: "0 < (5 :: nat)" "5 < length (committed_image (3, durable_state_default))"
    by (simp_all add: length_committed_image)
  obtain dg where "st_state (snd (store_open (torn_store None))) = canonicalize_order (snd (2 :: u64, durable_state_default))"
      "st_has_state (snd (store_open (torn_store None)))" "rv_usable (fst (store_open (torn_store None)))"
    using store_open_torn [OF facts(1,2,4) log(1,2) len log(3) new] by blast
  then show ?thesis by (metis prod.collapse snd_conv)
qed

theorem restart_fences_the_past_witness:
  "past_fenced (snd (engine_open restarting_engine)) \<and> 0 < e_epoch (snd (engine_open restarting_engine))"
proof -
  obtain report st where o: "store_open (torn_store None) = (report, st)" "st_has_state st" "rv_usable report"
      "st_state st = canonicalize_order durable_state_default"
    using torn_opens by blast
  have s: "ec_persistence_enabled (e_config restarting_engine)" "\<not> e_open restarting_engine"
      "e_store restarting_engine = torn_store None"
    by (simp_all add: restarting_engine_def impl_new_def durable_limits_def)
  have "ds_epoch (st_state st) = 0" by (simp add: o(4) canonicalize_order_def durable_state_default_def)
  then show ?thesis
    using restart_fences_the_past [OF s(1,2) o(1) [folded s(3)] o(2,3) _ prod.collapse [symmetric]] by simp
qed

end
