(* ===== verification/Eviction.thy ===== *)
theory Eviction
  imports EngineState
begin

text \<open>
  The bounded fence history: which records \<open>evict_fences\<close>, the loop of \<^verbatim>\<open>issue_fence_locked\<close>,
  gives up.
\<close>

abbreviation active_only :: "(fence_id, fence_record) omap \<Rightarrow> (fence_id, fence_record) omap" where
  "active_only m \<equiv> filter (\<lambda>(k, f). fr_active f) m"

lemma fence_victim_inactive:
  assumes "active_only m \<noteq> m"
  shows "\<exists>f. (fence_victim m, f) \<in> set m \<and> \<not> fr_active f"
proof -
  obtain e where "e \<in> set m" "\<not> (case e of (k, f) \<Rightarrow> fr_active f)"
    using assms by (metis filter_True)
  then have "List.find (\<lambda>(k, f). \<not> fr_active f) m \<noteq> None"
    by (auto simp: find_None_iff split: prod.splits)
  then obtain k f where find: "List.find (\<lambda>(k, f). \<not> fr_active f) m = Some (k, f)" by fastforce
  then have "(k, f) \<in> set m" "\<not> fr_active f" by (auto simp: find_Some_iff) (metis nth_mem)
  moreover have "fence_victim m = k" using find by (simp add: fence_victim_def)
  ultimately show ?thesis by blast
qed

lemma om_erase_length:
  assumes "om_wf m" "(k, v) \<in> set m"
  shows "length (om_erase k m) = length m - 1"
proof -
  have "map fst (om_erase k m) = removeAll k (map fst m)"
    by (induction m) (auto simp: om_erase_def)
  then have "length (om_erase k m) = length (removeAll k (map fst m))" by (metis length_map)
  also have "\<dots> = length (remove1 k (map fst m))"
    using om_wf_distinct [OF assms(1)] by (simp add: distinct_remove1_removeAll)
  also have "\<dots> = length m - 1"
    using assms(2) by (simp add: length_remove1 image_iff) force
  finally show ?thesis .
qed

lemma om_erase_filter:
  assumes "om_wf m" "(k, v) \<in> set m" "\<not> P v"
  shows "filter (\<lambda>(k, v). P v) (om_erase k m) = filter (\<lambda>(k, v). P v) m"
proof -
  have "k' \<noteq> k" if "(k', v') \<in> set m" "P v'" for k' v'
  proof
    assume "k' = k"
    then have "v' = v" using that(1) assms(1,2) by (simp add: om_in_set_iff)
    then show False using that(2) assms(3) by simp
  qed
  then show ?thesis unfolding om_erase_def by (auto intro!: filter_cong)
qed

text \<open>
  C19: Eviction gives up as little as it must and spares the active fences.  The loop ends with
  exactly the bound, or with all the records when they fit, and as long as the active fences fit
  into the bound none of them is evicted.
\<close>

theorem eviction_spares_active_fences:
  assumes "om_wf m" "length (active_only m) \<le> n"
  shows "active_only (fst (evict_fences n m c)) = active_only m \<and> length (fst (evict_fences n m c)) = min n (length m)"
  using assms
proof (induction n m c rule: evict_fences.induct)
  case (1 n m c)
  show ?case
  proof (cases "length m > n")
    case True
    then have "active_only m \<noteq> m" using "1.prems"(2) by (metis not_le)
    then obtain f where f: "(fence_victim m, f) \<in> set m" "\<not> fr_active f" using fence_victim_inactive by blast
    note erase = om_erase_filter [OF "1.prems"(1) f(1), of fr_active, OF f(2)] om_erase_length [OF "1.prems"(1) f(1)]
    have "evict_fences n m c = evict_fences n (om_erase (fence_victim m) m) (c_history_evictions_update saturating_increment c)"
      using True by (subst evict_fences.simps) simp
    then show ?thesis using "1.IH" [OF True] "1.prems" erase True by simp
  qed (simp add: evict_fences.simps)
qed

theorem eviction_spares_active_fences_witness:
  "active_only (fst (evict_fences 1 [(1, fence_record_default), (2, fence_record_default\<lparr>fr_active := True\<rparr>)] counters_default)) =
     [(2, fence_record_default\<lparr>fr_active := True\<rparr>)]"
  using eviction_spares_active_fences
      [of "[(1, fence_record_default), (2, fence_record_default\<lparr>fr_active := True\<rparr>)]" 1 counters_default]
  by (simp add: om_wf_def fence_record_default_def)

end
