(* ===== verification/ThreadPool.thy ===== *)
theory ThreadPool
  imports Prelude
begin

text \<open>
  The bounded worker pool (\<^verbatim>\<open>include/flow_offload/thread_pool.hpp\<close>, \<^verbatim>\<open>src/thread_pool.cpp\<close>).  Every access to
  the queue and the flags is inside a critical section of one mutex, so a critical section is one
  step; a thread is the point it has reached.  Waiting on a condition variable with a predicate is
  a step that is enabled when the predicate holds.  A job is a value of a type \<open>'job\<close> that works on
  a shared state of type \<open>'s\<close> in steps: \<open>job_step j s\<close> gives what remains of the job, if anything.
\<close>

section \<open>The pool\<close>

record 'job thread_pool =
  tp_queue :: "'job list"
  tp_max_queue_depth :: nat
  tp_active :: nat
  tp_stop :: bool
  tp_running :: bool
  tp_inline_mode :: bool

definition thread_pool_new :: "'job thread_pool" where
  "thread_pool_new = \<lparr>tp_queue = [], tp_max_queue_depth = 0, tp_active = 0, tp_stop = False, tp_running = False,
     tp_inline_mode = False\<rparr>"

text \<open>The points of \<^verbatim>\<open>worker_loop\<close>: waiting for work, running a job, about to report, returned.\<close>

datatype 'job worker = Waiting | Busy 'job | Reporting | Exited

text \<open>\<^verbatim>\<open>start\<close>, after its call of \<^verbatim>\<open>shutdown\<close>: the pool and the threads it starts.\<close>

definition pool_start :: "nat \<Rightarrow> nat \<Rightarrow> 'job thread_pool \<Rightarrow> 'job thread_pool \<times> 'job worker list" where
  "pool_start workers max_queue_depth p =
     (p\<lparr>tp_max_queue_depth := (if max_queue_depth = 0 then 1 else max_queue_depth), tp_stop := False,
        tp_running := True, tp_queue := [], tp_active := 0, tp_inline_mode := (workers = 0)\<rparr>,
      replicate workers Waiting)"

text \<open>
  \<^verbatim>\<open>try_submit\<close>.  An empty function (\<open>None\<close>) is refused; in inline mode the caller runs the job
  itself after the critical section.
\<close>

datatype 'job submission = Refused | Queued | RunInline 'job

definition try_submit :: "'job option \<Rightarrow> 'job thread_pool \<Rightarrow> 'job submission \<times> 'job thread_pool" where
  "try_submit job p =
     (case job of
        None \<Rightarrow> (Refused, p)
      | Some j \<Rightarrow>
          if tp_inline_mode p then (RunInline j, p)
          else if \<not> tp_running p \<or> tp_stop p then (Refused, p)
          else if length (tp_queue p) \<ge> tp_max_queue_depth p then (Refused, p)
          else (Queued, p\<lparr>tp_queue := tp_queue p @ [j]\<rparr>))"

definition pool_pending :: "'job thread_pool \<Rightarrow> nat" where
  "pool_pending p = length (tp_queue p)"

text \<open>\<^verbatim>\<open>worker_loop\<close>, one step; \<open>None\<close> when the thread is blocked or has returned.\<close>

fun worker_loop :: "('job \<Rightarrow> 's \<Rightarrow> 'job option \<times> 's) \<Rightarrow> 'job worker \<Rightarrow> 'job thread_pool \<Rightarrow> 's \<Rightarrow>
    ('job worker \<times> 'job thread_pool \<times> 's) option" where
  "worker_loop job_step Waiting p s =
     (if \<not> (tp_stop p \<or> tp_queue p \<noteq> []) then None
      else case tp_queue p of
        [] \<Rightarrow> Some (Exited, p, s)
      | j # q \<Rightarrow> Some (Busy j, p\<lparr>tp_queue := q, tp_active := tp_active p + 1\<rparr>, s))"
| "worker_loop job_step (Busy j) p s =
     (case job_step j s of
        (None, s') \<Rightarrow> Some (Reporting, p, s')
      | (Some j', s') \<Rightarrow> Some (Busy j', p, s'))"
| "worker_loop job_step Reporting p s = Some (Waiting, p\<lparr>tp_active := tp_active p - 1\<rparr>, s)"
| "worker_loop job_step Exited p s = None"

text \<open>
  The points of \<^verbatim>\<open>shutdown\<close>: not called, joining the workers, emptying the queue, running a job it
  found there, returned.
\<close>

datatype 'job control = Up | Joining | Draining | DrainRun 'job | Down

definition request_stop :: "'job thread_pool \<Rightarrow> 'job thread_pool" where
  "request_stop p = p\<lparr>tp_stop := True\<rparr>"

definition shutdown_finish :: "'job thread_pool \<Rightarrow> 'job thread_pool" where
  "shutdown_finish p = p\<lparr>tp_queue := [], tp_active := 0, tp_running := False, tp_stop := False, tp_inline_mode := False\<rparr>"

fun shutdown_step :: "('job \<Rightarrow> 's \<Rightarrow> 'job option \<times> 's) \<Rightarrow> 'job control \<Rightarrow> 'job worker list \<Rightarrow> 'job thread_pool \<Rightarrow> 's \<Rightarrow>
    ('job control \<times> 'job worker list \<times> 'job thread_pool \<times> 's) option" where
  "shutdown_step job_step Up ws p s = None"
| "shutdown_step job_step Joining ws p s = (if list_all (\<lambda>w. w = Exited) ws then Some (Draining, [], p, s) else None)"
| "shutdown_step job_step Draining ws p s =
     (case tp_queue p of
        [] \<Rightarrow> Some (Down, ws, shutdown_finish p, s)
      | j # q \<Rightarrow> Some (DrainRun j, ws, p\<lparr>tp_queue := q\<rparr>, s))"
| "shutdown_step job_step (DrainRun j) ws p s =
     (case job_step j s of
        (None, s') \<Rightarrow> Some (Draining, ws, p, s')
      | (Some j', s') \<Rightarrow> Some (DrainRun j', ws, p, s'))"
| "shutdown_step job_step Down ws p s = None"

section \<open>The pool with its threads\<close>

record ('job, 's) pool_system =
  ps_pool :: "'job thread_pool"
  ps_workers :: "'job worker list"
  ps_control :: "'job control"
  ps_shared :: 's

text \<open>The steps the pool makes by itself, in any interleaving.\<close>

inductive pool_step :: "('job \<Rightarrow> 's \<Rightarrow> 'job option \<times> 's) \<Rightarrow> ('job, 's) pool_system \<Rightarrow> ('job, 's) pool_system \<Rightarrow> bool"
  for job_step where
  worker: "i < length (ps_workers y) \<Longrightarrow>
     worker_loop job_step (ps_workers y ! i) (ps_pool y) (ps_shared y) = Some (w, p, s) \<Longrightarrow>
     pool_step job_step y (y\<lparr>ps_pool := p, ps_workers := (ps_workers y)[i := w], ps_shared := s\<rparr>)"
| control: "shutdown_step job_step (ps_control y) (ps_workers y) (ps_pool y) (ps_shared y) = Some (c, ws, p, s) \<Longrightarrow>
     pool_step job_step y (y\<lparr>ps_pool := p, ps_workers := ws, ps_control := c, ps_shared := s\<rparr>)"

text \<open>What is done from outside: a job is submitted, the pool is shut down or started again.\<close>

definition submit_job :: "'job \<Rightarrow> ('job, 's) pool_system \<Rightarrow> 'job submission \<times> ('job, 's) pool_system" where
  "submit_job j y = (let (r, p) = try_submit (Some j) (ps_pool y) in (r, y\<lparr>ps_pool := p\<rparr>))"

definition call_shutdown :: "('job, 's) pool_system \<Rightarrow> ('job, 's) pool_system" where
  "call_shutdown y = y\<lparr>ps_pool := request_stop (ps_pool y), ps_control := Joining\<rparr>"

definition call_start :: "nat \<Rightarrow> nat \<Rightarrow> ('job, 's) pool_system \<Rightarrow> ('job, 's) pool_system" where
  "call_start workers depth y =
     (let (p, ws) = pool_start workers depth (ps_pool y) in y\<lparr>ps_pool := p, ps_workers := ws, ps_control := Up\<rparr>)"

section \<open>The invariant of the pool\<close>

fun busy_job :: "'job worker \<Rightarrow> 'job list" where
  "busy_job (Busy j) = [j]"
| "busy_job _ = []"

fun control_job :: "'job control \<Rightarrow> 'job list" where
  "control_job (DrainRun j) = [j]"
| "control_job _ = []"

text \<open>The jobs that were accepted and have not finished.\<close>

definition pool_jobs :: "('job, 's) pool_system \<Rightarrow> 'job multiset" where
  "pool_jobs y = mset (tp_queue (ps_pool y)) + mset (concat (map busy_job (ps_workers y))) + mset (control_job (ps_control y))"

definition counted :: "'job worker \<Rightarrow> nat" where
  "counted w = (case w of Busy j \<Rightarrow> 1 | Reporting \<Rightarrow> 1 | _ \<Rightarrow> 0)"

definition pool_ok :: "('job, 's) pool_system \<Rightarrow> bool" where
  "pool_ok y \<longleftrightarrow> (let p = ps_pool y; ws = ps_workers y in
     length (tp_queue p) \<le> tp_max_queue_depth p \<and>
     (tp_inline_mode p \<longrightarrow> tp_queue p = [] \<and> ws = []) \<and>
     (case ps_control y of
        Up \<Rightarrow> tp_running p \<and> \<not> tp_stop p \<and> Exited \<notin> set ws \<and> (ws = [] \<longrightarrow> tp_inline_mode p) \<and>
              tp_active p = sum_list (map counted ws)
      | Joining \<Rightarrow> tp_stop p \<and> (Exited \<in> set ws \<longrightarrow> tp_queue p = []) \<and> (ws = [] \<longrightarrow> tp_queue p = []) \<and>
              tp_active p = sum_list (map counted ws)
      | Draining \<Rightarrow> tp_stop p \<and> ws = [] \<and> tp_queue p = []
      | DrainRun j \<Rightarrow> False
      | Down \<Rightarrow> \<not> tp_running p \<and> \<not> tp_stop p \<and> \<not> tp_inline_mode p \<and> tp_queue p = [] \<and> ws = []))"

section \<open>Lemmas\<close>

inductive_cases pool_stepE: "pool_step job_step y z"

lemma concat_update:
  "i < length xs \<Longrightarrow> mset (concat (map f (xs[i := x]))) + mset (f (xs ! i)) = mset (concat (map f xs)) + mset (f x)"
proof (induction xs arbitrary: i)
  case (Cons a xs)
  then show ?case by (cases i) (auto simp: ac_simps)
qed simp

lemma sum_update: "i < length xs \<Longrightarrow> sum_list (map f (xs[i := x])) + f (xs ! i) = sum_list (map f xs) + (f x :: nat)"
proof (induction xs arbitrary: i)
  case (Cons a xs)
  then show ?case by (cases i) (auto simp: ac_simps)
qed simp

lemma swap_one: "X + {#j#} = B + D \<Longrightarrow> j \<in># B \<Longrightarrow> X = B - {#j#} + D"
  by (auto dest!: multi_member_split)

text \<open>What one step of the pool does to its jobs: nothing, or one step of one job.\<close>

lemma pool_step_effect:
  assumes "pool_step job_step y z"
  shows "(pool_jobs z = pool_jobs y \<and> ps_shared z = ps_shared y) \<or>
    (\<exists>j r. j \<in># pool_jobs y \<and> job_step j (ps_shared y) = (r, ps_shared z) \<and>
       pool_jobs z = pool_jobs y - {#j#} + (case r of None \<Rightarrow> {#} | Some j' \<Rightarrow> {#j'#}))"
  using assms
proof cases
  case (worker i w p s)
  note upd = concat_update [OF worker(2), of busy_job w]
  show ?thesis
  proof (cases "ps_workers y ! i")
    case Waiting
    then show ?thesis
      using worker upd by (auto simp: pool_jobs_def split: list.splits if_splits)
  next
    case (Busy j)
    obtain r where js: "job_step j (ps_shared y) = (r, s)" "p = ps_pool y"
        "mset (busy_job w) = (case r of None \<Rightarrow> {#} | Some j' \<Rightarrow> {#j'#})"
      using worker(3) Busy by (auto split: prod.splits option.splits)
    let ?B = "mset (concat (map busy_job (ps_workers y)))"
    have "busy_job (ps_workers y ! i) = [j]" and i: "ps_workers y ! i \<in> set (ps_workers y)" 
      using Busy nth_mem [OF worker(2)] by simp_all
    then have j: "j \<in># ?B" by (metis UN_I list.set_intros(1) set_concat set_map set_mset_mset image_eqI)
    have "mset (concat (map busy_job ((ps_workers y)[i := w]))) + {#j#} = ?B + (case r of None \<Rightarrow> {#} | Some j' \<Rightarrow> {#j'#})"
      using upd Busy js(3) by simp
    then have "mset (concat (map busy_job ((ps_workers y)[i := w]))) =
        ?B - {#j#} + (case r of None \<Rightarrow> {#} | Some j' \<Rightarrow> {#j'#})"
      using j by (rule swap_one)
    then have "j \<in># pool_jobs y \<and> pool_jobs z = pool_jobs y - {#j#} + (case r of None \<Rightarrow> {#} | Some j' \<Rightarrow> {#j'#})"
      using j worker(1) js(2) by (simp add: pool_jobs_def diff_union_single_conv [symmetric] ac_simps)
    then show ?thesis using js(1) worker(1) by auto
  next
    case Reporting
    then show ?thesis using worker upd by (auto simp: pool_jobs_def)
  next
    case Exited
    then show ?thesis using worker by simp
  qed
next
  case (control c ws p s)
  show ?thesis
  proof (cases "ps_control y")
    case (DrainRun j)
    obtain r where "job_step j (ps_shared y) = (r, s)" "p = ps_pool y" "ws = ps_workers y"
        "mset (control_job c) = (case r of None \<Rightarrow> {#} | Some j' \<Rightarrow> {#j'#})"
      using control(2) DrainRun by (auto split: prod.splits option.splits)
    then show ?thesis
      using control(1) DrainRun by (intro disjI2 exI [of _ j] exI [of _ r]) (simp add: pool_jobs_def)
  next
    case Joining
    then have "concat (map busy_job (ps_workers y)) = []"
      using control by (auto simp: list_all_iff split: if_splits)
    then show ?thesis
      using control Joining by (auto simp: pool_jobs_def split: if_splits)
  qed (use control in \<open>auto simp: pool_jobs_def shutdown_finish_def split: list.splits\<close>)
qed

text \<open>The invariant is kept by the pool and by what is done from outside.\<close>

lemma pool_ok_step:
  assumes "pool_step job_step y z" "pool_ok y"
  shows "pool_ok z"
  using assms(1)
proof cases
  case (worker i w p s)
  note upd = sum_update [OF worker(2), of counted w]
  have i: "ps_workers y ! i \<in> set (ps_workers y)" using worker(2) by simp
  have e: "Exited \<in> set ((ps_workers y)[i := w]) \<Longrightarrow> Exited \<in> set (ps_workers y) \<or> w = Exited"
    using set_update_subset_insert [of "ps_workers y" i w] by auto
  show ?thesis
    using assms(2) worker upd i e
    by (cases "ps_workers y ! i"; cases "ps_control y")
      (auto simp: pool_ok_def Let_def counted_def split: list.splits if_splits prod.splits option.splits)
next
  case (control c ws p s)
  then show ?thesis
    using assms(2)
    by (cases "ps_control y"; cases "ps_workers y")
      (auto simp: pool_ok_def Let_def shutdown_finish_def split: list.splits if_splits)
qed

lemma pool_ok_start: "ps_control y = Down \<Longrightarrow> pool_ok (call_start workers depth y)"
  by (auto simp: pool_ok_def call_start_def pool_start_def Let_def counted_def split: if_splits)

lemma pool_ok_submit: "pool_ok y \<Longrightarrow> pool_ok (snd (submit_job j y))"
  by (auto simp: pool_ok_def submit_job_def try_submit_def Let_def split: control.splits)

lemma pool_ok_shutdown: "pool_ok y \<Longrightarrow> ps_control y = Up \<Longrightarrow> pool_ok (call_shutdown y)"
  by (auto simp: pool_ok_def call_shutdown_def request_stop_def Let_def)

text \<open>A pool that can do no step by itself has no unfinished job.\<close>

lemma pool_quiet:
  assumes "pool_ok y" and quiet: "\<And>z. \<not> pool_step job_step y z"
  shows "pool_jobs y = {#} \<and> (ps_control y = Up \<or> ps_control y = Down)"
proof -
  have "worker_loop job_step w (ps_pool y) (ps_shared y) = None" if "w \<in> set (ps_workers y)" for w
    using that quiet pool_step.worker [of _ y job_step]
    by (auto simp: in_set_conv_nth) (metis not_Some_eq prod_cases3)
  then have w: "w = Exited \<or> (w = Waiting \<and> \<not> tp_stop (ps_pool y) \<and> tp_queue (ps_pool y) = [])"
    if "w \<in> set (ps_workers y)" for w
    using that by (cases w) (fastforce split: if_splits list.splits prod.splits option.splits)+
  have c: "shutdown_step job_step (ps_control y) (ps_workers y) (ps_pool y) (ps_shared y) = None"
    using quiet pool_step.control [of job_step y] by (metis not_Some_eq prod_cases4)
  have "concat (map busy_job (ps_workers y)) = []" using w by fastforce
  moreover have "tp_queue (ps_pool y) = [] \<and> (ps_control y = Up \<or> ps_control y = Down)"
    using c w assms(1)
    by (cases "ps_control y"; cases "ps_workers y")
      (auto simp: pool_ok_def Let_def list_all_iff split: if_splits list.splits)
  ultimately show ?thesis by (auto simp: pool_jobs_def)
qed

section \<open>The pool finishes its work\<close>

fun worker_weight :: "('job \<Rightarrow> nat) \<Rightarrow> 'job worker \<Rightarrow> nat" where
  "worker_weight sz Waiting = 1"
| "worker_weight sz (Busy j) = sz j + 3"
| "worker_weight sz Reporting = 2"
| "worker_weight sz Exited = 0"

fun control_weight :: "('job \<Rightarrow> nat) \<Rightarrow> 'job control \<Rightarrow> nat" where
  "control_weight sz Joining = 3"
| "control_weight sz Draining = 2"
| "control_weight sz (DrainRun j) = sz j + 3"
| "control_weight sz _ = 0"

definition pool_work :: "('job \<Rightarrow> nat) \<Rightarrow> ('job, 's) pool_system \<Rightarrow> nat" where
  "pool_work sz y = sum_list (map (\<lambda>j. sz j + 3) (tp_queue (ps_pool y))) +
     sum_list (map (worker_weight sz) (ps_workers y)) + control_weight sz (ps_control y)"

text \<open>
  What the pool relies on in its jobs: each step of a job leaves less to do.  Then the pool, left to
  itself, comes to rest, and when it rests every job it accepted has finished.
\<close>

locale finite_jobs =
  fixes job_step :: "'job \<Rightarrow> 's \<Rightarrow> 'job option \<times> 's"
    and job_size :: "'job \<Rightarrow> nat"
  assumes smaller: "job_step j s = (Some j', s') \<Longrightarrow> job_size j' < job_size j"
begin

lemma pool_work_decreases:
  assumes "pool_step job_step y z"
  shows "pool_work job_size z < pool_work job_size y"
  using assms
proof cases
  case (worker i w p s)
  note upd = sum_update [OF worker(2), of "worker_weight job_size" w]
  show ?thesis
    using worker upd smaller
    by (cases "ps_workers y ! i")
      (fastforce simp: pool_work_def split: list.splits if_splits prod.splits option.splits)+
next
  case (control c ws p s)
  then show ?thesis
    using smaller
    by (cases "ps_control y")
      (fastforce simp: pool_work_def shutdown_finish_def split: list.splits if_splits prod.splits option.splits)+
qed

lemma pool_drains:
  assumes "pool_ok y"
  shows "\<exists>z. (pool_step job_step)\<^sup>*\<^sup>* y z \<and> pool_ok z \<and> pool_jobs z = {#} \<and> (ps_control z = Up \<or> ps_control z = Down)"
  using assms
proof (induction "pool_work job_size y" arbitrary: y rule: less_induct)
  case less
  show ?case
  proof (cases "\<exists>z. pool_step job_step y z")
    case True
    then obtain z where z: "pool_step job_step y z" by blast
    then show ?thesis
      using less.hyps [OF pool_work_decreases [OF z] pool_ok_step [OF z less.prems]]
      by (meson converse_rtranclp_into_rtranclp)
  next
    case False
    then show ?thesis using pool_quiet [of y job_step] less.prems by blast
  qed
qed

end

end
