(* ===== verification/AsyncOperations.thy ===== *)
theory AsyncOperations
  imports ThreadPool EngineInvariants
begin

text \<open>
  The asynchronous operations of the engine (\<^verbatim>\<open>Engine::submit\<close>, \<^verbatim>\<open>wait_for\<close>, \<^verbatim>\<open>poll\<close> and \<^verbatim>\<open>cancel\<close> of
  \<^verbatim>\<open>src/engine.cpp\<close>) on the worker pool.  The table of operations has a mutex of its own, the engine's
  state another; each critical section is one step, and the threads of the callers and of the pool
  are interleaved in any order.  An \<^verbatim>\<open>AsyncOperation\<close> is an object shared by the table, the job and the
  waiters: it is a cell of a heap, and the table maps identities to addresses.
\<close>

section \<open>State\<close>

datatype operation_state = Pending | Running | OpCompleted | OpCancelled | OpRejected

fun operation_state_to_string :: "operation_state \<Rightarrow> string" where
  "operation_state_to_string Pending = ''pending''"
| "operation_state_to_string Running = ''running''"
| "operation_state_to_string OpCompleted = ''completed''"
| "operation_state_to_string OpCancelled = ''cancelled''"
| "operation_state_to_string OpRejected = ''rejected''"

definition is_terminal :: "operation_state \<Rightarrow> bool" where
  "is_terminal state \<longleftrightarrow> state = OpCompleted \<or> state = OpCancelled \<or> state = OpRejected"

record async_operation =
  ao_id :: operation_id
  ao_state :: operation_state
  ao_reason :: reason
  ao_has_result :: bool
  ao_cancel_requested :: bool
  ao_result :: placement_result

definition async_operation_default :: async_operation where
  "async_operation_default = \<lparr>ao_id = 0, ao_state = Pending, ao_reason = ReasonOk, ao_has_result = False,
     ao_cancel_requested = False, ao_result = placement_result_default\<rparr>"

record operation_status =
  os_id :: operation_id
  os_state :: operation_state
  os_reason :: reason
  os_has_result :: bool
  os_result :: placement_result

definition operation_status_default :: operation_status where
  "operation_status_default = \<lparr>os_id = 0, os_state = Pending, os_reason = ReasonOk, os_has_result = False,
     os_result = placement_result_default\<rparr>"

text \<open>
  The shared state: the engine, the heap of operations, the table and the next identity, and the
  operations whose condition variable \<^verbatim>\<open>ready\<close> has been notified.  The list of
  placements that jobs have made, with the operation each was made for, is kept for the statements
  below; the program does not have it.
\<close>

record async_state =
  a_engine :: impl
  a_heap :: "async_operation list"
  a_operations :: "(operation_id, nat) omap"
  a_next_operation :: u64
  a_notified :: "nat list"
  a_placed :: "(nat \<times> placement_result) list"

definition async_new :: "impl \<Rightarrow> async_state" where
  "async_new e = \<lparr>a_engine = e, a_heap = [], a_operations = [], a_next_operation = 1, a_notified = [], a_placed = []\<rparr>"

definition set_operation :: "nat \<Rightarrow> (async_operation \<Rightarrow> async_operation) \<Rightarrow> async_state \<Rightarrow> async_state" where
  "set_operation a f s = s\<lparr>a_heap := (a_heap s)[a := f (a_heap s ! a)]\<rparr>"

definition notify_all :: "nat \<Rightarrow> async_state \<Rightarrow> async_state" where
  "notify_all a s = s\<lparr>a_notified := a # a_notified s\<rparr>"

definition state_at :: "async_state \<Rightarrow> nat \<Rightarrow> operation_state" where
  "state_at s a = ao_state (a_heap s ! a)"

section \<open>The job\<close>

text \<open>
  The function that \<^verbatim>\<open>submit\<close> hands to the pool, by its critical sections.  The notification that
  follows the last one touches nothing else and is part of its step.
\<close>

datatype async_job = JobStart nat placement_request | JobPlace nat placement_request | JobPublish nat placement_result

fun job_address :: "async_job \<Rightarrow> nat" where
  "job_address (JobStart a r) = a"
| "job_address (JobPlace a r) = a"
| "job_address (JobPublish a r) = a"

fun job_step :: "async_job \<Rightarrow> async_state \<Rightarrow> async_job option \<times> async_state" where
  "job_step (JobStart a request) s =
     (if ao_cancel_requested (a_heap s ! a) then
        (None, notify_all a (set_operation a (\<lambda>op. op\<lparr>ao_state := OpCancelled, ao_reason := RejectedCancelled\<rparr>) s))
      else (Some (JobPlace a request), set_operation a (ao_state_update (\<lambda>_. Running)) s))"
| "job_step (JobPlace a request) s =
     (let (result, e) = place_locked request (a_engine s)
      in (Some (JobPublish a result), s\<lparr>a_engine := e, a_placed := a_placed s @ [(a, result)]\<rparr>))"
| "job_step (JobPublish a result) s =
     (None, notify_all a (set_operation a (\<lambda>op.
        let op = op\<lparr>ao_result := result, ao_has_result := True\<rparr> in
        if is_acceptance (res_status result) then op\<lparr>ao_state := OpCompleted\<rparr>
        else op\<lparr>ao_state := OpRejected, ao_reason := res_status result\<rparr>) s))"

section \<open>The callers\<close>

text \<open>
  A thread in a call of the engine's asynchronous interface, by the critical section it reaches next.
  A waiter looks at the operation first, then sleeps until it is notified; it is not woken otherwise.
\<close>

datatype caller =
    SubmitCheck placement_request
  | SubmitRegister placement_request
  | SubmitCount placement_request "nat option"
  | SubmitQueue placement_request nat
  | SubmitInline async_job
  | SubmitReject placement_request nat
  | SubmitRefused nat
  | SubmitReturn operation_id
  | CancelMark operation_id
  | CancelCount
  | CancelReturn status
  | WaitFind operation_id
  | WaitReady nat
  | WaitBlocked nat
  | WaitReturn "operation_status option"

text \<open>The eviction loop of \<^verbatim>\<open>submit\<close>: the first finished operation of the table goes, until there is room.\<close>

fun evict_operations :: "nat \<Rightarrow> (nat \<Rightarrow> operation_state) \<Rightarrow> nat \<Rightarrow> (operation_id, nat) omap \<Rightarrow> (operation_id, nat) omap" where
  "evict_operations bound state 0 m = m"
| "evict_operations bound state (Suc terminal) m =
     (if length m < bound then m
      else case List.find (\<lambda>(k, a). is_terminal (state a)) m of
        None \<Rightarrow> m
      | Some (k, a) \<Rightarrow> evict_operations bound state terminal (om_erase k m))"

definition register_operation :: "async_state \<Rightarrow> nat option \<times> async_state" where
  "register_operation s =
     (let bound = ec_max_requests (e_config (a_engine s));
          terminal = length (filter (\<lambda>(k, a). is_terminal (state_at s a)) (a_operations s));
          m = evict_operations bound (state_at s) terminal (a_operations s) in
      if length m \<ge> bound then (None, s\<lparr>a_operations := m\<rparr>)
      else
        let a = length (a_heap s); ident = a_next_operation s
        in (Some a, s\<lparr>a_heap := a_heap s @ [async_operation_default\<lparr>ao_id := ident\<rparr>],
              a_next_operation := saturating_increment ident, a_operations := om_emplace ident a m\<rparr>))"

definition count_async :: "((u64 \<Rightarrow> u64) \<Rightarrow> counters \<Rightarrow> counters) \<Rightarrow> async_state \<Rightarrow> async_state" where
  "count_async upd s = s\<lparr>a_engine := bump upd (a_engine s)\<rparr>"

definition reject_operation :: "operation_id \<Rightarrow> async_state \<Rightarrow> async_state" where
  "reject_operation ident s =
     (case om_find (a_operations s) ident of
        None \<Rightarrow> s
      | Some a \<Rightarrow> set_operation a (\<lambda>op. op\<lparr>ao_state := OpRejected, ao_reason := RejectedQueueFull\<rparr>) s)"

definition status_of_operation :: "async_operation \<Rightarrow> operation_status" where
  "status_of_operation op = \<lparr>os_id = ao_id op, os_state = ao_state op, os_reason = ao_reason op,
     os_has_result = ao_has_result op, os_result = ao_result op\<rparr>"

definition poll :: "operation_id \<Rightarrow> async_state \<Rightarrow> operation_status" where
  "poll ident s =
     (case om_find (a_operations s) ident of
        None \<Rightarrow> operation_status_default\<lparr>os_state := OpRejected, os_reason := RejectedResourceExhausted\<rparr>
      | Some a \<Rightarrow> status_of_operation (a_heap s ! a))"

definition cancel_mark :: "operation_id \<Rightarrow> async_state \<Rightarrow> caller \<times> async_state" where
  "cancel_mark ident s =
     (case om_find (a_operations s) ident of
        None \<Rightarrow> (CancelReturn (status_refused RejectedResourceExhausted), s)
      | Some a \<Rightarrow>
          if is_terminal (state_at s a) then (CancelReturn (status_accepted AcceptedNoChangeRequired), s)
          else if state_at s a = Running then (CancelReturn (status_refused RejectedCancelled), s)
          else (CancelCount, set_operation a (ao_cancel_requested_update (\<lambda>_. True)) s))"

text \<open>One critical section of a caller; \<open>None\<close> when it has returned or waits.\<close>

fun caller_step :: "caller \<Rightarrow> async_job thread_pool \<Rightarrow> async_state \<Rightarrow>
    (caller \<times> async_job thread_pool \<times> async_state) option" where
  "caller_step (SubmitCheck request) p s =
     Some (if \<not> e_open (a_engine s) then SubmitReturn 0 else SubmitRegister request, p, s)"
| "caller_step (SubmitRegister request) p s =
     (let (a, s) = register_operation s in Some (SubmitCount request a, p, s))"
| "caller_step (SubmitCount request None) p s =
     Some (SubmitReturn 0, p, count_async c_operations_backpressured_update s)"
| "caller_step (SubmitCount request (Some a)) p s =
     Some (SubmitQueue request a, p, count_async c_operations_submitted_update s)"
| "caller_step (SubmitQueue request a) p s =
     (let (r, p) = try_submit (Some (JobStart a request)) p in
      Some (case r of
              Queued \<Rightarrow> SubmitReturn (ao_id (a_heap s ! a))
            | RunInline j \<Rightarrow> SubmitInline j
            | Refused \<Rightarrow> SubmitReject request a, p, s))"
| "caller_step (SubmitInline j) p s =
     (case job_step j s of
        (None, s') \<Rightarrow> Some (SubmitReturn (ao_id (a_heap s ! job_address j)), p, s')
      | (Some j', s') \<Rightarrow> Some (SubmitInline j', p, s'))"
| "caller_step (SubmitReject request a) p s = Some (SubmitRefused a, p, reject_operation (ao_id (a_heap s ! a)) s)"
| "caller_step (SubmitRefused a) p s =
     Some (SubmitReturn (ao_id (a_heap s ! a)), p, count_async c_operations_backpressured_update s)"
| "caller_step (SubmitReturn ident) p s = None"
| "caller_step (CancelMark ident) p s = (let (c, s) = cancel_mark ident s in Some (c, p, s))"
| "caller_step CancelCount p s =
     Some (CancelReturn (status_accepted AcceptedCancelled), p, count_async c_operations_cancelled_update s)"
| "caller_step (CancelReturn st) p s = None"
| "caller_step (WaitFind ident) p s =
     Some (case om_find (a_operations s) ident of None \<Rightarrow> WaitReturn None | Some a \<Rightarrow> WaitReady a, p, s)"
| "caller_step (WaitReady a) p s =
     Some (if is_terminal (state_at s a) then WaitReturn (Some (status_of_operation (a_heap s ! a))) else WaitBlocked a, p, s)"
| "caller_step (WaitBlocked a) p s =
     (if a \<in> set (a_notified s) \<and> is_terminal (state_at s a)
      then Some (WaitReturn (Some (status_of_operation (a_heap s ! a))), p, s) else None)"
| "caller_step (WaitReturn out) p s = None"

section \<open>The system\<close>

record async_system =
  sy_pool :: "(async_job, async_state) pool_system"
  sy_callers :: "caller list"

abbreviation shared :: "async_system \<Rightarrow> async_state" where
  "shared y \<equiv> ps_shared (sy_pool y)"

definition async_initial :: "impl \<Rightarrow> async_system" where
  "async_initial e = \<lparr>sy_pool = \<lparr>ps_pool = thread_pool_new, ps_workers = [], ps_control = Down,
     ps_shared = async_new e\<rparr>, sy_callers = []\<rparr>"

text \<open>The steps of the threads that are running.\<close>

inductive thread_step :: "async_system \<Rightarrow> async_system \<Rightarrow> bool" where
  pool: "pool_step job_step (sy_pool y) z \<Longrightarrow> thread_step y (y\<lparr>sy_pool := z\<rparr>)"
| caller: "i < length (sy_callers y) \<Longrightarrow>
     caller_step (sy_callers y ! i) (ps_pool (sy_pool y)) (shared y) = Some (c, p, s) \<Longrightarrow>
     thread_step y (y\<lparr>sy_pool := (sy_pool y)\<lparr>ps_pool := p, ps_shared := s\<rparr>, sy_callers := (sy_callers y)[i := c]\<rparr>)"

text \<open>
  What comes from outside: a new call, another operation of the engine, the engine's own opening and
  closing, and the start and the shutdown of the pool.
\<close>

fun is_call :: "caller \<Rightarrow> bool" where
  "is_call (SubmitCheck request) = True"
| "is_call (CancelMark ident) = True"
| "is_call (WaitFind ident) = True"
| "is_call _ = False"

definition with_engine :: "(impl \<Rightarrow> impl) \<Rightarrow> async_system \<Rightarrow> async_system" where
  "with_engine f y = y\<lparr>sy_pool := (sy_pool y)\<lparr>ps_shared := (shared y)\<lparr>a_engine := f (a_engine (shared y))\<rparr>\<rparr>\<rparr>"

inductive outside_step :: "async_system \<Rightarrow> async_system \<Rightarrow> bool" where
  call: "is_call c \<Longrightarrow> outside_step y (y\<lparr>sy_callers := sy_callers y @ [c]\<rparr>)"
| operate: "outside_step y (with_engine (\<lambda>e. snd (execute op e)) y)"
| engine_open: "outside_step y (with_engine (\<lambda>e. snd (engine_open e)) y)"
| engine_shutdown: "outside_step y (with_engine engine_shutdown y)"
| shutdown: "ps_control (sy_pool y) = Up \<Longrightarrow> outside_step y (y\<lparr>sy_pool := call_shutdown (sy_pool y)\<rparr>)"
| start: "ps_control (sy_pool y) = Down \<Longrightarrow> outside_step y (y\<lparr>sy_pool := call_start workers depth (sy_pool y)\<rparr>)"

definition async_step :: "async_system \<Rightarrow> async_system \<Rightarrow> bool" where
  "async_step y z \<longleftrightarrow> thread_step y z \<or> outside_step y z"

definition async_reachable :: "impl \<Rightarrow> async_system \<Rightarrow> bool" where
  "async_reachable e y \<longleftrightarrow> async_step\<^sup>*\<^sup>* (async_initial e) y"

section \<open>The specification\<close>

text \<open>
  The work of the system is a bag of tasks: a job in the pool or in the hands of a caller.  A step of
  the system does nothing to tasks and operations, or one of five things.
\<close>

fun caller_tasks :: "caller \<Rightarrow> async_job list" where
  "caller_tasks (SubmitCount request (Some a)) = [JobStart a request]"
| "caller_tasks (SubmitQueue request a) = [JobStart a request]"
| "caller_tasks (SubmitInline j) = [j]"
| "caller_tasks (SubmitReject request a) = [JobStart a request]"
| "caller_tasks _ = []"

definition tasks :: "async_system \<Rightarrow> async_job multiset" where
  "tasks y = pool_jobs (sy_pool y) + mset (concat (map caller_tasks (sy_callers y)))"

inductive async_effect :: "async_job multiset \<times> async_state \<Rightarrow> async_job multiset \<times> async_state \<Rightarrow> bool" where
  unchanged: "async_effect (T, s) (T, s)"
| engine: "async_effect (T, s) (T, s\<lparr>a_engine := e\<rparr>)"
| evicted: "register_operation s = (None, s') \<Longrightarrow> async_effect (T, s) (T, s')"
| registered: "register_operation s = (Some a, s') \<Longrightarrow> async_effect (T, s) (add_mset (JobStart a request) T, s')"
| worked: "j \<in># T \<Longrightarrow> job_step j s = (r, s') \<Longrightarrow>
     async_effect (T, s) (T - {#j#} + (case r of None \<Rightarrow> {#} | Some j' \<Rightarrow> {#j'#}), s')"
| rejected: "JobStart a request \<in># T \<Longrightarrow>
     async_effect (T, s) (T - {#JobStart a request#}, reject_operation (ao_id (a_heap s ! a)) s)"
| marked: "cancel_mark ident s = (c, s') \<Longrightarrow> async_effect (T, s) (T, s')"

lemma tasks_caller:
  assumes "i < length (sy_callers y)" "pool_jobs P = pool_jobs (sy_pool y) + A"
  shows "tasks (y\<lparr>sy_pool := P, sy_callers := (sy_callers y)[i := c]\<rparr>) + mset (caller_tasks (sy_callers y ! i)) =
    tasks y + mset (caller_tasks c) + A"
  using concat_update [OF assms(1), of caller_tasks c] assms(2) by (simp add: tasks_def ac_simps)

lemma caller_tasks_in:
  "i < length (sy_callers y) \<Longrightarrow> j \<in> set (caller_tasks (sy_callers y ! i)) \<Longrightarrow> j \<in># tasks y"
  unfolding tasks_def using nth_mem by fastforce

lemma pool_jobs_same [simp]:
  "pool_jobs (P\<lparr>ps_shared := s\<rparr>) = pool_jobs P"
  "pool_jobs (P\<lparr>ps_pool := p, ps_shared := s\<rparr>) = mset (tp_queue p) + mset (concat (map busy_job (ps_workers P))) +
     mset (control_job (ps_control P))"
  by (simp_all add: pool_jobs_def)

lemma caller_step_effect:
  assumes i: "i < length (sy_callers y)"
    and step: "caller_step (sy_callers y ! i) (ps_pool (sy_pool y)) (shared y) = Some (c, p, s)"
    and z: "z = y\<lparr>sy_pool := (sy_pool y)\<lparr>ps_pool := p, ps_shared := s\<rparr>, sy_callers := (sy_callers y)[i := c]\<rparr>"
  shows "async_effect (tasks y, shared y) (tasks z, s)"
proof -
  let ?d = "sy_callers y ! i" and ?P = "(sy_pool y)\<lparr>ps_pool := p, ps_shared := s\<rparr>"
  have same: "p = ps_pool (sy_pool y) \<Longrightarrow> pool_jobs ?P = pool_jobs (sy_pool y) + {#}"
    by (simp add: pool_jobs_def)
  have keep: "tasks z = tasks y" if "mset (caller_tasks ?d) = mset (caller_tasks c) + A"
      "pool_jobs ?P = pool_jobs (sy_pool y) + A" for A
    using tasks_caller [OF i that(2), of c] that(1) unfolding z by (simp add: add.assoc)
  show ?thesis
  proof (cases ?d)
    case (SubmitRegister request)
    obtain a s' where r: "register_operation (shared y) = (a, s')" by (cases "register_operation (shared y)")
    then have c: "c = SubmitCount request a" "p = ps_pool (sy_pool y)" "s = s'"
      using step SubmitRegister by auto
    show ?thesis
    proof (cases a)
      case None
      then show ?thesis using keep [OF _ same] c r SubmitRegister by (auto intro: async_effect.evicted)
    next
      case (Some a')
      have "tasks z = add_mset (JobStart a' request) (tasks y)"
        using tasks_caller [OF i same, of c] c SubmitRegister Some unfolding z by simp
      then show ?thesis using r c Some by (simp add: async_effect.registered)
    qed
  next
    case (SubmitQueue request a)
    have s: "s = shared y" using step SubmitQueue by (auto split: prod.splits)
    have "tasks z = tasks y"
      using step SubmitQueue
      by (intro keep [of "if c = SubmitInline (JobStart a request) \<or> c = SubmitReject request a then {#} else {#JobStart a request#}"])
        (auto simp: try_submit_def pool_jobs_def split: if_splits)
    then show ?thesis using s by (simp add: async_effect.unchanged)
  next
    case (SubmitInline j)
    obtain r s' where r: "job_step j (shared y) = (r, s')" by (cases "job_step j (shared y)")
    then have c: "mset (caller_tasks c) = (case r of None \<Rightarrow> {#} | Some j' \<Rightarrow> {#j'#})" "p = ps_pool (sy_pool y)" "s = s'"
      using step SubmitInline by (auto split: option.splits)
    have j: "j \<in># tasks y" using caller_tasks_in [OF i] SubmitInline by simp
    have "tasks z = tasks y - {#j#} + (case r of None \<Rightarrow> {#} | Some j' \<Rightarrow> {#j'#})"
      by (rule swap_one [OF _ j]) (use tasks_caller [OF i same, of c] c SubmitInline in \<open>simp add: z\<close>)
    then show ?thesis using async_effect.worked [OF j r] c by simp
  next
    case (SubmitReject request a)
    then have c: "caller_tasks c = []" "p = ps_pool (sy_pool y)" "s = reject_operation (ao_id (a_heap (shared y) ! a)) (shared y)"
      using step by auto
    have j: "JobStart a request \<in># tasks y" using caller_tasks_in [OF i] SubmitReject by simp
    have "tasks z = tasks y - {#JobStart a request#} + {#}"
      by (rule swap_one [OF _ j]) (use tasks_caller [OF i same, of c] c SubmitReject in \<open>simp add: z\<close>)
    then show ?thesis using async_effect.rejected [OF j] c by simp
  next
    case (CancelMark ident)
    obtain c' s' where r: "cancel_mark ident (shared y) = (c', s')" by (cases "cancel_mark ident (shared y)")
    then have "caller_tasks c = []" "p = ps_pool (sy_pool y)" "c = c'" "s = s'"
      using step CancelMark by (auto simp: cancel_mark_def split: option.splits if_splits)
    then show ?thesis using keep [OF _ same] r CancelMark by (auto intro: async_effect.marked)
  next
    case (SubmitCount request a)
    then show ?thesis
      using step keep [OF _ same] by (cases a) (auto simp: count_async_def intro: async_effect.engine)
  qed (use step keep [OF _ same] in \<open>auto simp: count_async_def split: if_splits option.splits
         intro: async_effect.engine async_effect.unchanged\<close>)
qed

lemma async_step_effect:
  assumes "async_step y z" "pool_ok (sy_pool y)"
  shows "async_effect (tasks y, shared y) (tasks z, shared z)"
  using assms(1) unfolding async_step_def
proof
  assume "thread_step y z"
  then show ?thesis
  proof cases
    case (pool P)
    have t: "tasks z = pool_jobs P + mset (concat (map caller_tasks (sy_callers y)))" and s: "shared z = ps_shared P"
      using pool(1) by (simp_all add: tasks_def)
    from pool_step_effect [OF pool(2)] show ?thesis
    proof (elim disjE exE conjE)
      assume "pool_jobs P = pool_jobs (sy_pool y)" "ps_shared P = shared y"
      then show ?thesis using t s by (simp add: tasks_def async_effect.unchanged)
    next
      fix j r
      assume j: "j \<in># pool_jobs (sy_pool y)" and r: "job_step j (shared y) = (r, ps_shared P)"
        and p: "pool_jobs P = pool_jobs (sy_pool y) - {#j#} + (case r of None \<Rightarrow> {#} | Some j' \<Rightarrow> {#j'#})"
      have "tasks z = tasks y - {#j#} + (case r of None \<Rightarrow> {#} | Some j' \<Rightarrow> {#j'#})"
        using j unfolding t p tasks_def [of y] by (auto dest!: multi_member_split simp: ac_simps)
      then show ?thesis using async_effect.worked [of j "tasks y", OF _ r] j s by (simp add: tasks_def)
    qed
  next
    case (caller i c p s)
    then show ?thesis using caller_step_effect [OF caller(2,3,1)] by simp
  qed
next
  assume "outside_step y z"
  then show ?thesis
    using assms(2)
    by cases (auto simp: pool_ok_def Let_def tasks_def with_engine_def call_shutdown_def call_start_def pool_start_def pool_jobs_def
        request_stop_def elim!: is_call.elims intro: async_effect.engine async_effect.unchanged)
qed

section \<open>The invariant\<close>

text \<open>
  Identities are addresses plus one, until the counter saturates; an unfinished operation is in the
  table, and it has exactly one task, at the stage its state says.
\<close>

definition unsaturated :: "async_state \<Rightarrow> bool" where
  "unsaturated s \<longleftrightarrow> length (a_heap s) + 1 < 2 ^ 64"

definition unfinished :: "async_state \<Rightarrow> nat multiset" where
  "unfinished s = mset (filter (\<lambda>a. \<not> is_terminal (state_at s a)) [0..<length (a_heap s)])"

definition table_ok :: "async_state \<Rightarrow> bool" where
  "table_ok s \<longleftrightarrow> om_wf (a_operations s) \<and> a_next_operation s = of_nat (length (a_heap s) + 1) \<and>
     (\<forall>a < length (a_heap s). ao_id (a_heap s ! a) = of_nat (a + 1)) \<and>
     (\<forall>k a. om_find (a_operations s) k = Some a \<longrightarrow> a < length (a_heap s) \<and> k = of_nat (a + 1)) \<and>
     (\<forall>a < length (a_heap s). \<not> is_terminal (state_at s a) \<longrightarrow> om_find (a_operations s) (of_nat (a + 1)) = Some a)"

fun stage_ok :: "async_state \<Rightarrow> async_job \<Rightarrow> bool" where
  "stage_ok s (JobStart a request) \<longleftrightarrow> state_at s a = Pending \<and> a \<notin> fst ` set (a_placed s)"
| "stage_ok s (JobPlace a request) \<longleftrightarrow> state_at s a = Running \<and> a \<notin> fst ` set (a_placed s)"
| "stage_ok s (JobPublish a result) \<longleftrightarrow> state_at s a = Running \<and> (a, result) \<in> set (a_placed s)"

definition outcome_ok :: "(nat \<times> placement_result) list \<Rightarrow> nat \<Rightarrow> async_operation \<Rightarrow> bool" where
  "outcome_ok placed a op \<longleftrightarrow>
     (case ao_state op of
        Pending \<Rightarrow> \<not> ao_has_result op \<and> a \<notin> fst ` set placed
      | Running \<Rightarrow> \<not> ao_has_result op
      | OpCompleted \<Rightarrow> ao_has_result op \<and> (a, ao_result op) \<in> set placed \<and> is_acceptance (res_status (ao_result op))
      | OpCancelled \<Rightarrow> ao_cancel_requested op \<and> \<not> ao_has_result op \<and> a \<notin> fst ` set placed \<and> ao_reason op = RejectedCancelled
      | OpRejected \<Rightarrow> if ao_has_result op
          then (a, ao_result op) \<in> set placed \<and> \<not> is_acceptance (res_status (ao_result op)) \<and>
            ao_reason op = res_status (ao_result op)
          else a \<notin> fst ` set placed \<and> ao_reason op = RejectedQueueFull)"

definition async_ok :: "async_job multiset \<Rightarrow> async_state \<Rightarrow> bool" where
  "async_ok T s \<longleftrightarrow> table_ok s \<and> image_mset job_address T = unfinished s \<and>
     (\<forall>j. j \<in># T \<longrightarrow> stage_ok s j) \<and> distinct (map fst (a_placed s)) \<and>
     (\<forall>a. a \<in> fst ` set (a_placed s) \<longrightarrow> a < length (a_heap s)) \<and>
     (\<forall>a < length (a_heap s). outcome_ok (a_placed s) a (a_heap s ! a))"

lemma outcome_ok_other: "b \<noteq> a \<Longrightarrow> outcome_ok (placed @ [(a, result)]) b op = outcome_ok placed b op"
  by (cases "ao_state op") (simp_all add: outcome_ok_def)

lemma outcome_ok_running: "ao_state op = Running \<Longrightarrow> outcome_ok placed a op \<longleftrightarrow> \<not> ao_has_result op"
  by (simp add: outcome_ok_def)

lemma outcome_ok_pending:
  "ao_state op = Pending \<Longrightarrow> outcome_ok placed a op \<longleftrightarrow> \<not> ao_has_result op \<and> a \<notin> fst ` set placed"
  by (simp add: outcome_ok_def)

lemma count_unfinished:
  "count (unfinished s) a = (if a < length (a_heap s) \<and> \<not> is_terminal (state_at s a) then 1 else 0)"
  by (simp add: unfinished_def count_mset_0_iff distinct_count_atmost_1 count_eq_zero_iff)

lemma set_operation_simps [simp]:
  "length (a_heap (set_operation a f s)) = length (a_heap s)"
  "a_operations (set_operation a f s) = a_operations s"
  "a_next_operation (set_operation a f s) = a_next_operation s"
  "a_placed (set_operation a f s) = a_placed s"
  "unsaturated (set_operation a f s) = unsaturated s"
  by (simp_all add: set_operation_def unsaturated_def)

lemma heap_set_operation:
  "a < length (a_heap s) \<Longrightarrow> a_heap (set_operation a f s) ! b = (if b = a then f (a_heap s ! a) else a_heap s ! b)"
  by (auto simp: set_operation_def)

lemma state_set_operation:
  "a < length (a_heap s) \<Longrightarrow>
   state_at (set_operation a f s) b = (if b = a then ao_state (f (a_heap s ! a)) else state_at s b)"
  by (simp add: state_at_def heap_set_operation)

lemma stage_ok_cong:
  assumes "state_at s' (job_address j) = state_at s (job_address j)" "a_placed s' = a_placed s" "stage_ok s j"
  shows "stage_ok s' j"
  using assms by (cases j) simp_all

text \<open>A task is the only one of its operation, and its operation is unfinished.\<close>

lemma task_unique:
  assumes "image_mset job_address (add_mset j T) = unfinished s"
  shows "job_address j < length (a_heap s)" "\<not> is_terminal (state_at s (job_address j))"
    and "j' \<in># T \<Longrightarrow> job_address j' \<noteq> job_address j"
proof -
  let ?a = "job_address j"
  have c: "count (add_mset ?a (image_mset job_address T)) ?a = count (unfinished s) ?a"
    using assms by simp
  then show "?a < length (a_heap s)" "\<not> is_terminal (state_at s ?a)"
    by (auto simp: count_unfinished split: if_splits)
  have "count (image_mset job_address T) ?a = 0"
    using c by (auto simp: count_unfinished split: if_splits)
  then show "j' \<in># T \<Longrightarrow> job_address j' \<noteq> ?a"
    by (metis count_eq_zero_iff image_eqI set_image_mset)
qed

lemma table_ok_set_operation:
  assumes "table_ok s" "a < length (a_heap s)" "ao_id (f (a_heap s ! a)) = ao_id (a_heap s ! a)"
    and "\<not> is_terminal (state_at s a)"
  shows "table_ok (set_operation a f s)"
  using assms unfolding table_ok_def
  by (auto simp: heap_set_operation state_set_operation)

text \<open>The task of an operation changes the operation and goes on as \<open>R\<close>.\<close>

lemma async_ok_task:
  assumes ok: "async_ok (add_mset j T) s" and a: "a = job_address j"
    and f: "ao_id (f (a_heap s ! a)) = ao_id (a_heap s ! a)"
    and R: "image_mset job_address R = (if is_terminal (ao_state (f (a_heap s ! a))) then {#} else {#a#})"
      "\<And>j'. j' \<in># R \<Longrightarrow> a < length (a_heap s) \<Longrightarrow> stage_ok s j \<Longrightarrow> stage_ok (set_operation a f s) j'"
    and out: "stage_ok s j \<Longrightarrow> outcome_ok (a_placed s) a (a_heap s ! a) \<Longrightarrow> outcome_ok (a_placed s) a (f (a_heap s ! a))"
  shows "async_ok (T + R) (set_operation a f s)"
proof -
  let ?s = "set_operation a f s"
  have t: "table_ok s" "image_mset job_address (add_mset j T) = unfinished s"
      "\<And>j'. j' \<in># add_mset j T \<Longrightarrow> stage_ok s j'" "distinct (map fst (a_placed s))"
      "\<And>b. b \<in> fst ` set (a_placed s) \<Longrightarrow> b < length (a_heap s)"
      "\<And>b. b < length (a_heap s) \<Longrightarrow> outcome_ok (a_placed s) b (a_heap s ! b)"
    using ok by (auto simp: async_ok_def)
  note u = task_unique [OF t(2)]
  have al: "a < length (a_heap s)" "\<not> is_terminal (state_at s a)" using u(1,2) a by simp_all
  have "unfinished ?s = unfinished s - {#a#} + image_mset job_address R"
    unfolding R(1) by (rule multiset_eqI) (auto simp: count_unfinished state_set_operation al)
  then have m: "image_mset job_address (T + R) = unfinished ?s"
    using t(2) a by (simp add: t(2) [symmetric])
  have st: "stage_ok ?s j'" if "j' \<in># T + R" for j'
  proof (cases "j' \<in># R")
    case True
    then show ?thesis using R(2) t(3) [of j] al by simp
  next
    case False
    then have "j' \<in># T" using that by simp
    then show ?thesis using u(3) [of j'] t(3) [of j'] a al
      by (intro stage_ok_cong [of ?s j' s]) (auto simp: state_set_operation)
  qed
  have "outcome_ok (a_placed s) b (a_heap ?s ! b)" if "b < length (a_heap s)" for b
    using t(6) [OF that] out [OF t(3) [of j] t(6) [OF al(1)]] al(1) by (simp add: heap_set_operation)
  then show ?thesis
    using table_ok_set_operation [of s a f, OF t(1) al(1) f al(2)] m st t(4,5) by (simp add: async_ok_def)
qed

lemma notify_all_simps [simp]:
  "a_heap (notify_all a s) = a_heap s" "a_operations (notify_all a s) = a_operations s"
  "a_next_operation (notify_all a s) = a_next_operation s" "a_placed (notify_all a s) = a_placed s"
  "state_at (notify_all a s) = state_at s"
  by (simp_all add: notify_all_def state_at_def fun_eq_iff)

lemma async_ok_notify: "async_ok T (notify_all a s) = async_ok T s"
proof -
  have "stage_ok (notify_all a s) j = stage_ok s j" for j by (cases j) simp_all
  then show ?thesis by (simp add: async_ok_def table_ok_def unfinished_def)
qed

lemma async_ok_start:
  assumes "async_ok (add_mset (JobStart a request) T) s" "job_step (JobStart a request) s = (r, s')"
  shows "async_ok (T + (case r of None \<Rightarrow> {#} | Some j' \<Rightarrow> {#j'#})) s'"
proof (cases "ao_cancel_requested (a_heap s ! a)")
  case True
  then have r: "r = None" "s' = notify_all a (set_operation a (\<lambda>op. op\<lparr>ao_state := OpCancelled, ao_reason := RejectedCancelled\<rparr>) s)"
    using assms(2) by auto
  show ?thesis
    unfolding r async_ok_notify by (rule async_ok_task [OF assms(1)])
      (use True in \<open>auto simp: is_terminal_def outcome_ok_def state_at_def\<close>)
next
  case False
  then have r: "r = Some (JobPlace a request)" "s' = set_operation a (ao_state_update (\<lambda>_. Running)) s"
    using assms(2) by auto
  show ?thesis
    unfolding r by (rule async_ok_task [OF assms(1)])
      (auto simp: is_terminal_def outcome_ok_def state_at_def heap_set_operation)
qed

lemma async_ok_publish:
  assumes "async_ok (add_mset (JobPublish a result) T) s" "job_step (JobPublish a result) s = (r, s')"
  shows "async_ok (T + (case r of None \<Rightarrow> {#} | Some j' \<Rightarrow> {#j'#})) s'"
proof -
  have r: "r = None" "s' = notify_all a (set_operation a (\<lambda>op.
        let op = op\<lparr>ao_result := result, ao_has_result := True\<rparr> in
        if is_acceptance (res_status result) then op\<lparr>ao_state := OpCompleted\<rparr>
        else op\<lparr>ao_state := OpRejected, ao_reason := res_status result\<rparr>) s)"
    using assms(2) by auto
  show ?thesis
    unfolding r async_ok_notify by (rule async_ok_task [OF assms(1)]) (auto simp: is_terminal_def outcome_ok_def Let_def)
qed

lemma async_ok_place:
  assumes ok: "async_ok (add_mset (JobPlace a request) T) s" and "job_step (JobPlace a request) s = (r, s')"
  shows "async_ok (T + (case r of None \<Rightarrow> {#} | Some j' \<Rightarrow> {#j'#})) s'"
proof -
  obtain result e where r: "r = Some (JobPublish a result)"
      "s' = s\<lparr>a_engine := e, a_placed := a_placed s @ [(a, result)]\<rparr>"
    using assms(2) by (auto split: prod.splits)
  have t: "image_mset job_address (add_mset (JobPlace a request) T) = unfinished s"
      "\<And>j'. j' \<in># add_mset (JobPlace a request) T \<Longrightarrow> stage_ok s j'"
    and out: "\<And>b. b < length (a_heap s) \<Longrightarrow> outcome_ok (a_placed s) b (a_heap s ! b)"
    using ok by (auto simp: async_ok_def)
  note u = task_unique [OF t(1), unfolded job_address.simps]
  have run: "state_at s a = Running" "a \<notin> fst ` set (a_placed s)" using t(2) [of "JobPlace a request"] by simp_all
  have st: "stage_ok s' j'" if "j' \<in># T" for j'
    using u(3) [OF that] t(2) [of j'] that unfolding r by (cases j') (auto simp: state_at_def)
  have "stage_ok s' (JobPublish a result)" using run unfolding r by (simp add: state_at_def)
  moreover have "unfinished s' = unfinished s" "table_ok s' = table_ok s"
    unfolding r by (simp_all add: unfinished_def table_ok_def state_at_def)
  moreover have "outcome_ok (a_placed s') b (a_heap s ! b)" if "b < length (a_heap s)" for b
    using that run out [of b] unfolding r
    by (cases "b = a") (simp_all add: outcome_ok_running outcome_ok_other state_at_def)
  ultimately show ?thesis
    using ok u(1) run st unfolding async_ok_def r by auto
qed

lemma async_ok_worked:
  "async_ok (add_mset j T) s \<Longrightarrow> job_step j s = (r, s') \<Longrightarrow> async_ok (T + (case r of None \<Rightarrow> {#} | Some j' \<Rightarrow> {#j'#})) s'"
  using async_ok_start async_ok_place async_ok_publish by (cases j) blast+

lemma async_ok_rejected:
  assumes ok: "async_ok (add_mset (JobStart a request) T) s"
  shows "async_ok T (reject_operation (ao_id (a_heap s ! a)) s)"
proof -
  have "a < length (a_heap s)" "\<not> is_terminal (state_at s a)"
    using ok task_unique(1,2) [of "JobStart a request" T s] by (auto simp: async_ok_def)
  then have r: "reject_operation (ao_id (a_heap s ! a)) s =
      set_operation a (\<lambda>op. op\<lparr>ao_state := OpRejected, ao_reason := RejectedQueueFull\<rparr>) s"
    using ok by (simp add: async_ok_def table_ok_def reject_operation_def)
  have "async_ok (T + {#}) (set_operation a (\<lambda>op. op\<lparr>ao_state := OpRejected, ao_reason := RejectedQueueFull\<rparr>) s)"
    by (rule async_ok_task [OF ok]) (auto simp: is_terminal_def outcome_ok_def state_at_def)
  then show ?thesis unfolding r by simp
qed

lemma async_ok_marked:
  assumes ok: "async_ok T s" and "cancel_mark ident s = (c, s')"
  shows "async_ok T s'"
proof (cases "s' = s")
  case False
  then obtain a where a: "om_find (a_operations s) ident = Some a" "\<not> is_terminal (state_at s a)" "state_at s a \<noteq> Running"
      "s' = set_operation a (ao_cancel_requested_update (\<lambda>_. True)) s"
    using assms(2) by (auto simp: cancel_mark_def split: option.splits if_splits)
  have al: "a < length (a_heap s)" using ok a(1) by (auto simp: async_ok_def table_ok_def)
  have out: "\<And>b. b < length (a_heap s) \<Longrightarrow> outcome_ok (a_placed s) b (a_heap s ! b)"
    using ok by (simp add: async_ok_def)
  have p: "ao_state (a_heap s ! a) = Pending" using a(2,3) by (cases "state_at s a") (auto simp: is_terminal_def state_at_def)
  have st: "state_at s' b = state_at s b" for b by (simp add: a(4) heap_set_operation al state_at_def)
  have len: "length (a_heap s') = length (a_heap s)" by (simp add: a(4))
  have "table_ok s'"
    unfolding a(4) by (rule table_ok_set_operation) (use ok al a in \<open>auto simp: async_ok_def\<close>)
  moreover have "unfinished s' = unfinished s" using len by (intro multiset_eqI) (simp add: count_unfinished st)
  moreover have "stage_ok s' j" if "stage_ok s j" for j using that st a(4) by (intro stage_ok_cong [of s' j s]) simp_all
  moreover have "outcome_ok (a_placed s) b (a_heap s' ! b)" if "b < length (a_heap s)" for b
    using out [OF that] al p unfolding a(4)
    by (cases "b = a") (simp_all add: heap_set_operation outcome_ok_pending)
  ultimately show ?thesis using ok by (simp add: async_ok_def a(4))
qed (use ok in simp)

text \<open>The eviction keeps the unfinished operations in the table.\<close>

lemma evict_operations_keeps:
  assumes "om_wf m"
  shows "om_wf (evict_operations bound state n m)"
    and "om_find (evict_operations bound state n m) k = Some a \<Longrightarrow> om_find m k = Some a"
    and "om_find m k = Some a \<Longrightarrow> \<not> is_terminal (state a) \<Longrightarrow> om_find (evict_operations bound state n m) k = Some a"
proof -
  have "om_wf (evict_operations bound state n m) \<and>
    (om_find (evict_operations bound state n m) k = Some a \<longrightarrow> om_find m k = Some a) \<and>
    (om_find m k = Some a \<and> \<not> is_terminal (state a) \<longrightarrow> om_find (evict_operations bound state n m) k = Some a)"
    using assms
  proof (induction n arbitrary: m)
    case (Suc n)
    show ?case
    proof (cases "length m < bound \<or> List.find (\<lambda>(k, a). is_terminal (state a)) m = None")
      case True
      then show ?thesis using Suc.prems by (auto split: option.splits)
    next
      case False
      then obtain k' b where f: "List.find (\<lambda>(k, a). is_terminal (state a)) m = Some (k', b)" by auto
      then have "(k', b) \<in> set m" "is_terminal (state b)"
        by (auto simp: find_Some_iff) (metis nth_mem)
      then have "om_find m k' = Some b" "is_terminal (state b)" using Suc.prems by (simp_all add: om_in_set_iff)
      then show ?thesis using Suc.IH [of "om_erase k' m"] Suc.prems False f by (auto split: if_splits)
    qed
  qed simp
  then show "om_wf (evict_operations bound state n m)"
    and "om_find (evict_operations bound state n m) k = Some a \<Longrightarrow> om_find m k = Some a"
    and "om_find m k = Some a \<Longrightarrow> \<not> is_terminal (state a) \<Longrightarrow> om_find (evict_operations bound state n m) k = Some a"
    by blast+
qed

text \<open>A table that lost finished operations at most.\<close>

definition table_kept :: "async_state \<Rightarrow> (operation_id, nat) omap \<Rightarrow> bool" where
  "table_kept s m \<longleftrightarrow> om_wf m \<and> (\<forall>k a. om_find m k = Some a \<longrightarrow> om_find (a_operations s) k = Some a) \<and>
     (\<forall>k a. om_find (a_operations s) k = Some a \<and> \<not> is_terminal (state_at s a) \<longrightarrow> om_find m k = Some a)"

lemma register_operation_cases:
  assumes "register_operation s = (r, s')" "table_ok s"
  shows "\<exists>m. table_kept s m \<and>
      (r = None \<and> s' = s\<lparr>a_operations := m\<rparr> \<or>
       r = Some (length (a_heap s)) \<and> length m < ec_max_requests (e_config (a_engine s)) \<and>
       s' = s\<lparr>a_heap := a_heap s @ [async_operation_default\<lparr>ao_id := a_next_operation s\<rparr>],
         a_next_operation := saturating_increment (a_next_operation s),
         a_operations := om_emplace (a_next_operation s) (length (a_heap s)) m\<rparr>)"
proof -
  let ?n = "length (filter (\<lambda>(k, a). is_terminal (state_at s a)) (a_operations s))"
  let ?m = "evict_operations (ec_max_requests (e_config (a_engine s))) (state_at s) ?n (a_operations s)"
  have "om_wf (a_operations s)" using assms(2) by (simp add: table_ok_def)
  then have "table_kept s ?m" using evict_operations_keeps unfolding table_kept_def by blast
  then show ?thesis
    using assms(1) unfolding register_operation_def Let_def by (intro exI [of _ ?m]) (simp split: if_splits)
qed

lemma of_nat_less_word: "a + 1 < 2 ^ 64 \<Longrightarrow> b + 1 < 2 ^ 64 \<Longrightarrow> (of_nat (a + 1) = (of_nat (b + 1) :: u64)) \<longleftrightarrow> a = b"
  by (simp only: word_of_nat_eq_iff) (simp add: take_bit_nat_eq_self)

lemma table_ok_register:
  assumes t: "table_ok s" and u: "unsaturated s'"
    and k: "table_kept s m"
    and s': "s' = s\<lparr>a_heap := a_heap s @ [async_operation_default\<lparr>ao_id := a_next_operation s\<rparr>],
         a_next_operation := saturating_increment (a_next_operation s),
         a_operations := om_emplace (a_next_operation s) (length (a_heap s)) m\<rparr>"
  shows "table_ok s'"
proof -
  have m: "om_wf m" "\<And>k a. om_find m k = Some a \<Longrightarrow> om_find (a_operations s) k = Some a"
      "\<And>k a. om_find (a_operations s) k = Some a \<Longrightarrow> \<not> is_terminal (state_at s a) \<Longrightarrow> om_find m k = Some a"
    using k unfolding table_kept_def by blast+
  let ?n = "length (a_heap s)"
  have n: "?n + 2 < 2 ^ 64" using u by (simp add: unsaturated_def s')
  have nx: "a_next_operation s = of_nat (?n + 1)" using t by (simp add: table_ok_def)
  have "a_next_operation s \<noteq> - 1"
  proof
    assume "a_next_operation s = - 1"
    then have "unat (a_next_operation s) = 2 ^ 64 - 1" by (simp add: unsigned_minus_1_eq_mask mask_eq_exp_minus_1)
    moreover have "unat (a_next_operation s) = ?n + 1" using n unfolding nx by (intro of_nat_inverse) simp_all
    ultimately show False using n by simp
  qed
  then have inc: "saturating_increment (a_next_operation s) = of_nat (?n + 2)"
    by (simp add: saturating_increment_def nx)
  have fresh: "om_find m (of_nat (?n + 1)) = None"
  proof (rule ccontr)
    assume "om_find m (of_nat (?n + 1)) \<noteq> None"
    then obtain a where "om_find (a_operations s) (of_nat (?n + 1)) = Some a" using m(2) by blast
    then have "a < ?n" "of_nat (?n + 1) = (of_nat (a + 1) :: u64)" using t by (auto simp: table_ok_def)
    then show False using of_nat_less_word [of ?n a] n by simp
  qed
  have find: "om_find (a_operations s') k = (if k = of_nat (?n + 1) then Some ?n else om_find m k)" for k
    using fresh by (simp add: s' nx om_find_emplace)
  have heap: "a_heap s' ! a = (if a < ?n then a_heap s ! a else async_operation_default\<lparr>ao_id := of_nat (?n + 1)\<rparr>)"
    if "a < ?n + 1" for a using that by (auto simp: s' nx nth_append less_Suc_eq)
  have len: "length (a_heap s') = ?n + 1" by (simp add: s')
  show ?thesis
    unfolding table_ok_def
  proof (intro conjI allI impI)
    show "om_wf (a_operations s')" "a_next_operation s' = of_nat (length (a_heap s') + 1)"
      using m(1) inc by (simp_all add: s')
    fix k a
    show "ao_id (a_heap s' ! a) = of_nat (a + 1)" if "a < length (a_heap s')"
      using that t heap [of a] by (auto simp: s' table_ok_def less_Suc_eq)
    show "a < length (a_heap s')" "k = of_nat (a + 1)" if "om_find (a_operations s') k = Some a"
      using that [unfolded find] t m(2) [of k a] len by (auto simp: table_ok_def less_SucI split: if_splits)
    show "om_find (a_operations s') (of_nat (a + 1)) = Some a"
      if a: "a < length (a_heap s')" "\<not> is_terminal (state_at s' a)"
    proof (cases "a < ?n")
      case True
      then have "om_find (a_operations s) (of_nat (a + 1)) = Some a" "\<not> is_terminal (state_at s a)"
        using t a heap [of a] by (simp_all add: table_ok_def state_at_def)
      then show ?thesis using m(3) find of_nat_less_word [of a ?n] n True by simp
    next
      case False
      then show ?thesis using a find by (simp add: s' less_Suc_eq)
    qed
  qed
qed

lemma async_ok_register:
  assumes ok: "async_ok T s" and "register_operation s = (r, s')" "unsaturated s'"
  shows "async_ok (case r of None \<Rightarrow> T | Some a \<Rightarrow> add_mset (JobStart a request) T) s'"
proof -
  have t: "table_ok s" using ok by (simp add: async_ok_def)
  obtain m where m: "table_kept s m"
    and r: "r = None \<and> s' = s\<lparr>a_operations := m\<rparr> \<or>
       r = Some (length (a_heap s)) \<and> length m < ec_max_requests (e_config (a_engine s)) \<and>
       s' = s\<lparr>a_heap := a_heap s @ [async_operation_default\<lparr>ao_id := a_next_operation s\<rparr>],
         a_next_operation := saturating_increment (a_next_operation s),
         a_operations := om_emplace (a_next_operation s) (length (a_heap s)) m\<rparr>"
    using register_operation_cases [OF assms(2) t] by (elim exE conjE) (rule that)
  show ?thesis
    using r
  proof (elim disjE conjE)
    assume n: "r = None" "s' = s\<lparr>a_operations := m\<rparr>"
    have "table_ok s' \<longleftrightarrow> om_wf m \<and> a_next_operation s = of_nat (length (a_heap s) + 1) \<and>
       (\<forall>a < length (a_heap s). ao_id (a_heap s ! a) = of_nat (a + 1)) \<and>
       (\<forall>k a. om_find m k = Some a \<longrightarrow> a < length (a_heap s) \<and> k = of_nat (a + 1)) \<and>
       (\<forall>a < length (a_heap s). \<not> is_terminal (state_at s a) \<longrightarrow> om_find m (of_nat (a + 1)) = Some a)"
      by (simp add: n table_ok_def state_at_def)
    then have "table_ok s'" using t m unfolding table_ok_def table_kept_def by blast
    moreover have "stage_ok s' j" if "stage_ok s j" for j
      using that by (rule stage_ok_cong [rotated 2]) (simp_all add: n(2) state_at_def)
    ultimately show ?thesis using ok by (simp add: async_ok_def n unfinished_def state_at_def)
  next
    let ?n = "length (a_heap s)"
    assume n: "r = Some ?n" and s': "s' = s\<lparr>a_heap := a_heap s @ [async_operation_default\<lparr>ao_id := a_next_operation s\<rparr>],
         a_next_operation := saturating_increment (a_next_operation s),
         a_operations := om_emplace (a_next_operation s) ?n m\<rparr>"
    have pl: "a_placed s' = a_placed s" and fresh: "?n \<notin> fst ` set (a_placed s)"
      using ok by (auto simp: s' async_ok_def)
    have old: "state_at s' a = state_at s a" "a_heap s' ! a = a_heap s ! a" if "a < ?n" for a
      using that by (simp_all add: s' state_at_def nth_append)
    have new: "a_heap s' ! ?n = async_operation_default\<lparr>ao_id := a_next_operation s\<rparr>" "length (a_heap s') = ?n + 1"
      by (simp_all add: s')
    have T: "image_mset job_address T = unfinished s" using ok by (simp add: async_ok_def)
    have un: "unfinished s' = add_mset ?n (unfinished s)"
      by (rule multiset_eqI) (auto simp: count_unfinished new old less_Suc_eq state_at_def [of s' ?n]
          async_operation_default_def is_terminal_def)
    have "stage_ok s' j" if "j \<in># T" for j
    proof -
      have "job_address j < ?n"
        using task_unique(1) [of j "T - {#j#}" s] T that by simp
      then show ?thesis
        using ok that pl old by (intro stage_ok_cong [of s' j s]) (auto simp: async_ok_def)
    qed
    moreover have "stage_ok s' (JobStart ?n request)"
      using fresh pl by (simp add: state_at_def new async_operation_default_def)
    moreover have "outcome_ok (a_placed s) a (a_heap s' ! a)" if "a < ?n + 1" for a
      using ok that fresh new old(2) [of a]
      by (cases "a = ?n") (auto simp: async_ok_def outcome_ok_pending async_operation_default_def)
    ultimately show ?thesis
      using ok table_ok_register [OF t assms(3) m s'] un T
      by (auto simp: async_ok_def n new pl less_Suc_eq)
  qed
qed

text \<open>Every effect keeps the invariant, as long as the identities are not used up.\<close>

lemma heap_grows: "async_effect x y \<Longrightarrow> length (a_heap (snd x)) \<le> length (a_heap (snd y))"
proof (induction rule: async_effect.induct)
  case (worked j T s r s')
  then show ?case by (cases j) (auto split: if_splits prod.splits)
qed (auto simp: register_operation_def Let_def reject_operation_def cancel_mark_def split: if_splits option.splits)

lemma async_ok_effect:
  assumes "async_effect (T, s) (U, t)" "async_ok T s" "unsaturated t"
  shows "async_ok U t"
  using assms
proof cases
  case (worked j r)
  then show ?thesis using async_ok_worked [of j "T - {#j#}" s r t] assms(2) by simp
next
  case (rejected a request)
  then show ?thesis using async_ok_rejected [of a request "T - {#JobStart a request#}" s] assms(2) by simp
next
  case (engine e)
  have "stage_ok t j" if "stage_ok s j" for j
    using that by (rule stage_ok_cong [rotated 2]) (simp_all add: engine state_at_def)
  then show ?thesis
    using assms(2) by (simp add: engine async_ok_def table_ok_def unfinished_def state_at_def)
qed (use assms async_ok_marked async_ok_register [of T s None] async_ok_register [of T s "Some _"] in \<open>auto\<close>)

section \<open>The invariant of the system\<close>

fun waits_for :: "caller \<Rightarrow> nat option" where
  "waits_for (WaitReady a) = Some a"
| "waits_for (WaitBlocked a) = Some a"
| "waits_for _ = None"

definition waiters_ok :: "async_system \<Rightarrow> bool" where
  "waiters_ok y \<longleftrightarrow> (\<forall>c a. c \<in> set (sy_callers y) \<and> waits_for c = Some a \<longrightarrow> a < length (a_heap (shared y)))"

text \<open>
  A finished operation has been notified, unless the queue refused it: \<^verbatim>\<open>submit\<close> does not notify then.
\<close>

definition queue_refused :: "async_operation \<Rightarrow> bool" where
  "queue_refused op \<longleftrightarrow> ao_state op = OpRejected \<and> \<not> ao_has_result op"

definition notified_ok :: "async_state \<Rightarrow> bool" where
  "notified_ok s \<longleftrightarrow> (\<forall>a < length (a_heap s). is_terminal (state_at s a) \<and> \<not> queue_refused (a_heap s ! a) \<longrightarrow>
     a \<in> set (a_notified s))"

lemma notified_ok_task:
  assumes "notified_ok s" "a < length (a_heap s)"
  shows "notified_ok (notify_all a (set_operation a f s))"
    and "\<not> is_terminal (ao_state (f (a_heap s ! a))) \<or> queue_refused (f (a_heap s ! a)) \<Longrightarrow> notified_ok (set_operation a f s)"
  using assms by (auto simp: notified_ok_def heap_set_operation state_at_def notify_all_def set_operation_def nth_list_update)

lemma notified_ok_worked:
  assumes "notified_ok s" "job_step j s = (r, s')" "job_address j < length (a_heap s)"
  shows "notified_ok s'"
proof (cases j)
  case (JobStart a request)
  then show ?thesis
    using assms notified_ok_task [OF assms(1), of a] by (auto simp: is_terminal_def split: if_splits)
next
  case (JobPlace a request)
  then show ?thesis using assms by (auto simp: notified_ok_def state_at_def split: prod.splits)
next
  case (JobPublish a result)
  then show ?thesis using assms notified_ok_task(1) [OF assms(1), of a] by auto
qed

lemma notified_ok_effect:
  assumes "async_effect (T, s) (U, t)" "async_ok T s" "notified_ok s"
  shows "notified_ok t"
  using assms(1)
proof cases
  case (worked j r)
  then show ?thesis
    using notified_ok_worked [OF assms(3)] task_unique(1) [of j "T - {#j#}" s] assms(2) by (auto simp: async_ok_def)
next
  case (rejected a request)
  have "async_ok (add_mset (JobStart a request) (T - {#JobStart a request#})) s" using assms(2) rejected by simp
  then have a: "a < length (a_heap s)" "ao_state (a_heap s ! a) = Pending" "outcome_ok (a_placed s) a (a_heap s ! a)"
    using task_unique(1) [of "JobStart a request" "T - {#JobStart a request#}" s] rejected(2)
    by (auto simp: async_ok_def state_at_def)
  then have "om_find (a_operations s) (ao_id (a_heap s ! a)) = Some a"
    using assms(2) by (auto simp: async_ok_def table_ok_def state_at_def is_terminal_def)
  then show ?thesis
    using rejected a notified_ok_task(2) [OF assms(3) a(1)]
    by (simp add: reject_operation_def queue_refused_def outcome_ok_pending)
next
  case (marked ident c)
  show ?thesis
  proof (cases "t = s")
    case False
    then obtain a where a: "om_find (a_operations s) ident = Some a" "\<not> is_terminal (state_at s a)"
        "t = set_operation a (ao_cancel_requested_update (\<lambda>_. True)) s"
      using marked by (auto simp: cancel_mark_def split: option.splits if_splits)
    then have "a < length (a_heap s)" using assms(2) by (auto simp: async_ok_def table_ok_def)
    then show ?thesis using a notified_ok_task(2) [OF assms(3)] by (simp add: state_at_def)
  qed (use assms(3) in simp)
qed (use assms(3) in \<open>auto simp: notified_ok_def state_at_def register_operation_def Let_def less_Suc_eq nth_append
      async_operation_default_def is_terminal_def split: if_splits\<close>)

definition system_ok :: "async_system \<Rightarrow> bool" where
  "system_ok y \<longleftrightarrow> pool_ok (sy_pool y) \<and>
     (unsaturated (shared y) \<longrightarrow> async_ok (tasks y) (shared y) \<and> notified_ok (shared y) \<and> waiters_ok y)"

lemma pool_ok_shared [simp]: "pool_ok (P\<lparr>ps_shared := s\<rparr>) = pool_ok P"
  by (simp add: pool_ok_def)

lemma caller_step_pool:
  assumes "caller_step c p s = Some (c', p', s')"
  shows "p' = p \<or> (\<exists>j r. try_submit (Some j) p = (r, p'))"
  using assms
  by (cases "(c, p, s)" rule: caller_step.cases) (auto simp: Let_def split: prod.splits option.splits if_splits)

lemma pool_ok_caller:
  assumes "pool_ok P" "caller_step c (ps_pool P) s = Some (c', p', s')"
  shows "pool_ok (P\<lparr>ps_pool := p', ps_shared := s'\<rparr>)"
proof -
  have "pool_ok (P\<lparr>ps_pool := p'\<rparr>)" if "try_submit (Some j) (ps_pool P) = (r, p')" for j r
    using pool_ok_submit [OF assms(1), of j] that by (simp add: submit_job_def)
  moreover have "pool_ok (P\<lparr>ps_pool := ps_pool P\<rparr>)" using assms(1) by simp
  ultimately have "pool_ok (P\<lparr>ps_pool := p'\<rparr>)" using caller_step_pool [OF assms(2)] by blast
  then show ?thesis using pool_ok_shared [of s' "P\<lparr>ps_pool := p'\<rparr>"] by simp
qed

lemma caller_step_wait:
  assumes "caller_step c p s = Some (c', p', s')" "waits_for c' = Some a"
  shows "waits_for c = Some a \<or> (\<exists>ident. om_find (a_operations s) ident = Some a)"
  using assms
  by (cases "(c, p, s)" rule: caller_step.cases)
    (auto simp: Let_def cancel_mark_def split: prod.splits option.splits if_splits submission.splits)

lemma pool_ok_async_step:
  assumes "async_step y z" "pool_ok (sy_pool y)"
  shows "pool_ok (sy_pool z)"
  using assms(1) unfolding async_step_def
proof
  assume "thread_step y z"
  then show ?thesis by cases (use assms(2) pool_ok_step pool_ok_caller in auto)
next
  assume "outside_step y z"
  then show ?thesis
    by cases (use assms(2) pool_ok_start pool_ok_shutdown in \<open>auto simp: with_engine_def\<close>)
qed

lemma waiters_ok_step:
  assumes "async_step y z" "waiters_ok y" "table_ok (shared y)" "length (a_heap (shared y)) \<le> length (a_heap (shared z))"
  shows "waiters_ok z"
proof -
  have old: "a < length (a_heap (shared z))" if "c \<in> set (sy_callers y)" "waits_for c = Some a" for c a
    using that assms(2,4) by (fastforce simp: waiters_ok_def)
  have "a < length (a_heap (shared z))" if d: "d \<in> set (sy_callers z)" "waits_for d = Some a" for d a
    using assms(1) unfolding async_step_def
  proof
    assume "thread_step y z"
    then show ?thesis
    proof cases
      case (pool P)
      then show ?thesis using old d by simp
    next
      case (caller i c p s)
      have "d \<in> set (sy_callers y) \<or> c = d"
        using d(1) set_update_subset_insert [of "sy_callers y" i c] caller(1) by auto
      moreover have ?thesis if "c = d"
        using caller_step_wait [OF caller(3), of a] d(2) that old [OF nth_mem [OF caller(2)]] assms(3,4)
        by (fastforce simp: table_ok_def)
      ultimately show ?thesis using old d(2) by blast
    qed
  next
    assume "outside_step y z"
    then show ?thesis
      using old d by cases (auto simp: with_engine_def elim: is_call.elims)
  qed
  then show ?thesis unfolding waiters_ok_def by blast
qed

lemma system_ok_step:
  assumes "async_step y z" "system_ok y"
  shows "system_ok z"
proof -
  have pool: "pool_ok (sy_pool y)" using assms(2) by (simp add: system_ok_def)
  note eff = async_step_effect [OF assms(1) pool]
  have grows: "length (a_heap (shared y)) \<le> length (a_heap (shared z))" using heap_grows [OF eff] by simp
  have "async_ok (tasks z) (shared z) \<and> notified_ok (shared z) \<and> waiters_ok z" if u: "unsaturated (shared z)"
  proof -
    have "unsaturated (shared y)" using u grows by (simp add: unsaturated_def)
    then have ok: "async_ok (tasks y) (shared y)" "waiters_ok y" "notified_ok (shared y)" using assms(2) by (simp_all add: system_ok_def)
    then show ?thesis
      using async_ok_effect [OF eff ok(1) u] waiters_ok_step [OF assms(1) ok(2) _ grows]
        notified_ok_effect [OF eff ok(1,3)] by (simp add: async_ok_def)
  qed
  then show ?thesis using pool_ok_async_step [OF assms(1) pool] by (simp add: system_ok_def)
qed

lemma system_ok_initial: "system_ok (async_initial e)"
  by (simp add: system_ok_def async_initial_def async_new_def pool_ok_def thread_pool_new_def async_ok_def table_ok_def
      om_wf_def unfinished_def tasks_def pool_jobs_def waiters_ok_def notified_ok_def)

lemma reachable_ok: "async_reachable e y \<Longrightarrow> system_ok y"
  unfolding async_reachable_def
  by (induction rule: rtranclp_induct) (auto intro: system_ok_initial system_ok_step)

section \<open>The system comes to rest\<close>













section \<open>Properties\<close>




text \<open>
  C34: An asynchronous request is placed at most once, and its operation reports what happened.  A
  completed operation carries the result of its one placement, which was accepted; a cancelled one
  was never placed; a rejected one was refused by its placement, with the reason it reports, or
  never entered the queue.
\<close>

theorem operations_report_their_placement:
  assumes "async_reachable e y" "unsaturated (shared y)" "a < length (a_heap (shared y))"
  shows "length (filter (\<lambda>(b, r). b = a) (a_placed (shared y))) \<le> 1 \<and>
    outcome_ok (a_placed (shared y)) a (a_heap (shared y) ! a)"
proof -
  have ok: "distinct (map fst (a_placed (shared y)))" "outcome_ok (a_placed (shared y)) a (a_heap (shared y) ! a)"
    using reachable_ok [OF assms(1)] assms(2,3) by (simp_all add: system_ok_def async_ok_def)
  have "length (filter (\<lambda>(b, r). b = a) xs) \<le> 1" if "distinct (map fst xs)" for xs :: "(nat \<times> placement_result) list"
    using that by (induction xs) (force simp: filter_empty_conv)+
  then show ?thesis using ok by blast
qed

text \<open>A caller on an open engine whose pool has not been started: its request is refused by the queue.\<close>

definition step_caller :: "nat \<Rightarrow> async_system \<Rightarrow> async_system" where
  "step_caller i y =
     (case caller_step (sy_callers y ! i) (ps_pool (sy_pool y)) (shared y) of
        None \<Rightarrow> y
      | Some (c, p, s) \<Rightarrow>
          y\<lparr>sy_pool := (sy_pool y)\<lparr>ps_pool := p, ps_shared := s\<rparr>, sy_callers := (sy_callers y)[i := c]\<rparr>)"

lemma reachable_step_caller:
  assumes "async_reachable e y" "i < length (sy_callers y)"
  shows "async_reachable e (step_caller i y)"
proof -
  have "async_step y (step_caller i y) \<or> step_caller i y = y"
    using thread_step.caller [OF assms(2)] by (auto simp: step_caller_def async_step_def split: option.splits)
  then show ?thesis
    using assms(1) unfolding async_reachable_def by (auto intro: rtranclp.rtrancl_into_rtrancl)
qed

definition demo_open :: impl where
  "demo_open = (impl_new engine_config_default \<lparr>dk_directory = False, dk_snapshot = None, dk_journal = None\<rparr> [])\<lparr>e_open := True\<rparr>"

definition demo_call :: async_system where
  "demo_call = (async_initial demo_open)\<lparr>sy_callers := [SubmitCheck placement_request_default, WaitFind 1]\<rparr>"

definition demo_refused :: async_system where
  "demo_refused = step_caller 0 (step_caller 0 (step_caller 0 (step_caller 0 (step_caller 0 (step_caller 0 demo_call)))))"

lemma demo_call_reachable: "async_reachable demo_open demo_call"
proof -
  have a: "async_step (async_initial demo_open) ((async_initial demo_open)\<lparr>sy_callers := [] @ [SubmitCheck placement_request_default]\<rparr>)"
    using outside_step.call [of "SubmitCheck placement_request_default" "async_initial demo_open"]
    by (simp add: async_step_def async_initial_def)
  moreover have "async_step ((async_initial demo_open)\<lparr>sy_callers := [] @ [SubmitCheck placement_request_default]\<rparr>) demo_call"
    using outside_step.call [of "WaitFind 1" "(async_initial demo_open)\<lparr>sy_callers := [SubmitCheck placement_request_default]\<rparr>"]
    by (simp add: async_step_def demo_call_def)
  ultimately show ?thesis unfolding async_reachable_def by (blast intro: rtranclp.rtrancl_into_rtrancl)
qed

lemma demo_refused_reachable: "async_reachable demo_open demo_refused"
proof -
  have len: "length (sy_callers (step_caller i y)) = length (sy_callers y)" for i y
    by (auto simp: step_caller_def split: option.splits)
  have n: "length (sy_callers demo_call) = 2" by (simp add: demo_call_def)
  show ?thesis
    unfolding demo_refused_def
    by (intro reachable_step_caller demo_call_reachable) (simp_all only: len n zero_less_numeral)
qed

lemma demo_refused_heap: "map ao_state (a_heap (shared demo_refused)) = [OpRejected]"
  by code_simp

theorem operations_report_their_placement_witness:
  "length (filter (\<lambda>(b, r). b = 0) (a_placed (shared demo_refused))) \<le> 1 \<and>
    outcome_ok (a_placed (shared demo_refused)) 0 (a_heap (shared demo_refused) ! 0)"
proof -
  have "length (a_heap (shared demo_refused)) = 1" using arg_cong [OF demo_refused_heap, of length] by simp
  then show ?thesis
    using operations_report_their_placement [OF demo_refused_reachable, of 0] by (simp add: unsaturated_def)
qed







end
