(* ===== verification/Export.thy ===== *)
theory Export
  imports EngineLifecycle
begin

text \<open>
  The export of the engine's state (\<^verbatim>\<open>include/flow_offload/export.hpp\<close>, \<^verbatim>\<open>src/export.cpp\<close>): as JSON, in a
  canonical binary form and as text.  The JSON writer keeps the output, a stack that says for each
  open bracket whether its next item is the first, and a flag for a value that belongs to a key.
  An export is specified by a tree; the locale-free law \<open>emits\<close> says that a writing step appends the
  text of a tree, and every writing function has it.
\<close>

section \<open>The JSON writer\<close>

record json_writer =
  jw_out :: string
  jw_stack :: "bool list"
  jw_limit :: nat
  jw_overflow :: bool
  jw_pending_value :: bool

definition json_writer_new :: "nat \<Rightarrow> json_writer" where
  "json_writer_new max_bytes = \<lparr>jw_out = [], jw_stack = [], jw_limit = max_bytes, jw_overflow = False,
     jw_pending_value = False\<rparr>"

definition jw_push :: "char \<Rightarrow> json_writer \<Rightarrow> json_writer" where
  "jw_push c w = w\<lparr>jw_out := jw_out w @ [c]\<rparr>"

definition separate :: "json_writer \<Rightarrow> json_writer" where
  "separate w =
     (if jw_pending_value w then w\<lparr>jw_pending_value := False\<rparr>
      else case jw_stack w of
        [] \<Rightarrow> w
      | first # st \<Rightarrow> if first then w\<lparr>jw_stack := False # st\<rparr> else jw_push (CHR '','') w)"

definition jw_append :: "string \<Rightarrow> json_writer \<Rightarrow> json_writer" where
  "jw_append text w =
     (if jw_overflow w then w
      else if length (jw_out w) + length text > jw_limit w then w\<lparr>jw_overflow := True\<rparr>
      else w\<lparr>jw_out := jw_out w @ text\<rparr>)"

definition escape_char :: "char \<Rightarrow> string" where
  "escape_char ch =
     (if ch = CHR 0x22 then [CHR 0x5C, CHR 0x22]
      else if ch = CHR 0x5C then [CHR 0x5C, CHR 0x5C]
      else if ch = CHR 0x0A then [CHR 0x5C, CHR ''n'']
      else if ch = CHR 0x0D then [CHR 0x5C, CHR ''r'']
      else if ch = CHR 0x09 then [CHR 0x5C, CHR ''t'']
      else
        let byte = of_char ch :: nat in
        if byte < 0x20 then [CHR 0x5C, CHR ''u'', CHR ''0'', CHR ''0'', kHexDigits ! (byte div 16), kHexDigits ! (byte mod 16)]
        else [ch])"

definition quote :: "string \<Rightarrow> string" where
  "quote text = CHR 0x22 # concat (map escape_char text) @ [CHR 0x22]"

definition jw_string :: "string \<Rightarrow> json_writer \<Rightarrow> json_writer" where
  "jw_string text w =
     (if jw_overflow w then w
      else if length (jw_out w) + length text + 2 > jw_limit w then w\<lparr>jw_overflow := True\<rparr>
      else w\<lparr>jw_out := jw_out w @ quote text\<rparr>)"

definition jw_open :: "char \<Rightarrow> json_writer \<Rightarrow> json_writer" where
  "jw_open bracket w = (let w = jw_push bracket (separate w) in w\<lparr>jw_stack := True # jw_stack w\<rparr>)"

definition jw_close :: "char \<Rightarrow> json_writer \<Rightarrow> json_writer" where
  "jw_close bracket w = (jw_push bracket (w\<lparr>jw_stack := tl (jw_stack w)\<rparr>))\<lparr>jw_pending_value := False\<rparr>"

definition jw_key :: "string \<Rightarrow> json_writer \<Rightarrow> json_writer" where
  "jw_key name w = (jw_append '': '' (jw_string name (separate w)))\<lparr>jw_pending_value := True\<rparr>"

definition value_string :: "string \<Rightarrow> json_writer \<Rightarrow> json_writer" where
  "value_string text w = jw_string text (separate w)"

definition value_uint :: "nat \<Rightarrow> json_writer \<Rightarrow> json_writer" where
  "value_uint v w = jw_append (decimal v) (separate w)"

definition value_bool :: "bool \<Rightarrow> json_writer \<Rightarrow> json_writer" where
  "value_bool v w = jw_append (if v then ''true'' else ''false'') (separate w)"

definition value_null :: "json_writer \<Rightarrow> json_writer" where
  "value_null w = jw_append ''null'' (separate w)"

definition value_digest :: "digest \<Rightarrow> json_writer \<Rightarrow> json_writer" where
  "value_digest d w = jw_string (digest_hex d) (separate w)"

text \<open>
  Sequences of calls: a key with its value, the items between \<^verbatim>\<open>begin_object\<close> and \<^verbatim>\<open>end_object\<close> or
  between \<^verbatim>\<open>begin_array\<close> and \<^verbatim>\<open>end_array\<close>, a loop, a conditional block.
\<close>

definition j_all :: "(json_writer \<Rightarrow> json_writer) list \<Rightarrow> json_writer \<Rightarrow> json_writer" where
  "j_all acts w = foldl (\<lambda>w act. act w) w acts"

definition field :: "string \<Rightarrow> (json_writer \<Rightarrow> json_writer) \<Rightarrow> json_writer \<Rightarrow> json_writer" where
  "field name act w = act (jw_key name w)"

definition json_object :: "(json_writer \<Rightarrow> json_writer) list \<Rightarrow> json_writer \<Rightarrow> json_writer" where
  "json_object acts w = jw_close (CHR 0x7D) (j_all acts (jw_open (CHR 0x7B) w))"

definition json_array :: "(json_writer \<Rightarrow> json_writer) \<Rightarrow> json_writer \<Rightarrow> json_writer" where
  "json_array act w = jw_close (CHR '']'') (act (jw_open (CHR ''['') w))"

definition j_for :: "'a list \<Rightarrow> ('a \<Rightarrow> json_writer \<Rightarrow> json_writer) \<Rightarrow> json_writer \<Rightarrow> json_writer" where
  "j_for xs act = j_all (map act xs)"

definition j_if :: "bool \<Rightarrow> (json_writer \<Rightarrow> json_writer) list \<Rightarrow> json_writer \<Rightarrow> json_writer" where
  "j_if c acts = (if c then j_all acts else (\<lambda>w. w))"

section \<open>Trees\<close>

datatype json = JString string | JUint nat | JBool bool | JNull | JArray "json list" | JObject "(string \<times> json) list"

fun items_text :: "bool \<Rightarrow> string list \<Rightarrow> string" where
  "items_text first [] = []"
| "items_text first (x # xs) = (if first then [] else '','') @ x @ items_text False xs"

fun render_json :: "json \<Rightarrow> string" where
  "render_json (JString s) = quote s"
| "render_json (JUint n) = decimal n"
| "render_json (JBool b) = (if b then ''true'' else ''false'')"
| "render_json JNull = ''null''"
| "render_json (JArray xs) = ''['' @ items_text True (map render_json xs) @ '']''"
| "render_json (JObject kvs) = [CHR 0x7B] @ items_text True (map (\<lambda>(k, v). quote k @ '': '' @ render_json v) kvs) @ [CHR 0x7D]"

section \<open>The JSON export\<close>

definition kExportSchemaVersion :: u32 where
  "kExportSchemaVersion = 1"

definition kMaxExportBytes :: nat where
  "kMaxExportBytes = 128 * 1024 * 1024"

definition version_string :: string where
  "version_string = ''1.0.0''"

record export_options =
  eo_include_flows :: bool
  eo_include_assignments :: bool
  eo_include_migrations :: bool
  eo_include_counters :: bool
  eo_include_recovery :: bool
  eo_max_bytes :: nat

definition export_options_default :: export_options where
  "export_options_default = \<lparr>eo_include_flows = True, eo_include_assignments = True, eo_include_migrations = True,
     eo_include_counters = True, eo_include_recovery = True, eo_max_bytes = kMaxExportBytes\<rparr>"

definition write_capability_list :: "capability_mask \<Rightarrow> json_writer \<Rightarrow> json_writer" where
  "write_capability_list caps = json_array (j_for kCapabilities
     (\<lambda>c. j_if (has_capability caps c) [value_string (capability_to_string c)]))"

definition json_capability_list :: "capability_mask \<Rightarrow> json" where
  "json_capability_list caps = JArray (map (\<lambda>c. JString (capability_to_string c)) (filter (has_capability caps) kCapabilities))"

definition value_capacity :: "capacity_vector \<Rightarrow> json_writer \<Rightarrow> json_writer" where
  "value_capacity capacity = json_object
       [field ''packets_per_second'' (value_uint (unat (cv_packets_per_second capacity))),
        field ''bytes_per_second'' (value_uint (unat (cv_bytes_per_second capacity))),
        field ''state_bytes'' (value_uint (unat (cv_state_bytes capacity))),
        field ''table_entries'' (value_uint (unat (cv_table_entries capacity)))]"

definition json_capacity :: "capacity_vector \<Rightarrow> json" where
  "json_capacity capacity = JObject
       [(''packets_per_second'', JUint (unat (cv_packets_per_second capacity))),
        (''bytes_per_second'', JUint (unat (cv_bytes_per_second capacity))),
        (''state_bytes'', JUint (unat (cv_state_bytes capacity))),
        (''table_entries'', JUint (unat (cv_table_entries capacity)))]"

definition write_reason_counts :: "reason_count list \<Rightarrow> json_writer \<Rightarrow> json_writer" where
  "write_reason_counts counts = json_array (j_for counts (\<lambda>count. json_object
         [field ''code'' (value_string (reason_to_string (rc_code count))),
          field ''numeric'' (value_uint (unat (reason_value (rc_code count)))),
          field ''count'' (value_uint (unat (rc_count count)))]))"

definition json_reason_counts :: "reason_count list \<Rightarrow> json" where
  "json_reason_counts counts = JArray (map (\<lambda>count. JObject
         [(''code'', JString (reason_to_string (rc_code count))),
          (''numeric'', JUint (unat (reason_value (rc_code count)))),
          (''count'', JUint (unat (rc_count count)))]) counts)"

definition write_counters :: "counters \<Rightarrow> json_writer \<Rightarrow> json_writer" where
  "write_counters counters = json_object
       [field ''flows_registered'' (value_uint (unat (c_flows_registered counters))),
        field ''targets_registered'' (value_uint (unat (c_targets_registered counters))),
        field ''targets_removed'' (value_uint (unat (c_targets_removed counters))),
        field ''evidence_accepted'' (value_uint (unat (c_evidence_accepted counters))),
        field ''evidence_rejected'' (value_uint (unat (c_evidence_rejected counters))),
        field ''evidence_idempotent'' (value_uint (unat (c_evidence_idempotent counters))),
        field ''load_records_rejected_stale'' (value_uint (unat (c_load_records_rejected_stale counters))),
        field ''placements_accepted'' (value_uint (unat (c_placements_accepted counters))),
        field ''placements_refused'' (value_uint (unat (c_placements_refused counters))),
        field ''placements_fallback'' (value_uint (unat (c_placements_fallback counters))),
        field ''placements_retained'' (value_uint (unat (c_placements_retained counters))),
        field ''recommendations_issued'' (value_uint (unat (c_recommendations_issued counters))),
        field ''authorizations_granted'' (value_uint (unat (c_authorizations_granted counters))),
        field ''authorizations_refused'' (value_uint (unat (c_authorizations_refused counters))),
        field ''migrations_issued'' (value_uint (unat (c_migrations_issued counters))),
        field ''migrations_completed'' (value_uint (unat (c_migrations_completed counters))),
        field ''migrations_aborted'' (value_uint (unat (c_migrations_aborted counters))),
        field ''migrations_fenced'' (value_uint (unat (c_migrations_fenced counters))),
        field ''acknowledgements_accepted'' (value_uint (unat (c_acknowledgements_accepted counters))),
        field ''acknowledgements_rejected'' (value_uint (unat (c_acknowledgements_rejected counters))),
        field ''effects_applied'' (value_uint (unat (c_effects_applied counters))),
        field ''effects_verified'' (value_uint (unat (c_effects_verified counters))),
        field ''effects_rejected'' (value_uint (unat (c_effects_rejected counters))),
        field ''rebalances_executed'' (value_uint (unat (c_rebalances_executed counters))),
        field ''rebalances_truncated'' (value_uint (unat (c_rebalances_truncated counters))),
        field ''rebalances_selected'' (value_uint (unat (c_rebalances_selected counters))),
        field ''requests_deduplicated'' (value_uint (unat (c_requests_deduplicated counters))),
        field ''restarts'' (value_uint (unat (c_restarts counters))),
        field ''persist_commits'' (value_uint (unat (c_persist_commits counters))),
        field ''persist_failures'' (value_uint (unat (c_persist_failures counters))),
        field ''compactions'' (value_uint (unat (c_compactions counters))),
        field ''refusals_by_reason_total'' (value_uint (unat (c_refusals_by_reason_total counters))),
        field ''history_evictions'' (value_uint (unat (c_history_evictions counters))),
        field ''observations_rejected'' (value_uint (unat (c_observations_rejected counters))),
        field ''authorizations_revoked'' (value_uint (unat (c_authorizations_revoked counters))),
        field ''operations_submitted'' (value_uint (unat (c_operations_submitted counters))),
        field ''operations_cancelled'' (value_uint (unat (c_operations_cancelled counters))),
        field ''operations_backpressured'' (value_uint (unat (c_operations_backpressured counters))),
        field ''evidence_conflicts'' (value_uint (unat (c_evidence_conflicts counters))),
        field ''load_evidence_stale_at_decision'' (value_uint (unat (c_load_evidence_stale_at_decision counters)))]"

definition json_counters :: "counters \<Rightarrow> json" where
  "json_counters counters = JObject
       [(''flows_registered'', JUint (unat (c_flows_registered counters))),
        (''targets_registered'', JUint (unat (c_targets_registered counters))),
        (''targets_removed'', JUint (unat (c_targets_removed counters))),
        (''evidence_accepted'', JUint (unat (c_evidence_accepted counters))),
        (''evidence_rejected'', JUint (unat (c_evidence_rejected counters))),
        (''evidence_idempotent'', JUint (unat (c_evidence_idempotent counters))),
        (''load_records_rejected_stale'', JUint (unat (c_load_records_rejected_stale counters))),
        (''placements_accepted'', JUint (unat (c_placements_accepted counters))),
        (''placements_refused'', JUint (unat (c_placements_refused counters))),
        (''placements_fallback'', JUint (unat (c_placements_fallback counters))),
        (''placements_retained'', JUint (unat (c_placements_retained counters))),
        (''recommendations_issued'', JUint (unat (c_recommendations_issued counters))),
        (''authorizations_granted'', JUint (unat (c_authorizations_granted counters))),
        (''authorizations_refused'', JUint (unat (c_authorizations_refused counters))),
        (''migrations_issued'', JUint (unat (c_migrations_issued counters))),
        (''migrations_completed'', JUint (unat (c_migrations_completed counters))),
        (''migrations_aborted'', JUint (unat (c_migrations_aborted counters))),
        (''migrations_fenced'', JUint (unat (c_migrations_fenced counters))),
        (''acknowledgements_accepted'', JUint (unat (c_acknowledgements_accepted counters))),
        (''acknowledgements_rejected'', JUint (unat (c_acknowledgements_rejected counters))),
        (''effects_applied'', JUint (unat (c_effects_applied counters))),
        (''effects_verified'', JUint (unat (c_effects_verified counters))),
        (''effects_rejected'', JUint (unat (c_effects_rejected counters))),
        (''rebalances_executed'', JUint (unat (c_rebalances_executed counters))),
        (''rebalances_truncated'', JUint (unat (c_rebalances_truncated counters))),
        (''rebalances_selected'', JUint (unat (c_rebalances_selected counters))),
        (''requests_deduplicated'', JUint (unat (c_requests_deduplicated counters))),
        (''restarts'', JUint (unat (c_restarts counters))),
        (''persist_commits'', JUint (unat (c_persist_commits counters))),
        (''persist_failures'', JUint (unat (c_persist_failures counters))),
        (''compactions'', JUint (unat (c_compactions counters))),
        (''refusals_by_reason_total'', JUint (unat (c_refusals_by_reason_total counters))),
        (''history_evictions'', JUint (unat (c_history_evictions counters))),
        (''observations_rejected'', JUint (unat (c_observations_rejected counters))),
        (''authorizations_revoked'', JUint (unat (c_authorizations_revoked counters))),
        (''operations_submitted'', JUint (unat (c_operations_submitted counters))),
        (''operations_cancelled'', JUint (unat (c_operations_cancelled counters))),
        (''operations_backpressured'', JUint (unat (c_operations_backpressured counters))),
        (''evidence_conflicts'', JUint (unat (c_evidence_conflicts counters))),
        (''load_evidence_stale_at_decision'', JUint (unat (c_load_evidence_stale_at_decision counters)))]"

definition write_target :: "target_export \<Rightarrow> json_writer \<Rightarrow> json_writer" where
  "write_target target = (let descriptor = te_descriptor target in json_object
       [field ''target'' (value_uint (unat (td_target descriptor))),
        field ''incarnation'' (value_uint (unat (td_incarnation descriptor))),
        field ''capability_generation'' (value_uint (unat (td_capability_generation descriptor))),
        field ''topology_generation'' (value_uint (unat (td_topology_generation descriptor))),
        field ''domain'' (value_string (execution_domain_to_string (td_domain descriptor))),
        field ''kind'' (value_string (target_kind_to_string (td_kind descriptor))),
        field ''host'' (value_uint (unat (td_host descriptor))),
        field ''device'' (value_uint (unat (td_device descriptor))),
        field ''cost_class'' (value_string (cost_class_to_string (td_cost_class descriptor))),
        field ''declared_lifecycle'' (value_string (target_lifecycle_to_string (td_lifecycle descriptor))),
        field ''live'' (value_bool (te_live target)),
        field ''supports_stateful'' (value_bool (td_supports_stateful descriptor)),
        field ''supports_migration'' (value_bool (td_supports_migration descriptor)),
        field ''capabilities'' (write_capability_list (td_capabilities descriptor)),
        field ''capacity'' (value_capacity (td_capacity descriptor)),
        field ''reserved'' (value_capacity (td_reserved descriptor)),
        field ''committed_demand'' (value_capacity (te_committed target)),
        field ''load_evidence_present'' (value_bool (te_has_load target)),
        field ''load_evidence_state'' (value_string (if te_load_conflicting target then ''conflicting'' else evidence_state_to_string (le_state (te_load target)))),
        field ''load_evidence_observed_at'' (value_uint (unat (le_observed_at (te_load target)))),
        field ''load_evidence_utilized'' (value_capacity (le_utilized (te_load target)))])"

definition json_target :: "target_export \<Rightarrow> json" where
  "json_target target = (let descriptor = te_descriptor target in JObject
       [(''target'', JUint (unat (td_target descriptor))),
        (''incarnation'', JUint (unat (td_incarnation descriptor))),
        (''capability_generation'', JUint (unat (td_capability_generation descriptor))),
        (''topology_generation'', JUint (unat (td_topology_generation descriptor))),
        (''domain'', JString (execution_domain_to_string (td_domain descriptor))),
        (''kind'', JString (target_kind_to_string (td_kind descriptor))),
        (''host'', JUint (unat (td_host descriptor))),
        (''device'', JUint (unat (td_device descriptor))),
        (''cost_class'', JString (cost_class_to_string (td_cost_class descriptor))),
        (''declared_lifecycle'', JString (target_lifecycle_to_string (td_lifecycle descriptor))),
        (''live'', JBool (te_live target)),
        (''supports_stateful'', JBool (td_supports_stateful descriptor)),
        (''supports_migration'', JBool (td_supports_migration descriptor)),
        (''capabilities'', json_capability_list (td_capabilities descriptor)),
        (''capacity'', json_capacity (td_capacity descriptor)),
        (''reserved'', json_capacity (td_reserved descriptor)),
        (''committed_demand'', json_capacity (te_committed target)),
        (''load_evidence_present'', JBool (te_has_load target)),
        (''load_evidence_state'', JString (if te_load_conflicting target then ''conflicting'' else evidence_state_to_string (le_state (te_load target)))),
        (''load_evidence_observed_at'', JUint (unat (le_observed_at (te_load target)))),
        (''load_evidence_utilized'', json_capacity (le_utilized (te_load target)))])"

definition write_flow :: "flow_descriptor \<Rightarrow> json_writer \<Rightarrow> json_writer" where
  "write_flow flow = json_object
       [field ''flow'' (value_uint (unat (fd_flow flow))),
        field ''generation'' (value_uint (unat (fd_generation flow))),
        field ''function'' (value_uint (unat (fd_function flow))),
        field ''statefulness'' (value_string (statefulness_to_string (fd_statefulness flow))),
        field ''exclusive_state_key'' (value_uint (unat (fd_exclusive_state_key flow))),
        field ''max_cost_class'' (value_string (cost_class_to_string (fd_max_cost_class flow))),
        field ''locality'' (value_string (locality_kind_to_string (fd_locality flow))),
        field ''locality_anchor'' (value_uint (unat (fd_locality_anchor flow))),
        field ''allow_migration'' (value_bool (fd_allow_migration flow)),
        field ''pinned'' (value_bool (fd_pinned flow)),
        field ''required_capabilities'' (write_capability_list (fd_required_capabilities flow)),
        field ''demand'' (value_capacity (fd_demand flow))]"

definition json_flow :: "flow_descriptor \<Rightarrow> json" where
  "json_flow flow = JObject
       [(''flow'', JUint (unat (fd_flow flow))),
        (''generation'', JUint (unat (fd_generation flow))),
        (''function'', JUint (unat (fd_function flow))),
        (''statefulness'', JString (statefulness_to_string (fd_statefulness flow))),
        (''exclusive_state_key'', JUint (unat (fd_exclusive_state_key flow))),
        (''max_cost_class'', JString (cost_class_to_string (fd_max_cost_class flow))),
        (''locality'', JString (locality_kind_to_string (fd_locality flow))),
        (''locality_anchor'', JUint (unat (fd_locality_anchor flow))),
        (''allow_migration'', JBool (fd_allow_migration flow)),
        (''pinned'', JBool (fd_pinned flow)),
        (''required_capabilities'', json_capability_list (fd_required_capabilities flow)),
        (''demand'', json_capacity (fd_demand flow))]"

definition write_assignment :: "assignment \<Rightarrow> json_writer \<Rightarrow> json_writer" where
  "write_assignment assignment = json_object
       [field ''assignment'' (value_uint (unat (as_assignment assignment))),
        field ''flow'' (value_uint (unat (as_flow assignment))),
        field ''flow_generation'' (value_uint (unat (as_flow_generation assignment))),
        field ''target'' (value_uint (unat (as_target assignment))),
        field ''incarnation'' (value_uint (unat (as_incarnation assignment))),
        field ''capability_generation'' (value_uint (unat (as_capability_generation assignment))),
        field ''policy_generation'' (value_uint (unat (as_policy_generation assignment))),
        field ''schedule_generation'' (value_uint (unat (as_schedule_generation assignment))),
        field ''effect_state'' (value_string (effect_state_to_string (as_effect assignment))),
        field ''reason'' (value_string (reason_to_string (as_reason assignment))),
        field ''reason_numeric'' (value_uint (unat (reason_value (as_reason assignment)))),
        field ''committed_at'' (value_uint (unat (as_committed_at assignment))),
        field ''supersedes'' (value_uint (unat (as_supersedes assignment)))]"

definition json_assignment :: "assignment \<Rightarrow> json" where
  "json_assignment assignment = JObject
       [(''assignment'', JUint (unat (as_assignment assignment))),
        (''flow'', JUint (unat (as_flow assignment))),
        (''flow_generation'', JUint (unat (as_flow_generation assignment))),
        (''target'', JUint (unat (as_target assignment))),
        (''incarnation'', JUint (unat (as_incarnation assignment))),
        (''capability_generation'', JUint (unat (as_capability_generation assignment))),
        (''policy_generation'', JUint (unat (as_policy_generation assignment))),
        (''schedule_generation'', JUint (unat (as_schedule_generation assignment))),
        (''effect_state'', JString (effect_state_to_string (as_effect assignment))),
        (''reason'', JString (reason_to_string (as_reason assignment))),
        (''reason_numeric'', JUint (unat (reason_value (as_reason assignment)))),
        (''committed_at'', JUint (unat (as_committed_at assignment))),
        (''supersedes'', JUint (unat (as_supersedes assignment)))]"

definition write_migration :: "migration_record \<Rightarrow> json_writer \<Rightarrow> json_writer" where
  "write_migration record = json_object
       [field ''attempt'' (value_uint (unat (mi_attempt (mr_intent record)))),
        field ''flow'' (value_uint (unat (mi_flow (mr_intent record)))),
        field ''flow_generation'' (value_uint (unat (mi_flow_generation (mr_intent record)))),
        field ''phase'' (value_string (migration_phase_to_string (mi_phase (mr_intent record)))),
        field ''epoch'' (value_uint (unat (mi_epoch (mr_intent record)))),
        field ''boot'' (value_string (boot_to_string (mi_boot (mr_intent record)))),
        field ''source_target'' (value_uint (unat (mi_source_target (mr_intent record)))),
        field ''source_incarnation'' (value_uint (unat (mi_source_incarnation (mr_intent record)))),
        field ''destination_target'' (value_uint (unat (mi_destination_target (mr_intent record)))),
        field ''destination_incarnation'' (value_uint (unat (mi_destination_incarnation (mr_intent record)))),
        field ''contract'' (value_uint (unat (mi_contract (mr_intent record)))),
        field ''source_acknowledged'' (value_bool (mr_source_acknowledged record)),
        field ''destination_acknowledged'' (value_bool (mr_destination_acknowledged record)),
        field ''effect_applied'' (value_bool (mr_effect_applied record)),
        field ''effect_verified'' (value_bool (mr_effect_verified record)),
        field ''abort_reason'' (value_string (reason_to_string (mr_abort_reason record)))]"

definition json_migration :: "migration_record \<Rightarrow> json" where
  "json_migration record = JObject
       [(''attempt'', JUint (unat (mi_attempt (mr_intent record)))),
        (''flow'', JUint (unat (mi_flow (mr_intent record)))),
        (''flow_generation'', JUint (unat (mi_flow_generation (mr_intent record)))),
        (''phase'', JString (migration_phase_to_string (mi_phase (mr_intent record)))),
        (''epoch'', JUint (unat (mi_epoch (mr_intent record)))),
        (''boot'', JString (boot_to_string (mi_boot (mr_intent record)))),
        (''source_target'', JUint (unat (mi_source_target (mr_intent record)))),
        (''source_incarnation'', JUint (unat (mi_source_incarnation (mr_intent record)))),
        (''destination_target'', JUint (unat (mi_destination_target (mr_intent record)))),
        (''destination_incarnation'', JUint (unat (mi_destination_incarnation (mr_intent record)))),
        (''contract'', JUint (unat (mi_contract (mr_intent record)))),
        (''source_acknowledged'', JBool (mr_source_acknowledged record)),
        (''destination_acknowledged'', JBool (mr_destination_acknowledged record)),
        (''effect_applied'', JBool (mr_effect_applied record)),
        (''effect_verified'', JBool (mr_effect_verified record)),
        (''abort_reason'', JString (reason_to_string (mr_abort_reason record)))]"

definition write_fence :: "fence_record \<Rightarrow> json_writer \<Rightarrow> json_writer" where
  "write_fence fence = json_object
       [field ''fence'' (value_uint (unat (fr_id fence))),
        field ''epoch'' (value_uint (unat (fr_epoch fence))),
        field ''boot'' (value_string (boot_to_string (fr_boot fence))),
        field ''flow'' (value_uint (unat (fr_flow fence))),
        field ''target'' (value_uint (unat (fr_target fence))),
        field ''reason'' (value_string (reason_to_string (fr_reason fence))),
        field ''active'' (value_bool (fr_active fence))]"

definition json_fence :: "fence_record \<Rightarrow> json" where
  "json_fence fence = JObject
       [(''fence'', JUint (unat (fr_id fence))),
        (''epoch'', JUint (unat (fr_epoch fence))),
        (''boot'', JString (boot_to_string (fr_boot fence))),
        (''flow'', JUint (unat (fr_flow fence))),
        (''target'', JUint (unat (fr_target fence))),
        (''reason'', JString (reason_to_string (fr_reason fence))),
        (''active'', JBool (fr_active fence))]"

definition write_policy :: "policy \<Rightarrow> json_writer \<Rightarrow> json_writer" where
  "write_policy policy = json_object
       [field ''generation'' (value_uint (unat (pol_generation policy))),
        field ''domain_preference'' (value_string (domain_preference_to_string (pol_domain_preference policy))),
        field ''fallback'' (value_string (fallback_policy_to_string (pol_fallback policy))),
        field ''load_model'' (value_string (load_model_to_string (pol_load_model policy))),
        field ''max_cost_class'' (value_string (cost_class_to_string (pol_max_cost_class policy))),
        field ''sticky'' (value_bool (pol_sticky policy)),
        field ''allow_migration'' (value_bool (pol_allow_migration policy)),
        field ''allow_placement_without_load_evidence'' (value_bool (pol_allow_placement_without_load_evidence policy)),
        field ''min_improvement_ppm'' (value_uint (unat (pol_min_improvement_ppm policy))),
        field ''max_rebalance_migrations'' (value_uint (unat (pol_max_rebalance_migrations policy))),
        field ''required_capabilities'' (write_capability_list (pol_required_capabilities policy)),
        field ''reserve'' (value_capacity (pol_reserve policy)),
        field ''allowed_domains'' (json_array (j_for (pol_allowed_domains policy) (\<lambda>domain. value_string (execution_domain_to_string domain)))),
        field ''forbidden_hosts'' (json_array (j_for (pol_forbidden_hosts policy) (\<lambda>host. value_uint (unat host)))),
        field ''forbidden_devices'' (json_array (j_for (pol_forbidden_devices policy) (\<lambda>device. value_uint (unat device)))),
        field ''allowed_functions'' (json_array (j_for (pol_allowed_functions policy) (\<lambda>function. value_uint (unat function))))]"

definition json_policy :: "policy \<Rightarrow> json" where
  "json_policy policy = JObject
       [(''generation'', JUint (unat (pol_generation policy))),
        (''domain_preference'', JString (domain_preference_to_string (pol_domain_preference policy))),
        (''fallback'', JString (fallback_policy_to_string (pol_fallback policy))),
        (''load_model'', JString (load_model_to_string (pol_load_model policy))),
        (''max_cost_class'', JString (cost_class_to_string (pol_max_cost_class policy))),
        (''sticky'', JBool (pol_sticky policy)),
        (''allow_migration'', JBool (pol_allow_migration policy)),
        (''allow_placement_without_load_evidence'', JBool (pol_allow_placement_without_load_evidence policy)),
        (''min_improvement_ppm'', JUint (unat (pol_min_improvement_ppm policy))),
        (''max_rebalance_migrations'', JUint (unat (pol_max_rebalance_migrations policy))),
        (''required_capabilities'', json_capability_list (pol_required_capabilities policy)),
        (''reserve'', json_capacity (pol_reserve policy)),
        (''allowed_domains'', JArray (map (\<lambda>domain. JString (execution_domain_to_string domain)) (pol_allowed_domains policy))),
        (''forbidden_hosts'', JArray (map (\<lambda>host. JUint (unat host)) (pol_forbidden_hosts policy))),
        (''forbidden_devices'', JArray (map (\<lambda>device. JUint (unat device)) (pol_forbidden_devices policy))),
        (''allowed_functions'', JArray (map (\<lambda>function. JUint (unat function)) (pol_allowed_functions policy)))]"

definition write_recovery :: "recovery_report \<Rightarrow> json_writer \<Rightarrow> json_writer" where
  "write_recovery recovery = json_object
       [field ''kind'' (value_string (recovery_kind_to_string (rv_kind recovery))),
        field ''reason'' (value_string (reason_to_string (rv_code recovery))),
        field ''usable'' (value_bool (rv_usable recovery)),
        field ''snapshot_used'' (value_bool (rv_snapshot_used recovery)),
        field ''journal_used'' (value_bool (rv_journal_used recovery)),
        field ''records_replayed'' (value_uint (rv_records_replayed recovery)),
        field ''bytes_truncated'' (value_uint (unat (rv_bytes_truncated recovery))),
        field ''commit_sequence'' (value_uint (unat (rv_commit_sequence recovery))),
        field ''state_digest'' (value_digest (rv_state_digest recovery)),
        field ''detail'' (value_string (rv_detail recovery))]"

definition json_recovery :: "recovery_report \<Rightarrow> json" where
  "json_recovery recovery = JObject
       [(''kind'', JString (recovery_kind_to_string (rv_kind recovery))),
        (''reason'', JString (reason_to_string (rv_code recovery))),
        (''usable'', JBool (rv_usable recovery)),
        (''snapshot_used'', JBool (rv_snapshot_used recovery)),
        (''journal_used'', JBool (rv_journal_used recovery)),
        (''records_replayed'', JUint (rv_records_replayed recovery)),
        (''bytes_truncated'', JUint (unat (rv_bytes_truncated recovery))),
        (''commit_sequence'', JUint (unat (rv_commit_sequence recovery))),
        (''state_digest'', JString (digest_hex (rv_state_digest recovery))),
        (''detail'', JString (rv_detail recovery))]"

definition write_contract :: "migration_contract \<Rightarrow> json_writer \<Rightarrow> json_writer" where
  "write_contract contract = json_object
       [field ''contract'' (value_uint (unat (mc_id contract))),
        field ''flow'' (value_uint (unat (mc_flow contract))),
        field ''flow_generation'' (value_uint (unat (mc_flow_generation contract))),
        field ''statefulness'' (value_string (statefulness_to_string (mc_statefulness contract))),
        field ''state_transfer_defined'' (value_bool (mc_state_transfer_defined contract)),
        field ''ordering_preserved'' (value_bool (mc_ordering_preserved contract)),
        field ''rollback_defined'' (value_bool (mc_rollback_defined contract)),
        field ''exclusive_handoff'' (value_bool (mc_exclusive_handoff contract)),
        field ''destination_target'' (value_uint (unat (mc_destination_target contract))),
        field ''destination_incarnation'' (value_uint (unat (mc_destination_incarnation contract))),
        field ''destination_capability_generation'' (value_uint (unat (mc_destination_capability_generation contract))),
        field ''policy_generation'' (value_uint (unat (mc_policy_generation contract))),
        field ''max_state_bytes'' (value_uint (unat (mc_max_state_bytes contract)))]"

definition json_contract :: "migration_contract \<Rightarrow> json" where
  "json_contract contract = JObject
       [(''contract'', JUint (unat (mc_id contract))),
        (''flow'', JUint (unat (mc_flow contract))),
        (''flow_generation'', JUint (unat (mc_flow_generation contract))),
        (''statefulness'', JString (statefulness_to_string (mc_statefulness contract))),
        (''state_transfer_defined'', JBool (mc_state_transfer_defined contract)),
        (''ordering_preserved'', JBool (mc_ordering_preserved contract)),
        (''rollback_defined'', JBool (mc_rollback_defined contract)),
        (''exclusive_handoff'', JBool (mc_exclusive_handoff contract)),
        (''destination_target'', JUint (unat (mc_destination_target contract))),
        (''destination_incarnation'', JUint (unat (mc_destination_incarnation contract))),
        (''destination_capability_generation'', JUint (unat (mc_destination_capability_generation contract))),
        (''policy_generation'', JUint (unat (mc_policy_generation contract))),
        (''max_state_bytes'', JUint (unat (mc_max_state_bytes contract)))]"

definition write_watermark :: "source_watermark \<Rightarrow> json_writer \<Rightarrow> json_writer" where
  "write_watermark mark = json_object
       [field ''source'' (value_uint (unat (sw_source mark))),
        field ''sequence'' (value_uint (unat (sw_sequence mark))),
        field ''target'' (value_uint (unat (sw_target mark))),
        field ''incarnation'' (value_uint (unat (sw_incarnation mark))),
        field ''capability_generation'' (value_uint (unat (sw_capability_generation mark)))]"

definition json_watermark :: "source_watermark \<Rightarrow> json" where
  "json_watermark mark = JObject
       [(''source'', JUint (unat (sw_source mark))),
        (''sequence'', JUint (unat (sw_sequence mark))),
        (''target'', JUint (unat (sw_target mark))),
        (''incarnation'', JUint (unat (sw_incarnation mark))),
        (''capability_generation'', JUint (unat (sw_capability_generation mark)))]"

definition write_export :: "export_options \<Rightarrow> engine_export \<Rightarrow> json_writer \<Rightarrow> json_writer" where
  "write_export options state = json_object
       [field ''schema'' (value_string (''summon.flow-offload.scheduler.export'')),
        field ''schema_version'' (value_uint (unat kExportSchemaVersion)),
        field ''library_version'' (value_string (version_string)),
        field ''semantics_version'' (value_uint (unat (xx_semantics_version state))),
        field ''snapshot_container_version'' (value_uint (unat (xx_snapshot_container_version state))),
        field ''protocol_version'' (value_uint (unat (xx_protocol_version state))),
        field ''coordinator_epoch'' (value_uint (unat (xx_epoch state))),
        field ''coordinator_boot'' (value_string (boot_to_string (xx_boot state))),
        field ''policy_generation'' (value_uint (unat (xx_policy_generation state))),
        field ''schedule_generation'' (value_uint (unat (xx_schedule_generation state))),
        field ''topology_generation'' (value_uint (unat (xx_topology_generation state))),
        field ''policy_present'' (value_bool (xx_policy_present state)),
        j_if (xx_policy_present state)
          [field ''policy'' (write_policy (xx_policy state))],
        j_if (eo_include_recovery options)
          [field ''recovery'' (write_recovery (xx_recovery state))],
        field ''targets'' (json_array (j_for (xx_targets state) (\<lambda>target. write_target target))),
        j_if (eo_include_flows options)
          [field ''flows'' (json_array (j_for (xx_flows state) (\<lambda>flow. write_flow flow)))],
        j_if (eo_include_assignments options)
          [field ''assignments'' (json_array (j_for (xx_assignments state) (\<lambda>assignment. write_assignment assignment)))],
        j_if (eo_include_migrations options)
          [field ''migrations'' (json_array (j_for (xx_migrations state) (\<lambda>record. write_migration record)))],
        field ''fences'' (json_array (j_for (xx_fences state) (\<lambda>fence. write_fence fence))),
        field ''contracts'' (json_array (j_for (xx_contracts state) (\<lambda>contract. write_contract contract))),
        field ''watermarks'' (json_array (j_for (xx_watermarks state) (\<lambda>mark. write_watermark mark))),
        field ''refusals_by_reason'' (write_reason_counts (xx_refusal_counts state)),
        j_if (eo_include_counters options)
          [field ''counters'' (write_counters (xx_counters state))]]"

definition json_export :: "export_options \<Rightarrow> engine_export \<Rightarrow> json" where
  "json_export options state = JObject
       ((''schema'', JString (''summon.flow-offload.scheduler.export'')) #
       (''schema_version'', JUint (unat kExportSchemaVersion)) #
       (''library_version'', JString (version_string)) #
       (''semantics_version'', JUint (unat (xx_semantics_version state))) #
       (''snapshot_container_version'', JUint (unat (xx_snapshot_container_version state))) #
       (''protocol_version'', JUint (unat (xx_protocol_version state))) #
       (''coordinator_epoch'', JUint (unat (xx_epoch state))) #
       (''coordinator_boot'', JString (boot_to_string (xx_boot state))) #
       (''policy_generation'', JUint (unat (xx_policy_generation state))) #
       (''schedule_generation'', JUint (unat (xx_schedule_generation state))) #
       (''topology_generation'', JUint (unat (xx_topology_generation state))) #
       (''policy_present'', JBool (xx_policy_present state)) #
       (if xx_policy_present state then
         [(''policy'', json_policy (xx_policy state))] else []) @
       ((if eo_include_recovery options then
         [(''recovery'', json_recovery (xx_recovery state))] else []) @
       ((''targets'', JArray (map (\<lambda>target. json_target target) (xx_targets state))) #
       (if eo_include_flows options then
         [(''flows'', JArray (map (\<lambda>flow. json_flow flow) (xx_flows state)))] else []) @
       ((if eo_include_assignments options then
         [(''assignments'', JArray (map (\<lambda>assignment. json_assignment assignment) (xx_assignments state)))] else []) @
       ((if eo_include_migrations options then
         [(''migrations'', JArray (map (\<lambda>record. json_migration record) (xx_migrations state)))] else []) @
       ((''fences'', JArray (map (\<lambda>fence. json_fence fence) (xx_fences state))) #
       (''contracts'', JArray (map (\<lambda>contract. json_contract contract) (xx_contracts state))) #
       (''watermarks'', JArray (map (\<lambda>mark. json_watermark mark) (xx_watermarks state))) #
       (''refusals_by_reason'', json_reason_counts (xx_refusal_counts state)) #
       (if eo_include_counters options then
         [(''counters'', json_counters (xx_counters state))] else [])))))))"

definition export_json :: "export_options \<Rightarrow> engine_export \<Rightarrow> string" where
  "export_json options state =
     (let w = write_export options state (json_writer_new (eo_max_bytes options)) in
      if jw_overflow w then [] else jw_out w @ [CHR 0x0A])"

section \<open>The binary and the text export\<close>

definition write_counted :: "('a \<Rightarrow> cwriter \<Rightarrow> cwriter) \<Rightarrow> 'a list \<Rightarrow> cwriter \<Rightarrow> cwriter" where
  "write_counted enc xs = w_all (w_u32 (of_nat (length xs)) # map enc xs)"

definition encode_target_export :: "target_export \<Rightarrow> cwriter \<Rightarrow> cwriter" where
  "encode_target_export t = w_all [encode_target_descriptor (te_descriptor t), w_boolean (te_live t), w_boolean (te_has_load t),
     w_boolean (te_load_conflicting t), encode_load_evidence (te_load t), encode_capacity_vector (te_committed t)]"

definition export_binary :: "engine_export \<Rightarrow> byte list" where
  "export_binary state =
     (let w = w_all
        [w_u32 kExportSchemaVersion, w_u32 (xx_semantics_version state), w_u32 (xx_snapshot_container_version state),
         w_u32 (xx_protocol_version state), encode_id (xx_epoch state), encode_boot_id (xx_boot state),
         encode_id (xx_policy_generation state), encode_id (xx_schedule_generation state),
         encode_id (xx_topology_generation state), w_boolean (xx_policy_present state), encode_policy (xx_policy state),
         encode_counters (xx_counters state), write_counted encode_target_export (xx_targets state),
         write_counted encode_flow_descriptor (xx_flows state), write_counted encode_assignment (xx_assignments state),
         write_counted encode_migration_record (xx_migrations state), write_counted encode_fence_record (xx_fences state),
         write_counted encode_reason_count (xx_refusal_counts state)] (canonical_writer kMaxExportBytes)
      in if \<not> w_ok w then [] else cw_buffer w)"

definition bool_text :: "bool \<Rightarrow> string" where
  "bool_text b = (if b then ''true'' else ''false'')"

definition text_target :: "target_export \<Rightarrow> string" where
  "text_target t = (let d = te_descriptor t in
     ''  target '' @ id_to_string (td_target d) @ '' domain='' @ execution_domain_to_string (td_domain d) @
     '' kind='' @ target_kind_to_string (td_kind d) @ '' incarnation='' @ id_to_string (td_incarnation d) @
     '' capability_generation='' @ id_to_string (td_capability_generation d) @ '' live='' @ bool_text (te_live t) @
     '' cost='' @ cost_class_to_string (td_cost_class d) @ [CHR 0x0A])"

definition text_assignment :: "assignment \<Rightarrow> string" where
  "text_assignment a =
     ''  placement flow '' @ id_to_string (as_flow a) @ '' generation='' @ id_to_string (as_flow_generation a) @
     '' -> target '' @ id_to_string (as_target a) @ '' incarnation='' @ id_to_string (as_incarnation a) @
     '' effect='' @ effect_state_to_string (as_effect a) @ '' reason='' @ reason_to_string (as_reason a) @ [CHR 0x0A]"

definition text_migration :: "migration_record \<Rightarrow> string" where
  "text_migration r =
     ''  migration attempt '' @ id_to_string (mi_attempt (mr_intent r)) @ '' flow '' @ id_to_string (mi_flow (mr_intent r)) @
     '' phase='' @ migration_phase_to_string (mi_phase (mr_intent r)) @
     '' abort_reason='' @ reason_to_string (mr_abort_reason r) @ [CHR 0x0A]"

definition export_text :: "engine_export \<Rightarrow> string" where
  "export_text state =
     ''flow-offload-scheduler export schema='' @ decimal (unat kExportSchemaVersion) @ '' library='' @ version_string @
     [CHR 0x0A] @ ''  coordinator epoch='' @ id_to_string (xx_epoch state) @ '' boot='' @ boot_to_string (xx_boot state) @
     [CHR 0x0A] @ ''  generations policy='' @ id_to_string (xx_policy_generation state) @
     '' schedule='' @ id_to_string (xx_schedule_generation state) @ '' topology='' @ id_to_string (xx_topology_generation state) @
     [CHR 0x0A] @ ''  recovery kind='' @ recovery_kind_to_string (rv_kind (xx_recovery state)) @
     '' usable='' @ bool_text (rv_usable (xx_recovery state)) @
     '' records_replayed='' @ decimal (rv_records_replayed (xx_recovery state)) @
     [CHR 0x0A] @ ''  targets='' @ decimal (length (xx_targets state)) @ '' flows='' @ decimal (length (xx_flows state)) @
     '' assignments='' @ decimal (length (xx_assignments state)) @ '' migrations='' @ decimal (length (xx_migrations state)) @
     [CHR 0x0A] @ concat (map text_target (xx_targets state)) @ concat (map text_assignment (xx_assignments state)) @
     concat (map text_migration (xx_migrations state))"

definition export_digest :: "engine_export \<Rightarrow> string" where
  "export_digest state = digest_hex (sha256_of_text (export_json export_options_default state))"

section \<open>What the writer writes\<close>

text \<open>
  The law of a step that writes a value: it separates, appends the text of a tree, and fails only
  when that does not fit; and the law of a step that writes items into an open bracket.
\<close>

definition emits :: "(json_writer \<Rightarrow> json_writer) \<Rightarrow> json \<Rightarrow> bool" where
  "emits act t \<longleftrightarrow> (\<forall>w. jw_stack (act w) = jw_stack (separate w) \<and> \<not> jw_pending_value (act w) \<and> jw_limit (act w) = jw_limit w \<and>
     (jw_overflow w \<longrightarrow> jw_overflow (act w)) \<and>
     (\<not> jw_overflow (act w) \<longrightarrow> jw_out (act w) = jw_out (separate w) @ render_json t) \<and>
     (\<not> jw_overflow w \<and> length (jw_out (separate w)) + length (render_json t) \<le> jw_limit w \<longrightarrow> \<not> jw_overflow (act w)))"

definition items :: "(json_writer \<Rightarrow> json_writer) \<Rightarrow> string list \<Rightarrow> bool" where
  "items act xs \<longleftrightarrow> (\<forall>w b st. jw_stack w = b # st \<and> \<not> jw_pending_value w \<longrightarrow>
     jw_stack (act w) = (b \<and> xs = []) # st \<and> \<not> jw_pending_value (act w) \<and> jw_limit (act w) = jw_limit w \<and>
     (jw_overflow w \<longrightarrow> jw_overflow (act w)) \<and>
     (\<not> jw_overflow (act w) \<longrightarrow> jw_out (act w) = jw_out w @ items_text b xs) \<and>
     (\<not> jw_overflow w \<and> length (jw_out w) + length (items_text b xs) \<le> jw_limit w \<longrightarrow> \<not> jw_overflow (act w)))"

definition member :: "string \<times> json \<Rightarrow> string" where
  "member = (\<lambda>(k, v). quote k @ '': '' @ render_json v)"

lemma separate_simps [simp]:
  "jw_limit (separate w) = jw_limit w" "jw_overflow (separate w) = jw_overflow w" "\<not> jw_pending_value (separate w)"
  by (simp_all add: separate_def jw_push_def split: list.splits)

lemma length_escape_char: "1 \<le> length (escape_char c)"
  by (simp add: escape_char_def Let_def)

lemma length_quote: "length s + 2 \<le> length (quote s)"
proof -
  have "length s \<le> length (concat (map escape_char s))"
  proof (induction s)
    case (Cons c s)
    then show ?case using length_escape_char [of c] by simp
  qed simp
  then show ?thesis by (simp add: quote_def)
qed

lemma jw_append_simps [simp]:
  "jw_stack (jw_append t w) = jw_stack w" "jw_limit (jw_append t w) = jw_limit w"
  "jw_pending_value (jw_append t w) = jw_pending_value w"
  "jw_overflow (jw_append t w) \<longleftrightarrow> jw_overflow w \<or> length (jw_out w) + length t > jw_limit w"
  "\<not> jw_overflow w \<Longrightarrow> length (jw_out w) + length t \<le> jw_limit w \<Longrightarrow> jw_out (jw_append t w) = jw_out w @ t"
  by (simp_all add: jw_append_def)

lemma jw_string_simps [simp]:
  "jw_stack (jw_string t w) = jw_stack w" "jw_limit (jw_string t w) = jw_limit w"
  "jw_pending_value (jw_string t w) = jw_pending_value w"
  "jw_overflow (jw_string t w) \<longleftrightarrow> jw_overflow w \<or> length (jw_out w) + length t + 2 > jw_limit w"
  "\<not> jw_overflow w \<Longrightarrow> length (jw_out w) + length t + 2 \<le> jw_limit w \<Longrightarrow> jw_out (jw_string t w) = jw_out w @ quote t"
  by (simp_all add: jw_string_def)

lemma emits_append: "render_json t = s \<Longrightarrow> emits (\<lambda>w. jw_append s (separate w)) t"
  by (auto simp: emits_def not_less)

lemma emits_string: "render_json t = quote s \<Longrightarrow> emits (\<lambda>w. jw_string s (separate w)) t"
  using length_quote [of s] by (auto simp: emits_def not_less)

named_theorems json_intros

lemma emits_values [json_intros]:
  "emits (value_string s) (JString s)" "emits (value_uint n) (JUint n)" "emits (value_bool b) (JBool b)"
  "emits value_null JNull" "emits (value_digest d) (JString (digest_hex d))"
  unfolding value_string_def [abs_def] value_uint_def [abs_def] value_bool_def [abs_def] value_null_def [abs_def]
    value_digest_def [abs_def]
  by (simp_all add: emits_append emits_string)

lemma separate_in_bracket:
  "jw_stack w = b # st \<Longrightarrow> \<not> jw_pending_value w \<Longrightarrow>
   jw_stack (separate w) = False # st \<and> jw_out (separate w) = jw_out w @ (if b then [] else '','')"
  by (simp add: separate_def jw_push_def)

lemma items_element:
  assumes "emits act t"
  shows "items act [render_json t]"
  using assms separate_in_bracket unfolding emits_def items_def
  by (auto simp: Let_def)

lemma items_field:
  assumes "emits act t"
  shows "items (field k act) [member (k, t)]"
  unfolding items_def
proof (intro allI impI)
  fix w :: json_writer and b st
  assume w: "jw_stack w = b # st \<and> \<not> jw_pending_value w"
  note s = separate_in_bracket [OF conjunct1 [OF w] conjunct2 [OF w]]
  let ?v = "separate w" and ?k = "jw_key k w"
  have k: "jw_pending_value ?k" "jw_stack ?k = False # st" "jw_limit ?k = jw_limit w"
    "jw_overflow w \<Longrightarrow> jw_overflow ?k"
    "\<not> jw_overflow ?k \<Longrightarrow> jw_out ?k = jw_out ?v @ quote k @ '': '' \<and> \<not> jw_overflow w"
    "\<not> jw_overflow w \<Longrightarrow> length (jw_out ?v) + length (quote k) + 2 \<le> jw_limit w \<Longrightarrow> \<not> jw_overflow ?k"
    using s length_quote [of k] by (auto simp: jw_key_def)
  then have sk: "separate ?k = ?k\<lparr>jw_pending_value := False\<rparr>" by (simp add: separate_def)
  have e: "jw_stack (act ?k) = False # st" "\<not> jw_pending_value (act ?k)" "jw_limit (act ?k) = jw_limit w"
    "jw_overflow ?k \<Longrightarrow> jw_overflow (act ?k)"
    "\<not> jw_overflow (act ?k) \<Longrightarrow> jw_out (act ?k) = jw_out ?k @ render_json t"
    "\<not> jw_overflow ?k \<Longrightarrow> length (jw_out ?k) + length (render_json t) \<le> jw_limit w \<Longrightarrow> \<not> jw_overflow (act ?k)"
    using spec [OF assms [unfolded emits_def], of ?k] k(2,3) unfolding sk by auto
  have tx: "items_text b [member (k, t)] = (if b then [] else '','') @ quote k @ '': '' @ render_json t"
    by (simp add: member_def)
  have out: "jw_out ?v = jw_out w @ (if b then [] else '','')" using s by simp
  have f: "field k act w = act ?k" by (simp add: field_def)
  have ov: "jw_out (act ?k) = jw_out w @ items_text b [member (k, t)]" if "\<not> jw_overflow (act ?k)"
  proof -
    have nk: "\<not> jw_overflow ?k" using e(4) that by blast
    show ?thesis unfolding tx e(5) [OF that] conjunct1 [OF k(5) [OF nk]] out by (simp only: append_assoc)
  qed
  have fit: "\<not> jw_overflow (act ?k)"
    if "\<not> jw_overflow w" "length (jw_out w) + length (items_text b [member (k, t)]) \<le> jw_limit w"
  proof -
    have l: "length (jw_out ?v) + length (quote k) + 2 + length (render_json t) \<le> jw_limit w"
      using that(2) unfolding tx out by simp
    then have nk: "\<not> jw_overflow ?k" using k(6) that(1) by linarith
    show ?thesis using e(6) [OF nk] l unfolding conjunct1 [OF k(5) [OF nk]] by simp
  qed
  show "jw_stack (field k act w) = (b \<and> [member (k, t)] = []) # st \<and> \<not> jw_pending_value (field k act w) \<and>
      jw_limit (field k act w) = jw_limit w \<and> (jw_overflow w \<longrightarrow> jw_overflow (field k act w)) \<and>
      (\<not> jw_overflow (field k act w) \<longrightarrow> jw_out (field k act w) = jw_out w @ items_text b [member (k, t)]) \<and>
      (\<not> jw_overflow w \<and> length (jw_out w) + length (items_text b [member (k, t)]) \<le> jw_limit w \<longrightarrow>
        \<not> jw_overflow (field k act w))"
    unfolding f e(1) using e(2-4) k(4) ov fit by simp
qed

lemma items_text_append: "items_text b (xs @ ys) = items_text b xs @ items_text (b \<and> xs = []) ys"
  by (induction xs arbitrary: b) simp_all

lemma items_skip: "items (\<lambda>w. w) []"
  by (auto simp: items_def)

lemma items_seq:
  assumes "items f xs" "items g ys"
  shows "items (\<lambda>w. g (f w)) (xs @ ys)"
  unfolding items_def
proof (intro allI impI)
  fix w :: json_writer and b st
  assume w: "jw_stack w = b # st \<and> \<not> jw_pending_value w"
  have F: "jw_stack (f w) = (b \<and> xs = []) # st" "\<not> jw_pending_value (f w)" "jw_limit (f w) = jw_limit w"
    "jw_overflow w \<Longrightarrow> jw_overflow (f w)"
    "\<not> jw_overflow (f w) \<Longrightarrow> jw_out (f w) = jw_out w @ items_text b xs"
    "\<not> jw_overflow w \<Longrightarrow> length (jw_out w) + length (items_text b xs) \<le> jw_limit w \<Longrightarrow> \<not> jw_overflow (f w)"
    using assms(1) w unfolding items_def by blast+
  have G: "jw_stack (g (f w)) = ((b \<and> xs = []) \<and> ys = []) # st" "\<not> jw_pending_value (g (f w))" "jw_limit (g (f w)) = jw_limit w"
    "jw_overflow (f w) \<Longrightarrow> jw_overflow (g (f w))"
    "\<not> jw_overflow (g (f w)) \<Longrightarrow> jw_out (g (f w)) = jw_out (f w) @ items_text (b \<and> xs = []) ys"
    "\<not> jw_overflow (f w) \<Longrightarrow> length (jw_out (f w)) + length (items_text (b \<and> xs = []) ys) \<le> jw_limit w \<Longrightarrow> \<not> jw_overflow (g (f w))"
    using assms(2) F(1,2,3) unfolding items_def by metis+
  have 1: "jw_out (g (f w)) = jw_out w @ items_text b (xs @ ys)" if "\<not> jw_overflow (g (f w))"
    using G(5) [OF that] F(5) G(4) that unfolding items_text_append by auto
  have 2: "\<not> jw_overflow (g (f w))" if "\<not> jw_overflow w" "length (jw_out w) + length (items_text b (xs @ ys)) \<le> jw_limit w"
  proof -
    have l: "length (jw_out w) + length (items_text b xs) + length (items_text (b \<and> xs = []) ys) \<le> jw_limit w"
      using that(2) unfolding items_text_append by simp
    then have nf: "\<not> jw_overflow (f w)" using F(6) that(1) by linarith
    show ?thesis using G(6) [OF nf] l unfolding F(5) [OF nf] by simp
  qed
  show "jw_stack (g (f w)) = (b \<and> xs @ ys = []) # st \<and> \<not> jw_pending_value (g (f w)) \<and> jw_limit (g (f w)) = jw_limit w \<and>
     (jw_overflow w \<longrightarrow> jw_overflow (g (f w))) \<and>
     (\<not> jw_overflow (g (f w)) \<longrightarrow> jw_out (g (f w)) = jw_out w @ items_text b (xs @ ys)) \<and>
     (\<not> jw_overflow w \<and> length (jw_out w) + length (items_text b (xs @ ys)) \<le> jw_limit w \<longrightarrow> \<not> jw_overflow (g (f w)))"
    unfolding G(1) using G(2-4) F(4) 1 2 by simp
qed

lemma j_all_simps: "j_all [] = (\<lambda>w. w)" "j_all (f # fs) = (\<lambda>w. j_all fs (f w))"
  by (simp_all add: j_all_def fun_eq_iff)

lemma emits_bracket:
  assumes "items act xs" and t: "render_json t = [l] @ items_text True xs @ [r]"
  shows "emits (\<lambda>w. jw_close r (act (jw_open l w))) t"
  unfolding emits_def
proof (intro allI)
  fix w :: json_writer
  let ?o = "jw_open l w"
  have o: "jw_stack ?o = True # jw_stack (separate w)" "\<not> jw_pending_value ?o" "jw_limit ?o = jw_limit w"
    "jw_overflow ?o = jw_overflow w" "jw_out ?o = jw_out (separate w) @ [l]"
    by (simp_all add: jw_open_def jw_push_def Let_def)
  have a: "jw_stack (act ?o) = (True \<and> xs = []) # jw_stack (separate w)" "jw_limit (act ?o) = jw_limit w"
    "jw_overflow w \<Longrightarrow> jw_overflow (act ?o)"
    "\<not> jw_overflow (act ?o) \<Longrightarrow> jw_out (act ?o) = jw_out (separate w) @ [l] @ items_text True xs"
    "\<not> jw_overflow w \<Longrightarrow> length (jw_out (separate w)) + 1 + length (items_text True xs) \<le> jw_limit w \<Longrightarrow> \<not> jw_overflow (act ?o)"
    using assms(1) [unfolded items_def, rule_format, of ?o True "jw_stack (separate w)"] o by simp_all
  have c: "jw_stack (jw_close r v) = tl (jw_stack v)" "\<not> jw_pending_value (jw_close r v)" "jw_limit (jw_close r v) = jw_limit v"
    "jw_overflow (jw_close r v) = jw_overflow v" "jw_out (jw_close r v) = jw_out v @ [r]" for v
    by (simp_all add: jw_close_def jw_push_def)
  have 1: "length (jw_out (separate w)) + 1 + length (items_text True xs) \<le> jw_limit w"
    if "length (jw_out (separate w)) + length (render_json t) \<le> jw_limit w"
    using that unfolding t by simp
  show "jw_stack (jw_close r (act ?o)) = jw_stack (separate w) \<and> \<not> jw_pending_value (jw_close r (act ?o)) \<and>
      jw_limit (jw_close r (act ?o)) = jw_limit w \<and> (jw_overflow w \<longrightarrow> jw_overflow (jw_close r (act ?o))) \<and>
      (\<not> jw_overflow (jw_close r (act ?o)) \<longrightarrow> jw_out (jw_close r (act ?o)) = jw_out (separate w) @ render_json t) \<and>
      (\<not> jw_overflow w \<and> length (jw_out (separate w)) + length (render_json t) \<le> jw_limit w \<longrightarrow>
        \<not> jw_overflow (jw_close r (act ?o)))"
    unfolding c(1,3,4,5) using a c(2) 1 t by simp
qed

text \<open>The members of an object, the elements of an array.\<close>

definition members :: "(json_writer \<Rightarrow> json_writer) list \<Rightarrow> (string \<times> json) list \<Rightarrow> bool" where
  "members acts kvs \<longleftrightarrow> items (j_all acts) (map member kvs)"

definition elements :: "(json_writer \<Rightarrow> json_writer) \<Rightarrow> json list \<Rightarrow> bool" where
  "elements act ts \<longleftrightarrow> items act (map render_json ts)"

lemma members_Nil [json_intros]: "members [] []"
  by (simp add: members_def j_all_simps items_skip)

lemma members_field [json_intros]: "emits act t \<Longrightarrow> members acts kvs \<Longrightarrow> members (field k act # acts) ((k, t) # kvs)"
  using items_seq [OF items_field, of act t "j_all acts" "map member kvs" k] by (simp add: members_def j_all_simps)

lemma members_if [json_intros]:
  "members as xs \<Longrightarrow> members acts kvs \<Longrightarrow> members (j_if c as # acts) ((if c then xs else []) @ kvs)"
  using items_seq [of "j_all as" "map member xs" "j_all acts" "map member kvs"]
    items_seq [OF items_skip, of "j_all acts" "map member kvs"]
  by (simp add: members_def j_all_simps j_if_def)

lemma members_last_if [json_intros]: "members as xs \<Longrightarrow> members [j_if c as] (if c then xs else [])"
  using members_if [of as xs "[]" "[]" c] members_Nil by simp

lemma emits_object [json_intros]: "members acts kvs \<Longrightarrow> emits (json_object acts) (JObject kvs)"
  unfolding json_object_def [abs_def] members_def
  by (rule emits_bracket) (simp_all add: member_def)

lemma elements_for:
  assumes "\<And>x. elements (act x) (g x)"
  shows "elements (j_for xs act) (concat (map g xs))"
proof (induction xs)
  case Nil
  then show ?case by (simp add: elements_def j_for_def j_all_simps items_skip)
next
  case (Cons x xs)
  then show ?case
    using items_seq [of "act x" "map render_json (g x)" "j_for xs act"] assms [of x]
    by (simp add: elements_def j_for_def j_all_simps)
qed

lemma emits_array [json_intros]:
  assumes "\<And>x. emits (act x) (f x)"
  shows "emits (json_array (j_for xs act)) (JArray (map f xs))"
proof -
  have "elements (j_for xs act) (concat (map (\<lambda>x. [f x]) xs))"
    by (rule elements_for) (simp add: elements_def items_element assms)
  then show ?thesis
    unfolding json_array_def [abs_def] elements_def by (intro emits_bracket) (simp_all add: comp_def)
qed

lemma emits_capability_list [json_intros]: "emits (write_capability_list caps) (json_capability_list caps)"
proof -
  let ?f = "\<lambda>c. JString (capability_to_string c)"
  have "elements (j_for kCapabilities (\<lambda>c. j_if (has_capability caps c) [value_string (capability_to_string c)]))
      (concat (map (\<lambda>c. if has_capability caps c then [?f c] else []) kCapabilities))"
    by (rule elements_for)
      (use items_element [OF emits_values(1)] in \<open>auto simp: elements_def j_if_def j_all_simps items_skip\<close>)
  moreover have "concat (map (\<lambda>c. if P c then [?f c] else []) cs) = map ?f (filter P cs)" for P cs
    by (induction cs) simp_all
  ultimately show ?thesis
    unfolding write_capability_list_def json_capability_list_def json_array_def [abs_def] elements_def
    by (intro emits_bracket) simp_all
qed

lemma emits_capacity [json_intros]: "emits (value_capacity v) (json_capacity v)"
  unfolding value_capacity_def json_capacity_def by (intro json_intros)

lemma emits_reason_counts [json_intros]: "emits (write_reason_counts cs) (json_reason_counts cs)"
  unfolding write_reason_counts_def json_reason_counts_def by (intro json_intros)

lemma emits_counters [json_intros]: "emits (write_counters c) (json_counters c)"
  unfolding write_counters_def json_counters_def by (intro json_intros)

lemma emits_flow [json_intros]: "emits (write_flow f) (json_flow f)"
  unfolding write_flow_def json_flow_def by (intro json_intros)

lemma emits_assignment [json_intros]: "emits (write_assignment a) (json_assignment a)"
  unfolding write_assignment_def json_assignment_def by (intro json_intros)

lemma emits_migration [json_intros]: "emits (write_migration r) (json_migration r)"
  unfolding write_migration_def json_migration_def by (intro json_intros)

lemma emits_fence [json_intros]: "emits (write_fence f) (json_fence f)"
  unfolding write_fence_def json_fence_def by (intro json_intros)

lemma emits_recovery [json_intros]: "emits (write_recovery r) (json_recovery r)"
  unfolding write_recovery_def json_recovery_def by (intro json_intros)

lemma emits_contract [json_intros]: "emits (write_contract c) (json_contract c)"
  unfolding write_contract_def json_contract_def by (intro json_intros)

lemma emits_watermark [json_intros]: "emits (write_watermark m) (json_watermark m)"
  unfolding write_watermark_def json_watermark_def by (intro json_intros)

lemma emits_policy [json_intros]: "emits (write_policy p) (json_policy p)"
  unfolding write_policy_def json_policy_def by (intro json_intros)

lemma emits_target [json_intros]: "emits (write_target t) (json_target t)"
  unfolding write_target_def json_target_def Let_def by (intro json_intros)

lemma emits_export: "emits (write_export options state) (json_export options state)"
  unfolding write_export_def json_export_def by (intro json_intros)

section \<open>The text of an export\<close>

text \<open>
  An export is the text of its tree and a line feed, or nothing; and it is not nothing when that text
  is within the limit.
\<close>

lemma export_json_text:
  shows "export_json options state = [] \<or> export_json options state = render_json (json_export options state) @ [CHR 0x0A]"
    and "length (render_json (json_export options state)) \<le> eo_max_bytes options \<Longrightarrow> export_json options state \<noteq> []"
  using emits_export [of options state, unfolded emits_def, rule_format, of "json_writer_new (eo_max_bytes options)"]
  by (auto simp: export_json_def Let_def json_writer_new_def separate_def)

end
