(* ===== verification/ExportReading.thy ===== *)
theory ExportReading
  imports Export
begin

text \<open>
  Reading an export back.  A reader of JSON text, written from the grammar and not from the writer,
  finds in every export exactly the tree of the exported state: the escapes, separators and brackets
  of the writer are right, and no two different trees have the same text.
\<close>

section \<open>A reader\<close>

definition is_digit :: "char \<Rightarrow> bool" where
  "is_digit c \<longleftrightarrow> c \<in> set (take 10 kHexDigits)"

fun index_of :: "char \<Rightarrow> string \<Rightarrow> nat" where
  "index_of c [] = 0"
| "index_of c (d # ds) = (if c = d then 0 else Suc (index_of c ds))"

definition number :: "string \<Rightarrow> nat" where
  "number ds = foldl (\<lambda>n d. n * 10 + index_of d kHexDigits) 0 ds"

definition escapes :: "(char \<times> char) list" where
  "escapes = [(CHR 0x22, CHR 0x22), (CHR 0x5C, CHR 0x5C), (CHR ''n'', CHR 0x0A), (CHR ''r'', CHR 0x0D), (CHR ''t'', CHR 0x09)]"

text \<open>One character inside quotes, plain or escaped.\<close>

definition read_char :: "string \<Rightarrow> (char \<times> string) option" where
  "read_char s =
     (case s of
        [] \<Rightarrow> None
      | c # r \<Rightarrow>
          if c \<noteq> CHR 0x5C then Some (c, r)
          else case r of
            [] \<Rightarrow> None
          | e # r \<Rightarrow>
              if e = CHR ''u'' then
                if length r < 4 then None
                else Some (char_of (foldl (\<lambda>n d. n * 16 + index_of d kHexDigits) 0 (take 4 r)), drop 4 r)
              else map_option (\<lambda>x. (x, r)) (map_of escapes e))"

fun read_chars :: "nat \<Rightarrow> string \<Rightarrow> (string \<times> string) option" where
  "read_chars 0 s = None"
| "read_chars (Suc n) s =
     (case s of
        [] \<Rightarrow> None
      | c # r \<Rightarrow>
          if c = CHR 0x22 then Some ([], r)
          else case read_char s of
            None \<Rightarrow> None
          | Some (x, r) \<Rightarrow> map_option (\<lambda>(xs, r). (x # xs, r)) (read_chars n r))"

definition read_string :: "string \<Rightarrow> (string \<times> string) option" where
  "read_string s = (case s of [] \<Rightarrow> None | c # r \<Rightarrow> if c = CHR 0x22 then read_chars (length r) r else None)"

definition read_word :: "string \<Rightarrow> json \<Rightarrow> string \<Rightarrow> (json \<times> string) option" where
  "read_word w t s = (if take (length w) s = w then Some (t, drop (length w) s) else None)"

text \<open>A value, the elements of an array after its bracket, the members of an object after its bracket.\<close>

fun read_value :: "nat \<Rightarrow> string \<Rightarrow> (json \<times> string) option"
  and read_elements :: "nat \<Rightarrow> string \<Rightarrow> (json list \<times> string) option"
  and read_members :: "nat \<Rightarrow> string \<Rightarrow> ((string \<times> json) list \<times> string) option" where
  "read_value 0 s = None"
| "read_value (Suc n) s =
     (case s of
        [] \<Rightarrow> None
      | c # r \<Rightarrow>
          if c = CHR 0x22 then map_option (\<lambda>(x, r). (JString x, r)) (read_string s)
          else if is_digit c then Some (JUint (number (takeWhile is_digit s)), dropWhile is_digit s)
          else if c = CHR ''t'' then read_word ''true'' (JBool True) s
          else if c = CHR ''f'' then read_word ''false'' (JBool False) s
          else if c = CHR ''n'' then read_word ''null'' JNull s
          else if c = CHR ''['' then
            if take 1 r = '']'' then Some (JArray [], drop 1 r)
            else map_option (\<lambda>(xs, r). (JArray xs, r)) (read_elements n r)
          else if c = CHR 0x7B then
            if take 1 r = [CHR 0x7D] then Some (JObject [], drop 1 r)
            else map_option (\<lambda>(xs, r). (JObject xs, r)) (read_members n r)
          else None)"
| "read_elements 0 s = None"
| "read_elements (Suc n) s =
     (case read_value n s of
        None \<Rightarrow> None
      | Some (t, r) \<Rightarrow>
          if take 1 r = '','' then map_option (\<lambda>(ts, r). (t # ts, r)) (read_elements n (drop 1 r))
          else if take 1 r = '']'' then Some ([t], drop 1 r)
          else None)"
| "read_members 0 s = None"
| "read_members (Suc n) s =
     (case read_string s of
        None \<Rightarrow> None
      | Some (k, r) \<Rightarrow>
          if take 2 r \<noteq> '': '' then None
          else case read_value n (drop 2 r) of
            None \<Rightarrow> None
          | Some (t, r) \<Rightarrow>
              if take 1 r = '','' then map_option (\<lambda>(ts, r). ((k, t) # ts, r)) (read_members n (drop 1 r))
              else if take 1 r = [CHR 0x7D] then Some ([(k, t)], drop 1 r)
              else None)"

text \<open>A document: a value and a line feed.\<close>

definition read_json :: "string \<Rightarrow> json option" where
  "read_json s = (case read_value (length s) s of Some (t, r) \<Rightarrow> if r = [CHR 0x0A] then Some t else None | None \<Rightarrow> None)"

section \<open>Numbers and strings are read back\<close>

lemma digits_index: "n < 10 \<Longrightarrow> is_digit (kHexDigits ! n) \<and> index_of (kHexDigits ! n) kHexDigits = n"
proof -
  have "list_all (\<lambda>n. is_digit (kHexDigits ! n) \<and> index_of (kHexDigits ! n) kHexDigits = n) [0..<10]" by code_simp
  then show "n < 10 \<Longrightarrow> ?thesis" by (simp add: list_all_iff)
qed

lemma decimal_digits: "list_all is_digit (decimal n) \<and> number (decimal n) = n \<and> decimal n \<noteq> []"
proof (induction n rule: decimal.induct)
  case (1 n)
  show ?case
  proof (cases "n < 10")
    case True
    then show ?thesis using digits_index [of n] by (simp add: decimal.simps [of n] number_def)
  next
    case False
    then show ?thesis
      using 1 digits_index [of "n mod 10"] by (simp add: decimal.simps [of n] number_def)
  qed
qed

definition stops :: "string \<Rightarrow> bool" where
  "stops r \<longleftrightarrow> (case r of [] \<Rightarrow> True | c # _ \<Rightarrow> \<not> is_digit c)"

lemma read_decimal:
  assumes "stops r"
  shows "takeWhile is_digit (decimal n @ r) = decimal n" "dropWhile is_digit (decimal n @ r) = r"
  using decimal_digits [of n] assms by (cases r; auto simp: list_all_iff stops_def takeWhile_append2 dropWhile_append2)+

lemma read_escape: "read_char (escape_char c @ r) = Some (c, r)"
proof (cases "of_char c < (0x20 :: nat)")
  case True
  have "list_all (\<lambda>n. foldl (\<lambda>n d. n * 16 + index_of d kHexDigits) 0
      [CHR ''0'', CHR ''0'', kHexDigits ! (n div 16), kHexDigits ! (n mod 16)] = n) [0..<32]" by code_simp
  then have "foldl (\<lambda>n d. n * 16 + index_of d kHexDigits) 0
      [CHR ''0'', CHR ''0'', kHexDigits ! (of_char c div 16), kHexDigits ! (of_char c mod 16)] = (of_char c :: nat)"
    using True by (simp add: list_all_iff)
  then show ?thesis using True by (simp add: read_char_def escape_char_def escapes_def Let_def)
next
  case False
  then show ?thesis by (simp add: read_char_def escape_char_def escapes_def Let_def)
qed

lemma read_chars_quoted: "length s < n \<Longrightarrow> read_chars n (concat (map escape_char s) @ CHR 0x22 # r) = Some (s, r)"
proof (induction s arbitrary: n)
  case Nil
  then show ?case by (cases n) simp_all
next
  case (Cons c s)
  then obtain m where m: "n = Suc m" "length s < m" by (cases n) auto
  have "\<exists>d e. escape_char c = d # e \<and> d \<noteq> CHR 0x22" by (simp add: escape_char_def Let_def)
  then obtain d e where d: "escape_char c = d # e" "d \<noteq> CHR 0x22" by blast
  then show ?case
    using Cons.IH [OF m(2)] read_escape [of c "concat (map escape_char s) @ CHR 0x22 # r"] by (simp add: m)
qed

lemma read_quoted: "read_string (quote s @ r) = Some (s, r)"
proof -
  have "length s < length (concat (map escape_char s) @ CHR 0x22 # r)"
    using length_quote [of s] by (simp add: quote_def)
  then show ?thesis using read_chars_quoted [of s _ r] by (simp add: read_string_def quote_def del: read_chars.simps)
qed

section \<open>Trees are read back\<close>

fun need :: "json \<Rightarrow> nat" where
  "need (JArray ts) = 1 + sum_list (map (\<lambda>t. Suc (need t)) ts)"
| "need (JObject kvs) = 1 + sum_list (map (\<lambda>(k, t). Suc (need t)) kvs)"
| "need _ = 1"

lemma length_items_text: "sum_list (map length xs) + length xs \<le> length (items_text b xs) + (if b then 1 else 0)"
proof (induction xs arbitrary: b)
  case (Cons x xs)
  show ?case using Cons [of False] by auto
qed simp

lemma sum_list_bound: "(\<And>x. x \<in> set xs \<Longrightarrow> f x \<le> g x) \<Longrightarrow> sum_list (map (\<lambda>x. Suc (f x)) xs) \<le> sum_list (map g xs) + length xs"
  by (induction xs) (auto intro: add_mono simp: add.assoc add_le_mono)

lemma need_length: "need t \<le> length (render_json t)"
proof (induction t)
  case (JString s)
  then show ?case using length_quote [of s] by simp
next
  case (JUint n)
  then show ?case using decimal_digits [of n] by (cases "decimal n") simp_all
next
  case (JArray ts)
  have "sum_list (map (\<lambda>t. Suc (need t)) ts) \<le> sum_list (map (length \<circ> render_json) ts) + length ts"
    using JArray by (intro sum_list_bound) simp
  then show ?case using length_items_text [of "map render_json ts" True] by simp
next
  case (JObject kvs)
  let ?m = "\<lambda>(k, v). quote k @ '': '' @ render_json v"
  have "sum_list (map (\<lambda>kv. Suc (need (snd kv))) kvs) \<le> sum_list (map (\<lambda>kv. length (?m kv)) kvs) + length kvs"
  proof (rule sum_list_bound)
    fix kv
    assume "kv \<in> set kvs"
    then have "need (snd kv) \<le> length (render_json (snd kv))" using JObject.IH [of kv "snd kv"] by (simp add: snds.simps)
    then show "need (snd kv) \<le> length (?m kv)" by (cases kv) simp
  qed
  then show ?case using length_items_text [of "map ?m kvs" True] by (simp add: case_prod_unfold comp_def)
qed simp_all

lemma render_json_Cons: "\<exists>c s. render_json t = c # s \<and> c \<noteq> CHR '']'' \<and> c \<noteq> CHR 0x7D"
proof (cases t)
  case (JUint n)
  have "list_all (\<lambda>d. d \<noteq> CHR '']'' \<and> d \<noteq> CHR 0x7D) (take 10 kHexDigits)" by code_simp
  then have "is_digit d \<Longrightarrow> d \<noteq> CHR '']'' \<and> d \<noteq> CHR 0x7D" for d by (simp add: is_digit_def list_all_iff)
  then show ?thesis using JUint decimal_digits [of n] by (cases "decimal n") auto
qed (simp_all add: quote_def)

lemma stops_items: "stops (items_text False xs @ [c] @ r)" if "\<not> is_digit c"
proof -
  have "\<not> is_digit (CHR '','')" by code_simp
  then show ?thesis using that by (cases xs) (simp_all add: stops_def)
qed

lemma not_digits: "\<not> is_digit (CHR '']'')" "\<not> is_digit (CHR 0x7D)" "\<not> is_digit (CHR 0x22)" "\<not> is_digit (CHR ''['')"
  "\<not> is_digit (CHR 0x7B)" "\<not> is_digit (CHR ''t'')" "\<not> is_digit (CHR ''f'')" "\<not> is_digit (CHR ''n'')" "\<not> is_digit (CHR 0x0A)"
  by code_simp+

lemma read_elements_text:
  assumes "\<And>t n r. t \<in> set ts \<Longrightarrow> need t \<le> n \<Longrightarrow> stops r \<Longrightarrow> read_value n (render_json t @ r) = Some (t, r)"
    and "ts \<noteq> []" "sum_list (map (\<lambda>t. Suc (need t)) ts) \<le> n"
  shows "read_elements n (items_text True (map render_json ts) @ '']'' @ r) = Some (ts, r)"
  using assms
proof (induction ts arbitrary: n)
  case (Cons t ts)
  then obtain m where m: "n = Suc m" by (cases n) auto
  let ?r = "items_text False (map render_json ts) @ '']'' @ r"
  have v: "read_value m (render_json t @ ?r) = Some (t, ?r)"
    using Cons.prems(1) [of t m ?r] Cons.prems(3) stops_items [OF not_digits(1)] m by simp
  show ?case
  proof (cases "ts = []")
    case True
    then show ?thesis using v m by simp
  next
    case False
    have "read_elements m (items_text True (map render_json ts) @ '']'' @ r) = Some (ts, r)"
      using Cons.prems(3) m False by (intro Cons.IH Cons.prems(1)) simp_all
    moreover have "?r = '','' @ items_text True (map render_json ts) @ '']'' @ r" using False by (cases ts) simp_all
    ultimately show ?thesis using v m by simp
  qed
qed simp

lemma read_members_text:
  assumes "\<And>k t n r. (k, t) \<in> set kvs \<Longrightarrow> need t \<le> n \<Longrightarrow> stops r \<Longrightarrow> read_value n (render_json t @ r) = Some (t, r)"
    and "kvs \<noteq> []" "sum_list (map (\<lambda>(k, t). Suc (need t)) kvs) \<le> n"
  shows "read_members n (items_text True (map (\<lambda>(k, v). quote k @ '': '' @ render_json v) kvs) @ [CHR 0x7D] @ r) = Some (kvs, r)"
  using assms
proof (induction kvs arbitrary: n)
  case (Cons kv kvs)
  obtain k t where kv: "kv = (k, t)" by (cases kv)
  obtain m where m: "n = Suc m" using Cons.prems(3) kv by (cases n) auto
  let ?m = "map (\<lambda>(k, v). quote k @ '': '' @ render_json v)"
  let ?r = "items_text False (?m kvs) @ [CHR 0x7D] @ r"
  have v: "read_value m (render_json t @ ?r) = Some (t, ?r)"
    using Cons.prems(1) [of k t m ?r] Cons.prems(3) stops_items [OF not_digits(2)] m kv by simp
  have q: "read_string (quote k @ '': '' @ render_json t @ ?r) = Some (k, '': '' @ render_json t @ ?r)"
    by (rule read_quoted)
  show ?case
  proof (cases "kvs = []")
    case True
    then show ?thesis using v q m kv by simp
  next
    case False
    have "read_members m (items_text True (?m kvs) @ [CHR 0x7D] @ r) = Some (kvs, r)"
      using Cons.prems(3) m kv False by (intro Cons.IH) (auto intro: Cons.prems(1))
    moreover have "?r = '','' @ items_text True (?m kvs) @ [CHR 0x7D] @ r" using False by (cases kvs) simp_all
    ultimately show ?thesis using v q m kv by simp
  qed
qed simp

lemma read_rendered: "need t \<le> n \<Longrightarrow> stops r \<Longrightarrow> read_value n (render_json t @ r) = Some (t, r)"
proof (induction t arbitrary: n r)
  case (JString s)
  then obtain m where "n = Suc m" by (cases n) auto
  then show ?case using read_quoted [of s r] not_digits by (simp add: quote_def)
next
  case (JUint k)
  then obtain m where m: "n = Suc m" by (cases n) auto
  obtain d ds where d: "decimal k = d # ds" using decimal_digits [of k] by (cases "decimal k") auto
  then have "is_digit d" "d \<noteq> CHR 0x22" using decimal_digits [of k] not_digits by auto
  then show ?case using m d read_decimal [OF JUint(2), of k] decimal_digits [of k] by simp
next
  case (JBool b)
  then obtain m where "n = Suc m" by (cases n) auto
  then show ?case using not_digits by (simp add: read_word_def)
next
  case JNull
  then obtain m where "n = Suc m" by (cases n) auto
  then show ?case using not_digits by (simp add: read_word_def)
next
  case (JArray ts)
  then obtain m where m: "n = Suc m" by (cases n) auto
  show ?case
  proof (cases ts)
    case Nil
    then show ?thesis using m not_digits by simp
  next
    case (Cons t ts')
    have "read_elements m (items_text True (map render_json ts) @ '']'' @ r) = Some (ts, r)"
      using JArray Cons m by (intro read_elements_text) auto
    moreover obtain c s where "render_json t = c # s" "c \<noteq> CHR '']''" using render_json_Cons by blast
    ultimately show ?thesis using m not_digits Cons by simp
  qed
next
  case (JObject kvs)
  then obtain m where m: "n = Suc m" by (cases n) auto
  let ?m = "map (\<lambda>(k, v). quote k @ '': '' @ render_json v)"
  show ?case
  proof (cases kvs)
    case Nil
    then show ?thesis using m not_digits by simp
  next
    case (Cons kv kvs')
    have "read_members m (items_text True (?m kvs) @ [CHR 0x7D] @ r) = Some (kvs, r)"
      using JObject.prems(1) m Cons by (intro read_members_text JObject.IH) auto
    then show ?thesis using m not_digits Cons by (auto simp: quote_def split: prod.splits)
  qed
qed

lemma read_json_rendered: "read_json (render_json t @ [CHR 0x0A]) = Some t"
  using read_rendered [of t _ "[CHR 0x0A]"] need_length [of t] not_digits(9) by (simp add: read_json_def stops_def le_SucI del: read_value.simps)

section \<open>Properties\<close>

text \<open>
  C37: The JSON export says what the state is.  An export within its limit is not empty; a reader of
  JSON finds in a non-empty export exactly the tree of the exported state, with every key, string
  and number as it was; so two exports with the same text have the same tree.
\<close>

theorem export_is_read_back:
  "(length (render_json (json_export options state)) \<le> eo_max_bytes options \<longrightarrow> export_json options state \<noteq> []) \<and>
   (export_json options state \<noteq> [] \<longrightarrow> read_json (export_json options state) = Some (json_export options state))"
  using export_json_text [of options state] read_json_rendered by metis

definition demo_exported :: engine_export where
  "demo_exported = export_state (impl_new engine_config_default \<lparr>dk_directory = False, dk_snapshot = None, dk_journal = None\<rparr> [])"

theorem export_is_read_back_witness:
  "export_json export_options_default demo_exported \<noteq> [] \<and>
   read_json (export_json export_options_default demo_exported) = Some (json_export export_options_default demo_exported)"
proof -
  have "length (render_json (json_export export_options_default demo_exported)) \<le> eo_max_bytes export_options_default"
    by code_simp
  then show ?thesis using export_is_read_back [of export_options_default demo_exported] by blast
qed

end
