(* ===== verification/Protocol.thy ===== *)
theory Protocol
  imports Store
begin

text \<open>
  The framed wire protocol (\<^verbatim>\<open>include/flow_offload/protocol.hpp\<close>, \<^verbatim>\<open>src/protocol.cpp\<close>).  A frame has a
  header of 24 bytes, a payload and the SHA-256 digest of both.  A function that reports success
  through its result and fills an output returns an option; \<^verbatim>\<open>decode_frame\<close>, which leaves the reason of
  a refusal in the frame it returns, gives both.  The payload codecs wrap the record codecs of theory
  \<open>Serialize\<close>; the locale \<open>payload_codec\<close> is their common contract.
\<close>

unbundle bit_operations_syntax

section \<open>Operations and formats\<close>

datatype wire_operation = OpHello | OpDeclareTarget | OpRegisterFlow | OpIngestLoad | OpSetPolicy | OpRegisterContract
  | OpPlace | OpRebalance | OpExplain | OpExport | OpShutdown

definition kWireOperations :: "wire_operation list" where
  "kWireOperations = [OpHello, OpDeclareTarget, OpRegisterFlow, OpIngestLoad, OpSetPolicy, OpRegisterContract,
     OpPlace, OpRebalance, OpExplain, OpExport, OpShutdown]"

fun wire_operation_value :: "wire_operation \<Rightarrow> u8" where
  "wire_operation_value OpHello = 1"
| "wire_operation_value OpDeclareTarget = 2"
| "wire_operation_value OpRegisterFlow = 3"
| "wire_operation_value OpIngestLoad = 4"
| "wire_operation_value OpSetPolicy = 5"
| "wire_operation_value OpRegisterContract = 6"
| "wire_operation_value OpPlace = 7"
| "wire_operation_value OpRebalance = 8"
| "wire_operation_value OpExplain = 9"
| "wire_operation_value OpExport = 10"
| "wire_operation_value OpShutdown = 11"

fun wire_operation_to_string :: "wire_operation \<Rightarrow> string" where
  "wire_operation_to_string OpHello = ''hello''"
| "wire_operation_to_string OpDeclareTarget = ''declare-target''"
| "wire_operation_to_string OpRegisterFlow = ''register-flow''"
| "wire_operation_to_string OpIngestLoad = ''ingest-load''"
| "wire_operation_to_string OpSetPolicy = ''set-policy''"
| "wire_operation_to_string OpRegisterContract = ''register-contract''"
| "wire_operation_to_string OpPlace = ''place''"
| "wire_operation_to_string OpRebalance = ''rebalance''"
| "wire_operation_to_string OpExplain = ''explain''"
| "wire_operation_to_string OpExport = ''export''"
| "wire_operation_to_string OpShutdown = ''shutdown''"

text \<open>The conversion of a byte between 1 and 11 to an operation, and the search by name.\<close>

definition wire_operation_of :: "u8 \<Rightarrow> wire_operation option" where
  "wire_operation_of raw = List.find (\<lambda>op. wire_operation_value op = raw) kWireOperations"

definition operation_from_string :: "string \<Rightarrow> wire_operation option" where
  "operation_from_string text = List.find (\<lambda>op. wire_operation_to_string op = text) kWireOperations"

datatype export_format = FormatJson | FormatBinary | FormatText

fun export_format_value :: "export_format \<Rightarrow> u8" where
  "export_format_value FormatJson = 0"
| "export_format_value FormatBinary = 1"
| "export_format_value FormatText = 2"

fun export_format_to_string :: "export_format \<Rightarrow> string" where
  "export_format_to_string FormatJson = ''json''"
| "export_format_to_string FormatBinary = ''binary''"
| "export_format_to_string FormatText = ''text''"

section \<open>Frames\<close>

definition kFrameHeaderBytes :: nat where
  "kFrameHeaderBytes = 24"

definition kFrameDigestBytes :: nat where
  "kFrameDigestBytes = 32"

definition kFrameOverheadBytes :: nat where
  "kFrameOverheadBytes = kFrameHeaderBytes + kFrameDigestBytes"

definition kMaxFrameBytes :: nat where
  "kMaxFrameBytes = 4 * 1024 * 1024"

definition kMaxFramePayloadBytes :: nat where
  "kMaxFramePayloadBytes = kMaxFrameBytes - 64"

definition kMaxNameBytes :: nat where
  "kMaxNameBytes = 128"

record wire_frame =
  wf_version :: u16
  wf_operation :: wire_operation
  wf_flags :: u8
  wf_correlation :: u64
  wf_status :: reason
  wf_payload :: "byte list"

definition wire_frame_default :: wire_frame where
  "wire_frame_default = \<lparr>wf_version = ucast kProtocolVersion, wf_operation = OpHello, wf_flags = 0, wf_correlation = 0,
     wf_status = ProtocolOk, wf_payload = []\<rparr>"

definition get_u16 :: "byte list \<Rightarrow> nat \<Rightarrow> u16" where
  "get_u16 bytes off = un_be16 (take 2 (drop off bytes))"

text \<open>The signed part of a frame: the header with its big-endian fields, and the payload.\<close>

definition frame_head :: "wire_frame \<Rightarrow> byte list" where
  "frame_head f = be32 (of_nat (length (wf_payload f))) @ be16 (wf_version f) @
     [wire_operation_value (wf_operation f), wf_flags f] @ be64 (wf_correlation f) @
     be32 (reason_value (wf_status f)) @ be32 0 @ wf_payload f"

definition encode_frame :: "wire_frame \<Rightarrow> nat \<Rightarrow> byte list option" where
  "encode_frame f max_frame_bytes =
     (if max_frame_bytes < kFrameOverheadBytes then None
      else if length (wf_payload f) > max_frame_bytes - kFrameOverheadBytes \<or>
              length (wf_payload f) > kMaxFramePayloadBytes then None
      else Some (frame_head f @ sha256_of (frame_head f)))"

definition decode_frame :: "byte list \<Rightarrow> nat \<Rightarrow> bool \<times> wire_frame" where
  "decode_frame bytes max_frame_bytes =
     (let out = wire_frame_default; fail = (\<lambda>code. (False, out\<lparr>wf_status := code\<rparr>)) in
      if max_frame_bytes < kFrameOverheadBytes then (False, out)
      else if length bytes < kFrameHeaderBytes then fail ProtocolTruncatedFrame
      else if length bytes > max_frame_bytes then fail ProtocolOversizedFrame
      else
        let payload_length = unat (get_u32 bytes 0) in
        if payload_length > kMaxFramePayloadBytes \<or> payload_length + kFrameOverheadBytes \<noteq> length bytes then
          fail (if payload_length + kFrameOverheadBytes > length bytes then ProtocolTruncatedFrame
                else ProtocolMalformedFrame)
        else
          let version = get_u16 bytes 4 in
          if version \<noteq> ucast kProtocolVersion then fail ProtocolUnsupportedVersion
          else if get_u32 bytes 20 \<noteq> 0 then fail ProtocolMalformedFrame
          else case wire_operation_of (bytes ! 6) of
            None \<Rightarrow> fail ProtocolUnknownOperation
          | Some op \<Rightarrow>
              let status = get_u32 bytes 16 in
              if status > 0xFFFF \<or> reason_to_string status = ''UnknownReasonCode'' then fail ProtocolMalformedFrame
              else if sha256_of (take (kFrameHeaderBytes + payload_length) bytes) \<noteq>
                      take kFrameDigestBytes (drop (kFrameHeaderBytes + payload_length) bytes)
              then fail ProtocolMalformedFrame
              else (True, \<lparr>wf_version = version, wf_operation = op, wf_flags = bytes ! 7,
                     wf_correlation = get_u64 bytes 8, wf_status = status,
                     wf_payload = take payload_length (drop kFrameHeaderBytes bytes)\<rparr>))"

section \<open>Payloads\<close>

text \<open>
  A payload is produced by a canonical writer bounded by the largest payload, and read by a canonical
  reader that must succeed and end at the end.
\<close>

definition wire_payload :: "(cwriter \<Rightarrow> cwriter) \<Rightarrow> byte list option" where
  "wire_payload encode_fn =
     (let w = encode_fn (canonical_writer kMaxFramePayloadBytes) in if \<not> w_ok w then None else Some (cw_buffer w))"

definition read_payload :: "'a rd \<Rightarrow> byte list \<Rightarrow> 'a option" where
  "read_payload decode_fn payload =
     (case decode_fn (canonical_reader payload) of
        (Some x, r) \<Rightarrow> if r_at_end r \<and> \<not> cr_failed r then Some x else None
      | (None, r) \<Rightarrow> None)"

definition encode_hello_request :: "string \<Rightarrow> u32 \<Rightarrow> byte list option" where
  "encode_hello_request client_name client_version =
     wire_payload (w_all [w_text client_name, w_u32 client_version])"

definition decode_hello_request :: "byte list \<Rightarrow> (string \<times> u32) option" where
  "decode_hello_request = read_payload
     (r_bind (r_text kMaxNameBytes) (\<lambda>client_name. r_bind r_u32 (\<lambda>client_version.
        r_return (client_name, client_version))))"

record hello_response =
  hr_protocol_version :: u32
  hr_semantics_version :: u32
  hr_library_version :: string
  hr_epoch :: coordinator_epoch
  hr_boot :: boot_id

definition hello_response_default :: hello_response where
  "hello_response_default = \<lparr>hr_protocol_version = kProtocolVersion, hr_semantics_version = kStateSemanticsVersion,
     hr_library_version = [], hr_epoch = 0, hr_boot = boot_id_default\<rparr>"

definition encode_hello_response :: "hello_response \<Rightarrow> byte list option" where
  "encode_hello_response h = wire_payload
     (w_all [w_u32 (hr_protocol_version h), w_u32 (hr_semantics_version h), w_text (hr_library_version h),
             encode_id (hr_epoch h), encode_boot_id (hr_boot h)])"

definition decode_hello_response :: "byte list \<Rightarrow> hello_response option" where
  "decode_hello_response = read_payload
     (r_bind r_u32 (\<lambda>x_protocol. r_bind r_u32 (\<lambda>x_semantics. r_bind (r_text kMaxStringBytes) (\<lambda>x_library.
      r_bind decode_id (\<lambda>x_epoch. r_bind decode_boot_id (\<lambda>x_boot.
        r_return \<lparr>hr_protocol_version = x_protocol, hr_semantics_version = x_semantics,
          hr_library_version = x_library, hr_epoch = x_epoch, hr_boot = x_boot\<rparr>))))))"

definition encode_target_declaration :: "target_descriptor \<Rightarrow> byte list option" where
  "encode_target_declaration d = wire_payload (encode_target_descriptor d)"

definition decode_target_declaration :: "byte list \<Rightarrow> target_descriptor option" where
  "decode_target_declaration = read_payload decode_target_descriptor"

definition encode_flow_registration :: "flow_descriptor \<Rightarrow> byte list option" where
  "encode_flow_registration d = wire_payload (encode_flow_descriptor d)"

definition decode_flow_registration :: "byte list \<Rightarrow> flow_descriptor option" where
  "decode_flow_registration = read_payload decode_flow_descriptor"

definition encode_load_evidence_payload :: "load_evidence \<Rightarrow> timestamp \<Rightarrow> byte list option" where
  "encode_load_evidence_payload e instant = wire_payload (w_all [encode_load_evidence e, encode_timestamp instant])"

definition decode_load_evidence_payload :: "byte list \<Rightarrow> (load_evidence \<times> timestamp) option" where
  "decode_load_evidence_payload = read_payload
     (r_bind decode_load_evidence (\<lambda>e. r_bind decode_timestamp (\<lambda>instant. r_return (e, instant))))"

definition encode_policy_payload :: "policy \<Rightarrow> byte list option" where
  "encode_policy_payload p = wire_payload (encode_policy p)"

definition decode_policy_payload :: "byte list \<Rightarrow> policy option" where
  "decode_policy_payload = read_payload decode_policy"

definition encode_contract :: "migration_contract \<Rightarrow> byte list option" where
  "encode_contract c = wire_payload (encode_migration_contract c)"

definition decode_contract :: "byte list \<Rightarrow> migration_contract option" where
  "decode_contract = read_payload decode_migration_contract"

definition encode_placement_request_payload :: "placement_request \<Rightarrow> byte list option" where
  "encode_placement_request_payload r = wire_payload (encode_placement_request r)"

definition decode_placement_request_payload :: "byte list \<Rightarrow> placement_request option" where
  "decode_placement_request_payload = read_payload decode_placement_request"

definition encode_placement_result_payload :: "placement_result \<Rightarrow> byte list option" where
  "encode_placement_result_payload r = wire_payload (encode_placement_result r)"

definition decode_placement_result_payload :: "byte list \<Rightarrow> placement_result option" where
  "decode_placement_result_payload = read_payload decode_placement_result"

definition encode_rebalance_request_payload :: "rebalance_request \<Rightarrow> byte list option" where
  "encode_rebalance_request_payload r = wire_payload (encode_rebalance_request r)"

definition decode_rebalance_request_payload :: "byte list \<Rightarrow> rebalance_request option" where
  "decode_rebalance_request_payload = read_payload decode_rebalance_request"

definition encode_rebalance_report_payload :: "rebalance_report \<Rightarrow> byte list option" where
  "encode_rebalance_report_payload r = wire_payload (encode_rebalance_report r)"

definition decode_rebalance_report_payload :: "byte list \<Rightarrow> rebalance_report option" where
  "decode_rebalance_report_payload = read_payload decode_rebalance_report"

definition encode_explain_request :: "flow_id \<Rightarrow> byte list option" where
  "encode_explain_request flow = wire_payload (encode_id flow)"

definition decode_explain_request :: "byte list \<Rightarrow> flow_id option" where
  "decode_explain_request = read_payload decode_id"

definition encode_explanation_payload :: "explanation \<Rightarrow> byte list option" where
  "encode_explanation_payload e = wire_payload (encode_explanation e)"

definition decode_explanation_payload :: "byte list \<Rightarrow> explanation option" where
  "decode_explanation_payload = read_payload decode_explanation"

definition encode_export_request :: "export_format \<Rightarrow> byte list option" where
  "encode_export_request format = wire_payload (w_u8 (export_format_value format))"

definition export_format_of :: "u8 \<Rightarrow> export_format" where
  "export_format_of raw = (if raw = 0 then FormatJson else if raw = 1 then FormatBinary else FormatText)"

definition decode_export_request :: "byte list \<Rightarrow> export_format option" where
  "decode_export_request payload =
     (case read_payload r_u8 payload of
        None \<Rightarrow> None
      | Some raw \<Rightarrow> if raw > 2 then None else Some (export_format_of raw))"

text \<open>A frame the decoder accepts: the version of the protocol and a status of the table.\<close>

definition wire_ok :: "wire_frame \<Rightarrow> bool" where
  "wire_ok f \<longleftrightarrow> wf_version f = ucast kProtocolVersion \<and> reason_known (wf_status f)"

section \<open>Frames are read back\<close>

lemma big_endian_onto:
  fixes f :: "'a::len word \<Rightarrow> byte list"
  assumes "\<And>v. g (f v) = v" "\<And>v. length (f v) = n" "LENGTH('a) = 8 * n" "length p = n"
  shows "f (g p) = p"
proof -
  have "card {p :: byte list. length p = n} = 2 ^ LENGTH('a)"
    using card_lists_length_eq [of "UNIV :: byte set" n]
    by (simp add: assms(3) power_mult card_word)
  moreover have "card (range f) = 2 ^ LENGTH('a)"
    using card_image [OF inj_on_inverseI [of UNIV g f]] assms(1) by (simp add: card_word)
  moreover have "range f \<subseteq> {p. length p = n}" using assms(2) by auto
  moreover have "finite {p :: byte list. length p = n}"
    using finite_lists_length_eq [of "UNIV :: byte set" n] by simp
  ultimately have "range f = {p. length p = n}" by (metis card_subset_eq)
  then obtain v where "p = f v" using assms(4) by blast
  then show ?thesis by (simp add: assms(1))
qed

lemma be_un_be:
  "length p = 2 \<Longrightarrow> be16 (un_be16 p) = p"
  "length p = 4 \<Longrightarrow> be32 (un_be32 p) = p"
  "length p = 8 \<Longrightarrow> be64 (un_be64 p) = p"
  by (rule big_endian_onto; simp)+

lemma be_get:
  "off + 2 \<le> length bytes \<Longrightarrow> be16 (get_u16 bytes off) = take 2 (drop off bytes)"
  "off + 4 \<le> length bytes \<Longrightarrow> be32 (get_u32 bytes off) = take 4 (drop off bytes)"
  "off + 8 \<le> length bytes \<Longrightarrow> be64 (get_u64 bytes off) = take 8 (drop off bytes)"
  by (simp_all add: get_u16_def get_u32_def get_u64_def be_un_be)

lemma wire_operation_of_value [simp]: "wire_operation_of (wire_operation_value op) = Some op"
  by (cases op) (simp_all add: wire_operation_of_def kWireOperations_def)

lemma wire_operation_of_Some: "wire_operation_of raw = Some op \<longleftrightarrow> raw = wire_operation_value op"
proof
  show "wire_operation_of raw = Some op \<Longrightarrow> raw = wire_operation_value op"
    by (auto simp: wire_operation_of_def find_Some_iff)
qed simp

text \<open>The layout of an encoded frame.\<close>

lemmas frame_defs = kFrameHeaderBytes_def kFrameDigestBytes_def kFrameOverheadBytes_def

lemma length_frame_head [simp]: "length (frame_head f) = 24 + length (wf_payload f)"
  by (simp add: frame_head_def)

lemma take_drop_split: "off + n \<le> length xs \<Longrightarrow> take n (drop off xs) @ drop (off + n) xs = drop off xs"
  by (metis append_take_drop_id drop_drop add.commute)

lemma frame_head_fields:
  assumes "bytes = frame_head f @ d"
  shows "get_u32 bytes 0 = of_nat (length (wf_payload f))" "get_u16 bytes 4 = wf_version f"
    "bytes ! 6 = wire_operation_value (wf_operation f)" "bytes ! 7 = wf_flags f"
    "get_u64 bytes 8 = wf_correlation f" "get_u32 bytes 16 = wf_status f" "get_u32 bytes 20 = 0"
    "take (length (wf_payload f)) (drop 24 bytes) = wf_payload f"
  unfolding assms frame_head_def
  by (simp_all add: get_u32_def get_u16_def get_u64_def nth_append reason_value_def)
lemma encode_frame_Some:
  "encode_frame f m = Some bytes \<longleftrightarrow> length bytes \<le> m \<and> length (wf_payload f) \<le> kMaxFramePayloadBytes \<and>
     bytes = frame_head f @ sha256_of (frame_head f)"
  by (auto simp: encode_frame_def frame_defs length_sha256_of)

lemma decode_encoded_frame:
  assumes "encode_frame f m = Some bytes" "wire_ok f"
  shows "decode_frame bytes m = (True, f)"
proof -
  have b: "bytes = frame_head f @ sha256_of (frame_head f)" and l: "length bytes = 56 + length (wf_payload f)"
    and m: "length bytes \<le> m" "length (wf_payload f) \<le> kMaxFramePayloadBytes"
    using assms(1) by (auto simp: encode_frame_Some length_sha256_of)
  have u: "unat (of_nat (length (wf_payload f)) :: u32) = length (wf_payload f)"
    using m(2) by (simp add: unat_of_nat kMaxFramePayloadBytes_def kMaxFrameBytes_def take_bit_nat_eq_self)
  have s: "wf_status f \<le> 0xFFFF" "reason_to_string (wf_status f) \<noteq> ''UnknownReasonCode''"
    using assms(2) reason_known_small by (auto simp: wire_ok_def reason_known_def)
  have "take (24 + length (wf_payload f)) bytes = frame_head f"
    "take 32 (drop (24 + length (wf_payload f)) bytes) = sha256_of (frame_head f)"
    by (simp_all add: b length_sha256_of)
  then show ?thesis
    using m s assms(2)
    by (simp add: decode_frame_def Let_def frame_head_fields [OF b] u l frame_defs wire_ok_def not_less)
qed

lemma take_pieces: "take n (drop off xs) @ take m (drop (off + n) xs) = take (n + m) (drop off xs)"
  by (subst take_add) (simp add: add.commute)

lemma take_two: "off + 2 \<le> length xs \<Longrightarrow> take 2 (drop off xs) = [xs ! off, xs ! (off + 1)]"
  by (simp add: numeral_2_eq_2 take_Suc_conv_app_nth)

lemma frame_pieces:
  assumes "24 + n \<le> length bytes"
  shows "take 4 (drop 0 bytes) @ take 2 (drop 4 bytes) @ [bytes ! 6, bytes ! 7] @
      take 8 (drop 8 bytes) @ take 4 (drop 16 bytes) @ take 4 (drop 20 bytes) @ take n (drop 24 bytes) =
    take (24 + n) bytes"
  using take_two [of 6 bytes] take_pieces [of 4 20 bytes n] take_pieces [of 4 16 bytes "4 + n"]
    take_pieces [of 8 8 bytes "8 + n"] take_pieces [of 2 6 bytes "16 + n"] take_pieces [of 2 4 bytes "18 + n"]
    take_pieces [of 4 0 bytes "20 + n"] assms
  by simp

lemma decode_frame_sound:
  assumes "decode_frame bytes m = (True, f)"
  shows "encode_frame f m = Some bytes \<and> wire_ok f"
proof -
  define n where "n = unat (get_u32 bytes 0)"
  obtain op where a: "56 \<le> m" "length bytes \<le> m" "n \<le> kMaxFramePayloadBytes" "n + 56 = length bytes"
    "get_u16 bytes 4 = ucast kProtocolVersion" "get_u32 bytes 20 = 0" "reason_known (get_u32 bytes 16)"
    "sha256_of (take (24 + n) bytes) = take 32 (drop (24 + n) bytes)" "bytes ! 6 = wire_operation_value op"
    and f: "f = \<lparr>wf_version = get_u16 bytes 4, wf_operation = op, wf_flags = bytes ! 7,
      wf_correlation = get_u64 bytes 8, wf_status = get_u32 bytes 16, wf_payload = take n (drop 24 bytes)\<rparr>"
    using assms unfolding decode_frame_def Let_def frame_defs n_def [symmetric]
    by (auto simp: reason_known_def wire_operation_of_Some split: if_splits option.splits)
  have len: "length (wf_payload f) = n" using a(4) by (simp add: f)
  have of_n: "of_nat n = get_u32 bytes 0" by (simp add: n_def)
  have "frame_head f = take 4 (drop 0 bytes) @ take 2 (drop 4 bytes) @ [bytes ! 6, bytes ! 7] @
      take 8 (drop 8 bytes) @ take 4 (drop 16 bytes) @ take 4 (drop 20 bytes) @ take n (drop 24 bytes)"
    using a(4,6,9) be_get(2) [of 0 bytes] unfolding frame_head_def len of_n
    by (simp add: f be_get [symmetric] reason_value_def)
  then have h: "frame_head f = take (24 + n) bytes" using frame_pieces [of n bytes] a(4) by simp
  have "take 32 (drop (24 + n) bytes) = drop (24 + n) bytes" using a(4) by simp
  then have "bytes = frame_head f @ sha256_of (frame_head f)" unfolding h a(8) by simp
  then show ?thesis
    using a len by (simp add: encode_frame_Some wire_ok_def f)
qed

section \<open>The contract of the payload codecs\<close>

text \<open>
  What a sender and a receiver rely on: a valid message that fits into a payload is read back as it
  was.  Then different messages have different payloads, and the message survives a frame.
\<close>

locale payload_codec =
  fixes encode :: "'a \<Rightarrow> byte list option"
    and decode :: "byte list \<Rightarrow> 'a option"
    and valid :: "'a \<Rightarrow> bool"
  assumes law: "valid v \<Longrightarrow> encode v = Some p \<Longrightarrow> decode p = Some v"
begin

lemma injective: "valid u \<Longrightarrow> valid v \<Longrightarrow> encode u = Some p \<Longrightarrow> encode v = Some p \<Longrightarrow> u = v"
  using law [of u p] law [of v p] by simp

lemma through_frame:
  assumes "valid v" "encode v = Some p" "encode_frame (f\<lparr>wf_payload := p\<rparr>) m = Some bytes" "wire_ok f"
  shows "decode (wf_payload (snd (decode_frame bytes m))) = Some v"
proof -
  have "decode_frame bytes m = (True, f\<lparr>wf_payload := p\<rparr>)"
    using assms(3,4) by (intro decode_encoded_frame) (simp_all add: wire_ok_def)
  then show ?thesis using law [OF assms(1,2)] by simp
qed

end

lemma wire_payload_read:
  assumes "codec_at e d v" "wire_payload e = Some p"
  shows "read_payload d p = Some v"
proof -
  obtain bs where w: "writes e bs" and r: "reads d v bs" using assms(1) by (auto simp: codec_at_def)
  have "w_ok (e (canonical_writer kMaxFramePayloadBytes))" "p = cw_buffer (e (canonical_writer kMaxFramePayloadBytes))"
    using assms(2) by (auto simp: wire_payload_def Let_def split: if_splits)
  then have "p = bs" using writesD [OF w] by (simp add: canonical_writer_def)
  then show ?thesis
    using readsD [OF r, of "canonical_reader p" "[]"]
    by (auto simp: read_payload_def canonical_reader_def r_at_end_def)
qed

text \<open>A record codec gives a payload codec.\<close>

sublocale codec \<subseteq> payload: payload_codec "\<lambda>v. wire_payload (encode v)" "read_payload decode" valid
  by unfold_locales (rule wire_payload_read, rule law)

interpretation target_wire: payload_codec encode_target_declaration decode_target_declaration valid_target_descriptor
  by unfold_locales (simp add: encode_target_declaration_def decode_target_declaration_def target_descriptor_codec.payload.law)

interpretation flow_wire: payload_codec encode_flow_registration decode_flow_registration valid_flow_descriptor
  by unfold_locales (simp add: encode_flow_registration_def decode_flow_registration_def flow_descriptor_codec.payload.law)

interpretation policy_wire: payload_codec encode_policy_payload decode_policy_payload valid_policy
  by unfold_locales (simp add: encode_policy_payload_def decode_policy_payload_def policy_codec.payload.law)

interpretation contract_wire: payload_codec encode_contract decode_contract "\<lambda>_. True"
  by unfold_locales (simp add: encode_contract_def decode_contract_def migration_contract_codec.payload.law)

interpretation placement_request_wire: payload_codec encode_placement_request_payload decode_placement_request_payload valid_placement_request
  by unfold_locales (simp add: encode_placement_request_payload_def decode_placement_request_payload_def placement_request_codec.payload.law)

interpretation placement_result_wire: payload_codec encode_placement_result_payload decode_placement_result_payload valid_placement_result
  by unfold_locales (simp add: encode_placement_result_payload_def decode_placement_result_payload_def placement_result_codec.payload.law)

interpretation rebalance_request_wire: payload_codec encode_rebalance_request_payload decode_rebalance_request_payload valid_rebalance_request
  by unfold_locales (simp add: encode_rebalance_request_payload_def decode_rebalance_request_payload_def rebalance_request_codec.payload.law)

interpretation rebalance_report_wire: payload_codec encode_rebalance_report_payload decode_rebalance_report_payload valid_rebalance_report
  by unfold_locales (simp add: encode_rebalance_report_payload_def decode_rebalance_report_payload_def rebalance_report_codec.payload.law)

interpretation explanation_wire: payload_codec encode_explanation_payload decode_explanation_payload valid_explanation
  by unfold_locales (simp add: encode_explanation_payload_def decode_explanation_payload_def explanation_codec.payload.law)

text \<open>The payloads that are not a single record.\<close>

interpretation hello_request_wire: payload_codec "\<lambda>(name, version). encode_hello_request name version"
    decode_hello_request "\<lambda>(name, version). length name \<le> kMaxNameBytes"
proof unfold_locales
  fix v :: "string \<times> u32" and p
  assume "case v of (name, version) \<Rightarrow> length name \<le> kMaxNameBytes"
    and p: "(case v of (name, version) \<Rightarrow> encode_hello_request name version) = Some p"
  then have "codec_at (w_text (fst v)) (r_text kMaxNameBytes) (fst v)"
    by (intro codec_text) (auto simp: kMaxNameBytes_def)
  then have "codec_at (w_all [w_text (fst v), w_u32 (snd v)]) (r_bind (r_text kMaxNameBytes)
      (\<lambda>client_name. r_bind r_u32 (\<lambda>client_version. r_return (client_name, client_version)))) v"
    unfolding w_all.simps by (rule codec_seq) (rule codec_seq, rule codec_u32, rule codec_done, simp)
  then show "decode_hello_request p = Some v"
    unfolding decode_hello_request_def
    by (rule wire_payload_read) (use p in \<open>auto simp: encode_hello_request_def split: prod.splits\<close>)
qed

interpretation hello_response_wire: payload_codec encode_hello_response decode_hello_response
    "\<lambda>h. string_ok (hr_library_version h)"
  unfolding encode_hello_response_def decode_hello_response_def
  by unfold_locales (erule wire_payload_read [rotated],
    auto simp only: w_all.simps intro!: codec_seq codec_done codec_intros, simp)

interpretation load_evidence_wire: payload_codec "\<lambda>(e, instant). encode_load_evidence_payload e instant"
    decode_load_evidence_payload "\<lambda>_. True"
  unfolding encode_load_evidence_payload_def decode_load_evidence_payload_def
  by unfold_locales (clarsimp, erule wire_payload_read [rotated],
    auto simp only: w_all.simps intro!: codec_seq codec_done codec_intros)

interpretation explain_request_wire: payload_codec encode_explain_request decode_explain_request "\<lambda>_. True"
  unfolding encode_explain_request_def decode_explain_request_def
  by unfold_locales (erule wire_payload_read [rotated], rule codec_id)

interpretation export_request_wire: payload_codec encode_export_request decode_export_request "\<lambda>_. True"
proof unfold_locales
  fix v p
  assume "encode_export_request v = Some p"
  then have "read_payload r_u8 p = Some (export_format_value v)"
    unfolding encode_export_request_def by (rule wire_payload_read [OF codec_u8])
  then show "decode_export_request p = Some v"
    by (cases v) (simp_all add: decode_export_request_def export_format_of_def)
qed

section \<open>Properties\<close>

text \<open>
  C35: The decoder accepts exactly the encoded frames.  Bytes are accepted as a frame if and only if
  they are the encoding of that frame within the bound, and the frame has the version of the
  protocol and a known status: a truncated, extended, oversized or altered frame is refused, and
  every frame sent is read back as it was.
\<close>

theorem frames_read_back_exactly:
  "decode_frame bytes m = (True, f) \<longleftrightarrow> encode_frame f m = Some bytes \<and> wire_ok f"
  using decode_frame_sound decode_encoded_frame by blast

end
