(* ===== verification/Service.thy ===== *)
theory Service
  imports Protocol ThreadPool Export EngineIngest Placement
begin

text \<open>
  The service and its client (\<^verbatim>\<open>include/flow_offload/service.hpp\<close>, \<^verbatim>\<open>src/service.cpp\<close>) over the byte
  transfers of \<^verbatim>\<open>src/socket.cpp\<close>.  What the operating system does to a connection is a script of
  events: pieces of the stream as they arrive, interrupted calls, failures; every loop over system
  calls is modelled as it is.  One connection is served by one thread, frame by frame; a frame is
  one step of the engine.
\<close>

section \<open>Byte transfers\<close>

text \<open>
  The outcomes of \<^verbatim>\<open>recv\<close>: bytes that are available (none means the peer closed), a call to repeat,
  an error.  The outcomes of \<^verbatim>\<open>send\<close>: how much is taken at most, a call to repeat, an error; when the
  script has ended everything is taken.
\<close>

datatype recv_event = Arrived "byte list" | RecvAgain | RecvError

datatype send_event = Taken nat | SendAgain | SendError

record connection =
  cx_valid :: bool
  cx_incoming :: "recv_event list"
  cx_sends :: "send_event list"
  cx_sent :: "byte list"

definition kChunk :: nat where
  "kChunk = 2 ^ 20"

function recv_loop :: "nat \<Rightarrow> recv_event list \<Rightarrow> byte list \<Rightarrow> (reason + byte list) \<times> recv_event list" where
  "recv_loop remaining es acc =
     (if remaining = 0 then (Inr acc, es)
      else case es of
        [] \<Rightarrow> (Inl ProtocolTruncatedFrame, [])
      | RecvAgain # es \<Rightarrow> recv_loop remaining es acc
      | RecvError # es \<Rightarrow> (Inl ProtocolIoError, es)
      | Arrived bs # es \<Rightarrow>
          if bs = [] then (Inl ProtocolTruncatedFrame, es)
          else
            let k = min (min remaining kChunk) (length bs)
            in recv_loop (remaining - k) (if k < length bs then Arrived (drop k bs) # es else es) (acc @ take k bs))"
  by pat_completeness auto
termination
  by (relation "measures [\<lambda>(n, es, acc). n, \<lambda>(n, es, acc). length es]") (auto simp: kChunk_def)

declare recv_loop.simps [simp del]

definition recv_exact :: "nat \<Rightarrow> connection \<Rightarrow> (reason + byte list) \<times> connection" where
  "recv_exact n cx =
     (if \<not> cx_valid cx then (Inl ProtocolNotConnected, cx)
      else let (r, es) = recv_loop n (cx_incoming cx) [] in (r, cx\<lparr>cx_incoming := es\<rparr>))"

function send_loop :: "byte list \<Rightarrow> send_event list \<Rightarrow> byte list \<Rightarrow> reason option \<times> send_event list \<times> byte list" where
  "send_loop data es sent =
     (if data = [] then (None, es, sent)
      else
        let chunk = min (length data) kChunk in
        case es of
          [] \<Rightarrow> send_loop (drop chunk data) [] (sent @ take chunk data)
        | SendAgain # es \<Rightarrow> send_loop data es sent
        | SendError # es \<Rightarrow> (Some ProtocolIoError, es, sent)
        | Taken k # es \<Rightarrow>
            if k = 0 then (Some ProtocolIoError, es, sent)
            else let w = min k chunk in send_loop (drop w data) es (sent @ take w data))"
  by pat_completeness auto
termination
  by (relation "measures [\<lambda>(d, es, s). length d, \<lambda>(d, es, s). length es]") (auto simp: kChunk_def)

declare send_loop.simps [simp del]

text \<open>\<^verbatim>\<open>send_all\<close> returns the failure, if any.\<close>

definition send_all :: "byte list \<Rightarrow> connection \<Rightarrow> reason option \<times> connection" where
  "send_all data cx =
     (if \<not> cx_valid cx then (Some ProtocolNotConnected, cx)
      else let (r, es, sent) = send_loop data (cx_sends cx) (cx_sent cx) in (r, cx\<lparr>cx_sends := es, cx_sent := sent\<rparr>))"

definition connection_close :: "connection \<Rightarrow> connection" where
  "connection_close cx = cx\<lparr>cx_valid := False\<rparr>"

section \<open>Dispatch\<close>

text \<open>A request that cannot be decoded, or a reply that cannot be encoded, is answered with a status and no payload.\<close>

definition answer :: "wire_frame \<Rightarrow> reason \<Rightarrow> byte list \<Rightarrow> impl \<Rightarrow> status \<times> wire_frame \<times> impl" where
  "answer response code payload e = (code, response\<lparr>wf_status := code, wf_payload := payload\<rparr>, e)"

definition answer_refused :: "wire_frame \<Rightarrow> reason \<Rightarrow> impl \<Rightarrow> status \<times> wire_frame \<times> impl" where
  "answer_refused response code e = (status_refused code, response\<lparr>wf_status := code\<rparr>, e)"

definition answer_payload :: "wire_frame \<Rightarrow> reason \<Rightarrow> byte list option \<Rightarrow> impl \<Rightarrow> status \<times> wire_frame \<times> impl" where
  "answer_payload response code payload e =
     (case payload of None \<Rightarrow> answer_refused response ProtocolBackpressure e | Some p \<Rightarrow> answer response code p e)"

definition dispatch_export :: "wire_frame \<Rightarrow> export_format \<Rightarrow> impl \<Rightarrow> status \<times> wire_frame \<times> impl" where
  "dispatch_export response format e =
     (let state = export_state e;
          rendered = (case format of
              FormatBinary \<Rightarrow> export_binary state
            | FormatText \<Rightarrow> string_bytes (export_text state)
            | FormatJson \<Rightarrow> string_bytes (export_json export_options_default state)) in
      if rendered = [] then answer_refused response ProtocolBackpressure e
      else if length rendered > kMaxFramePayloadBytes then answer_refused response ProtocolOversizedFrame e
      else answer response ProtocolOk rendered e)"

definition dispatch :: "wire_frame \<Rightarrow> impl \<Rightarrow> status \<times> wire_frame \<times> impl" where
  "dispatch request e =
     (let response = wire_frame_default\<lparr>wf_operation := wf_operation request, wf_correlation := wf_correlation request\<rparr>;
          payload = wf_payload request;
          malformed = answer_refused response ProtocolMalformedFrame e in
      case wf_operation request of
        OpHello \<Rightarrow>
          (case decode_hello_request payload of
             None \<Rightarrow> malformed
           | Some _ \<Rightarrow>
               let sn = snapshot e in
               answer_payload response ProtocolOk
                 (encode_hello_response (hello_response_default\<lparr>hr_library_version := version_string, hr_epoch := sn_epoch sn,
                    hr_boot := sn_boot sn\<rparr>)) e)
      | OpDeclareTarget \<Rightarrow>
          (case decode_target_declaration payload of
             None \<Rightarrow> malformed
           | Some d \<Rightarrow> let (st, e) = declare_target d e in answer response st [] e)
      | OpRegisterFlow \<Rightarrow>
          (case decode_flow_registration payload of
             None \<Rightarrow> malformed
           | Some d \<Rightarrow> let (st, e) = register_flow d e in answer response st [] e)
      | OpIngestLoad \<Rightarrow>
          (case decode_load_evidence_payload payload of
             None \<Rightarrow> malformed
           | Some (ev, instant) \<Rightarrow> let (st, e) = ingest_load ev instant e in answer response st [] e)
      | OpSetPolicy \<Rightarrow>
          (case decode_policy_payload payload of
             None \<Rightarrow> malformed
           | Some p \<Rightarrow> let (st, e) = set_policy p e in answer response st [] e)
      | OpRegisterContract \<Rightarrow>
          (case decode_contract payload of
             None \<Rightarrow> malformed
           | Some c \<Rightarrow> let (st, e) = register_migration_contract c e in answer response st [] e)
      | OpPlace \<Rightarrow>
          (case decode_placement_request_payload payload of
             None \<Rightarrow> malformed
           | Some r \<Rightarrow>
               let (result, e) = place_locked r e
               in answer_payload response (res_status result) (encode_placement_result_payload result) e)
      | OpRebalance \<Rightarrow>
          (case decode_rebalance_request_payload payload of
             None \<Rightarrow> malformed
           | Some r \<Rightarrow>
               let (report, e) = rebalance_locked r e
               in answer_payload response (rep_status report) (encode_rebalance_report_payload report) e)
      | OpExplain \<Rightarrow>
          (case decode_explain_request payload of
             None \<Rightarrow> malformed
           | Some flow \<Rightarrow>
               let (st, ex) = explain_flow flow e
               in answer_payload response st
                    (encode_explanation_payload (case ex of None \<Rightarrow> explanation_default | Some x \<Rightarrow> x)) e)
      | OpExport \<Rightarrow>
          (case decode_export_request payload of
             None \<Rightarrow> malformed
           | Some format \<Rightarrow> dispatch_export response format e)
      | OpShutdown \<Rightarrow> answer response AcceptedShutdownRequested [] e)"

section \<open>The service\<close>

record service_config =
  vc_bind_address :: string
  vc_port :: u16
  vc_max_connections :: nat
  vc_workers :: u32
  vc_max_queue_depth :: nat
  vc_max_frame_bytes :: nat

definition kMaxQueueDepth :: nat where
  "kMaxQueueDepth = 4096"

definition kMaxConnections :: nat where
  "kMaxConnections = 64"

definition service_config_default :: service_config where
  "service_config_default = \<lparr>vc_bind_address = ''127.0.0.1'', vc_port = 0, vc_max_connections = kMaxConnections, vc_workers = 2,
     vc_max_queue_depth = kMaxQueueDepth, vc_max_frame_bytes = kMaxFrameBytes\<rparr>"

record service =
  sv_engine :: impl
  sv_config :: service_config
  sv_listener :: bool
  sv_bound_port :: u16
  sv_stop_requested :: bool
  sv_started :: bool
  sv_frames_handled :: u64
  sv_frames_rejected :: u64
  sv_connections_accepted :: u64
  sv_connections_refused :: u64
  sv_connections :: "(u64, connection) omap"
  sv_next_connection :: u64

definition service_new :: "impl \<Rightarrow> service_config \<Rightarrow> service" where
  "service_new e config = \<lparr>sv_engine = e, sv_config = config, sv_listener = False, sv_bound_port = 0, sv_stop_requested = False,
     sv_started = False, sv_frames_handled = 0, sv_frames_rejected = 0, sv_connections_accepted = 0,
     sv_connections_refused = 0, sv_connections = [], sv_next_connection = 1\<rparr>"

text \<open>
  \<^verbatim>\<open>start\<close>.  What the socket runtime and \<^verbatim>\<open>listen_on\<close> do is an argument: whether the runtime could be
  initialised, and the bound port or the failure.
\<close>

definition service_start :: "bool \<Rightarrow> reason + u16 \<Rightarrow> service \<Rightarrow> 'job thread_pool \<Rightarrow>
    status \<times> service \<times> 'job thread_pool \<times> 'job worker list" where
  "service_start runtime listening v p =
     (if sv_started v then (status_accepted AcceptedNoChangeRequired, v, p, [])
      else if \<not> runtime then (status_refused ProtocolIoError, v, p, [])
      else case listening of
        Inl failure \<Rightarrow> (status_refused failure, v, p, [])
      | Inr port \<Rightarrow>
          let (p, ws) = pool_start (unat (vc_workers (sv_config v))) (vc_max_queue_depth (sv_config v)) p
          in (status_accepted ProtocolOk,
              v\<lparr>sv_listener := True, sv_bound_port := port, sv_stop_requested := False, sv_started := True\<rparr>, p, ws))"

definition service_request_stop :: "service \<Rightarrow> service" where
  "service_request_stop v = v\<lparr>sv_stop_requested := True, sv_listener := False,
     sv_connections := om_map (\<lambda>_. connection_close) (sv_connections v)\<rparr>"

definition service_stats :: "service \<Rightarrow> u64 \<times> u64 \<times> u64 \<times> u64" where
  "service_stats v = (sv_frames_handled v, sv_frames_rejected v, sv_connections_accepted v, sv_connections_refused v)"

text \<open>The body of the loop of \<^verbatim>\<open>run\<close> after a connection was accepted; the job is the number of the connection.\<close>

definition admit_connection :: "connection \<Rightarrow> service \<Rightarrow> u64 thread_pool \<Rightarrow> service \<times> u64 thread_pool" where
  "admit_connection cx v p =
     (if length (sv_connections v) \<ge> vc_max_connections (sv_config v) then
        (v\<lparr>sv_connections_refused := sv_connections_refused v + 1\<rparr>, p)
      else
        let k = sv_next_connection v;
            v = v\<lparr>sv_next_connection := k + 1, sv_connections := om_emplace k cx (sv_connections v),
                 sv_connections_accepted := sv_connections_accepted v + 1\<rparr>;
            (r, p) = try_submit (Some k) p
        in case r of
             Refused \<Rightarrow> (v\<lparr>sv_connections_refused := sv_connections_refused v + 1,
                            sv_connections := om_erase k (sv_connections v)\<rparr>, p)
           | _ \<Rightarrow> (v, p))"

definition drop_connection :: "u64 \<Rightarrow> service \<Rightarrow> service" where
  "drop_connection k v = v\<lparr>sv_connections := om_erase k (sv_connections v)\<rparr>"

text \<open>
  The outcomes of \<^verbatim>\<open>accept\<close>: a connection, a call to repeat, an error; the error also when the script
  has ended.
\<close>

datatype accept_event = AcceptedConnection connection | AcceptAgain | AcceptError

fun accept_loop :: "accept_event list \<Rightarrow> (reason + connection) \<times> accept_event list" where
  "accept_loop [] = (Inl ProtocolIoError, [])"
| "accept_loop (AcceptedConnection cx # es) = (Inr cx, es)"
| "accept_loop (AcceptAgain # es) = accept_loop es"
| "accept_loop (AcceptError # es) = (Inl ProtocolIoError, es)"

definition accept_connection :: "bool \<Rightarrow> accept_event list \<Rightarrow> (reason + connection) \<times> accept_event list" where
  "accept_connection listener es = (if \<not> listener then (Inl ProtocolShuttingDown, es) else accept_loop es)"

text \<open>
  One iteration of \<^verbatim>\<open>run\<close>; the flag says whether the loop goes on.  \<^verbatim>\<open>run\<close> itself may not return: as long
  as \<^verbatim>\<open>accept\<close> fails and nobody stops the service, it tries again.
\<close>

definition run_step :: "accept_event list \<Rightarrow> service \<Rightarrow> u64 thread_pool \<Rightarrow> bool \<times> accept_event list \<times> service \<times> u64 thread_pool" where
  "run_step es v p =
     (if sv_stop_requested v then (False, es, v, p)
      else case accept_connection (sv_listener v) es of
        (Inl failure, es) \<Rightarrow> (\<not> (sv_stop_requested v \<or> \<not> sv_listener v), es, v, p)
      | (Inr cx, es) \<Rightarrow>
          if \<not> cx_valid cx then (False, es, v, p)
          else let (v, p) = admit_connection cx v p in (True, es, v, p))"

partial_function (option) service_run :: "accept_event list \<Rightarrow> service \<Rightarrow> u64 thread_pool \<Rightarrow> (service \<times> u64 thread_pool) option" where
  "service_run es v p =
     (case run_step es v p of (go_on, es', v', p') \<Rightarrow> if go_on then service_run es' v' p' else Some (v', p'))"

text \<open>\<^verbatim>\<open>shutdown\<close>: before it joins the pool, and after.\<close>

definition service_shutdown_begin :: "service \<Rightarrow> ('job, 's) pool_system \<Rightarrow> service \<times> ('job, 's) pool_system" where
  "service_shutdown_begin v y = (service_request_stop v, call_shutdown y)"

definition service_shutdown_end :: "service \<Rightarrow> service" where
  "service_shutdown_end v = v\<lparr>sv_listener := False, sv_started := False\<rparr>"

definition registry_ok :: "service \<Rightarrow> bool" where
  "registry_ok v \<longleftrightarrow> om_wf (sv_connections v) \<and> length (sv_connections v) \<le> vc_max_connections (sv_config v) \<and>
     (sv_stop_requested v \<longrightarrow> list_all (\<lambda>(k, cx). \<not> cx_valid cx) (sv_connections v))"

lemma registry_ok_stop: "registry_ok v \<Longrightarrow> registry_ok (service_request_stop v)"
  by (auto simp: registry_ok_def service_request_stop_def connection_close_def om_map_def list_all_iff om_wf_def split_beta comp_def)

lemma registry_ok_drop: "registry_ok v \<Longrightarrow> registry_ok (drop_connection k v)"
  using length_om_erase_le [of k "sv_connections v"]
  by (auto simp: registry_ok_def drop_connection_def list_all_iff om_erase_def intro: order_trans [OF length_filter_le])

lemma registry_ok_admit:
  assumes "registry_ok v" "\<not> sv_stop_requested v"
  shows "registry_ok (fst (admit_connection cx v p))"
proof -
  let ?m = "om_emplace (sv_next_connection v) cx (sv_connections v)"
  have "length ?m \<le> Suc (length (sv_connections v))"
    by (simp add: om_emplace_def length_om_put_le split: option.split)
  moreover have "length (om_erase (sv_next_connection v) ?m) \<le> length ?m" by (rule length_om_erase_le)
  ultimately show ?thesis
    using assms by (auto simp: registry_ok_def admit_connection_def Let_def split: submission.splits prod.splits)
qed

lemma registry_ok_run:
  assumes "registry_ok v" "run_step es v p = (go_on, es', v', p')"
  shows "registry_ok v'"
proof (cases "sv_stop_requested v")
  case False
  then have "registry_ok w" if "admit_connection cx v p = (w, q)" for cx w q
    using registry_ok_admit [OF assms(1), of cx p] that by simp
  then show ?thesis
    using assms False by (auto simp: run_step_def split: if_splits prod.splits sum.splits)
qed (use assms in \<open>simp add: run_step_def\<close>)

section \<open>One connection\<close>

definition read_operation :: "byte list \<Rightarrow> wire_operation" where
  "read_operation header = (case wire_operation_of (header ! 6) of None \<Rightarrow> OpHello | Some op \<Rightarrow> op)"

definition send_frame :: "wire_frame \<Rightarrow> nat \<Rightarrow> connection \<Rightarrow> connection" where
  "send_frame f max_frame_bytes cx =
     (case encode_frame f max_frame_bytes of None \<Rightarrow> cx | Some bytes \<Rightarrow> snd (send_all bytes cx))"

text \<open>
  A complete frame has been read.  The result says whether the loop goes on.
\<close>

definition serve_frame :: "byte list \<Rightarrow> service \<Rightarrow> connection \<Rightarrow> bool \<times> service \<times> connection" where
  "serve_frame bytes v cx =
     (let max_bytes = vc_max_frame_bytes (sv_config v); (ok, request) = decode_frame bytes max_bytes in
      if \<not> ok then
        let v = v\<lparr>sv_frames_rejected := sv_frames_rejected v + 1\<rparr>;
            refusal = wire_frame_default\<lparr>wf_status :=
              (if wf_status request = ProtocolOk then ProtocolMalformedFrame else wf_status request)\<rparr>
        in (True, v, send_frame refusal max_bytes cx)
      else
        let (st, response, e) = dispatch request (sv_engine v);
            v = v\<lparr>sv_engine := e, sv_frames_handled := sv_frames_handled v + 1\<rparr>;
            refusal = wire_frame_default\<lparr>wf_correlation := wf_correlation request, wf_operation := wf_operation request,
              wf_status := ProtocolBackpressure\<rparr>;
            encoded = (case encode_frame response max_bytes of None \<Rightarrow> encode_frame refusal max_bytes | Some b \<Rightarrow> Some b)
        in case encoded of
             None \<Rightarrow> (False, v, cx)
           | Some b \<Rightarrow>
               let (failure, cx) = send_all b cx in
               if failure \<noteq> None then (False, v, cx)
               else if wf_operation request = OpShutdown then (False, service_request_stop v, cx)
               else (True, v, cx))"

definition serve_header :: "byte list \<Rightarrow> service \<Rightarrow> connection \<Rightarrow> bool \<times> service \<times> connection" where
  "serve_header header v cx =
     (let max_bytes = vc_max_frame_bytes (sv_config v); payload_length = unat (get_u32 header 0) in
      if payload_length > kMaxFramePayloadBytes \<or> payload_length + kFrameOverheadBytes > max_bytes then
        let v = v\<lparr>sv_frames_rejected := sv_frames_rejected v + 1\<rparr>;
            refusal = wire_frame_default\<lparr>wf_operation := read_operation header, wf_correlation := get_u64 header 8,
              wf_status := ProtocolOversizedFrame\<rparr>
        in (False, v, send_frame refusal max_bytes cx)
      else
        let (r, cx) = recv_exact (payload_length + kFrameDigestBytes) cx in
        case r of
          Inl failure \<Rightarrow> (False, v, cx)
        | Inr tail \<Rightarrow> serve_frame (header @ tail) v cx)"

definition serve_step :: "service \<Rightarrow> connection \<Rightarrow> bool \<times> service \<times> connection" where
  "serve_step v cx =
     (if sv_stop_requested v then (False, v, cx)
      else
        let (r, cx) = recv_exact kFrameHeaderBytes cx in
        case r of
          Inl failure \<Rightarrow> (False, v, cx)
        | Inr header \<Rightarrow> serve_header header v cx)"

definition bytes_left :: "recv_event list \<Rightarrow> nat" where
  "bytes_left es = sum_list (map (\<lambda>ev. case ev of Arrived bs \<Rightarrow> length bs | _ \<Rightarrow> 0) es)"

lemma recv_loop_left:
  "recv_loop n es acc = (r, es') \<Longrightarrow> bytes_left es' \<le> bytes_left es \<and> (\<forall>b. r = Inr b \<longrightarrow> bytes_left es' + n = bytes_left es \<and> length b = length acc + n)"
proof (induction n es acc rule: recv_loop.induct)
  case (1 n es acc)
  note eq = 1(3) [unfolded recv_loop.simps [of n es acc]]
  show ?case
  proof (cases "n = 0")
    case True
    then show ?thesis using eq by auto
  next
    case False
    show ?thesis
    proof (cases es)
      case Nil
      then show ?thesis using eq False by (auto simp: bytes_left_def)
    next
      case (Cons ev fs)
      show ?thesis
      proof (cases ev)
        case (Arrived bs)
        show ?thesis
        proof (cases "bs = []")
          case True
          then show ?thesis using eq False Cons Arrived by (auto simp: bytes_left_def)
        next
          case ne: False
          let ?k = "min (min n kChunk) (length bs)"
          have "recv_loop (n - ?k) (if ?k < length bs then Arrived (drop ?k bs) # fs else fs) (acc @ take ?k bs) = (r, es')"
            using eq False Cons Arrived ne by (simp add: Let_def)
          from 1(1) [OF False Cons Arrived ne refl this]
          show ?thesis using Cons Arrived by (auto simp: bytes_left_def split: if_splits)
        qed
      next
        case RecvAgain
        then have "recv_loop n fs acc = (r, es')" using eq False Cons by simp
        from 1(2) [OF False Cons RecvAgain this] show ?thesis using Cons RecvAgain by (simp add: bytes_left_def)
      next
        case RecvError
        then show ?thesis using eq False Cons by (auto simp: bytes_left_def)
      qed
    qed
  qed
qed

lemma recv_exact_left:
  "recv_exact n cx = (r, cx') \<Longrightarrow> bytes_left (cx_incoming cx') \<le> bytes_left (cx_incoming cx) \<and>
   (\<forall>b. r = Inr b \<longrightarrow> bytes_left (cx_incoming cx') + n = bytes_left (cx_incoming cx) \<and> length b = n)"
  using recv_loop_left [of n "cx_incoming cx" "[]"]
  by (auto simp: recv_exact_def split: if_splits prod.splits)

lemma incoming_send [simp]: "cx_incoming (snd (send_all data cx)) = cx_incoming cx"
  by (simp add: send_all_def split: prod.splits)

lemma incoming_send_frame [simp]: "cx_incoming (send_frame f m cx) = cx_incoming cx"
  by (simp add: send_frame_def split: option.splits)

lemma incoming_serve_frame: "cx_incoming (snd (snd (serve_frame bytes v cx))) = cx_incoming cx"
proof -
  have "send_all b cx = (f, cx') \<Longrightarrow> cx_incoming cx' = cx_incoming cx" for b f cx'
    using incoming_send [of b cx] by simp
  then show ?thesis
    unfolding serve_frame_def Let_def by (simp split: prod.splits option.splits)
qed

lemma serve_step_left:
  assumes "serve_step v cx = (True, v', cx')"
  shows "bytes_left (cx_incoming cx') < bytes_left (cx_incoming cx)"
proof -
  obtain header cx1 where h: "recv_exact kFrameHeaderBytes cx = (Inr header, cx1)" "serve_header header v cx1 = (True, v', cx')"
    using assms by (auto simp: serve_step_def split: if_splits prod.splits sum.splits)
  obtain n tail cx2 where t: "recv_exact n cx1 = (Inr tail, cx2)" "serve_frame (header @ tail) v cx2 = (True, v', cx')"
    using h(2) by (auto simp: serve_header_def Let_def split: if_splits prod.splits sum.splits)
  show ?thesis
    using recv_exact_left [OF h(1)] recv_exact_left [OF t(1)] incoming_serve_frame [of "header @ tail" v cx2] t(2)
    by (simp add: kFrameHeaderBytes_def)
qed

text \<open>\<^verbatim>\<open>handle_connection\<close>: frame after frame until the stream or the service ends.\<close>

function serve_loop :: "service \<Rightarrow> connection \<Rightarrow> service \<times> connection" where
  "serve_loop v cx = (case serve_step v cx of (go_on, v', cx') \<Rightarrow> if go_on then serve_loop v' cx' else (v', cx'))"
  by pat_completeness auto
termination
  by (relation "measure (\<lambda>(v, cx). bytes_left (cx_incoming cx))") (auto dest: serve_step_left [OF sym])

declare serve_loop.simps [simp del]

definition handle_connection :: "u64 \<Rightarrow> service \<Rightarrow> connection \<Rightarrow> service \<times> connection" where
  "handle_connection k v cx = (let (v, cx) = serve_loop v cx in (drop_connection k v, connection_close cx))"

section \<open>The client\<close>

record client =
  cl_socket :: connection
  cl_next_correlation :: u64
  cl_max_frame_bytes :: nat

definition client_connect :: "reason + connection \<Rightarrow> nat \<Rightarrow> client \<Rightarrow> status \<times> client" where
  "client_connect connected max_frame_bytes c =
     (case connected of
        Inl failure \<Rightarrow> (status_refused failure, c\<lparr>cl_socket := connection_close (cl_socket c)\<rparr>)
      | Inr cx \<Rightarrow> (status_accepted ProtocolOk,
          c\<lparr>cl_socket := cx, cl_max_frame_bytes := (if max_frame_bytes < kFrameOverheadBytes then kMaxFrameBytes else max_frame_bytes)\<rparr>))"

definition client_new :: client where
  "client_new = \<lparr>cl_socket = \<lparr>cx_valid = False, cx_incoming = [], cx_sends = [], cx_sent = []\<rparr>, cl_next_correlation = 1,
     cl_max_frame_bytes = kMaxFrameBytes\<rparr>"

definition client_connected :: "client \<Rightarrow> bool" where
  "client_connected c = cx_valid (cl_socket c)"

definition client_close :: "client \<Rightarrow> client" where
  "client_close c = c\<lparr>cl_socket := connection_close (cl_socket c)\<rparr>"

text \<open>The reply to a call: a complete frame, or the reason why there is none.\<close>

definition receive_frame :: "nat \<Rightarrow> connection \<Rightarrow> (reason + byte list) \<times> connection" where
  "receive_frame max_frame_bytes cx =
     (case recv_exact kFrameHeaderBytes cx of
        (Inl failure, cx) \<Rightarrow> (Inl failure, cx)
      | (Inr header, cx) \<Rightarrow>
          let payload_length = unat (get_u32 header 0) in
          if payload_length > kMaxFramePayloadBytes \<or> payload_length + kFrameOverheadBytes > max_frame_bytes then
            (Inl ProtocolOversizedFrame, cx)
          else case recv_exact (payload_length + kFrameDigestBytes) cx of
            (Inl failure, cx) \<Rightarrow> (Inl failure, cx)
          | (Inr tail, cx) \<Rightarrow> (Inr (header @ tail), cx))"

definition accept_reply :: "u64 \<Rightarrow> byte list \<Rightarrow> nat \<Rightarrow> status \<times> byte list" where
  "accept_reply correlation bytes max_frame_bytes =
     (let (ok, reply) = decode_frame bytes max_frame_bytes in
      if \<not> ok then
        (status_refused (if wf_status reply = ProtocolOk then ProtocolMalformedFrame else wf_status reply), [])
      else if wf_correlation reply \<noteq> correlation then (status_refused ProtocolMalformedFrame, [])
      else (wf_status reply, wf_payload reply))"

definition client_call :: "wire_operation \<Rightarrow> byte list \<Rightarrow> client \<Rightarrow> (status \<times> byte list) \<times> client" where
  "client_call operation payload c =
     (if \<not> cx_valid (cl_socket c) then ((status_refused ProtocolNotConnected, []), c)
      else
        let correlation = cl_next_correlation c; m = cl_max_frame_bytes c;
            c = c\<lparr>cl_next_correlation := correlation + 1\<rparr>;
            request = wire_frame_default\<lparr>wf_operation := operation, wf_correlation := correlation, wf_payload := payload\<rparr>
        in case encode_frame request m of
             None \<Rightarrow> ((status_refused ProtocolOversizedFrame, []), c)
           | Some bytes \<Rightarrow>
               case send_all bytes (cl_socket c) of
                 (Some failure, cx) \<Rightarrow> ((status_refused failure, []), c\<lparr>cl_socket := cx\<rparr>)
               | (None, cx) \<Rightarrow>
                   case receive_frame m cx of
                     (Inl failure, cx) \<Rightarrow> ((status_refused failure, []), c\<lparr>cl_socket := cx\<rparr>)
                   | (Inr bytes, cx) \<Rightarrow> (accept_reply correlation bytes m, c\<lparr>cl_socket := cx\<rparr>))"

definition client_call_raw :: "byte list \<Rightarrow> client \<Rightarrow> (status \<times> byte list) \<times> client" where
  "client_call_raw request c =
     (if \<not> cx_valid (cl_socket c) then ((status_refused ProtocolNotConnected, []), c)
      else case send_all request (cl_socket c) of
        (Some failure, cx) \<Rightarrow> ((status_refused failure, []), c\<lparr>cl_socket := cx\<rparr>)
      | (None, cx) \<Rightarrow>
          case receive_frame (cl_max_frame_bytes c) cx of
            (Inl failure, cx) \<Rightarrow> ((status_refused failure, []), c\<lparr>cl_socket := cx\<rparr>)
          | (Inr bytes, cx) \<Rightarrow> ((status_accepted ProtocolOk, bytes), c\<lparr>cl_socket := cx\<rparr>))"

definition client_send_raw :: "byte list \<Rightarrow> client \<Rightarrow> status \<times> client" where
  "client_send_raw bytes c =
     (if \<not> cx_valid (cl_socket c) then (status_refused ProtocolNotConnected, c)
      else case send_all bytes (cl_socket c) of
        (Some failure, cx) \<Rightarrow> (status_refused failure, c\<lparr>cl_socket := cx\<rparr>)
      | (None, cx) \<Rightarrow> (status_accepted ProtocolOk, c\<lparr>cl_socket := cx\<rparr>))"

text \<open>The calls that only report a status, and those that read a reply.\<close>

definition call_status :: "wire_operation \<Rightarrow> byte list option \<Rightarrow> client \<Rightarrow> status \<times> client" where
  "call_status operation payload c =
     (case payload of
        None \<Rightarrow> (status_refused RejectedOversizedInput, c)
      | Some p \<Rightarrow> let ((st, response), c) = client_call operation p c in (st, c))"

definition call_reply :: "wire_operation \<Rightarrow> byte list option \<Rightarrow> (byte list \<Rightarrow> 'a option) \<Rightarrow> client \<Rightarrow> (status \<times> 'a option) \<times> client" where
  "call_reply operation payload decode c =
     (case payload of
        None \<Rightarrow> ((status_refused RejectedOversizedInput, None), c)
      | Some p \<Rightarrow>
          let ((st, response), c) = client_call operation p c in
          if status_failed st then ((st, None), c)
          else case decode response of
            None \<Rightarrow> ((status_refused ProtocolMalformedFrame, None), c)
          | Some x \<Rightarrow> ((st, Some x), c))"

definition client_hello :: "string \<Rightarrow> client \<Rightarrow> (status \<times> hello_response option) \<times> client" where
  "client_hello name = call_reply OpHello (encode_hello_request name 10000) decode_hello_response"

definition client_declare_target :: "target_descriptor \<Rightarrow> client \<Rightarrow> status \<times> client" where
  "client_declare_target d = call_status OpDeclareTarget (encode_target_declaration d)"

definition client_register_flow :: "flow_descriptor \<Rightarrow> client \<Rightarrow> status \<times> client" where
  "client_register_flow d = call_status OpRegisterFlow (encode_flow_registration d)"

definition client_ingest_load :: "load_evidence \<Rightarrow> timestamp \<Rightarrow> client \<Rightarrow> status \<times> client" where
  "client_ingest_load ev instant = call_status OpIngestLoad (encode_load_evidence_payload ev instant)"

definition client_set_policy :: "policy \<Rightarrow> client \<Rightarrow> status \<times> client" where
  "client_set_policy p = call_status OpSetPolicy (encode_policy_payload p)"

definition client_register_contract :: "migration_contract \<Rightarrow> client \<Rightarrow> status \<times> client" where
  "client_register_contract m = call_status OpRegisterContract (encode_contract m)"

definition client_place :: "placement_request \<Rightarrow> client \<Rightarrow> (status \<times> placement_result option) \<times> client" where
  "client_place r = call_reply OpPlace (encode_placement_request_payload r) decode_placement_result_payload"

definition client_rebalance :: "rebalance_request \<Rightarrow> client \<Rightarrow> (status \<times> rebalance_report option) \<times> client" where
  "client_rebalance r = call_reply OpRebalance (encode_rebalance_request_payload r) decode_rebalance_report_payload"

text \<open>\<^verbatim>\<open>explain\<close> decodes the reply before it looks at the status of the call.\<close>

definition client_explain :: "flow_id \<Rightarrow> client \<Rightarrow> (status \<times> explanation option) \<times> client" where
  "client_explain flow c =
     (case encode_explain_request flow of
        None \<Rightarrow> ((status_refused RejectedOversizedInput, None), c)
      | Some p \<Rightarrow>
          let ((st, response), c) = client_call OpExplain p c in
          case decode_explanation_payload response of
            None \<Rightarrow> ((status_refused ProtocolMalformedFrame, None), c)
          | Some x \<Rightarrow> ((st, Some x), c))"

definition client_export_state :: "export_format \<Rightarrow> client \<Rightarrow> (status \<times> byte list option) \<times> client" where
  "client_export_state format = call_reply OpExport (encode_export_request format) Some"

definition client_shutdown_server :: "client \<Rightarrow> status \<times> client" where
  "client_shutdown_server = call_status OpShutdown (Some [])"

end
