(* ===== verification/ServiceProperties.thy ===== *)
theory ServiceProperties
  imports Service
begin

text \<open>
  The transport does not change what is said: however the operating system cuts the streams into
  pieces, a call of the client is a dispatch of its request by the service, and the caller gets what
  the dispatch answered.
\<close>

section \<open>Streams\<close>

definition stream :: "recv_event list \<Rightarrow> byte list" where
  "stream es = concat (map (\<lambda>ev. case ev of Arrived bs \<Rightarrow> bs | _ \<Rightarrow> []) es)"

text \<open>Pieces that are not empty and interrupted calls, but no failure.\<close>

definition steady :: "recv_event list \<Rightarrow> bool" where
  "steady es \<longleftrightarrow> list_all (\<lambda>ev. case ev of Arrived bs \<Rightarrow> bs \<noteq> [] | RecvAgain \<Rightarrow> True | RecvError \<Rightarrow> False) es"

definition steady_sends :: "send_event list \<Rightarrow> bool" where
  "steady_sends es \<longleftrightarrow> list_all (\<lambda>ev. case ev of Taken k \<Rightarrow> 0 < k | SendAgain \<Rightarrow> True | SendError \<Rightarrow> False) es"

lemma stream_simps [simp]:
  "stream [] = []" "stream (Arrived bs # es) = bs @ stream es" "stream (RecvAgain # es) = stream es"
  by (simp_all add: stream_def)

lemma recv_loop_steady:
  "steady es \<Longrightarrow> n \<le> length (stream es) \<Longrightarrow>
   \<exists>es'. recv_loop n es acc = (Inr (acc @ take n (stream es)), es') \<and> steady es' \<and> stream es' = drop n (stream es)"
proof (induction n es acc rule: recv_loop.induct)
  case (1 n es acc)
  note eq = recv_loop.simps [of n es acc]
  show ?case
  proof (cases "n = 0")
    case True
    then show ?thesis unfolding eq using 1(3) by simp
  next
    case False
    then obtain ev fs where es: "es = ev # fs" using 1(4) by (cases es) auto
    show ?thesis
    proof (cases ev)
      case (Arrived bs)
      then have ne: "bs \<noteq> []" "steady fs" using 1(3) es by (simp_all add: steady_def)
      let ?k = "min (min n kChunk) (length bs)"
      let ?fs = "if ?k < length bs then Arrived (drop ?k bs) # fs else fs"
      have k: "?k \<le> length bs" "?k \<le> n" by simp_all
      have st: "stream ?fs = drop ?k (stream es)" "steady ?fs" using es Arrived ne by (auto simp: steady_def)
      have "recv_loop n es acc = recv_loop (n - ?k) ?fs (acc @ take ?k bs)"
        unfolding eq using False es Arrived ne(1) by (simp add: Let_def)
      moreover have "take n (stream es) = take ?k bs @ take (n - ?k) (stream ?fs)"
        unfolding st(1) using k es Arrived take_add [of ?k "n - ?k" "stream es"] by simp
      moreover have "drop (n - ?k) (stream ?fs) = drop n (stream es)" unfolding st(1) using k by simp
      moreover have "n - ?k \<le> length (stream ?fs)" unfolding st(1) using 1(4) by simp
      ultimately show ?thesis using 1(1) [OF False es Arrived ne(1) refl st(2)] by simp
    next
      case RecvAgain
      have "recv_loop n es acc = recv_loop n fs acc" unfolding eq using False es RecvAgain by simp
      moreover have "steady fs" "stream es = stream fs" using 1(3) es RecvAgain by (simp_all add: steady_def)
      ultimately show ?thesis using 1(2) [OF False es RecvAgain] 1(4) by simp
    next
      case RecvError
      then show ?thesis using 1(3) es by (simp add: steady_def)
    qed
  qed
qed

lemma recv_exact_steady:
  assumes "cx_valid cx" "steady (cx_incoming cx)" "n \<le> length (stream (cx_incoming cx))"
  shows "\<exists>es. recv_exact n cx = (Inr (take n (stream (cx_incoming cx))), cx\<lparr>cx_incoming := es\<rparr>) \<and> steady es \<and>
    stream es = drop n (stream (cx_incoming cx))"
  using recv_loop_steady [OF assms(2,3), of "[]"] assms(1) by (auto simp: recv_exact_def)

lemma send_loop_steady:
  "steady_sends es \<Longrightarrow> \<exists>es'. send_loop data es sent = (None, es', sent @ data) \<and> steady_sends es'"
proof (induction data es sent rule: send_loop.induct)
  case (1 data es sent)
  note eq = send_loop.simps [of data es sent]
  show ?case
  proof (cases "data = []")
    case True
    then show ?thesis unfolding eq using 1 by simp
  next
    case False
    let ?c = "min (length data) kChunk"
    show ?thesis
    proof (cases es)
      case Nil
      then show ?thesis unfolding eq using False 1(1) [OF False refl Nil] 1(4) by (simp add: Let_def)
    next
      case (Cons ev fs)
      then have fs: "steady_sends fs" using 1(4) by (simp add: steady_sends_def)
      show ?thesis
      proof (cases ev)
        case (Taken k)
        then have "k \<noteq> 0" using 1(4) Cons by (simp add: steady_sends_def)
        then show ?thesis
          unfolding eq using False Cons Taken 1(2) [OF False refl Cons Taken _ refl fs] by (simp add: Let_def)
      next
        case SendAgain
        then show ?thesis unfolding eq using False Cons 1(3) [OF False refl Cons SendAgain fs] by (simp add: Let_def)
      next
        case SendError
        then show ?thesis using 1(4) Cons by (simp add: steady_sends_def)
      qed
    qed
  qed
qed

lemma send_all_steady:
  assumes "cx_valid cx" "steady_sends (cx_sends cx)"
  shows "\<exists>es. send_all data cx = (None, cx\<lparr>cx_sends := es, cx_sent := cx_sent cx @ data\<rparr>) \<and> steady_sends es"
  using send_loop_steady [OF assms(2), of data "cx_sent cx"] assms(1) by (auto simp: send_all_def)

section \<open>Frames over streams\<close>

lemma encoded_header:
  assumes "encode_frame f m = Some bytes"
  shows "unat (get_u32 (take 24 bytes) 0) = length (wf_payload f)" "length bytes = length (wf_payload f) + 56"
    "length (wf_payload f) \<le> kMaxFramePayloadBytes" "length bytes \<le> m"
proof -
  show b: "length bytes = length (wf_payload f) + 56" "length (wf_payload f) \<le> kMaxFramePayloadBytes" "length bytes \<le> m"
    using assms by (auto simp: encode_frame_Some)
  have "get_u32 (take 24 bytes) 0 = get_u32 bytes 0" by (simp add: get_u32_def)
  also have "\<dots> = of_nat (length (wf_payload f))"
    using assms frame_head_fields(1) [of bytes f] by (auto simp: encode_frame_Some)
  finally show "unat (get_u32 (take 24 bytes) 0) = length (wf_payload f)"
    using b(2) by (simp add: unat_of_nat kMaxFramePayloadBytes_def kMaxFrameBytes_def take_bit_nat_eq_self)
qed

lemma receive_frame_steady:
  assumes "encode_frame f m' = Some bytes" "length bytes \<le> m" "cx_valid cx" "steady (cx_incoming cx)" "stream (cx_incoming cx) = bytes"
  shows "\<exists>es. receive_frame m cx = (Inr bytes, cx\<lparr>cx_incoming := es\<rparr>)"
proof -
  note h = encoded_header [OF assms(1)]
  obtain es where e: "recv_exact 24 cx = (Inr (take 24 bytes), cx\<lparr>cx_incoming := es\<rparr>)" "steady es" "stream es = drop 24 bytes"
    using recv_exact_steady [OF assms(3,4), of 24] h(2) assms(5) by auto
  obtain fs where "recv_exact (length (wf_payload f) + 32) (cx\<lparr>cx_incoming := es\<rparr>) =
      (Inr (take (length (wf_payload f) + 32) (drop 24 bytes)), cx\<lparr>cx_incoming := fs\<rparr>)"
    using recv_exact_steady [of "cx\<lparr>cx_incoming := es\<rparr>" "length (wf_payload f) + 32"] e(2,3) assms(3) h(2) by auto
  then show ?thesis
    using e(1) h assms(2) by (intro exI [of _ fs]) (simp add: receive_frame_def Let_def frame_defs)
qed

lemma serve_step_steady:
  assumes "encode_frame f m' = Some bytes" "length bytes \<le> vc_max_frame_bytes (sv_config v)" "wire_ok f"
    and "cx_valid cx" "steady (cx_incoming cx)" "stream (cx_incoming cx) = bytes" "\<not> sv_stop_requested v"
  shows "\<exists>es. serve_step v cx = serve_frame bytes v (cx\<lparr>cx_incoming := es\<rparr>)"
    and "decode_frame bytes (vc_max_frame_bytes (sv_config v)) = (True, f)"
proof -
  let ?m = "vc_max_frame_bytes (sv_config v)"
  note h = encoded_header [OF assms(1)]
  obtain es where e: "recv_exact 24 cx = (Inr (take 24 bytes), cx\<lparr>cx_incoming := es\<rparr>)" "steady es" "stream es = drop 24 bytes"
    using recv_exact_steady [OF assms(4,5), of 24] h(2) assms(6) by auto
  obtain fs where "recv_exact (length (wf_payload f) + 32) (cx\<lparr>cx_incoming := es\<rparr>) =
      (Inr (take (length (wf_payload f) + 32) (drop 24 bytes)), cx\<lparr>cx_incoming := fs\<rparr>)"
    using recv_exact_steady [of "cx\<lparr>cx_incoming := es\<rparr>" "length (wf_payload f) + 32"] e(2,3) assms(4) h(2) by auto
  then have "serve_step v cx = serve_frame bytes v (cx\<lparr>cx_incoming := fs\<rparr>)"
    using e(1) h assms(2,7) by (simp add: serve_step_def serve_header_def Let_def frame_defs)
  then show "\<exists>es. serve_step v cx = serve_frame bytes v (cx\<lparr>cx_incoming := es\<rparr>)" by blast
  have "encode_frame f ?m = Some bytes" using assms(1,2) by (simp add: encode_frame_Some)
  then show "decode_frame bytes ?m = (True, f)" using decode_encoded_frame assms(3) by blast
qed

section \<open>A dispatch\<close>

definition wire_request :: "wire_operation \<Rightarrow> byte list \<Rightarrow> u64 \<Rightarrow> wire_frame" where
  "wire_request operation payload correlation =
     wire_frame_default\<lparr>wf_operation := operation, wf_correlation := correlation, wf_payload := payload\<rparr>"

lemma wire_request_ok: "wire_ok (wire_request operation payload correlation)"
  by (simp add: wire_ok_def wire_request_def wire_frame_default_def reason_known_def reason_to_string_def kReasonTable_def)

lemma dispatch_frame:
  assumes "dispatch request e = (st, response, e')"
  shows "wf_version response = ucast kProtocolVersion" "wf_correlation response = wf_correlation request"
  using assms unfolding dispatch_def Let_def
  by (auto simp: answer_def answer_refused_def answer_payload_def dispatch_export_def Let_def wire_frame_default_def
      split: wire_operation.splits option.splits prod.splits if_splits)

section \<open>Properties\<close>

text \<open>
  C36: A remote call is a local dispatch.  The client puts its request on the wire; the service that
  receives these bytes, in whatever pieces, changes the engine as the dispatch of that request does
  and sends one reply; and the client that receives these bytes, in whatever pieces, returns the
  status and the payload the dispatch answered.
\<close>

theorem remote_call_is_local_dispatch:
  assumes client: "cx_valid (cl_socket c)" "steady_sends (cx_sends (cl_socket c))" "steady (cx_incoming (cl_socket c))"
    and service: "cx_valid cx" "steady_sends (cx_sends cx)" "steady (cx_incoming cx)" "\<not> sv_stop_requested v"
    and request: "request = wire_request operation payload (cl_next_correlation c)"
      "encode_frame request (cl_max_frame_bytes c) = Some bytes" "length bytes \<le> vc_max_frame_bytes (sv_config v)"
    and dispatched: "dispatch request (sv_engine v) = (st, response, e)" "reason_known (wf_status response)"
      "encode_frame response (vc_max_frame_bytes (sv_config v)) = Some reply" "length reply \<le> cl_max_frame_bytes c"
    and wire: "stream (cx_incoming cx) = bytes" "stream (cx_incoming (cl_socket c)) = reply"
  shows "(case client_call operation payload c of (result, c') \<Rightarrow>
      result = (wf_status response, wf_payload response) \<and> cx_sent (cl_socket c') = cx_sent (cl_socket c) @ bytes) \<and>
    (case serve_step v cx of (go_on, v', cx') \<Rightarrow> sv_engine v' = e \<and> cx_sent cx' = cx_sent cx @ reply)"
proof
  let ?m = "cl_max_frame_bytes c" and ?cx = "cl_socket c"
  have ok: "wire_ok response" using dispatch_frame(1) [OF dispatched(1)] dispatched(2) by (simp add: wire_ok_def)
  have corr: "wf_correlation response = cl_next_correlation c"
    using dispatch_frame(2) [OF dispatched(1)] request(1) by (simp add: wire_request_def)
  obtain es where s: "send_all bytes ?cx = (None, ?cx\<lparr>cx_sends := es, cx_sent := cx_sent ?cx @ bytes\<rparr>)"
    using send_all_steady [OF client(1,2)] by blast
  obtain fs where "receive_frame ?m (?cx\<lparr>cx_sends := es, cx_sent := cx_sent ?cx @ bytes\<rparr>) =
      (Inr reply, ?cx\<lparr>cx_sends := es, cx_sent := cx_sent ?cx @ bytes, cx_incoming := fs\<rparr>)"
    using receive_frame_steady [OF dispatched(3,4), of "?cx\<lparr>cx_sends := es, cx_sent := cx_sent ?cx @ bytes\<rparr>"] client wire(2)
    by auto
  moreover have "decode_frame reply ?m = (True, response)"
    using dispatched(3,4) ok by (intro decode_encoded_frame) (simp_all add: encode_frame_Some)
  ultimately show "case client_call operation payload c of (result, c') \<Rightarrow>
      result = (wf_status response, wf_payload response) \<and> cx_sent (cl_socket c') = cx_sent ?cx @ bytes"
    using client(1) request(2) s corr
    unfolding client_call_def Let_def request(1) wire_request_def
    by (simp add: accept_reply_def)
  note step = serve_step_steady [OF request(2,3) _ service(1,3) wire(1) service(4)]
  have rok: "wire_ok request" unfolding request(1) by (rule wire_request_ok)
  obtain gs where g: "serve_step v cx = serve_frame bytes v (cx\<lparr>cx_incoming := gs\<rparr>)" using step(1) [OF rok] by blast
  obtain hs where h: "send_all reply (cx\<lparr>cx_incoming := gs\<rparr>) = (None, cx\<lparr>cx_incoming := gs, cx_sends := hs, cx_sent := cx_sent cx @ reply\<rparr>)"
    using send_all_steady [of "cx\<lparr>cx_incoming := gs\<rparr>" reply] service(1,2) by auto
  show "case serve_step v cx of (go_on, v', cx') \<Rightarrow> sv_engine v' = e \<and> cx_sent cx' = cx_sent cx @ reply"
    unfolding g serve_frame_def Let_def
    using step(2) [OF rok] dispatched(1,3) h by (simp add: service_request_stop_def)
qed

text \<open>A flow is registered over a connection that delivers both frames in pieces.\<close>

definition wire_flow :: flow_descriptor where
  "wire_flow = flow_descriptor_default\<lparr>fd_flow := 10, fd_generation := 1, fd_function := 1, fd_statefulness := Stateless\<rparr>"

definition wire_flow_payload :: "byte list" where
  "wire_flow_payload = the (encode_flow_registration wire_flow)"

definition wire_engine :: impl where
  "wire_engine = (impl_new engine_config_default \<lparr>dk_directory = False, dk_snapshot = None, dk_journal = None\<rparr> [])\<lparr>e_open := True\<rparr>"

definition wire_service :: service where
  "wire_service = service_new wire_engine
     \<lparr>vc_bind_address = ''127.0.0.1'', vc_port = 0, vc_max_connections = 4, vc_workers = 0, vc_max_queue_depth = 8,
      vc_max_frame_bytes = kMaxFrameBytes\<rparr>"

definition frame_bytes :: "wire_frame \<Rightarrow> byte list" where
  "frame_bytes f = frame_head f @ sha256_of (frame_head f)"

definition registered_reply :: wire_frame where
  "registered_reply = wire_frame_default\<lparr>wf_operation := OpRegisterFlow, wf_correlation := 1, wf_status := AcceptedFlowRegistered\<rparr>"

definition in_pieces :: "byte list \<Rightarrow> connection" where
  "in_pieces bytes = \<lparr>cx_valid = True, cx_incoming = [Arrived (take 5 bytes), RecvAgain, Arrived (drop 5 bytes)],
     cx_sends = [Taken 3, SendAgain], cx_sent = []\<rparr>"

lemma wire_flow_sent:
  "encode_flow_registration wire_flow = Some wire_flow_payload" "length wire_flow_payload \<le> 1000" "valid_flow_descriptor wire_flow"
proof -
  have "(case encode_flow_registration wire_flow of None \<Rightarrow> False | Some p \<Rightarrow> length p \<le> 1000)" by code_simp
  then show "encode_flow_registration wire_flow = Some wire_flow_payload" "length wire_flow_payload \<le> 1000"
    by (auto simp: wire_flow_payload_def split: option.splits)
  show "valid_flow_descriptor wire_flow" by code_simp
qed

lemma small_frame:
  assumes "length (wf_payload f) \<le> 1000"
  shows "encode_frame f kMaxFrameBytes = Some (frame_bytes f)" "length (frame_bytes f) \<le> kMaxFrameBytes" "5 < length (frame_bytes f)"
  using assms by (auto simp: encode_frame_Some frame_bytes_def length_sha256_of frame_defs kMaxFrameBytes_def kMaxFramePayloadBytes_def)

lemma wire_flow_registered:
  "register_flow wire_flow wire_engine =
     (AcceptedFlowRegistered, bump c_flows_registered_update (wire_engine\<lparr>e_flows := [(10, wire_flow)]\<rparr>))"
proof -
  have "\<not> status_failed PersistNotConfigured" by code_simp
  then show ?thesis
    by (simp add: register_flow_def wire_engine_def wire_flow_def flow_descriptor_default_def impl_new_def is_valid_def
        engine_config_default_def kMaxFlows_def persist_then_def persist_locked_def bump_def status_accepted_def om_emplace_def)
qed

theorem remote_call_is_local_dispatch_witness:
  "let request = wire_request OpRegisterFlow wire_flow_payload 1;
       c = \<lparr>cl_socket = in_pieces (frame_bytes registered_reply), cl_next_correlation = 1, cl_max_frame_bytes = kMaxFrameBytes\<rparr>
   in fst (client_call OpRegisterFlow wire_flow_payload c) = (AcceptedFlowRegistered, []) \<and>
     e_flows (sv_engine (fst (snd (serve_step wire_service (in_pieces (frame_bytes request)))))) = [(10, wire_flow)]"
proof -
  let ?request = "wire_request OpRegisterFlow wire_flow_payload 1"
  let ?c = "\<lparr>cl_socket = in_pieces (frame_bytes registered_reply), cl_next_correlation = 1, cl_max_frame_bytes = kMaxFrameBytes\<rparr>"
  let ?e = "bump c_flows_registered_update (wire_engine\<lparr>e_flows := [(10, wire_flow)]\<rparr>)"
  have p: "length (wf_payload ?request) \<le> 1000" "length (wf_payload registered_reply) \<le> 1000"
    using wire_flow_sent(2) by (simp_all add: wire_request_def registered_reply_def wire_frame_default_def)
  note f = small_frame [OF p(1)] and g = small_frame [OF p(2)]
  have in_pieces_ok: "cx_valid (in_pieces b)" "steady_sends (cx_sends (in_pieces b))" "stream (cx_incoming (in_pieces b)) = b"
    "5 < length b \<Longrightarrow> steady (cx_incoming (in_pieces b))" for b
    by (auto simp: in_pieces_def steady_sends_def steady_def)
  have d: "dispatch ?request wire_engine = (AcceptedFlowRegistered, registered_reply, ?e)"
    using flow_wire.law [OF wire_flow_sent(3,1)] wire_flow_registered
    by (simp add: dispatch_def wire_request_def wire_frame_default_def Let_def answer_def registered_reply_def)
  have k: "reason_known (wf_status registered_reply)"
    by (simp add: registered_reply_def wire_frame_default_def reason_known_def reason_to_string_def kReasonTable_def)
  have s: "sv_engine wire_service = wire_engine" "\<not> sv_stop_requested wire_service" "vc_max_frame_bytes (sv_config wire_service) = kMaxFrameBytes"
    by (simp_all add: wire_service_def service_new_def)
  have "(case client_call OpRegisterFlow wire_flow_payload ?c of (result, c') \<Rightarrow>
      result = (wf_status registered_reply, wf_payload registered_reply) \<and>
      cx_sent (cl_socket c') = cx_sent (cl_socket ?c) @ frame_bytes ?request) \<and>
    (case serve_step wire_service (in_pieces (frame_bytes ?request)) of (go_on, v', cx') \<Rightarrow>
      sv_engine v' = ?e \<and> cx_sent cx' = cx_sent (in_pieces (frame_bytes ?request)) @ frame_bytes registered_reply)"
    by (rule remote_call_is_local_dispatch [where request = ?request and st = AcceptedFlowRegistered])
      (simp_all add: in_pieces_ok f g d s k)
  moreover have "e_flows ?e = [(10, wire_flow)]" by (simp add: bump_def)
  ultimately show ?thesis
    by (auto simp: Let_def registered_reply_def wire_frame_default_def split: prod.splits)
qed

end
