(* ===== verification/ControlTool.thy ===== *)
theory ControlTool
  imports Export
begin

text \<open>
  The control tool (\<^verbatim>\<open>tools/fos_ctl.cpp\<close>).  A run of the tool is a function of its arguments, of the
  files of the store and of the outcomes of the system calls; it gives the exit code, what is
  written to the two output streams and the engine.  The option \<^verbatim>\<open>--crash-at\<close> kills the process
  at a point of the store: such a run is not modelled and is the value \<open>None\<close>.
\<close>

section \<open>Numbers\<close>

text \<open>
  \<^verbatim>\<open>std::stoull\<close> and \<^verbatim>\<open>std::strtoull\<close> with base ten: leading white space, a sign, digits.  A negative
  number is the negated magnitude in 64 bits.  \<^verbatim>\<open>stoull\<close> throws when there is no digit or the
  magnitude does not fit, and reports how many characters it has read.
\<close>

definition is_white :: "char \<Rightarrow> bool" where
  "is_white c \<longleftrightarrow> c = CHR 0x20 \<or> 9 \<le> (of_char c :: nat) \<and> (of_char c :: nat) \<le> 13"

definition is_decimal :: "char \<Rightarrow> bool" where
  "is_decimal c \<longleftrightarrow> 48 \<le> (of_char c :: nat) \<and> (of_char c :: nat) \<le> 57"

definition magnitude :: "string \<Rightarrow> nat" where
  "magnitude ds = foldl (\<lambda>n c. 10 * n + (of_char c - 48)) 0 ds"

definition scan_number :: "string \<Rightarrow> bool \<times> string \<times> nat" where
  "scan_number t =
     (let white = takeWhile is_white t; rest = drop (length white) t;
          sign = (case rest of [] \<Rightarrow> 0 | c # _ \<Rightarrow> if c = CHR ''-'' \<or> c = CHR ''+'' then 1 else 0);
          digits = takeWhile is_decimal (drop sign rest)
      in (take 1 rest = ''-'', digits, length white + sign + length digits))"

definition stoull :: "string \<Rightarrow> (u64 \<times> nat) option" where
  "stoull t =
     (case scan_number t of (negative, digits, consumed) \<Rightarrow>
        if digits = [] \<or> magnitude digits \<ge> 2 ^ 64 then None
        else let v = of_nat (magnitude digits) in Some (if negative then - v else v, consumed))"

section \<open>Arguments\<close>

record args =
  ar_positional :: "string list"
  ar_options :: "string \<Rightarrow> string option"

definition args_new :: args where
  "args_new = \<lparr>ar_positional = [], ar_options = (\<lambda>_. None)\<rparr>"

definition args_has :: "args \<Rightarrow> string \<Rightarrow> bool" where
  "args_has a key \<longleftrightarrow> ar_options a key \<noteq> None"

definition args_get :: "args \<Rightarrow> string \<Rightarrow> string \<Rightarrow> string" where
  "args_get a key fallback = (case ar_options a key of None \<Rightarrow> fallback | Some v \<Rightarrow> v)"

definition get_u64_option :: "args \<Rightarrow> string \<Rightarrow> u64 option" where
  "get_u64_option a key =
     (case ar_options a key of
        None \<Rightarrow> None
      | Some t \<Rightarrow>
          case stoull t of
            None \<Rightarrow> None
          | Some (v, consumed) \<Rightarrow> if consumed \<noteq> length t then None else Some v)"

definition u64_or :: "args \<Rightarrow> string \<Rightarrow> u64 \<Rightarrow> u64" where
  "u64_or a key fallback = (case get_u64_option a key of None \<Rightarrow> fallback | Some v \<Rightarrow> v)"

definition u32_or :: "args \<Rightarrow> string \<Rightarrow> u32 \<Rightarrow> u32" where
  "u32_or a key fallback =
     (case get_u64_option a key of None \<Rightarrow> fallback | Some v \<Rightarrow> if v > 0xFFFFFFFF then fallback else ucast v)"

definition kFlagOptions :: "string list" where
  "kFlagOptions = [''help'', ''supports-stateful'', ''supports-migration'', ''allow-migration'', ''pinned'', ''dry-run'']"

fun parse_args :: "string list \<Rightarrow> args \<Rightarrow> string + args" where
  "parse_args [] out = Inr out"
| "parse_args (token # rest) out =
     (if take 2 token = ''--'' then
        let key = drop 2 token in
        if List.member kFlagOptions key then parse_args rest (out\<lparr>ar_options := (ar_options out)(key \<mapsto> ''true'')\<rparr>)
        else case rest of
          [] \<Rightarrow> Inl (''option --'' @ key @ '' requires a value'')
        | v # rest' \<Rightarrow> parse_args rest' (out\<lparr>ar_options := (ar_options out)(key \<mapsto> v)\<rparr>)
      else parse_args rest (out\<lparr>ar_positional := ar_positional out @ [token]\<rparr>))"

section \<open>Names\<close>

text \<open>Where a name is not known, the variable keeps the value it was declared with.\<close>

definition named :: "'a option \<Rightarrow> 'a \<Rightarrow> 'a" where
  "named found initial = (case found of None \<Rightarrow> initial | Some x \<Rightarrow> x)"

definition enum_from_name :: "string \<Rightarrow> execution_domain option" where
  "enum_from_name t =
     (if t = ''host'' then Some Host else if t = ''offload-device'' \<or> t = ''offload'' then Some OffloadDevice else None)"

definition kind_from_name :: "string \<Rightarrow> target_kind option" where
  "kind_from_name = map_of [(''host-kernel-path'', HostKernelPath), (''host-userspace-path'', HostUserspacePath),
     (''nic-hardware-offload'', NicHardwareOffload), (''smartnic'', SmartNic), (''dpu'', Dpu)]"

definition cost_from_name :: "string \<Rightarrow> cost_class option" where
  "cost_from_name = map_of [(''economy'', Economy), (''standard'', Standard), (''premium'', Premium), (''scarce'', Scarce)]"

definition lifecycle_from_name :: "string \<Rightarrow> target_lifecycle option" where
  "lifecycle_from_name = map_of [(''discovered'', Discovered), (''ready'', Ready), (''degraded'', Degraded),
     (''draining'', Draining), (''quiesced'', Quiesced), (''removed'', Removed)]"

definition preference_from_name :: "string \<Rightarrow> domain_preference option" where
  "preference_from_name = map_of [(''host-first'', HostFirst), (''offload-first'', OffloadFirst),
     (''host-only'', HostOnly), (''offload-only'', OffloadOnly)]"

definition fallback_from_name :: "string \<Rightarrow> fallback_policy option" where
  "fallback_from_name = map_of [(''forbid'', Forbid), (''allow-host-fallback'', AllowHostFallback),
     (''allow-offload-fallback'', AllowOffloadFallback), (''allow-any-fallback'', AllowAnyFallback)]"

definition load_model_from_name :: "string \<Rightarrow> load_model option" where
  "load_model_from_name = map_of [(''observed-only'', ObservedOnly), (''scheduled-only'', ScheduledOnly),
     (''sum-conservative'', SumConservative), (''maximum-of-both'', MaximumOfBoth)]"

definition evidence_state_from_name :: "string \<Rightarrow> evidence_state option" where
  "evidence_state_from_name = map_of [(''known'', Known), (''unsupported'', Unsupported),
     (''conflicting'', Conflicting), (''stale'', Stale)]"

datatype crash_point = BeforeJournalAppend | AfterJournalAppendBeforeFlush | AfterJournalFlushBeforeSnapshot
  | AfterSnapshotWriteBeforeRename | AfterSnapshotRenameBeforeJournalRewrite | AfterJournalRewriteBeforeAcknowledge

fun crash_point_to_string :: "crash_point \<Rightarrow> string" where
  "crash_point_to_string BeforeJournalAppend = ''before-journal-append''"
| "crash_point_to_string AfterJournalAppendBeforeFlush = ''after-journal-append-before-flush''"
| "crash_point_to_string AfterJournalFlushBeforeSnapshot = ''after-journal-flush-before-snapshot''"
| "crash_point_to_string AfterSnapshotWriteBeforeRename = ''after-snapshot-write-before-rename''"
| "crash_point_to_string AfterSnapshotRenameBeforeJournalRewrite = ''after-snapshot-rename-before-journal-rewrite''"
| "crash_point_to_string AfterJournalRewriteBeforeAcknowledge = ''after-journal-rewrite-before-acknowledge''"

definition kCrashPoints :: "crash_point list" where
  "kCrashPoints = [BeforeJournalAppend, AfterJournalAppendBeforeFlush, AfterJournalFlushBeforeSnapshot,
     AfterSnapshotWriteBeforeRename, AfterSnapshotRenameBeforeJournalRewrite, AfterJournalRewriteBeforeAcknowledge]"

definition crash_point_from_name :: "string \<Rightarrow> crash_point option" where
  "crash_point_from_name t = List.find (\<lambda>p. crash_point_to_string p = t) kCrashPoints"

section \<open>What the arguments describe\<close>

definition capabilities_of :: "args \<Rightarrow> capability_mask" where
  "capabilities_of a = snd (parse_capabilities (args_get a ''caps'' ''none''))"

definition capacity_of :: "args \<Rightarrow> string \<Rightarrow> u64 \<Rightarrow> u64 \<Rightarrow> u64 \<Rightarrow> u64 \<Rightarrow> capacity_vector" where
  "capacity_of a prefix pps bytes state entries =
     \<lparr>cv_packets_per_second = u64_or a (prefix @ ''pps'') pps, cv_bytes_per_second = u64_or a (prefix @ ''bytes'') bytes,
      cv_state_bytes = u64_or a (prefix @ ''state-bytes'') state, cv_table_entries = u64_or a (prefix @ ''entries'') entries\<rparr>"

definition build_target :: "args \<Rightarrow> target_descriptor" where
  "build_target a =
     (let domain = named (enum_from_name (args_get a ''domain'' ''host'')) Host in
      target_descriptor_default
        \<lparr>td_target := u64_or a ''target'' 0,
         td_incarnation := u64_or a ''incarnation'' 1,
         td_capability_generation := u64_or a ''capability-generation'' 1,
         td_topology_generation := u64_or a ''topology-generation'' 1,
         td_domain := domain,
         td_kind := named (kind_from_name (args_get a ''kind'' (if domain = Host then ''host-kernel-path'' else ''smartnic'')))
           (if domain = Host then HostKernelPath else SmartNic),
         td_host := u64_or a ''host'' 1,
         td_device := u64_or a ''device'' 0,
         td_capabilities := capabilities_of a,
         td_cost_class := named (cost_from_name (args_get a ''cost'' ''standard'')) Standard,
         td_capacity := capacity_of a '''' 1000000 1000000000 (2 ^ 20) 1000000,
         td_reserved := capacity_of a ''reserve-'' 0 0 0 0,
         td_lifecycle := named (lifecycle_from_name (args_get a ''lifecycle'' ''ready'')) Ready,
         td_supports_stateful := args_has a ''supports-stateful'',
         td_supports_migration := args_has a ''supports-migration'',
         td_source := u64_or a ''source'' 1,
         td_source_sequence := u64_or a ''sequence'' 1,
         td_issued_at := u64_or a ''instant'' 1\<rparr>)"

definition build_flow :: "args \<Rightarrow> flow_descriptor" where
  "build_flow a =
     (let locality = args_get a ''locality'' ''none'' in
      flow_descriptor_default
        \<lparr>fd_flow := u64_or a ''flow'' 0,
         fd_generation := u64_or a ''generation'' 1,
         fd_function := u64_or a ''function'' 1,
         fd_statefulness := (if args_get a ''statefulness'' ''stateless'' = ''stateful'' then Stateful else Stateless),
         fd_exclusive_state_key := u64_or a ''state-key'' 0,
         fd_required_capabilities := capabilities_of a,
         fd_max_cost_class := named (cost_from_name (args_get a ''cost'' ''scarce'')) Scarce,
         fd_demand := capacity_of a ''demand-'' 1000 1000000 0 100,
         fd_locality := (if locality = ''same-host-as-flow'' then SameHostAsFlow
                         else if locality = ''same-device-as-flow'' then SameDeviceAsFlow else LocalityNone),
         fd_locality_anchor := u64_or a ''anchor'' 0,
         fd_allow_migration := args_has a ''allow-migration'',
         fd_pinned := args_has a ''pinned''\<rparr>)"

definition build_policy :: "args \<Rightarrow> policy" where
  "build_policy a =
     canonicalize (policy_default
        \<lparr>pol_generation := u64_or a ''generation'' 1,
         pol_domain_preference := named (preference_from_name (args_get a ''preference'' ''offload-first'')) OffloadFirst,
         pol_fallback := named (fallback_from_name (args_get a ''fallback'' ''allow-host-fallback'')) AllowHostFallback,
         pol_load_model := named (load_model_from_name (args_get a ''load-model'' ''sum-conservative'')) SumConservative,
         pol_max_cost_class := named (cost_from_name (args_get a ''cost'' ''scarce'')) Scarce,
         pol_required_capabilities := capabilities_of a,
         pol_reserve := capacity_of a ''reserve-'' 0 0 0 0,
         pol_allow_placement_without_load_evidence := args_has a ''allow-missing-evidence'',
         pol_sticky := (args_get a ''sticky'' ''true'' \<noteq> ''false''),
         pol_allow_migration := args_has a ''allow-migration'',
         pol_min_improvement_ppm := u32_or a ''min-improvement-ppm'' 0,
         pol_max_rebalance_migrations := u32_or a ''max-rebalance'' 64\<rparr>)"

definition build_contract :: "args \<Rightarrow> migration_contract" where
  "build_contract a = migration_contract_default
     \<lparr>mc_id := u64_or a ''contract'' 1,
      mc_flow := u64_or a ''flow'' 0,
      mc_flow_generation := u64_or a ''flow-generation'' 1,
      mc_statefulness := (if args_get a ''statefulness'' ''stateful'' = ''stateless'' then Stateless else Stateful),
      mc_state_transfer_defined := True,
      mc_ordering_preserved := True,
      mc_rollback_defined := True,
      mc_exclusive_handoff := True,
      mc_destination_target := u64_or a ''target'' 0,
      mc_destination_incarnation := u64_or a ''incarnation'' 1,
      mc_destination_capability_generation := u64_or a ''capability-generation'' 1,
      mc_policy_generation := u64_or a ''policy-generation'' 1,
      mc_max_state_bytes := u64_or a ''max-state-bytes'' 0\<rparr>"

definition build_evidence :: "args \<Rightarrow> load_evidence" where
  "build_evidence a = load_evidence_default
     \<lparr>le_target := u64_or a ''target'' 0,
      le_incarnation := u64_or a ''incarnation'' 1,
      le_capability_generation := u64_or a ''capability-generation'' 1,
      le_source := u64_or a ''source'' 1,
      le_source_sequence := u64_or a ''sequence'' 1,
      le_observed_at := u64_or a ''observed-at'' 1,
      le_state := named (evidence_state_from_name (args_get a ''state'' ''known'')) Known,
      le_utilized := capacity_of a '''' 0 0 0 0\<rparr>"

section \<open>Commands\<close>

type_synonym exit_code = int

definition kExitOk :: exit_code where
  "kExitOk = 0"

definition kExitFailure :: exit_code where
  "kExitFailure = 1"

definition kExitUsage :: exit_code where
  "kExitUsage = 2"

record ctl_result =
  ct_exit :: exit_code
  ct_out :: string
  ct_err :: string

definition nl :: string where
  "nl = [CHR 0x0A]"

definition usage_text :: string where
  "usage_text = concat (map (\<lambda>l. l @ nl)
     [''fos_ctl - Flow Offload Scheduler inspection and control'',
      [],
      ''usage: fos_ctl [--store <dir>] <command> [options]'',
      [],
      ''commands:'',
      ''  status                 show coordinator identity, generations and counters'',
      ''  verify                 re-read the durable store and classify its integrity'',
      ''  export                 emit a canonical machine-readable export'',
      ''  declare-target         declare or re-declare an execution target'',
      ''  register-flow          register a flow processing request'',
      ''  ingest-load            supply target load evidence'',
      ''  set-policy             install a policy generation'',
      ''  register-contract      register a safe migration contract'',
      ''  place                  compute a placement decision'',
      ''  explain                explain the committed placement of a flow'',
      ''  rebalance              plan bounded rebalance migrations'',
      ''  begin-migration        authorise and issue one migration intent'',
      ''  complete-migration     acknowledge, apply and verify a migration attempt'',
      ''  seed-demo              build a deterministic demonstration scenario'',
      ''  demo-migration         seed the scenario and leave a migration in flight'',
      [],
      ''global options:'',
      ''  --store <dir>          enable durable persistence in <dir>'',
      ''  --format json|text|binary   export format (default json)'',
      ''  --help                 show this message''])"

definition ctl_fail :: "status \<Rightarrow> string \<Rightarrow> ctl_result" where
  "ctl_fail st what = \<lparr>ct_exit = kExitFailure, ct_out = [], ct_err = ''fos_ctl: '' @ what @ '' failed: '' @ reason_to_string st @ nl\<rparr>"

definition ctl_print :: "exit_code \<Rightarrow> string \<Rightarrow> ctl_result" where
  "ctl_print code out = \<lparr>ct_exit = code, ct_out = out, ct_err = []\<rparr>"

definition ctl_error :: "exit_code \<Rightarrow> string \<Rightarrow> ctl_result" where
  "ctl_error code err = \<lparr>ct_exit = code, ct_out = [], ct_err = err\<rparr>"

definition number_text :: "'a::len word \<Rightarrow> string" where
  "number_text w = decimal (unat w)"

definition print_status :: "impl \<Rightarrow> string" where
  "print_status e =
     (let sn = snapshot e; rv = sn_recovery sn; c = sn_counters sn in
      ''coordinator epoch='' @ number_text (sn_epoch sn) @ '' boot='' @ boot_to_string (sn_boot sn) @ nl @
      ''generations policy='' @ number_text (sn_policy_generation sn) @ '' schedule='' @ number_text (sn_schedule_generation sn) @
      '' topology='' @ number_text (sn_topology_generation sn) @ nl @
      ''recovery kind='' @ recovery_kind_to_string (rv_kind rv) @ '' usable='' @ bool_text (rv_usable rv) @
      '' records_replayed='' @ decimal (rv_records_replayed rv) @ '' snapshot_used='' @ bool_text (rv_snapshot_used rv) @
      '' journal_used='' @ bool_text (rv_journal_used rv) @ nl @
      ''entities flows='' @ decimal (sn_flows sn) @ '' targets='' @ decimal (sn_targets sn) @
      '' live_targets='' @ decimal (sn_live_targets sn) @ '' assignments='' @ decimal (sn_assignments sn) @
      '' migrations_in_flight='' @ decimal (sn_migrations_in_flight sn) @
      '' active_fences='' @ decimal (sn_active_fences sn) @ nl @
      ''counters restarts='' @ number_text (c_restarts c) @ '' placements_accepted='' @ number_text (c_placements_accepted c) @
      '' placements_refused='' @ number_text (c_placements_refused c) @ '' migrations_issued='' @ number_text (c_migrations_issued c) @
      '' migrations_completed='' @ number_text (c_migrations_completed c) @
      '' migrations_fenced='' @ number_text (c_migrations_fenced c) @ '' effects_verified='' @ number_text (c_effects_verified c) @
      '' persist_commits='' @ number_text (c_persist_commits c) @ '' history_evictions='' @ number_text (c_history_evictions c) @ nl)"

subsection \<open>The demonstration\<close>

text \<open>Steps in sequence; the command ends with the first that fails.\<close>

primrec attempt :: "(impl \<Rightarrow> status \<times> impl) list \<Rightarrow> impl \<Rightarrow> bool \<times> impl" where
  "attempt [] e = (True, e)"
| "attempt (f # fs) e = (let (st, e) = f e in if status_failed st then (False, e) else attempt fs e)"

definition seed_policy :: policy where
  "seed_policy = canonicalize (policy_default
     \<lparr>pol_generation := 1, pol_domain_preference := OffloadFirst, pol_fallback := AllowHostFallback,
      pol_load_model := SumConservative, pol_max_cost_class := Premium, pol_sticky := True, pol_allow_migration := True,
      pol_min_improvement_ppm := 100000, pol_max_rebalance_migrations := 8\<rparr>)"

definition seed_target :: "u64 \<Rightarrow> target_descriptor" where
  "seed_target i = target_descriptor_default
     \<lparr>td_target := i, td_incarnation := 1, td_capability_generation := 1, td_topology_generation := 1,
      td_domain := (if i = 1 then Host else OffloadDevice), td_kind := (if i = 1 then HostKernelPath else SmartNic),
      td_host := 1, td_device := (if i = 1 then 0 else 7),
      td_capabilities := capability_bit ConnectionTracking OR capability_bit StatefulAcl OR capability_bit NatTranslation,
      td_capacity := \<lparr>cv_packets_per_second = 1000000, cv_bytes_per_second = 1000000000, cv_state_bytes = 2 ^ 20,
        cv_table_entries = 1000000\<rparr>,
      td_cost_class := (if i = 1 then Economy else Standard), td_lifecycle := Ready, td_supports_stateful := True,
      td_supports_migration := True, td_source := 1, td_source_sequence := i, td_issued_at := 1000\<rparr>"

definition seed_load :: "u64 \<Rightarrow> load_evidence" where
  "seed_load i = load_evidence_default
     \<lparr>le_target := i, le_incarnation := 1, le_capability_generation := 1, le_source := 2, le_source_sequence := i,
      le_observed_at := 1000, le_state := Known,
      le_utilized := \<lparr>cv_packets_per_second = 100000, cv_bytes_per_second = 100000000, cv_state_bytes = 4096,
        cv_table_entries = 1000\<rparr>\<rparr>"

definition seed_flow :: "u64 \<Rightarrow> flow_descriptor" where
  "seed_flow i = flow_descriptor_default
     \<lparr>fd_flow := i, fd_generation := 1, fd_function := 1, fd_statefulness := (if i = 3 then Stateful else Stateless),
      fd_exclusive_state_key := (if i = 3 then 100 else 0),
      fd_required_capabilities := capability_bit ConnectionTracking, fd_max_cost_class := Standard,
      fd_demand := \<lparr>cv_packets_per_second = 1000, cv_bytes_per_second = 1000000,
        cv_state_bytes = (if i = 3 then 65536 else 0), cv_table_entries = 100\<rparr>,
      fd_allow_migration := True\<rparr>"

definition seed_request :: placement_request where
  "seed_request = placement_request_default
     \<lparr>pr_request := 1, pr_evaluation_instant := 2000,
      pr_items := map (\<lambda>i. \<lparr>it_flow = i, it_flow_generation = 1\<rparr>) [1, 2, 3]\<rparr>"

definition command_seed_demo :: "impl \<Rightarrow> ctl_result \<times> impl" where
  "command_seed_demo e =
     (let (ok, e) = attempt ([set_policy seed_policy] @
            concat (map (\<lambda>i. [declare_target (seed_target i), ingest_load (seed_load i) 1000]) [1, 2]) @
            map (\<lambda>i. register_flow (seed_flow i)) [1, 2, 3]) e in
      if \<not> ok then (ctl_print kExitFailure [], e)
      else
        let (result, e) = place_locked seed_request e in
        (ctl_print (if res_accepted result then kExitOk else kExitFailure)
          (''seed-demo status='' @ reason_to_string (res_status result) @
           '' schedule_generation='' @ number_text (res_schedule_generation result) @ nl @
           concat (map (\<lambda>p. ''  flow '' @ id_to_string (fp_flow p) @ '' outcome='' @ reason_to_string (fp_outcome p) @
             '' target='' @ id_to_string (fp_target p) @ nl) (res_placements result))), e))"

subsection \<open>Migrations\<close>

definition single_request :: "request_id \<Rightarrow> timestamp \<Rightarrow> flow_id \<Rightarrow> flow_generation \<Rightarrow> placement_request" where
  "single_request request instant flow generation = placement_request_default
     \<lparr>pr_request := request, pr_evaluation_instant := instant, pr_items := [\<lparr>it_flow = flow, it_flow_generation = generation\<rparr>]\<rparr>"

text \<open>
  Place a flow, authorize the recommendation and issue an intent, in \<^verbatim>\<open>begin-migration\<close> and in
  \<^verbatim>\<open>demo-migration\<close>; they differ in their defaults and in the message for a refused placement.
\<close>

definition command_migrate :: "(placement_result \<Rightarrow> string) \<Rightarrow> flow_id \<Rightarrow> timestamp \<Rightarrow> request_id \<Rightarrow> target_id \<Rightarrow> args \<Rightarrow> impl \<Rightarrow>
    ctl_result \<times> impl" where
  "command_migrate refused flow instant request target a e =
     (let (placed, e) = place_locked (single_request request instant flow 0) e in
      if \<not> res_accepted placed \<or> res_placements placed = [] \<or> \<not> fp_accepted (hd (res_placements placed)) then
        (ctl_error kExitFailure (refused placed), e)
      else
        let (authorized, granted, e) = authorize (fp_recommendation (hd (res_placements placed))) instant e in
        if status_failed authorized then (ctl_fail authorized ''authorize'', e)
        else
          let wanted = migration_intent_default
                \<lparr>mi_flow := flow, mi_destination_target := target,
                 mi_destination_incarnation := u64_or a ''incarnation'' 1,
                 mi_destination_capability_generation := u64_or a ''capability-generation'' 1, mi_issued_at := instant\<rparr>;
              (issued, intent, e) = issue_intent (named granted authorization_default) wanted e in
          if status_failed issued then (ctl_fail issued ''issue-intent'', e)
          else
            let i = named intent wanted in
            (ctl_print kExitOk (''attempt='' @ number_text (mi_attempt i) @ '' flow='' @ id_to_string (mi_flow i) @
              '' from='' @ id_to_string (mi_source_target i) @ '' to='' @ id_to_string (mi_destination_target i) @
              '' phase='' @ migration_phase_to_string (mi_phase i) @ nl), e))"

definition command_begin_migration :: "args \<Rightarrow> impl \<Rightarrow> ctl_result \<times> impl" where
  "command_begin_migration a e =
     command_migrate (\<lambda>placed. ''fos_ctl: placement refused: '' @
         (case res_placements placed of [] \<Rightarrow> ''no placement'' | p # _ \<Rightarrow> reason_to_string (fp_outcome p)) @ nl)
       (u64_or a ''flow'' 0) (u64_or a ''instant'' 1) (u64_or a ''request'' 1) (u64_or a ''target'' 0) a e"

definition command_demo_migration :: "args \<Rightarrow> impl \<Rightarrow> ctl_result \<times> impl" where
  "command_demo_migration a e =
     (let (seeded, e) = command_seed_demo e in
      if ct_exit seeded \<noteq> kExitOk then (ctl_print kExitFailure (ct_out seeded), e)
      else
        let (r, e) = command_migrate (\<lambda>placed. ''fos_ctl: demo-migration placement refused'' @ nl)
              (u64_or a ''flow'' 1) (u64_or a ''instant'' 2000) (u64_or a ''request'' 2) (u64_or a ''target'' 1) a e
        in (r\<lparr>ct_out := ct_out seeded @ ct_out r\<rparr>, e))"

definition source_acknowledgement :: "migration_attempt_id \<Rightarrow> timestamp \<Rightarrow> migration_intent \<Rightarrow> migration_acknowledgement" where
  "source_acknowledgement n instant i = migration_acknowledgement_default
     \<lparr>ack_attempt := n, ack_actor := Source, ack_target := mi_source_target i, ack_incarnation := mi_source_incarnation i,
      ack_capability_generation := mi_source_capability_generation i, ack_epoch := mi_epoch i, ack_boot := mi_boot i,
      ack_accepted := True, ack_reason := ReasonOk, ack_acknowledged_at := instant\<rparr>"

definition destination_acknowledgement :: "migration_attempt_id \<Rightarrow> timestamp \<Rightarrow> migration_intent \<Rightarrow> migration_acknowledgement" where
  "destination_acknowledgement n instant i = (source_acknowledgement n instant i)
     \<lparr>ack_actor := Destination, ack_target := mi_destination_target i, ack_incarnation := mi_destination_incarnation i,
      ack_capability_generation := mi_destination_capability_generation i\<rparr>"

definition reported_effect :: "migration_attempt_id \<Rightarrow> timestamp \<Rightarrow> u64 \<Rightarrow> migration_intent \<Rightarrow> applied_effect" where
  "reported_effect n instant bytes i = applied_effect_default
     \<lparr>ae_attempt := n, ae_target := mi_destination_target i, ae_incarnation := mi_destination_incarnation i,
      ae_capability_generation := mi_destination_capability_generation i, ae_epoch := mi_epoch i, ae_boot := mi_boot i,
      ae_effect_digest := sha256_of_text (''effect:'' @ number_text n), ae_state_bytes := bytes, ae_applied_at := instant\<rparr>"

definition reported_observation :: "migration_attempt_id \<Rightarrow> timestamp \<Rightarrow> applied_effect \<Rightarrow> migration_intent \<Rightarrow> effect_observation" where
  "reported_observation n instant x i = effect_observation_default
     \<lparr>eo_flow := mi_flow i, eo_flow_generation := mi_flow_generation i, eo_target := ae_target x,
      eo_incarnation := ae_incarnation x, eo_capability_generation := ae_capability_generation x, eo_source := 9,
      eo_source_sequence := n, eo_state := Known, eo_lifecycle := Ready, eo_effect_digest := ae_effect_digest x,
      eo_observed_at := instant\<rparr>"

definition command_complete_migration :: "args \<Rightarrow> impl \<Rightarrow> ctl_result \<times> impl" where
  "command_complete_migration a e =
     (let n = u64_or a ''attempt'' 0; instant = u64_or a ''instant'' 2 in
      case lookup_migration n e of
        None \<Rightarrow> (ctl_error kExitFailure (''fos_ctl: unknown attempt'' @ nl), e)
      | Some record \<Rightarrow>
          let i = mr_intent record; effect = reported_effect n instant (u64_or a ''state-bytes'' 4096) i;
              (ok, e) = attempt [acknowledge (source_acknowledgement n instant i),
                acknowledge (destination_acknowledgement n instant i), report_applied effect] e in
          if \<not> ok then (ctl_print kExitFailure [], e)
          else
            let (verified, e) = observe (reported_observation n instant effect i) e in
            if status_failed verified then (ctl_fail verified ''observe'', e)
            else (ctl_print kExitOk (''attempt='' @ number_text n @ '' verified phase='' @
                    migration_phase_to_string Completed @ nl), e))"

subsection \<open>The main program\<close>

definition render_placement :: "flow_placement \<Rightarrow> string" where
  "render_placement p =
     ''flow '' @ id_to_string (fp_flow p) @ '' outcome='' @ reason_to_string (fp_outcome p) @
     '' target='' @ id_to_string (fp_target p) @ '' incarnation='' @ id_to_string (fp_incarnation p) @
     '' retained='' @ bool_text (fp_retained p) @ '' fallback='' @ bool_text (fp_fallback p) @ nl"

definition command_place :: "args \<Rightarrow> impl \<Rightarrow> ctl_result \<times> impl" where
  "command_place a e =
     (let (result, e) = place_locked ((single_request (u64_or a ''request'' 1) (u64_or a ''instant'' 1) (u64_or a ''flow'' 0)
            (u64_or a ''generation'' 0))\<lparr>pr_dry_run := args_has a ''dry-run''\<rparr>) e in
      (ctl_print (if res_accepted result then kExitOk else kExitFailure)
        (concat (map render_placement (res_placements result)) @
         ''status='' @ reason_to_string (res_status result) @
         '' schedule_generation='' @ number_text (res_schedule_generation result) @ nl), e))"

definition command_rebalance :: "args \<Rightarrow> impl \<Rightarrow> ctl_result \<times> impl" where
  "command_rebalance a e =
     (let (report, e) = rebalance_locked (rebalance_request_default
            \<lparr>rq_request := u64_or a ''request'' 1, rq_evaluation_instant := u64_or a ''instant'' 1,
             rq_max_migrations := u32_or a ''max'' 0, rq_dry_run := args_has a ''dry-run''\<rparr>) e in
      (ctl_print kExitOk
        (''bounded rebalance considered='' @ number_text (rep_considered report) @ '' eligible='' @ number_text (rep_eligible report) @
         '' selected='' @ number_text (rep_selected report) @ '' truncated='' @ number_text (rep_truncated report) @ nl @
         concat (map (\<lambda>i. ''  flow='' @ id_to_string (mi_flow i) @ '' from='' @ id_to_string (mi_source_target i) @
           '' to='' @ id_to_string (mi_destination_target i) @ nl) (rep_intents report))), e))"

definition command_explain :: "args \<Rightarrow> impl \<Rightarrow> ctl_result" where
  "command_explain a e =
     (let (st, explanation) = explain_flow (u64_or a ''flow'' 0) e in
      ctl_print (if status_ok st then kExitOk else kExitFailure) (render (named explanation explanation_default) @ nl))"

definition command_export :: "args \<Rightarrow> impl \<Rightarrow> ctl_result" where
  "command_export a e =
     (let format = args_get a ''format'' ''json''; state = export_state e in
      ctl_print kExitOk
        (if format = ''binary'' then bytes_string (export_binary state) @ nl
         else if format = ''text'' then export_text state
         else export_json export_options_default state))"

definition command_verify :: "store \<Rightarrow> ctl_result" where
  "command_verify st =
     (let (report, _) = verify_integrity st in
      ctl_print (if rv_usable report then kExitOk else kExitFailure)
        (''integrity kind='' @ recovery_kind_to_string (rv_kind report) @ '' reason='' @ reason_to_string (rv_code report) @
         '' usable='' @ bool_text (rv_usable report) @ '' records_replayed='' @ decimal (rv_records_replayed report) @
         '' bytes_truncated='' @ number_text (rv_bytes_truncated report) @
         '' commit_sequence='' @ number_text (rv_commit_sequence report) @ nl @
         (if rv_detail report = [] then [] else ''detail: '' @ rv_detail report @ nl)))"

text \<open>The part of \<^verbatim>\<open>main\<close> after the engine was opened.\<close>

definition ctl_command :: "string \<Rightarrow> args \<Rightarrow> impl \<Rightarrow> ctl_result \<times> impl" where
  "ctl_command command a e =
     (if command = ''help'' then (ctl_print kExitOk usage_text, e)
      else if command = ''status'' then (ctl_print kExitOk (print_status e), e)
      else if command = ''export'' then (command_export a e, e)
      else if command = ''seed-demo'' then command_seed_demo e
      else if command = ''demo-migration'' then command_demo_migration a e
      else if command = ''declare-target'' then
        let (st, e) = declare_target (build_target a) e in (ctl_fail st ''declare-target'', e)
      else if command = ''register-flow'' then
        let (st, e) = register_flow (build_flow a) e in (ctl_fail st ''register-flow'', e)
      else if command = ''set-policy'' then
        let (st, e) = set_policy (build_policy a) e in (ctl_fail st ''set-policy'', e)
      else if command = ''register-contract'' then
        let (st, e) = register_migration_contract (build_contract a) e in (ctl_fail st ''register-contract'', e)
      else if command = ''ingest-load'' then
        let (st, e) = ingest_load (build_evidence a) (u64_or a ''instant'' 1) e in (ctl_fail st ''ingest-load'', e)
      else if command = ''place'' then command_place a e
      else if command = ''rebalance'' then command_rebalance a e
      else if command = ''explain'' then (command_explain a e, e)
      else if command = ''begin-migration'' then command_begin_migration a e
      else if command = ''complete-migration'' then command_complete_migration a e
      else (\<lparr>ct_exit = kExitUsage, ct_out = usage_text,
             ct_err = ''fos_ctl: unknown command '' @ [CHR 0x27] @ command @ [CHR 0x27] @ nl\<rparr>, e))"

definition ctl_config :: "args \<Rightarrow> engine_config" where
  "ctl_config a =
     (if args_has a ''store'' then
        engine_config_default\<lparr>ec_persistence_enabled := True,
          ec_store := (ec_store engine_config_default)\<lparr>sc_directory := args_get a ''store'' []\<rparr>\<rparr>
      else engine_config_default)"

text \<open>
  \<^verbatim>\<open>main\<close> on the arguments after the program name, with the files of the store and the outcomes of
  the system calls.  The result holds what the run prints and the files it leaves: the engine is shut
  down by its destructor.
\<close>

definition ctl_engine :: "string \<Rightarrow> args \<Rightarrow> impl \<Rightarrow> ctl_result \<times> impl" where
  "ctl_engine command a e =
     (let (opened, e) = engine_open e in
      if status_failed opened then
        (ctl_error kExitFailure (''fos_ctl: engine could not open: '' @ reason_to_string opened @ nl), e)
      else ctl_command command a e)"

definition ctl_main :: "string list \<Rightarrow> disk \<Rightarrow> io_outcome list \<Rightarrow> (ctl_result \<times> disk) option" where
  "ctl_main argv d io =
     (case parse_args argv args_new of
        Inl error \<Rightarrow> Some (\<lparr>ct_exit = kExitUsage, ct_out = usage_text, ct_err = ''fos_ctl: '' @ error @ nl\<rparr>, d)
      | Inr a \<Rightarrow>
          case ar_positional a of
            [] \<Rightarrow> Some (ctl_print (if args_has a ''help'' then kExitOk else kExitUsage) usage_text, d)
          | command # _ \<Rightarrow>
              if command = ''verify'' then Some (command_verify (store_new (ec_store (ctl_config a)) d io), d)
              else if args_has a ''crash-at'' then
                case crash_point_from_name (args_get a ''crash-at'' []) of
                  None \<Rightarrow> Some (ctl_error kExitUsage (''fos_ctl: unknown crash point '' @ [CHR 0x27] @
                    args_get a ''crash-at'' [] @ [CHR 0x27] @ nl), d)
                | Some point \<Rightarrow> None
              else
                let (r, e) = ctl_engine command a (impl_new (ctl_config a) d io)
                in Some (r, st_disk (e_store (engine_shutdown e))))"

end
