(* ===== verification/ControlProperties.thy ===== *)
theory ControlProperties
  imports ControlTool PlacementProperties EngineRestart
begin

text \<open>
  What a run of the control tool can do.  Each run opens an engine of its own, so each run is a
  restart: targets have to be declared again and attempts of earlier runs are fenced.
\<close>

section \<open>The engine a run works on\<close>

lemma past_fenced_empty:
  "e_targets s = [] \<Longrightarrow> e_holders s = [] \<Longrightarrow> e_migrations s = [] \<Longrightarrow> e_authorizations s = [] \<Longrightarrow> e_recommendations s = [] \<Longrightarrow>
   past_fenced s"
  by (simp add: past_fenced_def)

lemma open_restore_fenced:
  assumes "past_fenced s"
  shows "case open_restore s of Inl (st, t) \<Rightarrow> past_fenced t | Inr (e, b, t) \<Rightarrow> past_fenced t"
proof -
  have "past_fenced (s\<lparr>e_store := st, e_recovery := r\<rparr>)" "past_fenced (s\<lparr>e_recovery := r\<rparr>)" for st r
    using assms by (simp_all add: past_fenced_def)
  then show ?thesis
    by (auto simp: open_restore_def Let_def past_fenced_restore split: prod.splits)
qed

lemma engine_open_fenced:
  assumes "past_fenced s" "engine_open s = (st, t)"
  shows "past_fenced t"
proof -
  have s: "past_fenced (s\<lparr>e_shutting_down := False\<rparr>)" using assms(1) by (simp add: past_fenced_def)
  have p: "past_fenced (snd (persist_locked ((begin_epoch e b u)\<lparr>e_open := True\<rparr>)))"
    "past_fenced ((snd (persist_locked ((begin_epoch e b u)\<lparr>e_open := True\<rparr>)))\<lparr>e_open := False\<rparr>)" if "past_fenced u" for e b u
    using that by (simp_all add: past_fenced_def begin_epoch_fields)
  show ?thesis
  proof (cases "e_open s")
    case True
    then show ?thesis using assms by (simp add: engine_open_def)
  next
    case False
    show ?thesis
    proof (cases "open_restore (s\<lparr>e_shutting_down := False\<rparr>)")
      case (Inl r)
      then show ?thesis using assms(2) False open_restore_fenced [OF s] by (simp add: engine_open_def split: prod.splits)
    next
      case (Inr r)
      then obtain e b u where r: "open_restore (s\<lparr>e_shutting_down := False\<rparr>) = Inr (e, b, u)" by (cases r) auto
      then have "past_fenced u" using open_restore_fenced [OF s] by simp
      then show ?thesis
        using assms(2) False r p [of u e b] by (auto simp: engine_open_def Let_def split_beta split: if_splits)
    qed
  qed
qed

section \<open>Placing declares nothing\<close>

definition undeclared :: "impl \<Rightarrow> bool" where
  "undeclared s \<longleftrightarrow> (\<forall>k t. om_find (e_targets s) k = Some t \<longrightarrow> \<not> ts_declared t)"

lemma undeclared_cong: "e_targets t = e_targets s \<Longrightarrow> undeclared s \<Longrightarrow> undeclared t"
  by (simp add: undeclared_def)

lemma undeclared_rescheduled: "undeclared s \<Longrightarrow> undeclared (recompute_scheduled_locked s)"
  unfolding undeclared_def by (blast dest: undeclared_recompute)

lemma undeclared_frame [simp]:
  "undeclared (bump upd s) = undeclared s" "undeclared (record_refusal_locked code s) = undeclared s"
  "undeclared (snd (publish r c g refusals result s)) = undeclared s"
  by (simp_all add: undeclared_def publish_def Let_def)

lemma undeclared_commits [simp]: "undeclared (snd (foldl (commit_pending r g) acc cs)) = undeclared (snd acc)"
  by (simp add: undeclared_def commits_targets)

lemma place_batch_undeclared:
  assumes "undeclared s"
  shows "undeclared (snd (place_batch r its result s))"
proof -
  define b where "b = foldl (place_item r (unat (alternatives_limit r s))) (batch_new s) its"
  have b: "undeclared (b_state b)"
    using only_counts_fields(11) [OF place_items_state [of "batch_new s"]] assms
    by (simp add: b_def batch_new_def undeclared_def)
  have "undeclared (recompute_scheduled_locked ((b_state b)\<lparr>e_schedule_generation := g\<rparr>))" for g
    using b by (intro undeclared_rescheduled) (simp add: undeclared_def)
  then show ?thesis
    using b unfolding place_batch_def Let_def b_def [symmetric]
    by (simp add: split_beta)
qed

lemma place_locked_undeclared: "undeclared s \<Longrightarrow> undeclared (snd (place_locked r s))"
  unfolding place_locked_def Let_def
  by (simp add: place_batch_undeclared split: option.split)

section \<open>The commands that migrate\<close>

lemmas failure_defs = status_failed_def status_ok_def is_acceptance_def status_refused_def reason_value_def

lemma authorize_undeclared:
  assumes "undeclared s"
  shows "status_failed (fst (authorize n instant s))"
proof -
  have "authorize_refusal rec s \<noteq> ReasonOk \<and> status_failed (authorize_refusal rec s)" for rec
    using assms unfolding authorize_refusal_def undeclared_def by (auto simp: failure_defs split: option.split)
  then have "authorize_refusal rec s \<noteq> ReasonOk" "status_failed (authorize_refusal rec s)" for rec by blast+
  then show ?thesis
    by (simp add: authorize_def Let_def status_refused_def split: option.split) (simp add: failure_defs)
qed

lemma begin_migration_fails:
  assumes "undeclared e"
  shows "ct_exit (fst (command_begin_migration a e)) = kExitFailure"
proof -
  have "status_failed (fst (authorize n i (snd (place_locked r e))))" for n i r
    by (intro authorize_undeclared place_locked_undeclared assms)
  then show ?thesis
    unfolding command_begin_migration_def command_migrate_def Let_def
    by (simp add: split_beta ctl_error_def ctl_fail_def)
qed

lemma acknowledge_terminal:
  assumes "om_find (e_migrations s) (ack_attempt a) = Some r" "phase_terminal (phase_of r)"
  shows "status_failed (fst (acknowledge a s))"
proof -
  have "ack_authority_refusal a r s \<noteq> ReasonOk" "status_failed (ack_authority_refusal a r s)"
    using assms(2) by (auto simp: ack_authority_refusal_def phase_terminal_def failure_defs)
  moreover have "status_failed RejectedShuttingDown" by (simp add: failure_defs)
  ultimately show ?thesis using assms(1) by (simp add: acknowledge_def Let_def status_refused_def)
qed

lemma complete_migration_fails:
  assumes "past_fenced e"
  shows "ct_exit (fst (command_complete_migration a e)) = kExitFailure"
proof (cases "lookup_migration (u64_or a ''attempt'' 0) e")
  case None
  then show ?thesis by (simp add: command_complete_migration_def Let_def ctl_error_def)
next
  case (Some r)
  then have r: "om_find (e_migrations e) (u64_or a ''attempt'' 0) = Some r" "phase_terminal (phase_of r)"
    using assms by (auto simp: lookup_migration_def past_fenced_def)
  have "status_failed (fst (acknowledge (source_acknowledgement (u64_or a ''attempt'' 0) i (mr_intent r)) e))" for i
    using r by (intro acknowledge_terminal) (simp_all add: source_acknowledgement_def)
  then show ?thesis
    using Some by (simp add: command_complete_migration_def Let_def split_beta ctl_print_def)
qed

section \<open>Names and numbers\<close>

text \<open>The names the tool reads are the names the library prints.\<close>

lemma enum_names: "d \<noteq> DomainUnknown \<Longrightarrow> enum_from_name (execution_domain_to_string d) = Some d"
  by (cases d) (simp_all add: enum_from_name_def)

lemma kind_names: "k \<noteq> KindUnknown \<Longrightarrow> kind_from_name (target_kind_to_string k) = Some k"
  by (cases k) (simp_all add: kind_from_name_def)

lemma cost_names: "c \<noteq> CostUnknown \<Longrightarrow> cost_from_name (cost_class_to_string c) = Some c"
  by (cases c) (simp_all add: cost_from_name_def)

lemma lifecycle_names: "l \<noteq> LifecycleUnknown \<Longrightarrow> lifecycle_from_name (target_lifecycle_to_string l) = Some l"
  by (cases l) (simp_all add: lifecycle_from_name_def)

lemma preference_names: "p \<noteq> PreferenceUnknown \<Longrightarrow> preference_from_name (domain_preference_to_string p) = Some p"
  by (cases p) (simp_all add: preference_from_name_def)

lemma fallback_names: "p \<noteq> FallbackUnknown \<Longrightarrow> fallback_from_name (fallback_policy_to_string p) = Some p"
  by (cases p) (simp_all add: fallback_from_name_def)

lemma load_model_names: "m \<noteq> LoadModelUnknown \<Longrightarrow> load_model_from_name (load_model_to_string m) = Some m"
  by (cases m) (simp_all add: load_model_from_name_def)

lemma evidence_state_names: "e \<noteq> EvidenceUnknown \<Longrightarrow> evidence_state_from_name (evidence_state_to_string e) = Some e"
  by (cases e) (simp_all add: evidence_state_from_name_def)

lemma crash_point_names: "crash_point_from_name (crash_point_to_string p) = Some p"
  by (cases p) (simp_all add: crash_point_from_name_def kCrashPoints_def)

text \<open>A printed number is read back; a minus sign is accepted and wraps.\<close>

lemma hex_digit_decimal:
  assumes "d < 10"
  shows "is_decimal (kHexDigits ! d)" "of_char (kHexDigits ! d) = (48 + d :: nat)"
proof -
  have "d \<in> set [0, 1, 2, 3, 4, 5, 6, 7, 8, 9]" using assms by auto
  then show "is_decimal (kHexDigits ! d)" "of_char (kHexDigits ! d) = (48 + d :: nat)"
    by (auto simp: is_decimal_def kHexDigits_def)
qed

lemma decimal_magnitude: "list_all is_decimal (decimal n) \<and> decimal n \<noteq> [] \<and> magnitude (decimal n) = n"
proof (induction n rule: decimal.induct)
  case (1 n)
  show ?case
  proof (cases "n < 10")
    case True
    then show ?thesis using hex_digit_decimal [of n] by (simp add: decimal.simps [of n] magnitude_def)
  next
    case False
    then show ?thesis
      using 1 hex_digit_decimal [of "n mod 10"] by (simp add: decimal.simps [of n] magnitude_def)
  qed
qed

lemma stoull_decimal:
  assumes "n < 2 ^ 64"
  shows "stoull (decimal n) = Some (of_nat n, length (decimal n))" "stoull (CHR ''-'' # decimal n) = Some (- of_nat n, Suc (length (decimal n)))"
proof -
  obtain c ds where d: "decimal n = c # ds" using decimal_magnitude [of n] by (cases "decimal n") auto
  have digits: "takeWhile is_decimal (decimal n) = decimal n"
    using decimal_magnitude [of n] by (simp add: list_all_iff)
  have c: "is_decimal c" using decimal_magnitude [of n] d by simp
  then have s: "\<not> is_white c" "c \<noteq> CHR ''-''" "c \<noteq> CHR ''+''" by (auto simp: is_decimal_def is_white_def)
  have "scan_number (decimal n) = (False, decimal n, length (decimal n))"
    using s digits by (simp add: scan_number_def d)
  moreover have "scan_number (CHR ''-'' # decimal n) = (True, decimal n, Suc (length (decimal n)))"
    unfolding scan_number_def Let_def by (simp add: is_white_def digits)
  ultimately show "stoull (decimal n) = Some (of_nat n, length (decimal n))"
    "stoull (CHR ''-'' # decimal n) = Some (- of_nat n, Suc (length (decimal n)))"
    using decimal_magnitude [of n] assms by (simp_all add: stoull_def)
qed

section \<open>Properties\<close>

lemma ctl_main_engine:
  assumes "parse_args argv args_new = Inr a" "ar_positional a = command # operands" "command \<noteq> ''verify''"
    and "ctl_main argv d io = Some (r, d')"
  obtains "ct_exit r = kExitUsage"
  | e where "e = impl_new (ctl_config a) d io" "r = fst (ctl_engine command a e)"
      "ar_options a ''crash-at'' = None"
  using assms by (auto simp: ctl_main_def args_has_def ctl_error_def Let_def split: if_splits option.splits prod.splits)

lemma ctl_engine_exit:
  assumes "\<And>t. past_fenced t \<Longrightarrow> ct_exit (fst (ctl_command command a t)) = kExitFailure"
  shows "ct_exit (fst (ctl_engine command a (impl_new config d io))) = kExitFailure"
proof -
  obtain st t where o: "engine_open (impl_new config d io) = (st, t)" by fastforce
  have "past_fenced (impl_new config d io)" by (rule past_fenced_empty) (simp_all add: impl_new_def)
  then show ?thesis using assms engine_open_fenced [OF _ o] o by (simp add: ctl_engine_def ctl_error_def)
qed

text \<open>
  C39: The control tool cannot migrate a flow.  Every run opens an engine of its own, which counts as
  a restart: no target is declared and every attempt in the store is fenced.  So no run of
  \<^verbatim>\<open>begin-migration\<close> or \<^verbatim>\<open>complete-migration\<close>, on whatever store and with whatever options, exits with
  success.
\<close>

theorem tool_cannot_migrate:
  assumes "parse_args argv args_new = Inr a" "ar_positional a = command # operands"
    and "command = ''begin-migration'' \<or> command = ''complete-migration''"
    and "ctl_main argv d io = Some (r, d')"
  shows "ct_exit r \<noteq> kExitOk"
proof -
  have "ct_exit (fst (ctl_command command a t)) = kExitFailure" if "past_fenced t" for t
  proof -
    have "undeclared t" using that by (simp add: past_fenced_def undeclared_def)
    then show ?thesis using assms(3) that begin_migration_fails complete_migration_fails by (auto simp: ctl_command_def)
  qed
  note fails = ctl_engine_exit [OF this]
  have "command \<noteq> ''verify''" using assms(3) by auto
  from ctl_main_engine [OF assms(1,2) this assms(4)] show ?thesis
    by cases (use fails in \<open>simp_all add: kExitUsage_def kExitOk_def kExitFailure_def\<close>)
qed


definition no_files :: disk where
  "no_files = \<lparr>dk_directory = False, dk_snapshot = None, dk_journal = None\<rparr>"

definition option_args :: "string \<Rightarrow> string \<Rightarrow> string \<Rightarrow> args" where
  "option_args command key v = \<lparr>ar_positional = [command], ar_options = (\<lambda>_. None)(key \<mapsto> v)\<rparr>"

lemma parse_option_args:
  "take 2 command \<noteq> ''--'' \<Longrightarrow> \<not> List.member kFlagOptions key \<Longrightarrow>
   parse_args [command, ''--'' @ key, v] args_new = Inr (option_args command key v)"
  by (simp add: args_new_def option_args_def)

theorem tool_cannot_migrate_witness:
  "\<exists>r d. ctl_main [''complete-migration'', ''--attempt'', ''7''] no_files [] = Some (r, d) \<and> ct_exit r \<noteq> kExitOk"
proof -
  have p: "parse_args [''complete-migration'', ''--attempt'', ''7''] args_new = Inr (option_args ''complete-migration'' ''attempt'' ''7'')"
    using parse_option_args [of "''complete-migration''" "''attempt''" "''7''"] by (simp add: kFlagOptions_def)
  then obtain r d where "ctl_main [''complete-migration'', ''--attempt'', ''7''] no_files [] = Some (r, d)"
    by (simp add: ctl_main_def option_args_def args_has_def Let_def split_beta)
  then show ?thesis
    using tool_cannot_migrate [OF p, of "''complete-migration''" "[]" no_files "[]" r d] by (auto simp: option_args_def)
qed



end
