(* ===== verification/Daemon.thy ===== *)
theory Daemon
  imports Service ControlTool
begin

text \<open>
  The service daemon (\<^verbatim>\<open>tools/fos_schedd.cpp\<close>): its options, and its start up to the line that
  announces the port.  What follows is the accept loop \<open>service_run\<close>.
\<close>

section \<open>Options\<close>

text \<open>
  \<^verbatim>\<open>std::strtoul\<close> with base ten on a platform with 64-bit longs: no digit gives zero, a magnitude that
  does not fit gives the largest number.
\<close>

definition strtoul :: "string \<Rightarrow> u64" where
  "strtoul t =
     (case scan_number t of (negative, digits, consumed) \<Rightarrow>
        if digits = [] then 0
        else if magnitude digits \<ge> 2 ^ 64 then - 1
        else let v = of_nat (magnitude digits) in if negative then - v else v)"

record daemon_options =
  do_store :: string
  do_bind_address :: string
  do_port :: u16
  do_workers :: u32
  do_persist :: bool

definition daemon_options_default :: daemon_options where
  "daemon_options_default = \<lparr>do_store = [], do_bind_address = ''127.0.0.1'', do_port = 0, do_workers = 2, do_persist = False\<rparr>"

fun daemon_parse :: "string list \<Rightarrow> daemon_options \<Rightarrow> daemon_options option" where
  "daemon_parse [] out = Some out"
| "daemon_parse (token # v # rest) out =
     (if token = ''--store'' then daemon_parse rest (out\<lparr>do_store := v, do_persist := True\<rparr>)
      else if token = ''--bind'' then daemon_parse rest (out\<lparr>do_bind_address := v\<rparr>)
      else if token = ''--port'' then daemon_parse rest (out\<lparr>do_port := ucast (strtoul v)\<rparr>)
      else if token = ''--workers'' then daemon_parse rest (out\<lparr>do_workers := ucast (strtoul v)\<rparr>)
      else if token = ''--no-persist'' then daemon_parse (v # rest) (out\<lparr>do_persist := False\<rparr>)
      else None)"
| "daemon_parse [token] out = (if token = ''--no-persist'' then Some (out\<lparr>do_persist := False\<rparr>) else None)"

section \<open>Start\<close>

definition daemon_engine_config :: "daemon_options \<Rightarrow> engine_config" where
  "daemon_engine_config opts = engine_config_default\<lparr>ec_persistence_enabled := do_persist opts,
     ec_store := (ec_store engine_config_default)\<lparr>sc_directory := do_store opts\<rparr>, ec_workers := 0\<rparr>"

definition daemon_service_config :: "daemon_options \<Rightarrow> service_config" where
  "daemon_service_config opts = service_config_default\<lparr>vc_bind_address := do_bind_address opts, vc_port := do_port opts,
     vc_workers := do_workers opts\<rparr>"

text \<open>
  \<^verbatim>\<open>main\<close> until the service runs: either the process has ended with an exit code, or the service is
  ready with its pool.
\<close>

definition daemon_start :: "string list \<Rightarrow> disk \<Rightarrow> io_outcome list \<Rightarrow> bool \<Rightarrow> reason + u16 \<Rightarrow>
    ctl_result + (string \<times> service \<times> u64 thread_pool \<times> u64 worker list)" where
  "daemon_start argv d io runtime listening =
     (case daemon_parse argv daemon_options_default of
        None \<Rightarrow> Inl (ctl_error 2 (''usage: fos_schedd [--store <dir>] [--bind <address>] [--port <n>] [--workers <n>]'' @ nl))
      | Some opts \<Rightarrow>
          let (opened, e) = engine_open (impl_new (daemon_engine_config opts) d io) in
          if status_failed opened then
            Inl (ctl_error 1 (''fos_schedd: engine could not open: '' @ reason_to_string opened @ nl))
          else
            let (started, v, p, ws) = service_start runtime listening (service_new e (daemon_service_config opts)) thread_pool_new in
            if status_failed started then
              Inl (ctl_error 1 (''fos_schedd: listener could not start: '' @ reason_to_string started @ nl))
            else Inr (''READY '' @ number_text (sv_bound_port v) @ nl, v, p, ws))"

text \<open>
  A daemon that is ready serves an engine that is open, has an empty registry and as many workers as
  it was asked for; with none, the pool runs every job in the thread that submits it.
\<close>

lemma daemon_ready:
  assumes "daemon_start argv d io runtime listening = Inr (out, v, p, ws)"
    and "\<And>failure. listening = Inl failure \<Longrightarrow> status_failed failure"
  shows "sv_listener v \<and> sv_started v \<and> registry_ok v \<and> (\<exists>opts. daemon_parse argv daemon_options_default = Some opts \<and>
    length ws = unat (do_workers opts) \<and> tp_inline_mode p = (do_workers opts = 0))"
proof -
  have "status_failed ProtocolIoError"
    by (simp add: status_failed_def status_ok_def is_acceptance_def reason_value_def)
  then show ?thesis
    using assms
    by (auto simp: daemon_start_def service_start_def service_new_def Let_def pool_start_def registry_ok_def om_wf_def status_refused_def
        daemon_service_config_def service_config_default_def unat_eq_zero split: option.splits prod.splits if_splits sum.splits)
qed

end
