(* ===== verification/Spec2Isabelle.thy ===== *)
theory Spec2Isabelle
  imports DurabilityScenario Eviction AsyncOperations ExportReading ServiceProperties ControlProperties Daemon
begin

text \<open>
  A verification development of the Flow Offload Scheduler.

  \<^bold>\<open>The program.\<close>  A coordinator decides on which execution target (a CPU, a smart NIC, a switch)
  each network flow runs.  Clients register flows, declare targets, report load evidence and set
  a policy; they ask for placements and for rebalancing; and they drive migrations of stateful
  flows through authorizations, intents, acknowledgements, applied effects and observations.
  The coordinator keeps its state in memory behind one mutex (\<open>src/src/engine.cpp\<close>,
  \<open>src/src/placement.cpp\<close>) and after each accepted change writes the whole state, in a canonical
  byte form, to a journal with snapshots (\<open>src/src/store.cpp\<close>, \<open>src/src/serialize.cpp\<close>).  When it
  opens it recovers the newest state it can prove complete, starts a new epoch and fences
  everything that was under way.  Requests can also be submitted to a pool of workers and waited
  for (\<open>src/src/thread_pool.cpp\<close>), or sent in frames over a connection to a service
  (\<open>src/src/protocol.cpp\<close>, \<open>src/src/service.cpp\<close>); the whole state can be exported
  (\<open>src/src/export.cpp\<close>).

  \<^bold>\<open>The theories\<close>, from the bottom.

  \<^item> \<open>Prelude\<close>: ordered maps (\<open>std::map\<close>) as strictly sorted association lists, with the map contract
    as a locale, stable sorting and binary search.
  \<^item> \<open>Reason\<close> (\<open>reason.hpp\<close>, \<open>reason.cpp\<close>): the reason codes as 32-bit words, their names and
    classes.  \<open>Units\<close> (\<open>units.hpp\<close>): checked arithmetic, capacity vectors and utilisation at their
    widths.  \<open>Digest\<close> (\<open>digest.cpp\<close>): SHA-256 with its block buffer.  \<open>Canonical\<close>
    (\<open>canonical.cpp\<close>): the bounded byte writer and reader, with the encoder/decoder law as a locale.
  \<^item> \<open>Enums\<close> and \<open>Model\<close> (\<open>model.hpp\<close>, \<open>model.cpp\<close>): a datatype for each enumeration, a record for
    each struct.  \<open>State\<close> (\<open>state.hpp\<close>): the durable records.  \<open>Serialize\<close> (\<open>serialize.cpp\<close>): the
    codec of each record.
  \<^item> \<open>Store\<close> and \<open>Recovery\<close> (\<open>store.cpp\<close>): the files as byte lists, where each call to the operating
    system takes its outcome from a list that is an input of the model.
  \<^item> \<open>EngineState\<close>, \<open>EngineIngest\<close>, \<open>EngineAuthority\<close>, \<open>EngineLifecycle\<close> (\<open>engine.cpp\<close>) and
    \<open>Placement\<close> (\<open>placement.cpp\<close>): the record \<open>impl\<close> of the engine's state and one function per
    operation, which returns its status and the new state.  Each public operation holds the
    mutex for its whole body, so an operation is one step.
  \<^item> \<open>PlacementFacts\<close>, \<open>EngineFrame\<close>, \<open>EngineEffects\<close>: the specification of the engine as a set of
    guarded effects, and that each operation is a sequence of them.  \<open>EngineInvariants\<close>,
    \<open>MigrationProtocol\<close>, \<open>EngineBounds\<close>, \<open>EngineProgress\<close>, \<open>EngineReferences\<close>, \<open>Eviction\<close>: invariants
    proved once per effect and carried to every run of operations.
  \<^item> \<open>PlacementProperties\<close>: what a placement decides.  \<open>EngineRestart\<close>: what survives a restart and
    what is fenced by it.
  \<^item> \<open>EngineScenario\<close> and \<open>DurabilityScenario\<close>: a concrete engine, driven through a complete migration
    and through a restart, on which the hypotheses of the theorems are met.

  \<^item> \<open>ThreadPool\<close> (\<open>thread_pool.cpp\<close>) and \<open>AsyncOperations\<close> (\<open>Engine::submit\<close>, \<open>wait_for\<close>, \<open>poll\<close>,
    \<open>cancel\<close>): the workers, the callers and the thread that shuts the pool down as a transition
    system, one step per critical section; the jobs a pool can finish are a locale.
  \<^item> \<open>Protocol\<close> (\<open>protocol.cpp\<close>): frames and payloads, with the contract of a payload codec as a
    locale.  \<open>Service\<close> (\<open>service.cpp\<close>, \<open>socket.cpp\<close>): the transfer loops over a script of outcomes of
    the system calls, the dispatch of a request, the loop over the frames of a connection, the
    registry of connections and the client.  \<open>ServiceProperties\<close>: what a remote call does.
  \<^item> \<open>Export\<close> (\<open>export.cpp\<close>): the JSON writer and the JSON, binary and text exports.
    \<open>ExportReading\<close>: a reader of JSON, and what it finds in an export.
  \<^item> \<open>ControlTool\<close> (\<open>tools/fos_ctl.cpp\<close>): a run of the control tool as a function of its arguments, of
    the files and of the outcomes of the system calls.  \<open>ControlProperties\<close>: what such a run can do.
    \<open>Daemon\<close> (\<open>tools/fos_schedd.cpp\<close>): options and start of the daemon.

  \<^bold>\<open>What is shown.\<close>  Codecs read back what they write, and the durable state is restored from an
  acknowledged commit, whatever system calls failed and whatever part of a record or of a
  compaction reached the files.  The engine's maps stay well formed, its collections bounded, its
  references valid and its generations monotone in every reachable state.  A migration follows its
  protocol and completes only on full evidence.  A target is accepted exactly when it is eligible,
  the chosen one is the best, requests are idempotent and insensitive to the order of their items.
  Asynchronous requests are placed at most once, report what happened and all finish.  A frame is
  accepted exactly when it was encoded, a remote call does what a local dispatch does however the
  streams are cut, and an export is read back as the tree of the state.
  The theorems on reopening after a torn append, on the loads after a placement, on the waiter of
  a refused operation and on the control tool show where the code departs from its intention.

  \<^bold>\<open>Loops and bounds.\<close>  Loops over collections are recursion on lists, the loops of the journal
  scan, of the eviction, of the transfers and of a connection have a measure; the accept loop of the
  service, which may run forever, is a partial function into options.  Only the JSON reader, which is
  part of a specification, has fuel: the length of its text, which the theorem shows to be enough.
  Sizes that the source keeps in \<open>std::size_t\<close> are natural numbers where a bound of the code keeps
  them small; counters and identities are 64-bit words that saturate or wrap as the source does.

  \<^bold>\<open>Not modelled.\<close>  Exhaustion of memory (the \<open>catch\<close> clauses around allocations), the test hooks of
  the store and the creation of its directory, the system calls that bind, listen and connect,
  connections served at the same time (each is served alone, frame by frame), waiting with a timeout
  and spurious wake-ups, the runs of the control tool that its crash option kills, the end of the
  daemon after its accept loop, and the benchmark, which measures time.
\<close>

end
